(* ===== verification/Prelude.thy ===== *)
theory Prelude
  imports Complex_Main "HOL-Library.Multiset"
begin

text \<open>
  Shared ground of the development: identifiers and instants, the HTTP exceptions the services
  throw, the sequencing of asynchronous service code as state-passing actions, the collection
  queries the services issue, and JavaScript's number helpers.

  \<^item> A service method becomes an action: a function of the stored state that gives an exception
    (\<open>Inl\<close>) or a value (\<open>Inr\<close>) together with the state it leaves. An exception does not undo
    the writes made before it, as in the code.
  \<^item> A collection is the list of its documents in insertion order. The queries used by the code
    are written out below as recursive functions over that list.
  \<^item> A JavaScript number that carries money or a measure is an exact rational; rounding is
    written out where the code rounds. Floating-point error, \<open>NaN\<close> and infinities are not
    modelled.
\<close>

named_theorems preserve_intros "rules for the states an action keeps"
named_theorems effect_simps "unfolding of the action combinators"
named_theorems query_simps "rules for the collection queries"
named_theorems js_simps "unfolding of the JavaScript helpers"

type_synonym oid = nat
type_synonym instant = int
type_synonym num_js = rat

section \<open>Exceptions and actions\<close>

datatype error =
    BadRequestException string
  | NotFoundException string
  | ForbiddenException string
  | UnauthorizedException string
  | ConflictException string
  | InternalServerErrorException string
  | ExternalError string

type_synonym ('s, 'a) action = "'s \<Rightarrow> (error + 'a) \<times> 's"

definition ret :: "'a \<Rightarrow> ('s, 'a) action" where
  "ret x = (\<lambda>s. (Inr x, s))"

definition throw :: "error \<Rightarrow> ('s, 'a) action" where
  "throw e = (\<lambda>s. (Inl e, s))"

definition andThen :: "('s, 'a) action \<Rightarrow> ('a \<Rightarrow> ('s, 'b) action) \<Rightarrow> ('s, 'b) action" where
  "andThen m f = (\<lambda>s. case m s of (Inl e, s') \<Rightarrow> (Inl e, s') | (Inr x, s') \<Rightarrow> f x s')"

text \<open>\<open>attempt m h\<close> is \<open>try { m } catch (e) { h e }\<close>; the writes of \<open>m\<close> stay.\<close>

definition attempt :: "('s, 'a) action \<Rightarrow> (error \<Rightarrow> ('s, 'a) action) \<Rightarrow> ('s, 'a) action" where
  "attempt m h = (\<lambda>s. case m s of (Inl e, s') \<Rightarrow> h e s' | (Inr x, s') \<Rightarrow> (Inr x, s'))"

definition gets :: "('s \<Rightarrow> 'a) \<Rightarrow> ('s, 'a) action" where
  "gets f = (\<lambda>s. (Inr (f s), s))"

definition modify :: "('s \<Rightarrow> 's) \<Rightarrow> ('s, unit) action" where
  "modify f = (\<lambda>s. (Inr (), f s))"

text \<open>\<open>session.withTransaction\<close>: an exception rolls every write of the body back.\<close>

definition with_transaction :: "('s, 'a) action \<Rightarrow> ('s, 'a) action" where
  "with_transaction m = (\<lambda>s. case m s of (Inl e, _) \<Rightarrow> (Inl e, s) | (Inr x, s') \<Rightarrow> (Inr x, s'))"

fun for_each :: "'x list \<Rightarrow> ('x \<Rightarrow> ('s, unit) action) \<Rightarrow> ('s, unit) action" where
  "for_each [] f = ret ()"
| "for_each (x # xs) f = andThen (f x) (\<lambda>_. for_each xs f)"

lemma ret_app [simp, effect_simps]: "ret x s = (Inr x, s)"
  by (simp add: ret_def)

lemma throw_app [simp, effect_simps]: "throw e s = (Inl e, s)"
  by (simp add: throw_def)

lemma gets_app [simp, effect_simps]: "gets f s = (Inr (f s), s)"
  by (simp add: gets_def)

lemma modify_app [simp, effect_simps]: "modify f s = (Inr (), f s)"
  by (simp add: modify_def)

lemma andThen_app [effect_simps]:
  "andThen m f s = (case m s of (Inl e, s') \<Rightarrow> (Inl e, s') | (Inr x, s') \<Rightarrow> f x s')"
  by (simp add: andThen_def)

lemma andThen_ok [simp]: "m s = (Inr x, s') \<Longrightarrow> andThen m f s = f x s'"
  by (simp add: andThen_def)

lemma andThen_err [simp]: "m s = (Inl e, s') \<Longrightarrow> andThen m f s = (Inl e, s')"
  by (simp add: andThen_def)

lemma attempt_app [effect_simps]:
  "attempt m h s = (case m s of (Inl e, s') \<Rightarrow> h e s' | (Inr x, s') \<Rightarrow> (Inr x, s'))"
  by (simp add: attempt_def)

lemma attempt_ok [simp]: "m s = (Inr x, s') \<Longrightarrow> attempt m h s = (Inr x, s')"
  by (simp add: attempt_def)

lemma attempt_err [simp]: "m s = (Inl e, s') \<Longrightarrow> attempt m h s = h e s'"
  by (simp add: attempt_def)

lemma andThen_ret [simp]: "andThen (ret x) f = f x"
  by (rule ext) (simp add: andThen_app)

lemma andThen_throw [simp]: "andThen (throw e) f = throw e"
  by (rule ext) (simp add: andThen_app)

lemma andThen_assoc: "andThen (andThen m f) g = andThen m (\<lambda>x. andThen (f x) g)"
  by (rule ext) (auto simp: andThen_app split: prod.splits sum.splits)

lemma andThen_cases:
  assumes "andThen m f s = r"
  obtains (err) e s' where "m s = (Inl e, s')" "r = (Inl e, s')"
    | (ok) x s' where "m s = (Inr x, s')" "r = f x s'"
  using assms by (auto simp: andThen_app split: prod.splits sum.splits)

lemma with_transaction_err: "with_transaction m s = (Inl e, s') \<Longrightarrow> s' = s"
  by (auto simp: with_transaction_def split: prod.splits sum.splits)

lemma with_transaction_ok: "with_transaction m s = (Inr x, s') \<longleftrightarrow> m s = (Inr x, s')"
  by (auto simp: with_transaction_def split: prod.splits sum.splits)

text \<open>An invariant that every iteration keeps is kept by the loop, whether it throws or not.\<close>

lemma for_each_invariant:
  assumes "\<And>x s. x \<in> set xs \<Longrightarrow> P s \<Longrightarrow> P (snd (f x s))" and "P s"
  shows "P (snd (for_each xs f s))"
  using assms
proof (induction xs arbitrary: s)
  case Nil
  then show ?case by simp
next
  case (Cons x xs)
  have step: "P (snd (f x s))" using Cons.prems by simp
  show ?case
  proof (cases "f x s")
    case (Pair r s')
    with step Cons show ?thesis by (cases r) (auto simp: andThen_app)
  qed
qed

text \<open>A loop whose invariant speaks of the elements still to come.\<close>

lemma for_each_rest:
  assumes step: "\<And>x xs s. P (x # xs) s \<Longrightarrow> P xs (snd (f x s))"
    and weaken: "\<And>xs s. P xs s \<Longrightarrow> Q s" and "P xs s"
  shows "Q (snd (for_each xs f s))"
  using assms(3)
proof (induction xs arbitrary: s)
  case Nil
  then show ?case using weaken by simp
next
  case (Cons x xs)
  have "P xs (snd (f x s))" using step Cons.prems .
  with Cons.IH weaken show ?case
    by (cases "f x s") (auto simp: andThen_app split: sum.splits)
qed

text \<open>A loop whose body never throws ends normally.\<close>

lemma for_each_ok:
  assumes "\<And>x s. x \<in> set xs \<Longrightarrow> \<not> isl (fst (f x s))"
  shows "\<not> isl (fst (for_each xs f s))"
  using assms
proof (induction xs arbitrary: s)
  case (Cons x xs)
  from Cons.prems [of x s] obtain s' where "f x s = (Inr (), s')" by (cases "f x s"; cases "fst (f x s)") auto
  with Cons show ?case by (simp add: andThen_app)
qed simp

lemma for_each_append:
  "for_each (xs @ ys) f = andThen (for_each xs f) (\<lambda>_. for_each ys f)"
  by (induction xs) (simp_all add: andThen_assoc)

text \<open>An action that keeps a property of the state, whether it ends normally or throws.\<close>

definition preserves :: "('s \<Rightarrow> bool) \<Rightarrow> ('s, 'a) action \<Rightarrow> bool" where
  "preserves P m \<longleftrightarrow> (\<forall>s. P s \<longrightarrow> P (snd (m s)))"

lemma preservesD: "preserves P m \<Longrightarrow> P s \<Longrightarrow> P (snd (m s))"
  by (simp add: preserves_def)

lemma preserves_basic [preserve_intros]:
  "preserves P (ret x)" "preserves P (throw e)" "preserves P (gets f)"
  by (simp_all add: preserves_def)

lemma preserves_modify [preserve_intros]: "(\<And>s. P s \<Longrightarrow> P (f s)) \<Longrightarrow> preserves P (modify f)"
  by (simp add: preserves_def)

lemma preserves_andThen [preserve_intros]:
  "\<lbrakk>preserves P m; \<And>x. preserves P (f x)\<rbrakk> \<Longrightarrow> preserves P (andThen m f)"
  by (force simp: preserves_def andThen_app split: prod.splits sum.splits)

lemma preserves_attempt [preserve_intros]:
  "\<lbrakk>preserves P m; \<And>e. preserves P (h e)\<rbrakk> \<Longrightarrow> preserves P (attempt m h)"
  by (force simp: preserves_def attempt_app split: prod.splits sum.splits)

lemma preserves_transaction [preserve_intros]: "preserves P m \<Longrightarrow> preserves P (with_transaction m)"
  by (force simp: preserves_def with_transaction_def split: prod.splits sum.splits)

lemma preserves_if [preserve_intros]:
  "\<lbrakk>b \<Longrightarrow> preserves P m; \<not> b \<Longrightarrow> preserves P n\<rbrakk> \<Longrightarrow> preserves P (if b then m else n)"
  by simp

lemma preserves_let [preserve_intros]: "preserves P (f x) \<Longrightarrow> preserves P (let y = x in f y)"
  by simp

lemma preserves_option [preserve_intros]:
  "\<lbrakk>preserves P m; \<And>x. r = Some x \<Longrightarrow> preserves P (f x)\<rbrakk> \<Longrightarrow> preserves P (case r of None \<Rightarrow> m | Some x \<Rightarrow> f x)"
  by (cases r) simp_all

lemma preserves_sum [preserve_intros]:
  "\<lbrakk>\<And>e. preserves P (g e); \<And>x. preserves P (f x)\<rbrakk> \<Longrightarrow> preserves P (case r of Inl e \<Rightarrow> g e | Inr x \<Rightarrow> f x)"
  by (cases r) simp_all

lemma preserves_prod [preserve_intros]:
  "(\<And>x y. preserves P (f x y)) \<Longrightarrow> preserves P (case r of (x, y) \<Rightarrow> f x y)"
  by (cases r) simp

lemma preserves_for_each [preserve_intros]:
  assumes "\<And>x. x \<in> set xs \<Longrightarrow> preserves P (f x)"
  shows "preserves P (for_each xs f)"
  unfolding preserves_def
proof (intro allI impI)
  fix s assume "P s"
  with assms show "P (snd (for_each xs f s))"
    by (intro for_each_invariant [of xs P]) (auto dest: preservesD)
qed

section \<open>JavaScript operators on optional numbers\<close>

definition nullish :: "'a option \<Rightarrow> 'a \<Rightarrow> 'a" where
  "nullish x d = (case x of None \<Rightarrow> d | Some v \<Rightarrow> v)"

text \<open>\<open>x || d\<close> on numbers: \<open>0\<close> is falsy as well.\<close>

definition or_num :: "rat option \<Rightarrow> rat \<Rightarrow> rat" where
  "or_num x d = (case x of None \<Rightarrow> d | Some v \<Rightarrow> if v = 0 then d else v)"

definition truthy_num :: "rat option \<Rightarrow> bool" where
  "truthy_num x = (case x of None \<Rightarrow> False | Some v \<Rightarrow> v \<noteq> 0)"

lemma nullish_simps [simp, js_simps]: "nullish None d = d" "nullish (Some v) d = v"
  by (simp_all add: nullish_def)

lemma or_num_simps [simp, js_simps]:
  "or_num None d = d" "or_num (Some v) d = (if v = 0 then d else v)"
  by (simp_all add: or_num_def)

lemma or_num_zero [simp]: "or_num x 0 = nullish x 0"
  by (cases x) simp_all

lemma truthy_num_simps [simp, js_simps]: "truthy_num None = False" "truthy_num (Some v) = (v \<noteq> 0)"
  by (simp_all add: truthy_num_def)

text \<open>Strings: an empty one is falsy; \<open>toLowerCase\<close> and \<open>toUpperCase\<close> on ASCII letters; \<open>trim\<close>.\<close>

definition truthy_string :: "string option \<Rightarrow> bool" where
  "truthy_string x = (case x of None \<Rightarrow> False | Some s \<Rightarrow> s \<noteq> [])"

definition lower_char :: "char \<Rightarrow> char" where
  "lower_char c = (let n = of_char c :: nat in if 65 \<le> n \<and> n \<le> 90 then char_of (n + 32) else c)"

definition js_space :: "char \<Rightarrow> bool" where
  "js_space c \<longleftrightarrow> (of_char c :: nat) \<in> {9, 10, 11, 12, 13, 32, 160}"

definition js_trim :: "string \<Rightarrow> string" where
  "js_trim x = rev (dropWhile js_space (rev (dropWhile js_space x)))"

definition upper_char :: "char \<Rightarrow> char" where
  "upper_char c = (let n = of_char c :: nat in if 97 \<le> n \<and> n \<le> 122 then char_of (n - 32) else c)"

text \<open>\<open>Math.round\<close> rounds halves up; \<open>round2\<close> is the services' \<open>Math.round(n * 100) / 100\<close>.\<close>

definition js_round :: "rat \<Rightarrow> rat" where
  "js_round x = of_int \<lfloor>x + 1/2\<rfloor>"

definition js_ceil :: "rat \<Rightarrow> rat" where
  "js_ceil x = of_int \<lceil>x\<rceil>"

definition round2 :: "rat \<Rightarrow> rat" where
  "round2 n = js_round (n * 100) / 100"

text \<open>Rounding of rational literals, so that closed amounts evaluate by \<open>simp\<close>.\<close>

lemma floor_rat_numerals [simp]:
  "\<lfloor>numeral a / numeral b :: rat\<rfloor> = numeral a div numeral b"
  "\<lfloor>1 / numeral b :: rat\<rfloor> = 1 div numeral b"
  "\<lfloor>- (numeral a / numeral b) :: rat\<rfloor> = - numeral a div numeral b"
  "\<lfloor>- (1 / numeral b) :: rat\<rfloor> = - 1 div numeral b"
  using floor_divide_of_int_eq [of "numeral a" "numeral b", where ?'a = rat]
    floor_divide_of_int_eq [of 1 "numeral b", where ?'a = rat]
    floor_divide_of_int_eq [of "- numeral a" "numeral b", where ?'a = rat]
    floor_divide_of_int_eq [of "- 1" "numeral b", where ?'a = rat]
  by simp_all

lemma js_round_of_int [simp]: "js_round (of_int k) = of_int k"
  by (simp add: js_round_def)

lemma js_round_zero [simp]: "js_round 0 = 0"
  using js_round_of_int [of 0] by simp

lemma js_round_mono: "x \<le> y \<Longrightarrow> js_round x \<le> js_round y"
  by (simp add: js_round_def floor_mono)

lemma js_round_nonneg: "0 \<le> x \<Longrightarrow> 0 \<le> js_round x"
  using js_round_mono [of 0 x] by simp

lemma js_round_close: "\<bar>js_round x - x\<bar> \<le> 1/2"
  unfolding js_round_def by linarith

lemma round2_zero [simp]: "round2 0 = 0"
  by (simp add: round2_def)

lemma round2_mono: "x \<le> y \<Longrightarrow> round2 x \<le> round2 y"
  by (simp add: round2_def js_round_mono divide_right_mono)

lemma round2_nonneg: "0 \<le> x \<Longrightarrow> 0 \<le> round2 x"
  using round2_mono [of 0 x] by simp

lemma round2_idem [simp]: "round2 (round2 x) = round2 x"
  by (simp add: round2_def js_round_def)

lemma round2_close: "\<bar>round2 x - x\<bar> \<le> 1/200"
  using js_round_close [of "x * 100"] by (simp add: round2_def abs_if field_simps split: if_splits)

section \<open>Queries on a collection\<close>

text \<open>\<open>findOne(filter)\<close> is \<open>List.find\<close>; \<open>find(filter)\<close> is \<open>filter\<close>.\<close>

fun find_one :: "('d \<Rightarrow> bool) \<Rightarrow> 'd list \<Rightarrow> 'd option" where
  "find_one P [] = None"
| "find_one P (d # ds) = (if P d then Some d else find_one P ds)"

text \<open>\<open>updateOne\<close> and \<open>findOneAndUpdate\<close> act on the first document that matches.\<close>

fun update_one :: "('d \<Rightarrow> bool) \<Rightarrow> ('d \<Rightarrow> 'd) \<Rightarrow> 'd list \<Rightarrow> 'd list" where
  "update_one P f [] = []"
| "update_one P f (d # ds) = (if P d then f d # ds else d # update_one P f ds)"

definition update_many :: "('d \<Rightarrow> bool) \<Rightarrow> ('d \<Rightarrow> 'd) \<Rightarrow> 'd list \<Rightarrow> 'd list" where
  "update_many P f ds = map (\<lambda>d. if P d then f d else d) ds"

fun delete_one :: "('d \<Rightarrow> bool) \<Rightarrow> 'd list \<Rightarrow> 'd list" where
  "delete_one P [] = []"
| "delete_one P (d # ds) = (if P d then ds else d # delete_one P ds)"

definition delete_many :: "('d \<Rightarrow> bool) \<Rightarrow> 'd list \<Rightarrow> 'd list" where
  "delete_many P ds = filter (\<lambda>d. \<not> P d) ds"

definition exists_doc :: "('d \<Rightarrow> bool) \<Rightarrow> 'd list \<Rightarrow> bool" where
  "exists_doc P ds \<longleftrightarrow> find_one P ds \<noteq> None"

lemma find_one_SomeD: "find_one P ds = Some d \<Longrightarrow> P d \<and> d \<in> set ds"
  by (induction ds) (auto split: if_splits)

lemma find_one_None_iff [query_simps]: "find_one P ds = None \<longleftrightarrow> (\<forall>d\<in>set ds. \<not> P d)"
  by (induction ds) auto

lemma exists_doc_iff [query_simps]: "exists_doc P ds \<longleftrightarrow> (\<exists>d\<in>set ds. P d)"
  by (simp add: exists_doc_def find_one_None_iff)

lemma update_one_id [query_simps]: "(\<forall>d\<in>set ds. \<not> P d) \<Longrightarrow> update_one P f ds = ds"
  by (induction ds) auto

lemma update_one_None [query_simps]: "find_one P ds = None \<Longrightarrow> update_one P f ds = ds"
  by (simp add: find_one_None_iff update_one_id)

lemma length_update_one [simp]: "length (update_one P f ds) = length ds"
  by (induction ds) auto

lemma map_update_one:
  "(\<And>d. P d \<Longrightarrow> g (f d) = g d) \<Longrightarrow> map g (update_one P f ds) = map g ds"
  by (induction ds) auto

lemma map_update_many:
  "(\<And>d. P d \<Longrightarrow> g (f d) = g d) \<Longrightarrow> map g (update_many P f ds) = map g ds"
  by (simp add: update_many_def)

lemma set_update_one: "set (update_one P f ds) \<subseteq> set ds \<union> f ` {d \<in> set ds. P d}"
  by (induction ds) auto

lemma update_one_all:
  "\<lbrakk>\<forall>d\<in>set ds. Q d; \<And>d. P d \<Longrightarrow> Q d \<Longrightarrow> Q (f d)\<rbrakk> \<Longrightarrow> \<forall>d\<in>set (update_one P f ds). Q d"
  by (induction ds) auto

lemma update_many_all:
  "\<lbrakk>\<forall>d\<in>set ds. Q d; \<And>d. P d \<Longrightarrow> Q d \<Longrightarrow> Q (f d)\<rbrakk> \<Longrightarrow> \<forall>d\<in>set (update_many P f ds). Q d"
  by (auto simp: update_many_def)

lemma find_one_update_one_same:
  "\<lbrakk>find_one P ds = Some d; P (f d)\<rbrakk> \<Longrightarrow> find_one P (update_one P f ds) = Some (f d)"
  by (induction ds) (auto split: if_splits)

lemma find_one_update_one_other:
  "\<lbrakk>\<And>d. P d \<Longrightarrow> \<not> Q d \<and> \<not> Q (f d)\<rbrakk> \<Longrightarrow> find_one Q (update_one P f ds) = find_one Q ds"
  by (induction ds) auto

lemma exists_doc_update_same:
  "(\<And>d. Q (f d) = Q d) \<Longrightarrow> exists_doc Q (update_one P f ds) = exists_doc Q ds"
  by (induction ds) (auto simp: exists_doc_def)

lemma find_one_append:
  "find_one P (xs @ ys) = (case find_one P xs of Some d \<Rightarrow> Some d | None \<Rightarrow> find_one P ys)"
  by (induction xs) auto

lemma update_one_append:
  "update_one P f (xs @ ys) =
     (if find_one P xs = None then xs @ update_one P f ys else update_one P f xs @ ys)"
  by (induction xs) auto

text \<open>With distinct keys, updating by key changes one document and \<open>update_many\<close> agrees.\<close>

lemma update_one_key_map:
  assumes "distinct (map key ds)"
  shows "update_one (\<lambda>d. key d = k) f ds = map (\<lambda>d. if key d = k then f d else d) ds"
  using assms
proof (induction ds)
  case Nil
  then show ?case by simp
next
  case (Cons d ds)
  show ?case
  proof (cases "key d = k")
    case True
    with Cons.prems have "\<forall>x\<in>set ds. key x \<noteq> k" by (auto simp: image_iff)
    then have "map (\<lambda>d. if key d = k then f d else d) ds = ds"
      by (intro map_idI) auto
    with True show ?thesis by simp
  next
    case False
    with Cons show ?thesis by simp
  qed
qed

lemma update_one_key_at:
  assumes "distinct (map key ds)" "x \<in> set (update_one (\<lambda>d. key d = k) f ds)" "key x = k"
  shows "\<exists>d\<in>set ds. x = f d"
  using assms(2,3) unfolding update_one_key_map [OF assms(1)] by (auto split: if_splits)

lemma find_one_key_eq:
  assumes "distinct (map key ds)" and "d \<in> set ds"
  shows "find_one (\<lambda>x. key x = key d) ds = Some d"
  using assms by (induction ds) (auto simp: image_iff dest: sym)

lemma find_one_keyD: "find_one (\<lambda>x. key x = k) ds = Some d \<Longrightarrow> key d = k"
  by (auto dest: find_one_SomeD)

text \<open>A conditional update of a document: where at most one document matches the first part of the
  filter, the condition is tested on that document.\<close>

lemma one_match_tail:
  assumes "length (filter P (d # ds)) \<le> 1" and "P d"
  shows "\<forall>x\<in>set ds. \<not> P x"
  using assms by (auto simp: filter_empty_conv)

lemma find_one_guarded:
  assumes "length (filter P ds) \<le> 1"
  shows "find_one (\<lambda>d. P d \<and> G d) ds =
           (case find_one P ds of None \<Rightarrow> None | Some d \<Rightarrow> if G d then Some d else None)"
  using assms
proof (induction ds)
  case (Cons d ds)
  have "find_one (\<lambda>x. P x \<and> G x) ds = None" if "P d"
    using one_match_tail [OF Cons.prems that] by (auto simp: find_one_None_iff)
  with Cons show ?case by (auto split: if_splits)
qed simp

lemma update_one_guarded:
  assumes "length (filter P ds) \<le> 1"
  shows "update_one (\<lambda>d. P d \<and> G d) f ds =
           (case find_one P ds of None \<Rightarrow> ds | Some d \<Rightarrow> if G d then update_one P f ds else ds)"
  using assms
proof (induction ds)
  case (Cons d ds)
  have "update_one (\<lambda>x. P x \<and> G x) f ds = ds" if "P d"
    using one_match_tail [OF Cons.prems that] by (intro update_one_id) auto
  with Cons show ?case by (auto split: if_splits option.splits)
qed simp

lemma one_match_key:
  assumes "distinct (map key ds)"
  shows "length (filter (\<lambda>d. key d = k) ds) \<le> 1"
  using assms
proof (induction ds)
  case (Cons d ds)
  then show ?case by (auto simp: image_iff filter_empty_conv)
qed simp

lemma one_match_update:
  assumes "\<And>d. P d \<Longrightarrow> Q (f d) = Q d"
  shows "length (filter Q (update_one P f ds)) = length (filter Q ds)"
  using assms by (induction ds) auto

lemma sum_list_update_one:
  fixes v :: "'d \<Rightarrow> 'n::ab_group_add"
  assumes "find_one P ds = Some d"
  shows "sum_list (map v (update_one P f ds)) = sum_list (map v ds) + (v (f d) - v d)"
  using assms by (induction ds) (auto split: if_splits simp: algebra_simps)

lemma sum_list_delete_one:
  fixes v :: "'d \<Rightarrow> 'n::ab_group_add"
  assumes "find_one P ds = Some d"
  shows "sum_list (map v (delete_one P ds)) = sum_list (map v ds) - v d"
  using assms by (induction ds) (auto split: if_splits)

lemma set_delete_one: "set (delete_one P ds) \<subseteq> set ds"
  by (induction ds) auto

lemma delete_one_other: "d \<in> set ds \<Longrightarrow> \<not> P d \<Longrightarrow> d \<in> set (delete_one P ds)"
  by (induction ds) auto

lemma delete_one_key: "distinct (map key ds) \<Longrightarrow> set (delete_one (\<lambda>x. key x = k) ds) = {x \<in> set ds. key x \<noteq> k}"
  by (induction ds) (auto simp: image_iff)

lemma distinct_delete_one: "distinct (map key ds) \<Longrightarrow> distinct (map key (delete_one P ds))"
  by (induction ds) (auto dest!: subsetD [OF set_delete_one])

lemma sum_list_nonneg_rat: "(\<And>x. x \<in> set xs \<Longrightarrow> 0 \<le> f x) \<Longrightarrow> 0 \<le> (\<Sum>x\<leftarrow>xs. f x :: rat)"
  by (induction xs) auto

end
