(* ===== verification/Documents.thy ===== *)
theory Documents
  imports Prelude
begin

text \<open>
  The stored documents: one record per Mongoose schema, one datatype per enumeration, and the
  database as the record of its collections. A record has the fields of its schema, under a
  prefix that names the document; an optional or nullable field is an \<open>option\<close>. Images,
  taxonomies, search and rating fields carry no behaviour modelled here and are left out.
  An \<open>ObjectId\<close> is an opaque number, and so is a generated reference (\<open>QLOZ-TRX-...\<close>): the
  generator's loop makes it new in its collection, which \<open>db_next\<close> reproduces.
\<close>

section \<open>Wallets and tokens\<close>

datatype wallet_status = Wallet_active | Wallet_suspended | Wallet_closed

record wallet =
  w_id :: oid
  w_business :: "oid option"
  w_customer :: "oid option"
  w_balance :: rat
  w_pending_balance :: rat
  w_currency :: string
  w_last_transaction_at :: "instant option"
  w_status :: wallet_status
  w_account_number :: "string option"
  w_account_name :: "string option"
  w_bank_name :: "string option"

datatype token_transaction_type = Tok_spend | Tok_earn | Tok_purchase | Tok_expire

record token_transaction =
  tt_id :: oid
  tt_token :: oid
  tt_type :: token_transaction_type
  tt_amount :: rat
  tt_feature :: "string option"
  tt_description :: "string option"

record token =
  k_id :: oid
  k_customer :: "oid option"
  k_business :: "oid option"
  k_tokens :: rat
  k_lifetimeEarned :: rat
  k_lifetimeSpent :: rat
  k_expiresAt :: "instant option"

section \<open>Transactions\<close>

datatype transaction_type = FUND | CREDIT | DEBIT | REFUND

datatype transaction_status = T_PENDING | T_SUCCESS | T_FAILED | T_REVERSED

datatype channel =
    Checkout | Wallet_topup | Wallet_checkout | Refund_channel | Payout | Earning_channel
  | Reservation_channel

text \<open>The keys of the free-form \<open>metadata\<close> object that the services read back.\<close>

record txn_metadata =
  m_order_reference :: "oid option"
  m_earning_id :: "oid option"
  m_refund_status :: "string option"
  m_refunded_amount :: "rat option"
  m_partial_refunds :: "rat list"
  m_total_refunded :: "rat option"
  m_funding_credited :: bool
  m_payout_reversed :: bool
  m_business_id :: "oid option"

record transaction =
  t_id :: oid
  t_wallet :: "oid option"
  t_order :: "oid option"
  t_initiator :: "oid option"
  t_type :: transaction_type
  t_amount :: rat
  t_status :: transaction_status
  t_reference :: oid
  t_description :: string
  t_currency :: string
  t_payment_method :: string
  t_channel :: channel
  t_metadata :: txn_metadata

definition empty_metadata :: txn_metadata where
  "empty_metadata = \<lparr>m_order_reference = None, m_earning_id = None, m_refund_status = None,
     m_refunded_amount = None, m_partial_refunds = [], m_total_refunded = None,
     m_funding_credited = False, m_payout_reversed = False, m_business_id = None\<rparr>"

section \<open>Vendor earnings and businesses\<close>

datatype milestone = Upfront | Completion

record business_earning =
  e_id :: oid
  e_business :: "oid option"
  e_order :: oid
  e_item :: "oid option"
  e_amount :: rat
  e_commission :: rat
  e_net_amount :: rat
  e_released :: bool
  e_release_date :: "instant option"
  e_released_at :: "instant option"
  e_milestone :: milestone

record business =
  b_id :: oid
  b_business_name :: string
  b_created_by :: "oid option"
  b_transfer_recipient_code :: "string option"
  b_accepts_external_fabric :: "bool option"
  b_lifetime_paid_out :: "rat option"
  b_last_payout_date :: "instant option"
  b_payout_history :: "oid list"

section \<open>Products\<close>

datatype product_kind = CLOTHING | FABRIC | ACCESSORY

datatype clothing_type = CUSTOMIZE | NON_CUSTOMIZE

datatype product_status = P_draft | P_active | P_archived | P_scheduled

record variant =
  v_id :: oid
  v_size :: "string option"
  v_stock :: "rat option"
  v_price :: "rat option"
  v_yard_per_order :: "rat option"
  v_sku :: "string option"

record color_variant =
  cv_id :: oid
  cv_name :: string
  cv_hex :: string
  cv_variants :: "variant list"

record fabric =
  f_id :: oid
  f_name :: string
  f_description :: "string option"
  f_product_type :: string
  f_material :: "string option"
  f_pattern :: "string option"
  f_yard_length :: rat
  f_width :: rat
  f_min_cut :: rat
  f_price_per_yard :: rat
  f_variants :: "variant list"

record accessory_variant =
  av_id :: oid
  av_color :: "string \<times> string"
  av_size :: "string list"
  av_stock :: "rat option"

record accessory =
  a_id :: oid
  a_name :: string
  a_description :: "string option"
  a_price :: "rat option"
  a_variants :: "accessory_variant list"
  a_in_stock :: "bool option"

record style =
  s_id :: oid
  s_name :: string
  s_style_code :: string
  s_categories :: "string list"
  s_attributes :: "string list"
  s_price :: rat
  s_description :: "string option"

record addon_variant =
  adv_id :: oid
  adv_name :: string
  adv_price :: "rat option"
  adv_color_hex :: "string option"
  adv_image_url :: "string option"

record addon =
  ad_id :: oid
  ad_name :: string
  ad_variants :: "addon_variant list"

record yardage_entry =
  y_size :: "string option"
  y_yards :: "rat option"

record clothing =
  c_type :: clothing_type
  c_name :: string
  c_description :: "string option"
  c_turnaround_days :: "rat option"
  c_styles :: "style list"
  c_accessories :: "accessory list"
  c_color_variants :: "color_variant list"
  c_fabrics :: "fabric list"
  c_yardage_per_size :: "yardage_entry list"
  c_accepts_external_fabric :: "bool option"
  c_addons :: "addon list"

record product =
  p_id :: oid
  p_kind :: product_kind
  p_base_price :: rat
  p_status :: product_status
  p_fabric :: "fabric option"
  p_accessory :: "accessory option"
  p_clothing :: "clothing option"
  p_business :: "oid option"
  p_scheduled_activation_date :: "instant option"
  p_applied_discount :: "oid option"
  p_discounted_price :: "rat option"
  p_discount_percentage :: "rat option"
  p_collections :: "oid list"

datatype discount_type =
  D_fixed | D_percentage | D_store_wide | D_flash_fixed | D_flash_percentage | D_category_specific

datatype value_type = VT_fixed | VT_percentage

record discount =
  d_id :: oid
  d_title :: string
  d_type :: discount_type
  d_value :: rat
  d_value_type :: "value_type option"
  d_start_date :: "instant option"
  d_end_date :: "instant option"
  d_is_active :: bool
  d_business :: oid
  d_manual_includes :: "oid list"
  d_manual_excludes :: "oid list"

section \<open>Orders\<close>

datatype order_status =
  O_PENDING | O_IN_REVIEW | O_PROCESSING | O_IN_TRANSIT | O_COMPLETED | O_CANCELLED | O_RETURNED

datatype shipment_status =
  S_PENDING | S_READY_TO_SHIP | S_SHIPPED | S_IN_TRANSIT | S_DELIVERED | S_FAILED

datatype shipment_type = VENDOR_TO_CUSTOMER | FABRIC_TRANSFER

datatype order_type = Standard | Bespoke | Order_reservation | Order_reservation_claim

datatype payout_status = Payout_pending | Payout_eligible | Payout_paid

datatype payment_status = Unpaid | Paid

datatype refund_status = Refund_none | Refund_partial | Refund_refunded

record variant_selection =
  vs_variant_id :: oid
  vs_size :: "string option"
  vs_color :: "string option"
  vs_hex :: "string option"
  vs_price :: "rat option"
  vs_quantity :: "rat option"
  vs_total_amount :: "rat option"

record fabric_selection =
  fs_fabric_id :: oid
  fs_yardage :: "rat option"
  fs_price :: "rat option"
  fs_quantity :: "rat option"
  fs_total_amount :: "rat option"

record style_selection =
  ss_style_id :: oid
  ss_price :: "rat option"
  ss_quantity :: "rat option"
  ss_total_amount :: "rat option"

record accessory_selection =
  as_accessory_id :: oid
  as_variant_id :: "oid option"
  as_name :: "string option"
  as_color :: "string option"
  as_hex :: "string option"
  as_price :: "rat option"
  as_quantity :: "rat option"
  as_total_amount :: "rat option"

record addon_selection =
  ads_addon_id :: oid
  ads_variant_id :: oid
  ads_quantity :: "rat option"
  ads_price :: "rat option"
  ads_total_amount :: "rat option"

record item_pricing =
  pr_base :: rat
  pr_styles_total :: rat
  pr_fabric_total :: rat
  pr_variant_total :: rat
  pr_accessories_total :: rat
  pr_addons_total :: rat
  pr_external_fabric :: "rat option"
  pr_before_discount :: rat
  pr_discount :: rat
  pr_final :: rat

record order_item =
  i_id :: oid
  i_product :: "oid option"
  i_business :: "oid option"
  i_color_variant_selections :: "variant_selection list"
  i_fabric_selections :: "fabric_selection list"
  i_style_selections :: "style_selection list"
  i_accessory_selections :: "accessory_selection list"
  i_addon_selections :: "addon_selection list"
  i_applied_fabric :: "oid option"
  i_applied_fabric_yards :: "rat option"
  i_note :: "string option"
  i_total_price :: "rat option"
  i_pricing :: "item_pricing option"
  i_rejected :: bool
  i_rejected_at :: "instant option"
  i_rejection_reason :: "string option"

record production_step =
  ps_key :: string
  ps_completed :: bool
  ps_completed_at :: "instant option"

record vendor_shipment =
  sh_id :: oid
  sh_business :: oid
  sh_request_token :: "string option"
  sh_service_code :: "string option"
  sh_courier_id :: "string option"
  sh_courier_name :: "string option"
  sh_shipping_fee :: "rat option"
  sh_shipment_id :: "string option"
  sh_tracking_number :: "string option"
  sh_label_url :: "string option"
  sh_status :: shipment_status
  sh_shipment_type :: shipment_type
  sh_destination_business :: "oid option"
  sh_fabric_product :: "oid option"
  sh_fabric_yards :: "rat option"
  sh_eta_days :: "rat option"
  sh_expected_delivery_at :: "instant option"
  sh_confirmed :: bool
  sh_confirmed_at :: "instant option"
  sh_rejected :: bool
  sh_rejected_at :: "instant option"
  sh_rejection_reason :: "string option"
  sh_refunded :: bool
  sh_rate_fetched_at :: "instant option"
  sh_shipped_at :: "instant option"
  sh_delivered_at :: "instant option"
  sh_fulfillment_deadline :: "instant option"
  sh_late_penalty_applied :: bool
  sh_late_penalty_amount :: rat
  sh_late_penalty_days :: int
  sh_production_steps :: "production_step list"
  sh_ready_to_ship_at :: "instant option"

record order =
  o_id :: oid
  o_reference :: oid
  o_customer :: oid
  o_items :: "order_item list"
  o_subtotal :: rat
  o_shipping_fee :: rat
  o_total :: rat
  o_status :: order_status
  o_type :: order_type
  o_bespoke_design :: "oid option"
  o_bespoke_quote :: "oid option"
  o_shipments :: "vendor_shipment list"
  o_vendor_earnings :: rat
  o_platform_commission :: rat
  o_earnings_recorded :: bool
  o_inventory_deducted :: bool
  o_payout_eligible_at :: "instant option"
  o_payout_status :: payout_status
  o_payment_status :: payment_status
  o_refund_status :: refund_status
  o_customer_satisfied :: bool
  o_customer_satisfied_at :: "instant option"
  o_createdAt :: instant

section \<open>Fabric reservations\<close>

datatype reservation_status = R_ACTIVE | R_COMPLETED | R_EXPIRED | R_CANCELLED

record fabric_reservation =
  r_id :: oid
  r_reference :: oid
  r_organizer :: oid
  r_fabric :: oid
  r_event_name :: string
  r_total_yards :: rat
  r_claimed_yards :: rat
  r_price_per_yard :: rat
  r_reservation_fee :: rat
  r_fee_transaction :: "oid option"
  r_deadline :: instant
  r_status :: reservation_status

record fabric_claim =
  fc_id :: oid
  fc_reservation :: oid
  fc_guest :: "oid option"
  fc_order :: "oid option"
  fc_yards_claimed :: rat
  fc_total_amount :: rat

section \<open>Bespoke designs and quotes\<close>

datatype design_status =
  BD_DRAFT | BD_REQUESTING_QUOTES | BD_QUOTED | BD_ACCEPTED | BD_IN_PRODUCTION | BD_COMPLETED | BD_CANCELLED

record bespoke_design =
  bd_id :: oid
  bd_reference :: oid
  bd_customer :: oid
  bd_name :: string
  bd_category :: string
  bd_gender :: string
  bd_design_images :: "string list"
  bd_reference_images :: "string list"
  bd_fabric :: "oid option"
  bd_description :: "string option"
  bd_measurement :: "oid option"
  bd_status :: design_status
  bd_accepted_quote :: "oid option"

datatype quote_status =
  BQ_PENDING | BQ_DRAFT | BQ_SUBMITTED | BQ_ACCEPTED | BQ_DECLINED | BQ_EXPIRED | BQ_REVISION_REQUESTED

datatype revision_party = By_customer | By_vendor

record revision_entry =
  re_requested_by :: revision_party
  re_message :: string
  re_created_at :: instant

record line_item =
  li_label :: "string option"
  li_amount :: "rat option"

record bespoke_quote =
  bq_id :: oid
  bq_reference :: oid
  bq_design :: oid
  bq_vendor :: oid
  bq_customer :: oid
  bq_status :: quote_status
  bq_line_items :: "line_item list"
  bq_total :: rat
  bq_required_fabric_yards :: "rat option"
  bq_estimated_completion_days :: "rat option"
  bq_vendor_notes :: "string option"
  bq_revision_history :: "revision_entry list"
  bq_submitted_at :: "instant option"
  bq_accepted_at :: "instant option"
  bq_expires_at :: instant

section \<open>Disputes and returns\<close>

datatype dispute_status =
  DS_OPEN | DS_UNDER_REVIEW | DS_RESOLVED_REFUND | DS_RESOLVED_PARTIAL_REFUND | DS_RESOLVED_RELEASED | DS_CLOSED

datatype dispute_reason =
  WRONG_ITEM | DAMAGED | NOT_AS_DESCRIBED | POOR_QUALITY | MISSING_ITEMS | MEASUREMENT_ISSUE | OTHER

datatype initiator = Raised_by_customer | Raised_by_vendor

record dispute =
  ds_id :: oid
  ds_order :: oid
  ds_order_reference :: oid
  ds_customer :: oid
  ds_business :: oid
  ds_reason :: dispute_reason
  ds_description :: string
  ds_evidence_urls :: "string list"
  ds_initiated_by :: initiator
  ds_body_part :: "string option"
  ds_status :: dispute_status
  ds_vendor_response :: "string option"
  ds_vendor_evidence_urls :: "string list"
  ds_admin_notes :: "string option"
  ds_refund_amount :: "rat option"
  ds_resolved_by :: "oid option"
  ds_resolved_at :: "instant option"

datatype return_status =
    RT_REQUESTED | RT_VENDOR_APPROVED | RT_VENDOR_REJECTED | RT_RETURN_SHIPPED | RT_RECEIVED
  | RT_REFUND_PROCESSED | RT_CLOSED

datatype return_reason =
  RR_WRONG_SIZE | RR_WRONG_ITEM | RR_DAMAGED | RR_NOT_AS_DESCRIBED | RR_CHANGED_MIND | RR_OTHER

record return_request =
  rt_id :: oid
  rt_order :: oid
  rt_order_reference :: oid
  rt_customer :: oid
  rt_business :: oid
  rt_items :: "oid list"
  rt_reason :: return_reason
  rt_description :: string
  rt_evidence_urls :: "string list"
  rt_status :: return_status
  rt_refund_amount :: rat
  rt_vendor_rejection_reason :: "string option"
  rt_received_at :: "instant option"
  rt_refunded_at :: "instant option"

section \<open>Platform settings\<close>

datatype commission_type = Percent | Fixed_commission

text \<open>
  The settings are read as a plain (\<open>lean\<close>) document, without the schema's defaults: a key may be
  missing, and the services then fall back to the default written at the place of use.
\<close>

record platform_settings =
  minimum_payout :: "rat option"
  payout_delay_days :: "rat option"
  auto_release_days :: "rat option"
  late_penalty_percent_per_day :: "rat option"
  late_penalty_max_percent :: "rat option"
  auto_reject_hours :: "rat option"
  return_window_days :: "rat option"
  platform_commission_percent :: "rat option"
  platform_commission_type :: "commission_type option"
  platform_commission_flat :: "rat option"
  image_measurement_token_price :: "rat option"
  video_measurement_token_price :: "rat option"
  outfit_generation_token_price :: "rat option"
  edit_garment_token_price :: "rat option"
  run_prediction_token_price :: "rat option"
  ai_ask_token_price :: "rat option"
  analyze_reference_token_price :: "rat option"
  tailored_order_upfront_percent :: "rat option"
  reservation_fee_percent :: "rat option"
  low_stock_threshold :: "rat option"
  low_fabric_yards :: "rat option"

section \<open>The database\<close>

record db =
  db_wallets :: "wallet list"
  db_tokens :: "token list"
  db_token_transactions :: "token_transaction list"
  db_transactions :: "transaction list"
  db_earnings :: "business_earning list"
  db_businesses :: "business list"
  db_orders :: "order list"
  db_products :: "product list"
  db_fabrics :: "fabric list"
  db_accessories :: "accessory list"
  db_discounts :: "discount list"
  db_reservations :: "fabric_reservation list"
  db_claims :: "fabric_claim list"
  db_designs :: "bespoke_design list"
  db_quotes :: "bespoke_quote list"
  db_disputes :: "dispute list"
  db_returns :: "return_request list"
  db_settings :: "platform_settings option"
  db_next :: oid

text \<open>\<open>settings?.key ?? default\<close>.\<close>

definition setting :: "(platform_settings \<Rightarrow> 'a option) \<Rightarrow> 'a \<Rightarrow> db \<Rightarrow> 'a" where
  "setting key dflt s = nullish (Option.bind (db_settings s) key) dflt"

definition empty_db :: db where
  "empty_db = \<lparr>db_wallets = [], db_tokens = [], db_token_transactions = [], db_transactions = [],
     db_earnings = [], db_businesses = [], db_orders = [], db_products = [], db_fabrics = [],
     db_accessories = [], db_discounts = [], db_reservations = [], db_claims = [],
     db_designs = [], db_quotes = [], db_disputes = [], db_returns = [],
     db_settings = None, db_next = 1\<rparr>"

text \<open>Every new document takes the next free number.\<close>

definition fresh :: "(db, oid) action" where
  "fresh = (\<lambda>s. (Inr (db_next s), s\<lparr>db_next := Suc (db_next s)\<rparr>))"

lemma fresh_app [simp, effect_simps]: "fresh s = (Inr (db_next s), s\<lparr>db_next := Suc (db_next s)\<rparr>)"
  by (simp add: fresh_def)

end
