(* ===== verification/Contracts.thy ===== *)
theory Contracts
  imports Prelude
begin

text \<open>
  The three contracts that the services rely on when several requests or cron runs work on one
  collection at the same time, as interfaces.

  \<^item> \<open>counter_field\<close>: a numeric field of a document that is changed by \<open>$inc\<close> on the document of
    a key. Increments of one field commute, keep the keys, leave every other document alone and
    move the total by exactly the increment.
  \<^item> \<open>exclusive_claim\<close>: a conditional \<open>updateOne\<close> that sets a flag only where it is not set, with
    \<open>modifiedCount === 1\<close> as the answer. At most one of any number of attempts wins.
  \<^item> \<open>guarded_balance\<close>: an account credited by \<open>$inc\<close> and debited by a conditional \<open>$inc\<close>. It is
    never overdrawn, and the accepted movements account for its balance exactly.
\<close>

section \<open>Counters changed by increments\<close>

locale counter_field =
  fixes key :: "'d \<Rightarrow> 'k"
    and val :: "'d \<Rightarrow> rat"
    and add :: "rat \<Rightarrow> 'd \<Rightarrow> 'd"
  assumes key_add: "key (add a d) = key d"
    and val_add: "val (add a d) = val d + a"
begin

lemma inc_keys: "map key (update_one (\<lambda>d. key d = k) (add a) ds) = map key ds"
  by (rule map_update_one) (simp add: key_add)

lemma inc_find:
  "find_one (\<lambda>d. key d = k') (update_one (\<lambda>d. key d = k) (add a) ds) =
     (if k' = k then map_option (add a) (find_one (\<lambda>d. key d = k') ds)
      else find_one (\<lambda>d. key d = k') ds)"
  by (induction ds) (auto simp: key_add)

lemma inc_value:
  "map_option val (find_one (\<lambda>d. key d = k') (update_one (\<lambda>d. key d = k) (add a) ds)) =
     map_option (\<lambda>v. if k' = k then v + a else v) (map_option val (find_one (\<lambda>d. key d = k') ds))"
  by (simp add: inc_find option.map_comp comp_def val_add)

lemma inc_total:
  assumes "find_one (\<lambda>d. key d = k) ds = Some d"
  shows "sum_list (map val (update_one (\<lambda>d. key d = k) (add a) ds)) = sum_list (map val ds) + a"
  using sum_list_update_one [OF assms, of val "add a"] by (simp add: val_add)

lemma inc_commute:
  "map_option val (find_one (\<lambda>d. key d = k)
     (update_one (\<lambda>d. key d = i) (add a) (update_one (\<lambda>d. key d = j) (add b) ds))) =
   map_option val (find_one (\<lambda>d. key d = k)
     (update_one (\<lambda>d. key d = j) (add b) (update_one (\<lambda>d. key d = i) (add a) ds)))"
  by (simp add: inc_find option.map_comp comp_def val_add key_add algebra_simps)

text \<open>
  Any number of increments, issued in any order by any number of callers: each document ends with
  its first value plus the sum of the increments addressed to it, so none of them is lost.
\<close>

lemma inc_many:
  "map_option val (find_one (\<lambda>d. key d = k)
     (fold (\<lambda>(i, a). update_one (\<lambda>d. key d = i) (add a)) incs ds)) =
   map_option (\<lambda>v. v + sum_list (map snd (filter (\<lambda>(i, a). i = k) incs)))
     (map_option val (find_one (\<lambda>d. key d = k) ds))"
proof (induction incs arbitrary: ds)
  case Nil
  then show ?case by (simp add: option.map_ident)
next
  case (Cons x incs)
  obtain i a where x: "x = (i, a)" by force
  show ?case
    using Cons [of "update_one (\<lambda>d. key d = i) (add a) ds"] x
    by (simp add: inc_value option.map_comp comp_def algebra_simps)
qed

lemma inc_order_irrelevant:
  assumes "mset incs = mset incs'"
  shows "map_option val (find_one (\<lambda>d. key d = k)
           (fold (\<lambda>(i, a). update_one (\<lambda>d. key d = i) (add a)) incs ds)) =
         map_option val (find_one (\<lambda>d. key d = k)
           (fold (\<lambda>(i, a). update_one (\<lambda>d. key d = i) (add a)) incs' ds))"
proof -
  have "sum_list (map snd (filter (\<lambda>(i, a). i = k) incs)) =
        sum_mset (image_mset snd (filter_mset (\<lambda>(i, a). i = k) (mset incs)))"
    by (simp only: mset_filter [symmetric] mset_map [symmetric] sum_mset_sum_list)
  moreover have "sum_list (map snd (filter (\<lambda>(i, a). i = k) incs')) =
        sum_mset (image_mset snd (filter_mset (\<lambda>(i, a). i = k) (mset incs')))"
    by (simp only: mset_filter [symmetric] mset_map [symmetric] sum_mset_sum_list)
  ultimately show ?thesis using assms by (simp add: inc_many)
qed

end

section \<open>Exclusive claims\<close>

text \<open>Attempts on the keys \<open>ks\<close>, one after the other; the answers in order and the last state.\<close>

fun claim_run :: "('k \<Rightarrow> 's \<Rightarrow> bool \<times> 's) \<Rightarrow> 'k list \<Rightarrow> 's \<Rightarrow> ('k \<times> bool) list \<times> 's" where
  "claim_run claim [] s = ([], s)"
| "claim_run claim (k # ks) s =
     (let (won, s') = claim k s; (rs, s'') = claim_run claim ks s' in ((k, won) # rs, s''))"

locale exclusive_claim =
  fixes ok :: "'s \<Rightarrow> bool"
    and claim :: "'k \<Rightarrow> 's \<Rightarrow> bool \<times> 's"
    and claimable :: "'s \<Rightarrow> 'k \<Rightarrow> bool"
  assumes claim_ok: "ok s \<Longrightarrow> ok (snd (claim k s))"
    and claim_wins: "ok s \<Longrightarrow> fst (claim k s) = claimable s k"
    and claim_closes: "ok s \<Longrightarrow> \<not> claimable (snd (claim k s)) k"
    and claim_frame: "\<lbrakk>ok s; k' \<noteq> k\<rbrakk> \<Longrightarrow> claimable (snd (claim k s)) k' = claimable s k'"
begin

lemma claim_twice: "ok s \<Longrightarrow> \<not> fst (claim k (snd (claim k s)))"
  by (simp add: claim_ok claim_wins claim_closes)

lemma claimable_after:
  "ok s \<Longrightarrow> claimable (snd (claim_run claim ks s)) k \<longleftrightarrow> claimable s k \<and> k \<notin> set ks"
proof (induction ks arbitrary: s)
  case Nil
  then show ?case by simp
next
  case (Cons j ks)
  then show ?case
    by (cases "k = j") (auto simp: Let_def split_beta claim_ok claim_closes claim_frame)
qed

lemma wins_count:
  "ok s \<Longrightarrow> length (filter (\<lambda>(j, won). j = k \<and> won) (fst (claim_run claim ks s))) =
     (if claimable s k \<and> k \<in> set ks then 1 else 0)"
proof (induction ks arbitrary: s)
  case Nil
  then show ?case by simp
next
  case (Cons j ks)
  show ?case
    using Cons.IH [of "snd (claim j s)"] Cons.prems
    by (cases "k = j") (auto simp: Let_def split_beta claim_ok claim_wins claim_closes claim_frame)
qed

lemma at_most_one_winner:
  "ok s \<Longrightarrow> length (filter (\<lambda>(j, won). j = k \<and> won) (fst (claim_run claim ks s))) \<le> 1"
  by (simp add: wins_count)

end

section \<open>Guarded balances\<close>

text \<open>
  A balance that is credited unconditionally and debited only where it covers the amount, the
  check and the write being one conditional \<open>findOneAndUpdate\<close>. \<open>bal s a\<close> is the balance of the
  account \<open>a\<close>, if there is one, and \<open>ok\<close> the well-formedness both operations keep.
\<close>

datatype 'a movement = Deposit 'a rat | Withdraw 'a rat

fun movement_amount :: "'a movement \<Rightarrow> rat" where
  "movement_amount (Deposit _ x) = x"
| "movement_amount (Withdraw _ x) = x"

text \<open>Movements requested one after the other; the accepted ones and the last state.\<close>

fun run_movements ::
  "('a \<Rightarrow> rat \<Rightarrow> ('s, 'r) action) \<Rightarrow> ('a \<Rightarrow> rat \<Rightarrow> ('s, 'q) action) \<Rightarrow> 'a movement list \<Rightarrow> 's
    \<Rightarrow> 'a movement list \<times> 's" where
  "run_movements credit debit [] s = ([], s)"
| "run_movements credit debit (Deposit a x # ms) s =
     (let (r, s') = credit a x s; (acc, s'') = run_movements credit debit ms s'
      in (if isl r then acc else Deposit a x # acc, s''))"
| "run_movements credit debit (Withdraw a x # ms) s =
     (let (r, s') = debit a x s; (acc, s'') = run_movements credit debit ms s'
      in (if isl r then acc else Withdraw a x # acc, s''))"

fun deposited :: "'a \<Rightarrow> 'a movement list \<Rightarrow> rat" where
  "deposited a [] = 0"
| "deposited a (Deposit b x # ms) = (if b = a then x else 0) + deposited a ms"
| "deposited a (Withdraw b x # ms) = deposited a ms"

fun withdrawn :: "'a \<Rightarrow> 'a movement list \<Rightarrow> rat" where
  "withdrawn a [] = 0"
| "withdrawn a (Withdraw b x # ms) = (if b = a then x else 0) + withdrawn a ms"
| "withdrawn a (Deposit b x # ms) = withdrawn a ms"

locale guarded_balance =
  fixes ok :: "'s \<Rightarrow> bool"
    and bal :: "'s \<Rightarrow> 'a \<Rightarrow> rat option"
    and credit :: "'a \<Rightarrow> rat \<Rightarrow> ('s, 'r) action"
    and debit :: "'a \<Rightarrow> rat \<Rightarrow> ('s, 'q) action"
  assumes credit_ok: "\<lbrakk>ok s; 0 < x\<rbrakk> \<Longrightarrow> ok (snd (credit a x s))"
    and debit_ok: "\<lbrakk>ok s; 0 < x\<rbrakk> \<Longrightarrow> ok (snd (debit a x s))"
    and credit_bal: "\<lbrakk>ok s; 0 < x\<rbrakk> \<Longrightarrow> bal (snd (credit a x s)) =
          (case bal s a of None \<Rightarrow> bal s | Some b \<Rightarrow> (bal s)(a \<mapsto> b + x))"
    and debit_accepts: "\<lbrakk>ok s; 0 < x\<rbrakk> \<Longrightarrow> \<not> isl (fst (debit a x s)) \<longleftrightarrow> (\<exists>b. bal s a = Some b \<and> x \<le> b)"
    and debit_bal: "\<lbrakk>ok s; 0 < x\<rbrakk> \<Longrightarrow> bal (snd (debit a x s)) =
          (case bal s a of None \<Rightarrow> bal s | Some b \<Rightarrow> if x \<le> b then (bal s)(a \<mapsto> b - x) else bal s)"
begin

abbreviation "run \<equiv> run_movements credit debit"

lemma run_ok: "\<lbrakk>ok s; \<forall>m\<in>set ms. 0 < movement_amount m\<rbrakk> \<Longrightarrow> ok (snd (run ms s))"
proof (induction ms arbitrary: s)
  case Nil
  then show ?case by simp
next
  case (Cons m ms)
  then show ?case
    by (cases m) (simp_all add: Let_def split_beta credit_ok debit_ok)
qed

lemma never_overdrawn:
  assumes "ok s" "\<forall>m\<in>set ms. 0 < movement_amount m" "\<forall>a b. bal s a = Some b \<longrightarrow> 0 \<le> b"
  shows "\<forall>a b. bal (snd (run ms s)) a = Some b \<longrightarrow> 0 \<le> b"
  using assms
proof (induction ms arbitrary: s)
  case Nil
  then show ?case by simp
next
  case (Cons m ms)
  show ?case
  proof (cases m)
    case (Deposit a x)
    have "\<forall>c b. bal (snd (credit a x s)) c = Some b \<longrightarrow> 0 \<le> b"
      using Cons.prems Deposit by (auto simp: credit_bal split: option.splits)
    from Cons.IH [OF _ _ this] Cons.prems Deposit show ?thesis
      by (simp add: Let_def split_beta credit_ok)
  next
    case (Withdraw a x)
    have "\<forall>c b. bal (snd (debit a x s)) c = Some b \<longrightarrow> 0 \<le> b"
      using Cons.prems Withdraw by (auto simp: debit_bal split: option.splits)
    from Cons.IH [OF _ _ this] Cons.prems Withdraw show ?thesis
      by (simp add: Let_def split_beta debit_ok)
  qed
qed

text \<open>
  Every account ends with what it had, plus the deposits, less exactly the withdrawals that were
  accepted: no withdrawal is lost or applied twice, whatever the order.
\<close>

lemma accounts_add_up:
  assumes "ok s" "\<forall>m\<in>set ms. 0 < movement_amount m" "bal s a = Some b"
  shows "bal (snd (run ms s)) a = Some (b + deposited a ms - withdrawn a (fst (run ms s)))"
  using assms
proof (induction ms arbitrary: s b)
  case Nil
  then show ?case by simp
next
  case (Cons m ms)
  show ?case
  proof (cases m)
    case (Deposit c x)
    have "bal (snd (credit c x s)) a = Some (b + (if c = a then x else 0))"
      using Cons.prems Deposit by (auto simp: credit_bal split: option.splits)
    from Cons.IH [OF _ _ this] Cons.prems Deposit show ?thesis
      by (auto simp: Let_def split_beta credit_ok)
  next
    case (Withdraw c x)
    let ?taken = "if c = a \<and> \<not> isl (fst (debit c x s)) then x else 0"
    have "bal (snd (debit c x s)) a = Some (b - ?taken)"
      using Cons.prems Withdraw by (auto simp: debit_bal debit_accepts split: option.splits)
    from Cons.IH [OF _ _ this] Cons.prems Withdraw show ?thesis
      by (auto simp: Let_def split_beta debit_ok)
  qed
qed

lemma withdrawals_bounded:
  assumes "ok s" "\<forall>m\<in>set ms. 0 < movement_amount m" "\<forall>a b. bal s a = Some b \<longrightarrow> 0 \<le> b"
    and "bal s a = Some b"
  shows "withdrawn a (fst (run ms s)) \<le> b + deposited a ms"
  using never_overdrawn [OF assms(1-3)] accounts_add_up [OF assms(1,2,4)] by force

lemma run_accounts:
  assumes "ok s" "\<forall>m\<in>set ms. 0 < movement_amount m"
  shows "bal (snd (run ms s)) a = None \<longleftrightarrow> bal s a = None"
  using assms
proof (induction ms arbitrary: s)
  case Nil
  then show ?case by simp
next
  case (Cons m ms)
  then show ?case
    by (cases m) (auto simp: Let_def split_beta credit_ok debit_ok credit_bal debit_bal split: option.splits)
qed

end

end
