(* ===== verification/Transactions.thy ===== *)
theory Transactions
  imports Documents Contracts
begin

text \<open>
  The transaction ledger (\<open>src/modules/transactions/transactions.service.ts\<close>): creating an entry,
  moving its status, finding the payment of an order, and refunding a Paystack charge in full or
  in part. The Paystack refund endpoint is the parameter \<open>refund_api\<close>: the reference and the
  amount in kobo that are sent, to the error raised or the status of the refund in the answer.
\<close>

record create_transaction_dto =
  ct_initiator :: "oid option"
  ct_amount :: rat
  ct_type :: transaction_type
  ct_status :: "transaction_status option"
  ct_wallet :: "oid option"
  ct_order :: "oid option"
  ct_channel :: channel
  ct_description :: "string option"
  ct_currency :: "string option"
  ct_payment_method :: "string option"
  ct_metadata :: "txn_metadata option"

text \<open>
  \<open>create\<close>: the document is built from the keys the service lists. The list has no \<open>channel\<close>, so the
  schema's default \<open>'checkout'\<close> is stored. The schema rejects a negative amount on \<open>save\<close>.
\<close>

definition new_transaction :: "create_transaction_dto \<Rightarrow> oid \<Rightarrow> oid \<Rightarrow> transaction" where
  "new_transaction dto reference tid =
     \<lparr>t_id = tid, t_wallet = ct_wallet dto, t_order = ct_order dto, t_initiator = ct_initiator dto,
      t_type = ct_type dto, t_amount = ct_amount dto,
      t_status = nullish (ct_status dto) T_PENDING, t_reference = reference,
      t_description = nullish (ct_description dto) '''', t_currency = nullish (ct_currency dto) ''NGN'',
      t_payment_method = nullish (ct_payment_method dto) ''paystack'', t_channel = Checkout,
      t_metadata = nullish (ct_metadata dto) empty_metadata\<rparr>"

definition add_transaction :: "transaction \<Rightarrow> (db, unit) action" where
  "add_transaction t = (if t_amount t < 0 then throw (ExternalError ''ValidationError: amount'')
     else modify (\<lambda>s. s\<lparr>db_transactions := db_transactions s @ [t]\<rparr>))"

definition create_transaction :: "create_transaction_dto \<Rightarrow> (db, transaction) action" where
  "create_transaction dto =
     andThen fresh (\<lambda>reference. andThen fresh (\<lambda>tid.
       let t = new_transaction dto reference tid
       in andThen (add_transaction t) (\<lambda>_. ret t)))"

definition save_transaction :: "transaction \<Rightarrow> (db, unit) action" where
  "save_transaction t = modify (\<lambda>s. s\<lparr>db_transactions :=
     update_one (\<lambda>x. t_id x = t_id t) (\<lambda>_. t) (db_transactions s)\<rparr>)"

definition findByReference :: "oid \<Rightarrow> (db, transaction) action" where
  "findByReference reference =
     andThen (gets (\<lambda>s. find_one (\<lambda>t. t_reference t = reference) (db_transactions s)))
       (\<lambda>r. case r of None \<Rightarrow> throw (NotFoundException ''Transaction not found'') | Some tx \<Rightarrow> ret tx)"

definition updateStatus :: "oid \<Rightarrow> transaction_status \<Rightarrow> (db, transaction) action" where
  "updateStatus reference status =
     andThen (findByReference reference) (\<lambda>tx.
       let tx' = tx\<lparr>t_status := status\<rparr>
       in andThen (save_transaction tx') (\<lambda>_. ret tx'))"

definition markSuccess :: "oid \<Rightarrow> (db, transaction) action" where
  "markSuccess reference = updateStatus reference T_SUCCESS"

definition markFailed :: "oid \<Rightarrow> (db, transaction) action" where
  "markFailed reference = updateStatus reference T_FAILED"

definition is_order_payment :: "oid \<Rightarrow> transaction \<Rightarrow> bool" where
  "is_order_payment orderId t \<longleftrightarrow>
     t_order t = Some orderId \<and> t_status t = T_SUCCESS \<and> t_channel t \<in> {Checkout, Wallet_checkout}"

definition findByOrderId :: "oid \<Rightarrow> (db, transaction option) action" where
  "findByOrderId orderId = gets (\<lambda>s. find_one (is_order_payment orderId) (db_transactions s))"

definition refundPaystackPayment ::
  "(oid \<Rightarrow> rat \<Rightarrow> error + string) \<Rightarrow> oid \<Rightarrow> (db, oid option) action" where
  "refundPaystackPayment refund_api reference =
     andThen (findByReference reference) (\<lambda>tx.
       if t_status tx \<noteq> T_SUCCESS
       then throw (BadRequestException ''Only successful transactions can be refunded.'')
       else if m_refund_status (t_metadata tx) = Some ''success''
       then throw (BadRequestException ''This transaction has already been refunded.'')
       else (case refund_api reference (t_amount tx * 100) of
           Inl e \<Rightarrow> throw e
         | Inr status \<Rightarrow>
             let tx' = tx\<lparr>t_metadata := (t_metadata tx)\<lparr>m_refund_status := Some status,
                              m_refunded_amount := Some (t_amount tx)\<rparr>,
                          t_status := T_REVERSED\<rparr>
             in andThen (save_transaction tx') (\<lambda>_. ret (m_order_reference (t_metadata tx')))))"

datatype refund_outcome = Refund_success string | Refund_failure string

definition total_refunded :: "transaction \<Rightarrow> rat" where
  "total_refunded t = or_num (m_total_refunded (t_metadata t)) 0"

definition is_checkout_payment :: "oid \<Rightarrow> transaction \<Rightarrow> bool" where
  "is_checkout_payment orderId t \<longleftrightarrow>
     t_order t = Some orderId \<and> t_status t = T_SUCCESS \<and> t_channel t \<in> {Checkout}"

definition partialRefundPaystack ::
  "(oid \<Rightarrow> rat \<Rightarrow> error + string) \<Rightarrow> oid \<Rightarrow> rat \<Rightarrow> (db, refund_outcome) action" where
  "partialRefundPaystack refund_api orderId refundAmount =
     andThen (gets (\<lambda>s. find_one (is_checkout_payment orderId) (db_transactions s))) (\<lambda>r.
       case r of
         None \<Rightarrow> ret (Refund_failure ''Original checkout transaction not found'')
       | Some tx \<Rightarrow>
           let alreadyRefunded = total_refunded tx;
               maxRefundable = t_amount tx - alreadyRefunded
           in if refundAmount > maxRefundable
              then ret (Refund_failure ''Refund amount exceeds remaining refundable'')
              else (case refund_api (t_reference tx) (js_round (refundAmount * 100)) of
                  Inl e \<Rightarrow> ret (Refund_failure ''refund request failed'')
                | Inr data \<Rightarrow>
                    let tx' = tx\<lparr>t_metadata := (t_metadata tx)\<lparr>
                                   m_partial_refunds :=
                                     m_partial_refunds (t_metadata tx) @ [refundAmount],
                                   m_total_refunded := Some (alreadyRefunded + refundAmount)\<rparr>\<rparr>;
                        tx'' = (if alreadyRefunded + refundAmount \<ge> t_amount tx
                                then tx'\<lparr>t_status := T_REVERSED\<rparr> else tx')
                    in andThen (save_transaction tx'') (\<lambda>_. ret (Refund_success data))))"

section \<open>The ledger invariant\<close>

text \<open>
  Identifiers and references are distinct and below the next free number, amounts are not
  negative, and no charge has been refunded in parts beyond its amount.
\<close>

definition wf_transaction :: "transaction \<Rightarrow> bool" where
  "wf_transaction t \<longleftrightarrow> 0 \<le> t_amount t \<and> total_refunded t \<le> t_amount t \<and>
     sum_list (m_partial_refunds (t_metadata t)) = total_refunded t"

definition wf_ledger :: "db \<Rightarrow> bool" where
  "wf_ledger s \<longleftrightarrow>
     distinct (map t_id (db_transactions s)) \<and> distinct (map t_reference (db_transactions s)) \<and>
     (\<forall>t\<in>set (db_transactions s). t_id t < db_next s \<and> t_reference t < db_next s \<and> wf_transaction t)"

lemma wf_transaction_status [simp]: "wf_transaction (t\<lparr>t_status := st\<rparr>) = wf_transaction t"
  by (simp add: wf_transaction_def total_refunded_def)

lemma create_transaction_run:
  "create_transaction dto s =
     (let t = new_transaction dto (db_next s) (Suc (db_next s));
          s' = s\<lparr>db_next := Suc (Suc (db_next s))\<rparr>
      in if ct_amount dto < 0 then (Inl (ExternalError ''ValidationError: amount''), s')
         else (Inr t, s'\<lparr>db_transactions := db_transactions s @ [t]\<rparr>))"
  by (simp add: create_transaction_def andThen_app add_transaction_def Let_def new_transaction_def)

lemma findByReference_run:
  "findByReference r s =
     (case find_one (\<lambda>t. t_reference t = r) (db_transactions s) of
        None \<Rightarrow> (Inl (NotFoundException ''Transaction not found''), s)
      | Some tx \<Rightarrow> (Inr tx, s))"
  by (simp add: findByReference_def andThen_app split: option.splits)

lemma save_transaction_run:
  "save_transaction t s = (Inr (), s\<lparr>db_transactions :=
     update_one (\<lambda>x. t_id x = t_id t) (\<lambda>_. t) (db_transactions s)\<rparr>)"
  by (simp add: save_transaction_def)

lemma updateStatus_run:
  "updateStatus r st s =
     (case find_one (\<lambda>t. t_reference t = r) (db_transactions s) of
        None \<Rightarrow> (Inl (NotFoundException ''Transaction not found''), s)
      | Some tx \<Rightarrow> (Inr (tx\<lparr>t_status := st\<rparr>), s\<lparr>db_transactions :=
          update_one (\<lambda>x. t_id x = t_id tx) (\<lambda>_. tx\<lparr>t_status := st\<rparr>) (db_transactions s)\<rparr>))"
  by (simp add: updateStatus_def andThen_app findByReference_run save_transaction_run Let_def
      split: option.splits)

lemma wf_ledger_create:
  assumes "wf_ledger s"
    and "wf_transaction (new_transaction dto (db_next s) (Suc (db_next s)))"
  shows "wf_ledger (snd (create_transaction dto s))"
  using assms
  by (fastforce simp: create_transaction_run wf_ledger_def Let_def new_transaction_def)

lemma wf_ledger_save:
  assumes wf: "wf_ledger s" and tx: "tx \<in> set (db_transactions s)"
    and "t_id tx' = t_id tx" "t_reference tx' = t_reference tx" "wf_transaction tx'"
  shows "wf_ledger (snd (save_transaction tx' s))"
proof -
  let ?ts = "db_transactions s"
  let ?us = "update_one (\<lambda>x. t_id x = t_id tx') (\<lambda>_. tx') ?ts"
  have upd: "?us = map (\<lambda>x. if t_id x = t_id tx' then tx' else x) ?ts"
    using wf by (intro update_one_key_map) (simp add: wf_ledger_def)
  have same: "x = tx" if "x \<in> set ?ts" "t_id x = t_id tx'" for x
    using wf that assms(2,3) by (auto simp: wf_ledger_def distinct_map dest: inj_onD)
  have ids: "map t_id ?us = map t_id ?ts"
    unfolding upd by (auto simp: assms)
  have refs: "map t_reference ?us = map t_reference ?ts"
    unfolding upd using same by (auto simp: assms)
  have "\<forall>t\<in>set ?us. t_id t < db_next s \<and> t_reference t < db_next s \<and> wf_transaction t"
    unfolding upd using wf assms by (auto simp: wf_ledger_def)
  with wf ids refs show ?thesis
    unfolding wf_ledger_def save_transaction_run snd_conv
    by (simp del: map_map)
qed

section \<open>Partial refunds\<close>

lemma partialRefundPaystack_run:
  "partialRefundPaystack api oid amt s =
     (case find_one (is_checkout_payment oid) (db_transactions s) of
        None \<Rightarrow> (Inr (Refund_failure ''Original checkout transaction not found''), s)
      | Some tx \<Rightarrow>
          if amt > t_amount tx - total_refunded tx
          then (Inr (Refund_failure ''Refund amount exceeds remaining refundable''), s)
          else (case api (t_reference tx) (js_round (amt * 100)) of
              Inl e \<Rightarrow> (Inr (Refund_failure ''refund request failed''), s)
            | Inr data \<Rightarrow>
                (Inr (Refund_success data), snd (save_transaction
                  (tx\<lparr>t_metadata := (t_metadata tx)\<lparr>
                        m_partial_refunds := m_partial_refunds (t_metadata tx) @ [amt],
                        m_total_refunded := Some (total_refunded tx + amt)\<rparr>,
                      t_status := (if total_refunded tx + amt \<ge> t_amount tx then T_REVERSED
                                   else t_status tx)\<rparr>) s))))"
  by (simp add: partialRefundPaystack_def andThen_app Let_def save_transaction_run
      split: option.splits sum.splits)

lemma wf_ledger_partialRefund:
  assumes "wf_ledger s"
  shows "wf_ledger (snd (partialRefundPaystack api oid amt s))"
proof (cases "find_one (is_checkout_payment oid) (db_transactions s)")
  case None
  with assms show ?thesis by (simp add: partialRefundPaystack_run)
next
  case (Some tx)
  then have tx: "tx \<in> set (db_transactions s)" by (auto dest: find_one_SomeD)
  with assms have "wf_transaction tx" by (simp add: wf_ledger_def)
  then show ?thesis
    using assms tx Some
    by (auto simp: partialRefundPaystack_run wf_transaction_def total_refunded_def
        intro!: wf_ledger_save split: sum.splits)
qed

text \<open>Requests on any orders, in any order, with any answers of the refund endpoint.\<close>

fun partial_refund_run ::
  "(oid \<times> rat \<times> (oid \<Rightarrow> rat \<Rightarrow> error + string)) list \<Rightarrow> db \<Rightarrow> db" where
  "partial_refund_run [] s = s"
| "partial_refund_run ((orderId, amount, api) # rs) s =
     partial_refund_run rs (snd (partialRefundPaystack api orderId amount s))"

lemma wf_ledger_partial_refund_run: "wf_ledger s \<Longrightarrow> wf_ledger (partial_refund_run rs s)"
  by (induction rs s rule: partial_refund_run.induct) (auto intro: wf_ledger_partialRefund)

text \<open>C27: however many partial refunds are requested on a charge, and whatever the refund endpoint
  answers, the refunds recorded on it never add up to more than the charge.\<close>

theorem partial_refunds_never_exceed_charge:
  assumes "wf_ledger s" and "t \<in> set (db_transactions (partial_refund_run rs s))"
  shows "sum_list (m_partial_refunds (t_metadata t)) \<le> t_amount t"
  using wf_ledger_partial_refund_run [OF assms(1), of rs] assms(2)
  by (auto simp: wf_ledger_def wf_transaction_def)

definition sample_txn :: transaction where
  "sample_txn = \<lparr>t_id = 1, t_wallet = None, t_order = Some 7, t_initiator = None, t_type = DEBIT,
     t_amount = 100, t_status = T_SUCCESS, t_reference = 2, t_description = [],
     t_currency = ''NGN'', t_payment_method = ''paystack'', t_channel = Checkout,
     t_metadata = empty_metadata\<rparr>"

definition sample_ledger :: db where
  "sample_ledger = empty_db\<lparr>db_transactions := [sample_txn], db_next := 3\<rparr>"

lemma sample_ledger_wf: "wf_ledger sample_ledger"
  by (simp add: sample_ledger_def sample_txn_def wf_ledger_def wf_transaction_def
      total_refunded_def empty_metadata_def empty_db_def)

theorem partial_refunds_never_exceed_charge_witness:
  "\<exists>t\<in>set (db_transactions (partial_refund_run
        [(7, 60, \<lambda>_ _. Inr ''ok''), (7, 50, \<lambda>_ _. Inr ''ok'')] sample_ledger)).
     m_partial_refunds (t_metadata t) = [60] \<and> sum_list (m_partial_refunds (t_metadata t)) \<le> t_amount t"
proof -
  let ?rs = "[(7, 60, \<lambda>_ _. Inr ''ok''), (7, 50, \<lambda>_ _. Inr ''ok'')]"
  let ?t = "sample_txn\<lparr>t_metadata := empty_metadata\<lparr>m_partial_refunds := [60],
                            m_total_refunded := Some 60\<rparr>\<rparr>"
  have t: "?t \<in> set (db_transactions (partial_refund_run ?rs sample_ledger))"
    by (simp add: partialRefundPaystack_run save_transaction_run sample_ledger_def sample_txn_def
        empty_db_def is_checkout_payment_def total_refunded_def empty_metadata_def)
  show ?thesis
    using partial_refunds_never_exceed_charge [OF sample_ledger_wf t] t
    by (intro bexI [of _ ?t]) (auto simp: empty_metadata_def)
qed

section \<open>Creating and finding\<close>

text \<open>An entry that was just created is found again under the reference it was given, whatever
  the request held, and no other entry of a well-formed ledger changes.\<close>

theorem create_then_find:
  assumes "wf_ledger s" and "create_transaction dto s = (Inr t, s')"
  shows "findByReference (t_reference t) s' = (Inr t, s') \<and>
         db_transactions s' = db_transactions s @ [t]"
proof -
  have t: "t = new_transaction dto (db_next s) (Suc (db_next s))"
    and s': "db_transactions s' = db_transactions s @ [t]"
    using assms(2) by (auto simp: create_transaction_run Let_def split: if_splits)
  have "find_one (\<lambda>x. t_reference x = t_reference t) (db_transactions s) = None"
    using assms(1) by (auto simp: t new_transaction_def wf_ledger_def find_one_None_iff)
  with s' show ?thesis
    by (simp add: findByReference_run find_one_append)
qed

definition sample_dto :: create_transaction_dto where
  "sample_dto = \<lparr>ct_initiator = Some 5, ct_amount = 2500, ct_type = DEBIT, ct_status = None,
     ct_wallet = Some 9, ct_order = None, ct_channel = Payout, ct_description = None,
     ct_currency = None, ct_payment_method = None, ct_metadata = None\<rparr>"

theorem create_then_find_witness:
  "\<exists>t s'. create_transaction sample_dto sample_ledger = (Inr t, s') \<and>
     findByReference 3 s' = (Inr t, s') \<and> length (db_transactions s') = 2"
proof -
  let ?t = "new_transaction sample_dto 3 4"
  let ?s' = "snd (create_transaction sample_dto sample_ledger)"
  have run: "create_transaction sample_dto sample_ledger = (Inr ?t, ?s')"
    by (simp add: create_transaction_run Let_def sample_dto_def sample_ledger_def)
  have "t_reference ?t = 3" by (simp add: new_transaction_def)
  with create_then_find [OF sample_ledger_wf run]
  have "findByReference 3 ?s' = (Inr ?t, ?s')" "db_transactions ?s' = [sample_txn, ?t]"
    by (simp_all add: sample_ledger_def)
  with run show ?thesis by (intro exI [of _ ?t] exI [of _ ?s']) simp
qed

text \<open>The channel that the caller asks for is lost: every entry made through \<open>create\<close> is stored
  under the schema's default channel \<open>'checkout'\<close>, a payout and a refund included.\<close>

theorem create_loses_channel:
  assumes "create_transaction dto s = (Inr t, s')"
  shows "t_channel t = Checkout \<and> last (db_transactions s') = t"
  using assms by (auto simp: create_transaction_run Let_def new_transaction_def split: if_splits)

theorem create_loses_channel_witness:
  "ct_channel sample_dto = Payout \<and>
   (\<exists>t s'. create_transaction sample_dto sample_ledger = (Inr t, s') \<and> t_channel t = Checkout)"
proof -
  obtain t s' where run: "create_transaction sample_dto sample_ledger = (Inr t, s')"
    by (simp add: create_transaction_run Let_def sample_dto_def)
  from create_loses_channel [OF run] run show ?thesis by (auto simp: sample_dto_def)
qed

section \<open>Full refunds\<close>

lemma refundPaystackPayment_run:
  "refundPaystackPayment api r s =
     (case find_one (\<lambda>t. t_reference t = r) (db_transactions s) of
        None \<Rightarrow> (Inl (NotFoundException ''Transaction not found''), s)
      | Some tx \<Rightarrow>
          if t_status tx \<noteq> T_SUCCESS
          then (Inl (BadRequestException ''Only successful transactions can be refunded.''), s)
          else if m_refund_status (t_metadata tx) = Some ''success''
          then (Inl (BadRequestException ''This transaction has already been refunded.''), s)
          else (case api r (t_amount tx * 100) of
              Inl e \<Rightarrow> (Inl e, s)
            | Inr status \<Rightarrow> (Inr (m_order_reference (t_metadata tx)), snd (save_transaction
                (tx\<lparr>t_metadata := (t_metadata tx)\<lparr>m_refund_status := Some status,
                      m_refunded_amount := Some (t_amount tx)\<rparr>, t_status := T_REVERSED\<rparr>) s))))"
  by (simp add: refundPaystackPayment_def andThen_app findByReference_run save_transaction_run
      Let_def split: option.splits sum.splits)

text \<open>With distinct identifiers and references, a saved entry is the one found under its reference.\<close>

lemma find_saved:
  assumes wf: "wf_ledger s" and tx: "tx \<in> set (db_transactions s)"
    and eq: "t_id tx' = t_id tx" "t_reference tx' = t_reference tx"
  shows "find_one (\<lambda>t. t_reference t = t_reference tx)
           (db_transactions (snd (save_transaction tx' s))) = Some tx'"
proof -
  let ?ts = "db_transactions s"
  let ?us = "update_one (\<lambda>x. t_id x = t_id tx') (\<lambda>_. tx') ?ts"
  have upd: "?us = map (\<lambda>x. if t_id x = t_id tx' then tx' else x) ?ts"
    using wf by (intro update_one_key_map) (simp add: wf_ledger_def)
  have same: "x = tx" if "x \<in> set ?ts" "t_reference x = t_reference tx" for x
    using wf tx that by (auto simp: wf_ledger_def distinct_map dest: inj_onD)
  have "tx' \<in> set ?us"
    unfolding upd using tx eq by (auto intro: rev_image_eqI)
  then have "find_one (\<lambda>t. t_reference t = t_reference tx) ?us \<noteq> None"
    using eq by (auto simp: find_one_None_iff)
  then obtain y where y: "find_one (\<lambda>t. t_reference t = t_reference tx) ?us = Some y" by blast
  have "y = tx'"
    using find_one_SomeD [OF y] same eq unfolding upd by (auto split: if_splits)
  with y show ?thesis by (simp add: save_transaction_run)
qed

text \<open>A charge is refunded at most once: after a full refund, every later attempt on the same
  reference is refused, asks the gateway for nothing and changes nothing.\<close>

theorem full_refund_only_once:
  assumes "wf_ledger s" and "refundPaystackPayment api r s = (Inr x, s')"
  shows "refundPaystackPayment api' r s' =
           (Inl (BadRequestException ''Only successful transactions can be refunded.''), s')"
proof -
  obtain tx where tx: "find_one (\<lambda>t. t_reference t = r) (db_transactions s) = Some tx"
    using assms(2) by (auto simp: refundPaystackPayment_run split: option.splits)
  with assms(2) obtain status where
    s': "s' = snd (save_transaction (tx\<lparr>t_metadata := (t_metadata tx)\<lparr>
           m_refund_status := Some status, m_refunded_amount := Some (t_amount tx)\<rparr>,
           t_status := T_REVERSED\<rparr>) s)" (is "_ = snd (save_transaction ?tx' s)")
    by (auto simp: refundPaystackPayment_run split: if_splits sum.splits)
  have "find_one (\<lambda>t. t_reference t = r) (db_transactions s') = Some ?tx'"
    using find_one_SomeD [OF tx] find_saved [OF assms(1), of tx ?tx'] s' by simp
  then show ?thesis
    by (simp add: refundPaystackPayment_run)
qed

theorem full_refund_only_once_witness:
  "\<exists>s'. refundPaystackPayment (\<lambda>_ _. Inr ''pending'') 2 sample_ledger = (Inr None, s') \<and>
     refundPaystackPayment (\<lambda>_ _. Inr ''success'') 2 s' =
       (Inl (BadRequestException ''Only successful transactions can be refunded.''), s')"
proof -
  let ?s' = "snd (refundPaystackPayment (\<lambda>_ _. Inr ''pending'') 2 sample_ledger)"
  have run: "refundPaystackPayment (\<lambda>_ _. Inr ''pending'') 2 sample_ledger = (Inr None, ?s')"
    by (simp add: refundPaystackPayment_run sample_ledger_def sample_txn_def empty_metadata_def)
  from full_refund_only_once [OF sample_ledger_wf run] run show ?thesis by blast
qed

text \<open>A full refund ignores the parts already refunded: on a charge with earlier partial refunds
  the gateway is still asked for the whole amount, so the refunds add up to more than the charge.\<close>

theorem full_refund_ignores_partial_refunds:
  assumes "wf_ledger s" and "tx \<in> set (db_transactions s)"
    and "t_status tx = T_SUCCESS" and "m_refund_status (t_metadata tx) = None"
    and "0 < total_refunded tx" and "api (t_reference tx) (t_amount tx * 100) = Inr status"
  shows "\<exists>x s' tx'. refundPaystackPayment api (t_reference tx) s = (Inr x, s') \<and>
           find_one (\<lambda>t. t_reference t = t_reference tx) (db_transactions s') = Some tx' \<and>
           m_refunded_amount (t_metadata tx') = Some (t_amount tx) \<and>
           total_refunded tx' + t_amount tx > t_amount tx'"
proof -
  let ?tx' = "tx\<lparr>t_metadata := (t_metadata tx)\<lparr>m_refund_status := Some status,
                m_refunded_amount := Some (t_amount tx)\<rparr>, t_status := T_REVERSED\<rparr>"
  have "find_one (\<lambda>t. t_reference t = t_reference tx) (db_transactions s) = Some tx"
    using assms(1) find_one_key_eq [of t_reference "db_transactions s" tx, OF _ assms(2)]
    by (simp add: wf_ledger_def)
  moreover have "find_one (\<lambda>t. t_reference t = t_reference tx)
      (db_transactions (snd (save_transaction ?tx' s))) = Some ?tx'"
    using find_saved [OF assms(1,2), of ?tx'] by simp
  ultimately show ?thesis
    using assms(3-) by (simp add: refundPaystackPayment_run total_refunded_def)
qed

definition part_refunded_ledger :: db where
  "part_refunded_ledger = partial_refund_run [(7, 40, \<lambda>_ _. Inr ''ok'')] sample_ledger"

theorem full_refund_ignores_partial_refunds_witness:
  "\<exists>x s' tx'. refundPaystackPayment (\<lambda>_ kobo. if kobo = 10000 then Inr ''ok'' else Inl (ExternalError []))
       2 part_refunded_ledger = (Inr x, s') \<and>
     find_one (\<lambda>t. t_reference t = 2) (db_transactions s') = Some tx' \<and>
     total_refunded tx' + 100 > t_amount tx'"
proof -
  let ?t = "sample_txn\<lparr>t_metadata := empty_metadata\<lparr>m_partial_refunds := [40],
                            m_total_refunded := Some 40\<rparr>\<rparr>"
  let ?api = "\<lambda>_ kobo. if kobo = 10000 then Inr ''ok'' else Inl (ExternalError [])"
  have wf: "wf_ledger part_refunded_ledger"
    unfolding part_refunded_ledger_def by (rule wf_ledger_partial_refund_run [OF sample_ledger_wf])
  have t: "?t \<in> set (db_transactions part_refunded_ledger)"
    by (simp add: part_refunded_ledger_def partialRefundPaystack_run save_transaction_run
        sample_ledger_def sample_txn_def empty_db_def is_checkout_payment_def total_refunded_def
        empty_metadata_def)
  show ?thesis
    using full_refund_ignores_partial_refunds [OF wf t, of ?api "''ok''"]
    by (fastforce simp: sample_txn_def total_refunded_def empty_metadata_def)
qed

end
