(* ===== verification/Wallets.thy ===== *)
theory Wallets
  imports Transactions
begin

text \<open>
  Wallets (\<open>src/modules/wallets/wallets.service.ts\<close>) and the payout they trigger
  (\<open>src/modules/payment/payment.service.ts\<close>). The clock is the argument \<open>now\<close>; Paystack's transfer
  endpoint is the parameter \<open>transfer_api\<close>: the amount in kobo, the recipient and the reference, to
  an error, a body without status or data (\<open>None\<close>), or the status and reference of the transfer.
\<close>

section \<open>Operations\<close>

text \<open>\<open>findOneAndUpdate(filter, update, {new: true})\<close> on the wallets.\<close>

definition update_wallet :: "(wallet \<Rightarrow> bool) \<Rightarrow> (wallet \<Rightarrow> wallet) \<Rightarrow> (db, wallet option) action" where
  "update_wallet P f = (\<lambda>s. (Inr (map_option f (find_one P (db_wallets s))),
     s\<lparr>db_wallets := update_one P f (db_wallets s)\<rparr>))"

definition new_wallet :: "oid option \<Rightarrow> oid option \<Rightarrow> oid \<Rightarrow> wallet" where
  "new_wallet business customer wid =
     \<lparr>w_id = wid, w_business = business, w_customer = customer, w_balance = 0,
      w_pending_balance = 0, w_currency = ''NGN'', w_last_transaction_at = None,
      w_status = Wallet_active, w_account_number = None, w_account_name = None, w_bank_name = None\<rparr>"

definition find_wallet :: "oid option \<Rightarrow> oid option \<Rightarrow> db \<Rightarrow> wallet option" where
  "find_wallet business customer s =
     (let by_business = (case business of None \<Rightarrow> None
            | Some b \<Rightarrow> find_one (\<lambda>w. w_business w = Some b) (db_wallets s))
      in case by_business of
           Some w \<Rightarrow> Some w
         | None \<Rightarrow> (case customer of None \<Rightarrow> None
              | Some c \<Rightarrow> find_one (\<lambda>w. w_customer w = Some c) (db_wallets s)))"

definition getOrCreateWallet :: "oid option \<Rightarrow> oid option \<Rightarrow> (db, wallet) action" where
  "getOrCreateWallet business customer =
     (if business = None \<and> customer = None
      then throw (BadRequestException ''business or customer is required'')
      else andThen (gets (find_wallet business customer)) (\<lambda>found. case found of
          Some w \<Rightarrow> ret w
        | None \<Rightarrow> andThen fresh (\<lambda>wid.
            let w = new_wallet business customer wid
            in andThen (modify (\<lambda>s. s\<lparr>db_wallets := db_wallets s @ [w]\<rparr>)) (\<lambda>_. ret w))))"

definition getWallet :: "oid option \<Rightarrow> oid option \<Rightarrow> (db, wallet) action" where
  "getWallet customerId businessId = getOrCreateWallet businessId customerId"

definition inc_balance :: "instant \<Rightarrow> rat \<Rightarrow> wallet \<Rightarrow> wallet" where
  "inc_balance now amount w =
     w\<lparr>w_balance := w_balance w + amount, w_last_transaction_at := Some now\<rparr>"

definition creditWallet :: "instant \<Rightarrow> oid \<Rightarrow> rat \<Rightarrow> (db, wallet) action" where
  "creditWallet now walletId amount =
     andThen (update_wallet (\<lambda>w. w_id w = walletId) (inc_balance now amount)) (\<lambda>r. case r of
         None \<Rightarrow> throw (NotFoundException ''Wallet not found'')
       | Some w \<Rightarrow> ret w)"

definition debitWallet :: "instant \<Rightarrow> oid \<Rightarrow> rat \<Rightarrow> (db, wallet) action" where
  "debitWallet now walletId amount =
     andThen (update_wallet (\<lambda>w. w_id w = walletId \<and> w_balance w \<ge> amount) (inc_balance now (- amount)))
       (\<lambda>r. case r of
         Some w \<Rightarrow> ret w
       | None \<Rightarrow> andThen (gets (\<lambda>s. exists_doc (\<lambda>w. w_id w = walletId) (db_wallets s))) (\<lambda>present.
           if \<not> present then throw (NotFoundException ''Wallet not found'')
           else throw (BadRequestException ''Insufficient balance'')))"

definition reconcile :: "instant \<Rightarrow> rat \<Rightarrow> rat \<Rightarrow> wallet \<Rightarrow> wallet" where
  "reconcile now pendingDelta balanceDelta w =
     w\<lparr>w_pending_balance := max 0 (w_pending_balance w + pendingDelta),
       w_balance := max 0 (w_balance w + balanceDelta), w_last_transaction_at := Some now\<rparr>"

definition reconcileBusinessWallet ::
  "instant \<Rightarrow> oid \<Rightarrow> rat option \<Rightarrow> rat option \<Rightarrow> (db, wallet option) action" where
  "reconcileBusinessWallet now businessId pending balance =
     (let pendingDelta = nullish pending 0; balanceDelta = nullish balance 0
      in if pendingDelta = 0 \<and> balanceDelta = 0 then ret None
         else andThen (gets (\<lambda>s. find_one (\<lambda>w. w_business w = Some businessId) (db_wallets s))) (\<lambda>r.
           case r of
             None \<Rightarrow> ret None
           | Some w \<Rightarrow>
               let w' = reconcile now pendingDelta balanceDelta w
               in andThen (modify (\<lambda>s. s\<lparr>db_wallets :=
                      update_one (\<lambda>x. w_id x = w_id w) (\<lambda>_. w') (db_wallets s)\<rparr>)) (\<lambda>_. ret (Some w'))))"

text \<open>\<open>fundWallet\<close> records the pending top-up; \<open>initialize\<close> stands for Paystack's checkout.\<close>

definition fundWallet ::
  "(oid \<Rightarrow> (db, 'url) action) \<Rightarrow> rat \<Rightarrow> oid option \<Rightarrow> oid option \<Rightarrow> (db, oid \<times> oid \<times> 'url) action" where
  "fundWallet initialize amount customerId businessId =
     andThen (getOrCreateWallet businessId customerId) (\<lambda>w.
     andThen (create_transaction \<lparr>ct_initiator = w_customer w, ct_amount = amount, ct_type = FUND,
         ct_status = None, ct_wallet = Some (w_id w), ct_order = None, ct_channel = Wallet_topup,
         ct_description = Some ''Funding wallet'', ct_currency = None, ct_payment_method = None,
         ct_metadata = None\<rparr>) (\<lambda>t.
     andThen (initialize (t_reference t)) (\<lambda>url. ret (w_id w, t_id t, url))))"

section \<open>Payouts and withdrawals\<close>

type_synonym transfer_api = "rat \<Rightarrow> string \<Rightarrow> oid \<Rightarrow> error + (string \<times> oid) option"

definition find_business :: "oid \<Rightarrow> db \<Rightarrow> business option" where
  "find_business businessId s = find_one (\<lambda>b. b_id b = businessId) (db_businesses s)"

definition payout_entry :: "business \<Rightarrow> rat \<Rightarrow> string option \<Rightarrow> create_transaction_dto" where
  "payout_entry b amount reason =
     \<lparr>ct_initiator = Some (b_id b), ct_amount = amount, ct_type = DEBIT, ct_status = Some T_PENDING,
      ct_wallet = None, ct_order = None, ct_channel = Payout,
      ct_description = Some (nullish reason (''Payout for '' @ b_business_name b)),
      ct_currency = None, ct_payment_method = None, ct_metadata = None\<rparr>"

definition transfer :: "transfer_api \<Rightarrow> rat \<Rightarrow> string \<Rightarrow> oid \<Rightarrow> error + oid" where
  "transfer transfer_api amount recipient reference =
     (case transfer_api (js_round (amount * 100)) recipient reference of
        Inl e \<Rightarrow> Inl e
      | Inr None \<Rightarrow> Inl (BadRequestException ''Failed to send payout'')
      | Inr (Some (status, payout_reference)) \<Rightarrow>
          if status = ''otp'' then Inl (BadRequestException ''Payouts require an OTP on this Paystack account.'')
          else if status \<notin> {''success'', ''pending''}
          then Inl (BadRequestException ''Payout could not be sent'')
          else Inr payout_reference)"

definition recipient_code :: "business \<Rightarrow> string option" where
  "recipient_code b = (if truthy_string (b_transfer_recipient_code b) then b_transfer_recipient_code b else None)"

definition sendPayout ::
  "transfer_api \<Rightarrow> oid \<Rightarrow> rat \<Rightarrow> string option \<Rightarrow> oid option \<Rightarrow> (db, oid) action" where
  "sendPayout transfer_api businessId amount reason existingReference =
     andThen (gets (find_business businessId)) (\<lambda>b. case b of
         None \<Rightarrow> throw (NotFoundException ''Vendor not found'')
       | Some b \<Rightarrow> (case recipient_code b of
           None \<Rightarrow> throw (BadRequestException ''Vendor does not have a transfer recipient'')
         | Some code \<Rightarrow>
             andThen (case existingReference of
                 Some r \<Rightarrow> ret r
               | None \<Rightarrow> andThen (create_transaction (payout_entry b amount reason)) (\<lambda>t.
                           ret (t_reference t))) (\<lambda>reference.
             case transfer transfer_api amount code reference of
               Inl e \<Rightarrow> throw e
             | Inr r \<Rightarrow> ret r)))"

definition withdrawal_entry :: "business \<Rightarrow> wallet \<Rightarrow> rat \<Rightarrow> create_transaction_dto" where
  "withdrawal_entry b w amount =
     \<lparr>ct_initiator = b_created_by b, ct_amount = amount, ct_type = DEBIT, ct_status = Some T_PENDING,
      ct_wallet = Some (w_id w), ct_order = None, ct_channel = Payout,
      ct_description = Some (''Withdrawal request for '' @ b_business_name b), ct_currency = None,
      ct_payment_method = None, ct_metadata = Some (empty_metadata\<lparr>m_business_id := Some (b_id b)\<rparr>)\<rparr>"

fun withdrawal_failure :: "error \<Rightarrow> string" where
  "withdrawal_failure (BadRequestException msg) = msg"
| "withdrawal_failure _ = ''Please try again later.''"

definition undo_withdrawal :: "instant \<Rightarrow> oid \<Rightarrow> rat \<Rightarrow> oid \<Rightarrow> error \<Rightarrow> (db, 'a) action" where
  "undo_withdrawal now walletId amount reference err =
     andThen (creditWallet now walletId amount) (\<lambda>_.
     andThen (attempt (andThen (updateStatus reference T_FAILED) (\<lambda>_. ret ())) (\<lambda>_. ret ())) (\<lambda>_.
     throw (BadRequestException (''Withdrawal failed and your wallet has been restored. '' @
       withdrawal_failure err))))"

definition requestWithdrawal :: "transfer_api \<Rightarrow> instant \<Rightarrow> oid \<Rightarrow> rat \<Rightarrow> (db, oid \<times> rat) action" where
  "requestWithdrawal transfer_api now businessId amount =
     andThen (gets (setting minimum_payout 2000)) (\<lambda>minPayout.
     if amount < minPayout then throw (BadRequestException ''Minimum withdrawal'')
     else andThen (gets (\<lambda>s. find_one (\<lambda>w. w_business w = Some businessId) (db_wallets s))) (\<lambda>wallet.
     case wallet of
       None \<Rightarrow> throw (NotFoundException ''Vendor wallet not found'')
     | Some w \<Rightarrow>
         if w_balance w < amount then throw (BadRequestException ''Insufficient wallet balance.'')
         else andThen (gets (find_business businessId)) (\<lambda>business.
         case business of
           None \<Rightarrow> throw (BadRequestException ''Please link a bank account before withdrawing.'')
         | Some b \<Rightarrow> (case recipient_code b of
             None \<Rightarrow> throw (BadRequestException ''Please link a bank account before withdrawing.'')
           | Some _ \<Rightarrow>
               andThen (debitWallet now (w_id w) amount) (\<lambda>_.
               andThen (create_transaction (withdrawal_entry b w amount)) (\<lambda>t.
               andThen (attempt
                   (andThen (sendPayout transfer_api businessId amount
                       (Some (''Withdrawal for '' @ b_business_name b)) (Some (t_reference t))) (\<lambda>_. ret ()))
                   (undo_withdrawal now (w_id w) amount (t_reference t))) (\<lambda>_.
               ret (t_reference t, amount))))))))"

section \<open>Balances\<close>

definition wf_wallets :: "db \<Rightarrow> bool" where
  "wf_wallets s \<longleftrightarrow> distinct (map w_id (db_wallets s)) \<and> (\<forall>w\<in>set (db_wallets s). w_id w < db_next s)"

definition balance_of :: "db \<Rightarrow> oid \<Rightarrow> rat option" where
  "balance_of s wid = map_option w_balance (find_one (\<lambda>w. w_id w = wid) (db_wallets s))"

lemma inc_balance_simps [simp]:
  "w_id (inc_balance now a w) = w_id w"
  "w_balance (inc_balance now a w) = w_balance w + a"
  "w_pending_balance (inc_balance now a w) = w_pending_balance w"
  "w_business (inc_balance now a w) = w_business w"
  "w_customer (inc_balance now a w) = w_customer w"
  by (simp_all add: inc_balance_def)

interpretation balance_field: counter_field w_id w_balance "inc_balance now" for now
  by unfold_locales simp_all

lemma creditWallet_run:
  "creditWallet now wid a s =
     (case find_one (\<lambda>w. w_id w = wid) (db_wallets s) of
        None \<Rightarrow> (Inl (NotFoundException ''Wallet not found''), s)
      | Some w \<Rightarrow> (Inr (inc_balance now a w), s\<lparr>db_wallets :=
          update_one (\<lambda>w. w_id w = wid) (inc_balance now a) (db_wallets s)\<rparr>))"
  by (auto simp: creditWallet_def andThen_app update_wallet_def find_one_None_iff update_one_id
      split: option.splits dest: find_one_SomeD)

lemma debitWallet_run:
  assumes "wf_wallets s"
  shows "debitWallet now wid a s =
     (case find_one (\<lambda>w. w_id w = wid) (db_wallets s) of
        None \<Rightarrow> (Inl (NotFoundException ''Wallet not found''), s)
      | Some w \<Rightarrow> if a \<le> w_balance w
          then (Inr (inc_balance now (- a) w), s\<lparr>db_wallets :=
                  update_one (\<lambda>w. w_id w = wid) (inc_balance now (- a)) (db_wallets s)\<rparr>)
          else (Inl (BadRequestException ''Insufficient balance''), s))"
proof -
  have "distinct (map w_id (db_wallets s))" using assms by (simp add: wf_wallets_def)
  note guarded = find_one_guarded [OF one_match_key [OF this]] update_one_guarded [OF one_match_key [OF this]]
  show ?thesis
    by (auto simp: debitWallet_def andThen_app update_wallet_def exists_doc_def guarded
        split: option.splits)
qed

lemma wf_wallets_inc:
  "wf_wallets s \<Longrightarrow>
   wf_wallets (s\<lparr>db_wallets := update_one (\<lambda>w. w_id w = wid) (inc_balance now a) (db_wallets s)\<rparr>)"
  by (auto simp: wf_wallets_def balance_field.inc_keys dest!: subsetD [OF set_update_one])

lemma balance_inc:
  "balance_of (s\<lparr>db_wallets := update_one (\<lambda>w. w_id w = wid) (inc_balance now a) (db_wallets s)\<rparr>) =
     (case balance_of s wid of None \<Rightarrow> balance_of s | Some b \<Rightarrow> (balance_of s)(wid \<mapsto> b + a))"
  by (rule ext) (auto simp: balance_of_def balance_field.inc_find split: option.splits)

interpretation wallet_balance: guarded_balance wf_wallets balance_of "creditWallet now" "debitWallet now"
  for now
proof
  show "wf_wallets (snd (creditWallet now a x s))" if "wf_wallets s" "0 < x" for s a x
    using that by (auto simp: creditWallet_run wf_wallets_inc split: option.splits)
  show "wf_wallets (snd (debitWallet now a x s))" if "wf_wallets s" "0 < x" for s a x
    using that by (auto simp: debitWallet_run wf_wallets_inc split: option.splits)
  show "balance_of (snd (creditWallet now a x s)) =
      (case balance_of s a of None \<Rightarrow> balance_of s | Some b \<Rightarrow> (balance_of s)(a \<mapsto> b + x))"
    if "wf_wallets s" "0 < x" for s a x
    by (auto simp: creditWallet_run balance_inc split: option.splits) (simp_all add: balance_of_def)
  show "(\<not> isl (fst (debitWallet now a x s))) = (\<exists>b. balance_of s a = Some b \<and> x \<le> b)"
    if "wf_wallets s" "0 < x" for s a x
    using that by (auto simp: debitWallet_run balance_of_def split: option.splits)
  show "balance_of (snd (debitWallet now a x s)) =
      (case balance_of s a of None \<Rightarrow> balance_of s
       | Some b \<Rightarrow> if x \<le> b then (balance_of s)(a \<mapsto> b - x) else balance_of s)"
    if "wf_wallets s" "0 < x" for s a x
    using that
    by (auto simp: debitWallet_run balance_inc split: option.splits) (simp_all add: balance_of_def)
qed

section \<open>Properties\<close>

text \<open>C23: credits and debits of wallets may arrive in any order and any number: no balance goes below
  zero, and every wallet ends with its first balance plus the credits less the accepted debits.\<close>

theorem wallets_never_overdrawn:
  assumes "wf_wallets s" and "\<forall>m\<in>set ms. 0 < movement_amount m"
    and "\<forall>a b. balance_of s a = Some b \<longrightarrow> 0 \<le> b"
    and "run_movements (creditWallet now) (debitWallet now) ms s = (accepted, s')"
    and "balance_of s wid = Some b"
  shows "balance_of s' wid = Some (b + deposited wid ms - withdrawn wid accepted) \<and>
         withdrawn wid accepted \<le> b + deposited wid ms"
  using wallet_balance.accounts_add_up [OF assms(1,2,5), of now]
    wallet_balance.withdrawals_bounded [OF assms(1-3,5), of now] assms(4) by simp

definition sample_wallet :: wallet where
  "sample_wallet = (new_wallet (Some 8) None 1)\<lparr>w_balance := 5000\<rparr>"

definition sample_business :: business where
  "sample_business = \<lparr>b_id = 8, b_business_name = ''Ade'', b_created_by = Some 6,
     b_transfer_recipient_code = Some ''RCP'', b_accepts_external_fabric = None,
     b_lifetime_paid_out = None, b_last_payout_date = None, b_payout_history = []\<rparr>"

definition sample_shop :: db where
  "sample_shop = empty_db\<lparr>db_wallets := [sample_wallet], db_businesses := [sample_business],
     db_next := 10\<rparr>"

lemma sample_shop_wf: "wf_wallets sample_shop" "wf_ledger sample_shop"
  by (simp_all add: sample_shop_def sample_wallet_def new_wallet_def wf_wallets_def wf_ledger_def
      empty_db_def)

lemma sample_shop_balance: "balance_of sample_shop a = (if a = 1 then Some 5000 else None)"
  by (simp add: balance_of_def sample_shop_def sample_wallet_def new_wallet_def)

theorem wallets_never_overdrawn_witness:
  "\<exists>s'. run_movements (creditWallet 0) (debitWallet 0)
          [Withdraw 1 4000, Withdraw 1 2000, Deposit 1 500, Withdraw 1 1500] sample_shop =
          ([Withdraw 1 4000, Deposit 1 500, Withdraw 1 1500], s') \<and> balance_of s' 1 = Some 0"
proof -
  let ?ms = "[Withdraw 1 4000, Withdraw 1 2000, Deposit 1 500, Withdraw 1 1500] :: oid movement list"
  let ?acc = "[Withdraw 1 4000, Deposit 1 500, Withdraw 1 1500] :: oid movement list"
  let ?r = "run_movements (creditWallet 0) (debitWallet 0) ?ms sample_shop"
  have acc: "fst ?r = ?acc"
    by (simp add: sample_shop_def sample_wallet_def new_wallet_def creditWallet_run
        debitWallet_run wf_wallets_def balance_field.inc_find empty_db_def)
  have "balance_of (snd ?r) 1 = Some (5000 + deposited 1 ?ms - withdrawn 1 ?acc)"
    using wallets_never_overdrawn [OF sample_shop_wf(1), of ?ms 0 ?acc "snd ?r" 1 5000] acc
    by (simp add: sample_shop_balance prod_eq_iff)
  with acc show ?thesis
    by (intro exI [of _ "snd ?r"]) (simp add: prod_eq_iff)
qed

lemma transfer_existing_frame:
  "snd (sendPayout api b a reason (Some r) s) = s"
  by (simp add: sendPayout_def andThen_app split: option.splits sum.splits)

lemma balance_of_frame [simp]:
  "balance_of (s\<lparr>db_transactions := ts\<rparr>) = balance_of s" "balance_of (s\<lparr>db_next := n\<rparr>) = balance_of s"
  by (rule ext, simp add: balance_of_def)+

lemma undo_withdrawal_run:
  assumes "find_one (\<lambda>w. w_id w = wid) (db_wallets s) = Some w"
    and "find_one (\<lambda>t. t_reference t = r) (db_transactions s) = Some t"
  shows "undo_withdrawal now wid a r err s =
     (Inl (BadRequestException (''Withdrawal failed and your wallet has been restored. '' @
        withdrawal_failure err)),
      s\<lparr>db_wallets := update_one (\<lambda>w. w_id w = wid) (inc_balance now a) (db_wallets s),
        db_transactions := update_one (\<lambda>x. t_id x = t_id t) (\<lambda>_. t\<lparr>t_status := T_FAILED\<rparr>)
          (db_transactions s)\<rparr>)"
  using assms by (simp add: undo_withdrawal_def andThen_app creditWallet_run attempt_app updateStatus_run)

text \<open>The state in which the transfer is asked for: the wallet debited and the entry recorded.\<close>

definition withdrawal_started :: "instant \<Rightarrow> business \<Rightarrow> wallet \<Rightarrow> rat \<Rightarrow> db \<Rightarrow> db" where
  "withdrawal_started now b w amount s = s\<lparr>
     db_wallets := update_one (\<lambda>x. w_id x = w_id w) (inc_balance now (- amount)) (db_wallets s),
     db_next := Suc (Suc (db_next s)),
     db_transactions := db_transactions s @
       [new_transaction (withdrawal_entry b w amount) (db_next s) (Suc (db_next s))]\<rparr>"

lemma requestWithdrawal_cases:
  assumes wf: "wf_wallets s" "wf_ledger s" and pos: "0 \<le> amount"
  obtains (refused) e where "requestWithdrawal api now bid amount s = (Inl e, s)"
    | (started) w b where "find_one (\<lambda>w. w_business w = Some bid) (db_wallets s) = Some w"
        "amount \<le> w_balance w" "find_business bid s = Some b"
        "requestWithdrawal api now bid amount s =
           (let s1 = withdrawal_started now b w amount s in
            case fst (sendPayout api bid amount (Some (''Withdrawal for '' @ b_business_name b))
                        (Some (db_next s)) s1) of
              Inl e \<Rightarrow> undo_withdrawal now (w_id w) amount (db_next s) e s1
            | Inr _ \<Rightarrow> (Inr (db_next s, amount), s1))"
proof (cases "find_one (\<lambda>w. w_business w = Some bid) (db_wallets s)")
  case None
  then have "\<exists>e. requestWithdrawal api now bid amount s = (Inl e, s)"
    by (simp add: requestWithdrawal_def andThen_app)
  with refused show thesis by blast
next
  case (Some w)
  let ?ok = "\<not> amount < setting minimum_payout 2000 s \<and> \<not> w_balance w < amount \<and>
    (\<exists>b. find_business bid s = Some b \<and> recipient_code b \<noteq> None)"
  have w: "find_one (\<lambda>x. w_id x = w_id w) (db_wallets s) = Some w"
    using find_one_SomeD [OF Some] find_one_key_eq [of w_id] wf(1) by (auto simp: wf_wallets_def)
  show thesis
  proof (cases ?ok)
    case False
    with Some have "\<exists>e. requestWithdrawal api now bid amount s = (Inl e, s)"
      by (auto simp: requestWithdrawal_def andThen_app split: option.splits)
    with refused show thesis by blast
  next
    case True
    then obtain b where b: "find_business bid s = Some b" "recipient_code b \<noteq> None" by blast
    let ?s1 = "withdrawal_started now b w amount s"
    let ?pay = "sendPayout api bid amount (Some (''Withdrawal for '' @ b_business_name b))
                  (Some (db_next s)) ?s1"
    have pay: "?pay = (fst ?pay, ?s1)"
      by (simp add: prod_eq_iff transfer_existing_frame)
    let ?m = "sendPayout api bid amount (Some (''Withdrawal for '' @ b_business_name b)) (Some (db_next s))"
    obtain w' s' where debit: "debitWallet now (w_id w) amount s = (Inr w', s')"
        "s' = s\<lparr>db_wallets :=
           update_one (\<lambda>x. w_id x = w_id w) (inc_balance now (- amount)) (db_wallets s)\<rparr>"
      using True w by (simp add: debitWallet_run [OF wf(1)])
    obtain t where created: "create_transaction (withdrawal_entry b w amount) s' = (Inr t, ?s1)"
        "t_reference t = db_next s"
      using pos
      by (simp add: create_transaction_run debit(2) Let_def withdrawal_started_def withdrawal_entry_def
          new_transaction_def)
    have "requestWithdrawal api now bid amount s =
        andThen (attempt (andThen ?m (\<lambda>_. ret ())) (undo_withdrawal now (w_id w) amount (db_next s)))
          (\<lambda>_. ret (db_next s, amount)) ?s1"
      using Some True b debit(1) created
      by (auto simp: requestWithdrawal_def andThen_app)
    also have "\<dots> = (case fst ?pay of
        Inl e \<Rightarrow> undo_withdrawal now (w_id w) amount (db_next s) e ?s1
      | Inr _ \<Rightarrow> (Inr (db_next s, amount), ?s1))"
      using pay
      by (cases "fst ?pay")
        (auto simp del: append.simps simp: andThen_app attempt_app undo_withdrawal_def
          split: sum.splits prod.splits)
    finally have "requestWithdrawal api now bid amount s =
        (case fst ?pay of Inl e \<Rightarrow> undo_withdrawal now (w_id w) amount (db_next s) e ?s1
         | Inr _ \<Rightarrow> (Inr (db_next s, amount), ?s1))" .
    with Some True b show thesis by (intro started [of w b]) (auto simp: Let_def)
  qed
qed

lemma balance_withdrawal_started:
  assumes "balance_of s (w_id w) = Some b0"
  shows "balance_of (withdrawal_started now b w amount s) = (balance_of s)(w_id w \<mapsto> b0 - amount)"
  using assms by (simp add: withdrawal_started_def balance_inc)

lemma balance_of_found:
  assumes "wf_wallets s" and "find_one (\<lambda>w. w_business w = Some bid) (db_wallets s) = Some w"
  shows "find_one (\<lambda>x. w_id x = w_id w) (db_wallets s) = Some w \<and> balance_of s (w_id w) = Some (w_balance w)"
  using assms find_one_key_eq [of w_id "db_wallets s" w] find_one_SomeD [OF assms(2)]
  by (simp add: wf_wallets_def balance_of_def)

lemma withdrawal_undone:
  assumes wf: "wf_wallets s" "wf_ledger s"
    and w: "find_one (\<lambda>x. w_id x = w_id w) (db_wallets s) = Some w"
  shows "\<exists>t. undo_withdrawal now (w_id w) amount (db_next s) e (withdrawal_started now b w amount s) =
       (Inl (BadRequestException (''Withdrawal failed and your wallet has been restored. '' @
          withdrawal_failure e)),
        (withdrawal_started now b w amount s)\<lparr>
          db_wallets := update_one (\<lambda>x. w_id x = w_id w) (inc_balance now amount)
            (db_wallets (withdrawal_started now b w amount s)),
          db_transactions := db_transactions s @ [t]\<rparr>) \<and>
     t_status t = T_FAILED \<and> t_amount t = amount"
proof -
  let ?s1 = "withdrawal_started now b w amount s"
  let ?t = "new_transaction (withdrawal_entry b w amount) (db_next s) (Suc (db_next s))"
  have "find_one (\<lambda>x. w_id x = w_id w) (db_wallets ?s1) = Some (inc_balance now (- amount) w)"
    using w by (simp add: withdrawal_started_def balance_field.inc_find)
  moreover have "find_one (\<lambda>t. t_reference t = db_next s) (db_transactions ?s1) = Some ?t"
  proof -
    have "find_one (\<lambda>t. t_reference t = db_next s) (db_transactions s) = None"
      using wf(2) by (auto simp: wf_ledger_def find_one_None_iff)
    then show ?thesis
      by (simp add: withdrawal_started_def find_one_append new_transaction_def)
  qed
  moreover have "update_one (\<lambda>x. t_id x = t_id ?t) f (db_transactions ?s1) =
      db_transactions s @ [f ?t]" for f
  proof -
    have "find_one (\<lambda>x. t_id x = Suc (db_next s)) (db_transactions s) = None"
      using wf(2) by (force simp: wf_ledger_def find_one_None_iff)
    then show ?thesis
      by (simp add: withdrawal_started_def new_transaction_def update_one_append)
  qed
  ultimately show ?thesis
    by (intro exI [of _ "?t\<lparr>t_status := T_FAILED\<rparr>"])
      (simp add: undo_withdrawal_run new_transaction_def withdrawal_entry_def)
qed

text \<open>C3: a withdrawal takes effect entirely or not at all. When it succeeds the vendor's wallet held
  the amount and is lower by exactly the amount, and one pending debit entry for it is added. When
  it fails, at any point, every wallet has the balance it had, and at most one entry, marked failed,
  has been added.\<close>

theorem withdrawal_all_or_nothing:
  assumes "wf_wallets s" and "wf_ledger s" and "0 \<le> amount"
    and "requestWithdrawal transfer_api now bid amount s = (r, s')"
  shows "case r of
      Inr (reference, a) \<Rightarrow> (\<exists>w t. find_one (\<lambda>w. w_business w = Some bid) (db_wallets s) = Some w \<and>
          amount \<le> w_balance w \<and> balance_of s' = (balance_of s)(w_id w \<mapsto> w_balance w - amount) \<and>
          db_transactions s' = db_transactions s @ [t] \<and> t_reference t = reference \<and>
          t_type t = DEBIT \<and> t_status t = T_PENDING \<and> t_amount t = amount)
    | Inl e \<Rightarrow> balance_of s' = balance_of s \<and>
        (db_transactions s' = db_transactions s \<or>
         (\<exists>t. db_transactions s' = db_transactions s @ [t] \<and> t_status t = T_FAILED))"
proof (rule requestWithdrawal_cases [OF assms(1-3), of transfer_api now bid], goal_cases refused started)
  case refused
  with assms(4) show ?thesis by auto
next
  case (started w b)
  note w = balance_of_found [OF assms(1) started(1)]
  let ?s1 = "withdrawal_started now b w amount s"
  have bal1: "balance_of ?s1 = (balance_of s)(w_id w \<mapsto> w_balance w - amount)"
    using w by (intro balance_withdrawal_started) simp
  consider (failed) e where "(r, s') = undo_withdrawal now (w_id w) amount (db_next s) e ?s1"
    | (sent) "(r, s') = (Inr (db_next s, amount), ?s1)"
    using started(4) assms(4) by (auto simp: Let_def split: sum.splits)
  then show ?thesis
  proof cases
    case failed
    obtain t where undone: "(undo_withdrawal now (w_id w) amount (db_next s) e :: (db, oid \<times> rat) action) ?s1 =
       (Inl (BadRequestException (''Withdrawal failed and your wallet has been restored. '' @
          withdrawal_failure e)),
        ?s1\<lparr>db_wallets := update_one (\<lambda>x. w_id x = w_id w) (inc_balance now amount) (db_wallets ?s1),
          db_transactions := db_transactions s @ [t]\<rparr>)" "t_status t = T_FAILED"
      using withdrawal_undone [OF assms(1,2) conjunct1 [OF w], of now amount e b] by blast
    have res: "isl r" "s' = ?s1\<lparr>db_wallets :=
        update_one (\<lambda>x. w_id x = w_id w) (inc_balance now amount) (db_wallets ?s1),
        db_transactions := db_transactions s @ [t]\<rparr>"
      using trans [OF failed undone(1)] by simp_all
    have "balance_of s' = balance_of s"
      using w bal1 balance_inc [of "w_id w" now amount ?s1] by (simp add: res(2) fun_upd_idem)
    with res undone(2) show ?thesis by (cases r) auto
  next
    case sent
    with started(1,2) bal1 show ?thesis
      by (simp add: withdrawal_started_def new_transaction_def withdrawal_entry_def)
  qed
qed

theorem withdrawal_all_or_nothing_witness:
  "\<exists>s1 s2. requestWithdrawal (\<lambda>_ _ r. Inr (Some (''pending'', r))) 0 8 3000 sample_shop = (Inr (10, 3000), s1) \<and>
     balance_of s1 1 = Some 2000 \<and>
     requestWithdrawal (\<lambda>_ _ _. Inr None) 0 8 3000 sample_shop =
       (Inl (BadRequestException ''Withdrawal failed and your wallet has been restored. Failed to send payout''), s2) \<and>
     balance_of s2 1 = Some 5000"
proof -
  let ?good = "requestWithdrawal (\<lambda>_ _ r. Inr (Some (''pending'', r))) 0 8 3000 sample_shop"
  let ?bad = "requestWithdrawal (\<lambda>_ _ _. Inr None) 0 8 3000 sample_shop"
  note run = requestWithdrawal_def andThen_app setting_def sample_shop_def sample_wallet_def
    new_wallet_def empty_db_def sample_business_def find_business_def debitWallet_run wf_wallets_def recipient_code_def truthy_string_def
    create_transaction_run withdrawal_entry_def Let_def new_transaction_def attempt_app sendPayout_def
    transfer_def undo_withdrawal_def creditWallet_run updateStatus_run inc_balance_def
  have "fst ?good = Inr (10, 3000)" by (simp add: run)
  then have good: "?good = (Inr (10, 3000), snd ?good)" by (simp add: prod_eq_iff)
  have "fst ?bad = Inl (BadRequestException
      ''Withdrawal failed and your wallet has been restored. Failed to send payout'')"
    by (simp add: run)
  then have bad: "?bad = (Inl (BadRequestException
      ''Withdrawal failed and your wallet has been restored. Failed to send payout''), snd ?bad)"
    by (simp add: prod_eq_iff)
  have w: "find_one (\<lambda>w. w_business w = Some 8) (db_wallets sample_shop) = Some sample_wallet"
    by (simp add: sample_shop_def sample_wallet_def new_wallet_def)
  have one: "w_id sample_wallet = 1" "w_balance sample_wallet = 5000"
    by (simp_all add: sample_wallet_def new_wallet_def)
  have "balance_of (snd ?good) 1 = Some 2000"
    using withdrawal_all_or_nothing [OF sample_shop_wf _ good] w one by auto
  moreover have "balance_of (snd ?bad) 1 = Some 5000"
    using withdrawal_all_or_nothing [OF sample_shop_wf _ bad] sample_shop_balance [of 1] by auto
  ultimately show ?thesis using good bad by blast
qed

text \<open>\<open>getOrCreateWallet\<close> is idempotent: asked again for the same owner it finds the wallet that
  the first call returned and creates nothing; a wallet is added only when the owner had none.\<close>

theorem getOrCreateWallet_idempotent:
  assumes "getOrCreateWallet business customer s = (Inr w, s')"
  shows "getOrCreateWallet business customer s' = (Inr w, s') \<and>
         (case find_wallet business customer s of
            Some w' \<Rightarrow> w' = w \<and> s' = s
          | None \<Rightarrow> w = new_wallet business customer (db_next s) \<and> db_wallets s' = db_wallets s @ [w])"
  using assms
  by (cases business; cases customer)
    (auto simp: getOrCreateWallet_def andThen_app find_wallet_def Let_def find_one_append new_wallet_def
      split: option.splits)

theorem getOrCreateWallet_idempotent_witness:
  "\<exists>w s'. getOrCreateWallet None (Some 4) sample_shop = (Inr w, s') \<and> w_id w = 10 \<and>
     getOrCreateWallet None (Some 4) s' = (Inr w, s')"
proof -
  let ?r = "getOrCreateWallet None (Some 4) sample_shop"
  let ?w = "new_wallet None (Some 4) 10"
  have run: "?r = (Inr ?w, snd ?r)"
    by (simp add: getOrCreateWallet_def andThen_app find_wallet_def Let_def sample_shop_def
        sample_wallet_def new_wallet_def)
  have "w_id ?w = 10" by (simp add: new_wallet_def)
  with getOrCreateWallet_idempotent [OF run] run show ?thesis by blast
qed

text \<open>Reconciling moves both buckets of the business wallet by the deltas, stopping at zero, and
  touches no other wallet; a business without wallet, or deltas that are both zero, change nothing.\<close>

theorem reconcile_clamps:
  assumes "wf_wallets s"
    and "reconcileBusinessWallet now bid pending balance s = (r, s')"
  shows "case find_one (\<lambda>w. w_business w = Some bid) (db_wallets s) of
      None \<Rightarrow> s' = s
    | Some w \<Rightarrow> if nullish pending 0 = 0 \<and> nullish balance 0 = 0 then s' = s
        else (\<exists>w'. find_one (\<lambda>x. w_id x = w_id w) (db_wallets s') = Some w' \<and>
          w_balance w' = max 0 (w_balance w + nullish balance 0) \<and>
          w_pending_balance w' = max 0 (w_pending_balance w + nullish pending 0) \<and>
          (\<forall>wid. wid \<noteq> w_id w \<longrightarrow> find_one (\<lambda>x. w_id x = wid) (db_wallets s') =
                                   find_one (\<lambda>x. w_id x = wid) (db_wallets s)))"
proof (cases "find_one (\<lambda>w. w_business w = Some bid) (db_wallets s)")
  case None
  with assms(2) show ?thesis
    by (auto simp: reconcileBusinessWallet_def andThen_app Let_def split: if_splits)
next
  case (Some w)
  let ?w' = "reconcile now (nullish pending 0) (nullish balance 0) w"
  have id: "w_id ?w' = w_id w" by (simp add: reconcile_def)
  have "find_one (\<lambda>x. w_id x = w_id w) (update_one (\<lambda>x. w_id x = w_id w) (\<lambda>_. ?w') (db_wallets s)) = Some ?w'"
    using balance_of_found [OF assms(1) Some] id by (intro find_one_update_one_same) simp_all
  moreover have "find_one (\<lambda>x. w_id x = wid)
      (update_one (\<lambda>x. w_id x = w_id w) (\<lambda>_. ?w') (db_wallets s)) = find_one (\<lambda>x. w_id x = wid) (db_wallets s)"
    if "wid \<noteq> w_id w" for wid
    using that id by (intro find_one_update_one_other) simp
  ultimately show ?thesis
    using assms(2) Some
    by (auto simp: reconcileBusinessWallet_def andThen_app Let_def reconcile_def split: if_splits)
qed

theorem reconcile_clamps_witness:
  "\<exists>r s' w'. reconcileBusinessWallet 0 8 None (Some (- 7000)) sample_shop = (r, s') \<and>
     find_one (\<lambda>x. w_id x = 1) (db_wallets s') = Some w' \<and> w_balance w' = 0"
proof -
  let ?r = "reconcileBusinessWallet 0 8 None (Some (- 7000)) sample_shop"
  have "find_one (\<lambda>w. w_business w = Some 8) (db_wallets sample_shop) = Some sample_wallet"
    and "w_id sample_wallet = 1" "w_balance sample_wallet = 5000"
    by (simp_all add: sample_shop_def sample_wallet_def new_wallet_def)
  then show ?thesis
    using reconcile_clamps [OF sample_shop_wf(1), of 0 8 None "Some (- 7000)" "fst ?r" "snd ?r"]
    by (intro exI [of _ "fst ?r"] exI [of _ "snd ?r"]) auto
qed

end
