(* ===== verification/Tokens.thy ===== *)
theory Tokens
  imports Wallets
begin

text \<open>
  Token wallets (\<open>src/modules/wallets/token.service.ts\<close>): the prices of the AI features, spending,
  refunding, buying and expiring tokens. The exchange rate is the argument \<open>usd_to_ngn\<close>. The methods
  that look a wallet up by the key \<open>user\<close>, which the schema does not have, are not modelled.
\<close>

section \<open>Prices\<close>

datatype spend_type =
  Video | Image | Edit | Prediction | Ai_ask | Outfit | Analyze | Generate_style

text \<open>
  \<open>platformService.getSettings\<close> returns a hydrated document: a missing key reads as the default of
  the schema. Where no settings are stored yet, they are created with the service's own defaults.
\<close>

definition no_settings :: platform_settings where
  "no_settings = \<lparr>minimum_payout = None, payout_delay_days = None, auto_release_days = None,
     late_penalty_percent_per_day = None, late_penalty_max_percent = None, auto_reject_hours = None,
     return_window_days = None, platform_commission_percent = None, platform_commission_type = None,
     platform_commission_flat = None, image_measurement_token_price = None,
     video_measurement_token_price = None, outfit_generation_token_price = None,
     edit_garment_token_price = None, run_prediction_token_price = None, ai_ask_token_price = None,
     analyze_reference_token_price = None, tailored_order_upfront_percent = None,
     reservation_fee_percent = None, low_stock_threshold = None, low_fabric_yards = None\<rparr>"

definition hydrate :: "platform_settings \<Rightarrow> platform_settings" where
  "hydrate p = \<lparr>
     minimum_payout = Some (nullish (minimum_payout p) 2000),
     payout_delay_days = Some (nullish (payout_delay_days p) 3),
     auto_release_days = Some (nullish (auto_release_days p) 10),
     late_penalty_percent_per_day = Some (nullish (late_penalty_percent_per_day p) 5),
     late_penalty_max_percent = Some (nullish (late_penalty_max_percent p) 25),
     auto_reject_hours = Some (nullish (auto_reject_hours p) 24),
     return_window_days = Some (nullish (return_window_days p) 7),
     platform_commission_percent = Some (nullish (platform_commission_percent p) 10),
     platform_commission_type = Some (nullish (platform_commission_type p) Percent),
     platform_commission_flat = Some (nullish (platform_commission_flat p) 0),
     image_measurement_token_price = Some (nullish (image_measurement_token_price p) 25),
     video_measurement_token_price = Some (nullish (video_measurement_token_price p) 45),
     outfit_generation_token_price = Some (nullish (outfit_generation_token_price p) 45),
     edit_garment_token_price = Some (nullish (edit_garment_token_price p) 45),
     run_prediction_token_price = Some (nullish (run_prediction_token_price p) 45),
     ai_ask_token_price = Some (nullish (ai_ask_token_price p) 0),
     analyze_reference_token_price = Some (nullish (analyze_reference_token_price p) 10),
     tailored_order_upfront_percent = Some (nullish (tailored_order_upfront_percent p) 0),
     reservation_fee_percent = Some (nullish (reservation_fee_percent p) 10),
     low_stock_threshold = Some (nullish (low_stock_threshold p) 5),
     low_fabric_yards = Some (nullish (low_fabric_yards p) 0)\<rparr>"

definition defaultSettings :: platform_settings where
  "defaultSettings = no_settings\<lparr>minimum_payout := Some 2000, payout_delay_days := Some 3,
     auto_release_days := Some 10, tailored_order_upfront_percent := Some 65,
     platform_commission_percent := Some 10, platform_commission_type := Some Percent,
     platform_commission_flat := Some 0\<rparr>"

definition getSettings :: "(db, platform_settings) action" where
  "getSettings = andThen (gets db_settings) (\<lambda>p. case p of
       Some p \<Rightarrow> ret (hydrate p)
     | None \<Rightarrow> andThen (modify (\<lambda>s. s\<lparr>db_settings := Some (hydrate defaultSettings)\<rparr>)) (\<lambda>_.
               ret (hydrate defaultSettings)))"

fun priceMap :: "platform_settings \<Rightarrow> spend_type \<Rightarrow> rat option" where
  "priceMap p Image = image_measurement_token_price p"
| "priceMap p Video = video_measurement_token_price p"
| "priceMap p Prediction = run_prediction_token_price p"
| "priceMap p Edit = edit_garment_token_price p"
| "priceMap p Ai_ask = ai_ask_token_price p"
| "priceMap p Outfit = outfit_generation_token_price p"
| "priceMap p Analyze = Some (nullish (analyze_reference_token_price p) 10)"
| "priceMap p Generate_style = Some 10"

definition token_amount :: "platform_settings \<Rightarrow> spend_type \<Rightarrow> rat option \<Rightarrow> rat" where
  "token_amount p ty amountOverride =
     nullish amountOverride (nullish (priceMap p ty) (nullish (edit_garment_token_price p) 0))"

section \<open>Operations\<close>

text \<open>The filters of \<open>spend\<close>, \<open>refund\<close> and \<open>balance\<close>; \<open>{}\<close> matches every document.\<close>

definition spend_filter :: "oid option \<Rightarrow> oid option \<Rightarrow> token \<Rightarrow> bool" where
  "spend_filter business customer k =
     (case customer of Some c \<Rightarrow> k_customer k = Some c
      | None \<Rightarrow> (case business of Some b \<Rightarrow> k_business k = Some b | None \<Rightarrow> True))"

definition balance_filter :: "oid option \<Rightarrow> oid option \<Rightarrow> token \<Rightarrow> bool" where
  "balance_filter business customer k =
     (case business of Some b \<Rightarrow> k_business k = Some b
      | None \<Rightarrow> (case customer of Some c \<Rightarrow> k_customer k = Some c | None \<Rightarrow> True))"

definition token_balance :: "oid option \<Rightarrow> oid option \<Rightarrow> (db, rat) action" where
  "token_balance business customer = gets (\<lambda>s.
     case find_one (balance_filter business customer) (db_tokens s) of
       None \<Rightarrow> 0 | Some k \<Rightarrow> k_tokens k)"

definition update_token :: "(token \<Rightarrow> bool) \<Rightarrow> (token \<Rightarrow> token) \<Rightarrow> (db, token option) action" where
  "update_token P f = (\<lambda>s. (Inr (map_option f (find_one P (db_tokens s))),
     s\<lparr>db_tokens := update_one P f (db_tokens s)\<rparr>))"

definition record_tokens ::
  "oid \<Rightarrow> token_transaction_type \<Rightarrow> rat \<Rightarrow> string option \<Rightarrow> (db, unit) action" where
  "record_tokens tokenId ty amount feature =
     (if amount < 0 then throw (ExternalError ''ValidationError: amount'')
      else andThen fresh (\<lambda>i. modify (\<lambda>s. s\<lparr>db_token_transactions := db_token_transactions s @
        [\<lparr>tt_id = i, tt_token = tokenId, tt_type = ty, tt_amount = amount, tt_feature = feature,
          tt_description = None\<rparr>]\<rparr>)))"

definition spend_tokens :: "rat \<Rightarrow> token \<Rightarrow> token" where
  "spend_tokens amount k =
     k\<lparr>k_tokens := k_tokens k - amount, k_lifetimeSpent := k_lifetimeSpent k + amount\<rparr>"

definition spend :: "spend_type \<Rightarrow> oid option \<Rightarrow> oid option \<Rightarrow> rat option \<Rightarrow> (db, token) action" where
  "spend ty business customer amountOverride =
     andThen getSettings (\<lambda>p.
     let amount = token_amount p ty amountOverride
     in andThen (update_token (\<lambda>k. spend_filter business customer k \<and> k_tokens k \<ge> amount)
                   (spend_tokens amount)) (\<lambda>r. case r of
          None \<Rightarrow> andThen (gets (\<lambda>s. exists_doc (spend_filter business customer) (db_tokens s))) (\<lambda>present.
            if \<not> present then throw (NotFoundException ''Token wallet not found'')
            else throw (BadRequestException ''Insufficient tokens''))
        | Some k \<Rightarrow> andThen (record_tokens (k_id k) Tok_spend amount None) (\<lambda>_. ret k)))"

definition refund_label :: "spend_type \<Rightarrow> string" where
  "refund_label ty = ''refund:'' @ (case ty of Video \<Rightarrow> ''video'' | Image \<Rightarrow> ''image'' | Edit \<Rightarrow> ''edit''
     | Prediction \<Rightarrow> ''prediction'' | Ai_ask \<Rightarrow> ''ai_ask'' | Outfit \<Rightarrow> ''outfit'' | Analyze \<Rightarrow> ''analyze''
     | Generate_style \<Rightarrow> ''generate_style'')"

definition refund :: "spend_type \<Rightarrow> oid option \<Rightarrow> oid option \<Rightarrow> rat option \<Rightarrow> (db, token option) action" where
  "refund ty business customer amountOverride =
     andThen getSettings (\<lambda>p.
     let amount = token_amount p ty amountOverride
     in if amount \<le> 0 then ret None
        else if customer = None \<and> business = None then ret None
        else andThen (update_token (spend_filter business customer) (spend_tokens (- amount))) (\<lambda>r.
          case r of
            None \<Rightarrow> ret None
          | Some k \<Rightarrow> andThen (record_tokens (k_id k) Tok_earn amount (Some (refund_label ty))) (\<lambda>_.
                       ret (Some k))))"

text \<open>\<open>getTokenPurchasePrice(n, 'NGN')\<close>: one cent a token, converted, to one decimal place.\<close>

definition getTokenPurchasePrice :: "rat \<Rightarrow> rat \<Rightarrow> rat" where
  "getTokenPurchasePrice usd_to_ngn tokens = js_round (tokens * (1/100) * usd_to_ngn * 10) / 10"

definition earn_tokens :: "rat \<Rightarrow> token \<Rightarrow> token" where
  "earn_tokens amount k =
     k\<lparr>k_tokens := k_tokens k + amount, k_lifetimeEarned := k_lifetimeEarned k + amount\<rparr>"

definition owner_filter :: "oid option \<Rightarrow> oid option \<Rightarrow> token \<Rightarrow> bool" where
  "owner_filter business customer k \<longleftrightarrow>
     (customer \<noteq> None \<longrightarrow> k_customer k = customer) \<and> (business \<noteq> None \<longrightarrow> k_business k = business)"

text \<open>\<open>findOneAndUpdate(..., {upsert: true})\<close>: where nothing matches, the document of the filter's
  equalities and the schema's defaults is inserted with the update applied.\<close>

definition upsert_token :: "oid option \<Rightarrow> oid option \<Rightarrow> (token \<Rightarrow> token) \<Rightarrow> (db, token) action" where
  "upsert_token business customer f =
     andThen (update_token (owner_filter business customer) f) (\<lambda>r. case r of
         Some k \<Rightarrow> ret k
       | None \<Rightarrow> andThen fresh (\<lambda>i.
           let k = f \<lparr>k_id = i, k_customer = customer, k_business = business, k_tokens = 0,
                      k_lifetimeEarned = 0, k_lifetimeSpent = 0, k_expiresAt = None\<rparr>
           in andThen (modify (\<lambda>s. s\<lparr>db_tokens := db_tokens s @ [k]\<rparr>)) (\<lambda>_. ret k)))"

definition purchase :: "rat \<Rightarrow> instant \<Rightarrow> rat \<Rightarrow> oid option \<Rightarrow> oid option \<Rightarrow> (db, wallet \<times> token) action" where
  "purchase usd_to_ngn now tokenAmount business customer =
     (if tokenAmount \<le> 0 then throw (BadRequestException ''Invalid token amount'')
      else andThen (getWallet customer business) (\<lambda>w.
      let price = getTokenPurchasePrice usd_to_ngn tokenAmount
      in if w_balance w < price then throw (BadRequestException ''Insufficient balance'')
      else andThen (debitWallet now (w_id w) price) (\<lambda>w'.
      andThen (upsert_token business customer (earn_tokens tokenAmount)) (\<lambda>k.
      andThen (record_tokens (k_id k) Tok_purchase tokenAmount None) (\<lambda>_.
      andThen (create_transaction \<lparr>ct_initiator = (if customer \<noteq> None then customer else business),
          ct_amount = price, ct_type = DEBIT, ct_status = Some T_SUCCESS, ct_wallet = Some (w_id w),
          ct_order = None, ct_channel = Wallet_topup, ct_description = Some ''Purchased tokens'',
          ct_currency = None, ct_payment_method = None, ct_metadata = None\<rparr>) (\<lambda>_.
      ret (w', k)))))))"

definition expireExpiredWallets :: "instant \<Rightarrow> (db, unit) action" where
  "expireExpiredWallets now = modify (\<lambda>s. s\<lparr>db_tokens := update_many
     (\<lambda>k. (case k_expiresAt k of None \<Rightarrow> False | Some x \<Rightarrow> x \<le> now) \<and> k_tokens k > 0)
     (\<lambda>k. k\<lparr>k_tokens := 0\<rparr>) (db_tokens s)\<rparr>)"

section \<open>Token balances\<close>

definition wf_tokens :: "db \<Rightarrow> bool" where
  "wf_tokens s \<longleftrightarrow> (\<forall>c. length (filter (\<lambda>k. k_customer k = Some c) (db_tokens s)) \<le> 1)"

definition token_bal :: "db \<Rightarrow> oid \<Rightarrow> rat option" where
  "token_bal s c = map_option k_tokens (find_one (\<lambda>k. k_customer k = Some c) (db_tokens s))"

lemma spend_tokens_simps [simp]:
  "k_id (spend_tokens a k) = k_id k" "k_customer (spend_tokens a k) = k_customer k"
  "k_business (spend_tokens a k) = k_business k" "k_tokens (spend_tokens a k) = k_tokens k - a"
  "spend_tokens (- a) (spend_tokens a k) = k"
  by (simp_all add: spend_tokens_def)

lemma spend_filter_spend_tokens [simp]:
  "spend_filter business customer (spend_tokens a k) = spend_filter business customer k"
  by (simp add: spend_filter_def split: option.splits)

lemma balance_filter_business [simp]: "balance_filter (Some b) customer = (\<lambda>k. k_business k = Some b)"
  by (rule ext) (simp add: balance_filter_def)

lemma spend_filter_customer [simp]: "spend_filter business (Some c) = (\<lambda>k. k_customer k = Some c)"
  by (rule ext) (simp add: spend_filter_def)

interpretation token_field: counter_field k_customer k_tokens "\<lambda>a. spend_tokens (- a)"
  by unfold_locales simp_all

definition settle :: "db \<Rightarrow> db" where
  "settle s = snd (getSettings s)"

definition current_settings :: "db \<Rightarrow> platform_settings" where
  "current_settings s = hydrate (nullish (db_settings s) defaultSettings)"

lemma hydrate_idem: "hydrate (hydrate p) = hydrate p"
  by (simp add: hydrate_def)

lemma getSettings_eq: "getSettings s = (Inr (current_settings s), settle s)"
  by (simp add: getSettings_def andThen_app settle_def current_settings_def split: option.splits)

lemma settle_simps [simp]:
  "db_tokens (settle s) = db_tokens s" "db_wallets (settle s) = db_wallets s"
  "db_token_transactions (settle s) = db_token_transactions s" "db_next (settle s) = db_next s"
  "db_settings (settle s) = Some (nullish (db_settings s) (hydrate defaultSettings))"
  "current_settings (settle s) = current_settings s"
  by (simp_all add: settle_def getSettings_def andThen_app current_settings_def hydrate_idem
      split: option.splits)

lemma spend_run:
  assumes one: "length (filter (spend_filter business customer) (db_tokens s)) \<le> 1"
    and pos: "0 \<le> token_amount (current_settings s) ty over" (is "0 \<le> ?x")
  shows "spend ty business customer over s =
     (case find_one (spend_filter business customer) (db_tokens s) of
        None \<Rightarrow> (Inl (NotFoundException ''Token wallet not found''), settle s)
      | Some k \<Rightarrow> if ?x \<le> k_tokens k
          then (Inr (spend_tokens ?x k), snd (record_tokens (k_id k) Tok_spend ?x None ((settle s)\<lparr>db_tokens :=
                  update_one (spend_filter business customer) (spend_tokens ?x) (db_tokens s)\<rparr>)))
          else (Inl (BadRequestException ''Insufficient tokens''), settle s))"
proof -
  note guarded = find_one_guarded [OF one, of "\<lambda>k. ?x \<le> k_tokens k"]
    update_one_guarded [OF one, of "\<lambda>k. ?x \<le> k_tokens k"]
  have drop: "(settle s)\<lparr>db_tokens := db_tokens s\<rparr> = settle s"
    using settle_simps(1) [of s] by (metis db.surjective db.update_convs(2))
  from pos show ?thesis
    by (auto simp: spend_def andThen_app getSettings_eq update_token_def guarded exists_doc_def Let_def
        record_tokens_def drop split: option.splits)
qed

lemma refund_run:
  assumes "0 < token_amount (current_settings s) ty over" (is "0 < ?x")
    and "customer \<noteq> None \<or> business \<noteq> None"
  shows "refund ty business customer over s =
     (case find_one (spend_filter business customer) (db_tokens s) of
        None \<Rightarrow> (Inr None, settle s)
      | Some k \<Rightarrow> (Inr (Some (spend_tokens (- ?x) k)),
          snd (record_tokens (k_id k) Tok_earn ?x (Some (refund_label ty)) ((settle s)\<lparr>db_tokens :=
            update_one (spend_filter business customer) (spend_tokens (- ?x)) (db_tokens s)\<rparr>))))"
proof -
  have drop: "(settle s)\<lparr>db_tokens := db_tokens s\<rparr> = settle s"
    using settle_simps(1) [of s] by (metis db.surjective db.update_convs(2))
  from assms show ?thesis
    by (auto simp: refund_def andThen_app getSettings_eq update_token_def Let_def record_tokens_def
        find_one_None_iff update_one_id drop split: option.splits dest: find_one_SomeD)
qed

lemma record_tokens_frame [simp]:
  "db_tokens (snd (record_tokens i ty x f s)) = db_tokens s"
  "db_wallets (snd (record_tokens i ty x f s)) = db_wallets s"
  "db_settings (snd (record_tokens i ty x f s)) = db_settings s"
  by (simp_all add: record_tokens_def andThen_app)

lemma wf_tokens_update:
  "wf_tokens s \<Longrightarrow> db_tokens s' = update_one P (spend_tokens a) (db_tokens s) \<Longrightarrow> wf_tokens s'"
  by (simp add: wf_tokens_def one_match_update)

lemma token_bal_update:
  assumes "db_tokens s' = update_one (\<lambda>k. k_customer k = Some c) (spend_tokens (- a)) (db_tokens s)"
  shows "token_bal s' = (case token_bal s c of None \<Rightarrow> token_bal s | Some b \<Rightarrow> (token_bal s)(c \<mapsto> b + a))"
  by (rule ext) (auto simp: token_bal_def assms token_field.inc_find split: option.splits)

lemma token_amount_override [simp]: "token_amount p ty (Some x) = x"
  by (simp add: token_amount_def)

interpretation tokens: guarded_balance wf_tokens token_bal
  "\<lambda>c x. refund ty None (Some c) (Some x)" "\<lambda>c x. spend ty None (Some c) (Some x)" for ty
proof
  fix s :: db and c and x :: rat
  assume wf: "wf_tokens s" and x: "0 < x"
  from wf have one: "length (filter (spend_filter None (Some c)) (db_tokens s)) \<le> 1"
    by (simp add: wf_tokens_def)
  note spend = spend_run [OF one, of ty "Some x"]
  show "wf_tokens (snd (refund ty None (Some c) (Some x) s))"
    using wf x by (auto simp: refund_run intro: wf_tokens_update split: option.splits) (simp add: wf_tokens_def)
  show "wf_tokens (snd (spend ty None (Some c) (Some x) s))"
    using wf x by (auto simp: spend intro: wf_tokens_update split: option.splits) (simp_all add: wf_tokens_def)
  show "token_bal (snd (refund ty None (Some c) (Some x) s)) =
      (case token_bal s c of None \<Rightarrow> token_bal s | Some b \<Rightarrow> (token_bal s)(c \<mapsto> b + x))"
    using x by (auto simp: refund_run token_bal_update split: option.splits) (auto simp: token_bal_def)
  show "(\<not> isl (fst (spend ty None (Some c) (Some x) s))) = (\<exists>b. token_bal s c = Some b \<and> x \<le> b)"
    using x by (auto simp: spend token_bal_def split: option.splits)
  show "token_bal (snd (spend ty None (Some c) (Some x) s)) =
      (case token_bal s c of None \<Rightarrow> token_bal s
       | Some b \<Rightarrow> if x \<le> b then (token_bal s)(c \<mapsto> b - x) else token_bal s)"
    using x token_bal_update [where a = "- x"]
    by (auto simp: spend split: option.splits) (auto simp: token_bal_def)
qed

section \<open>Any sequence of requests\<close>

text \<open>The customers' wallets under spends and refunds of one feature, from the contract of guarded balances.\<close>

lemma customer_tokens_add_up:
  assumes "wf_tokens s" and "\<forall>m\<in>set ms. 0 < movement_amount m"
    and "\<forall>c b. token_bal s c = Some b \<longrightarrow> 0 \<le> b"
    and "run_movements (\<lambda>c x. refund ty None (Some c) (Some x))
           (\<lambda>c x. spend ty None (Some c) (Some x)) ms s = (accepted, s')"
    and "token_bal s c = Some b"
  shows "token_bal s' c = Some (b + deposited c ms - withdrawn c accepted) \<and>
         withdrawn c accepted \<le> b + deposited c ms"
  using tokens.accounts_add_up [OF assms(1,2,5), of ty]
    tokens.withdrawals_bounded [OF assms(1-3,5), of ty] assms(4) by simp

text \<open>Requests of any feature for any owner, with the price of the settings or an amount of their own. Each answers by the
  wallet it moved tokens of, if any.\<close>

datatype token_request =
    Spend_request spend_type "oid option" "oid option" "rat option"
  | Refund_request spend_type "oid option" "oid option" "rat option"

fun request_amount :: "platform_settings \<Rightarrow> token_request \<Rightarrow> rat" where
  "request_amount p (Spend_request ty business customer over) = token_amount p ty over"
| "request_amount p (Refund_request ty business customer over) = token_amount p ty over"

fun serve_request :: "token_request \<Rightarrow> db \<Rightarrow> (oid \<times> rat) list \<times> db" where
  "serve_request (Spend_request ty business customer over) s = (case spend ty business customer over s of
       (Inl e, s') \<Rightarrow> ([], s')
     | (Inr k, s') \<Rightarrow> ([(k_id k, - token_amount (current_settings s) ty over)], s'))"
| "serve_request (Refund_request ty business customer over) s = (case refund ty business customer over s of
       (Inr (Some k), s') \<Rightarrow> ([(k_id k, token_amount (current_settings s) ty over)], s')
     | (_, s') \<Rightarrow> ([], s'))"

fun serve_requests :: "token_request list \<Rightarrow> db \<Rightarrow> (oid \<times> rat) list \<times> db" where
  "serve_requests [] s = ([], s)"
| "serve_requests (q # qs) s = (let (ms, s') = serve_request q s; (ms', s'') = serve_requests qs s' in (ms @ ms', s''))"

text \<open>The tokens in the wallet with a number, the movements of it, and the movement a ledger entry stands for.\<close>

definition tokens_in :: "db \<Rightarrow> oid \<Rightarrow> rat" where
  "tokens_in s i = (\<Sum>k\<leftarrow>db_tokens s. if k_id k = i then k_tokens k else 0)"

definition moved :: "oid \<Rightarrow> (oid \<times> rat) list \<Rightarrow> rat" where
  "moved i ms = (\<Sum>(j, x)\<leftarrow>ms. if j = i then x else 0)"

definition entry_move :: "token_transaction \<Rightarrow> oid \<times> rat" where
  "entry_move t = (tt_token t, if tt_type t = Tok_spend then - tt_amount t else tt_amount t)"

definition token_books :: "db \<Rightarrow> (oid \<times> rat) list \<Rightarrow> db \<Rightarrow> bool" where
  "token_books s ms s' \<longleftrightarrow> map k_id (db_tokens s') = map k_id (db_tokens s) \<and> (\<forall>i. tokens_in s' i = tokens_in s i + moved i ms) \<and>
     ((\<forall>k\<in>set (db_tokens s). 0 \<le> k_tokens k) \<longrightarrow> (\<forall>k\<in>set (db_tokens s'). 0 \<le> k_tokens k)) \<and>
     (\<exists>new. db_token_transactions s' = db_token_transactions s @ new \<and> map entry_move new = ms) \<and>
     current_settings s' = current_settings s"

lemma token_books_refl: "token_books s [] s"
  by (simp add: token_books_def moved_def)

lemma token_books_trans: "token_books s ms t \<Longrightarrow> token_books t ms' u \<Longrightarrow> token_books s (ms @ ms') u"
  by (auto simp: token_books_def moved_def)

lemma token_books_settle: "token_books s [] (settle s)"
  by (simp add: token_books_def moved_def tokens_in_def)

lemma spent_nonneg:
  "\<lbrakk>\<forall>k\<in>set ks. 0 \<le> k_tokens k; find_one P ks = Some k; x \<le> k_tokens k \<or> x \<le> 0\<rbrakk> \<Longrightarrow> \<forall>k\<in>set (update_one P (spend_tokens x) ks). 0 \<le> k_tokens k"
  by (induction ks) (auto split: if_splits)

lemma token_books_move:
  assumes "find_one P (db_tokens s) = Some k" "x \<le> k_tokens k \<or> x \<le> 0" "ty = (if 0 \<le> x then Tok_spend else Tok_earn)"
  shows "token_books s [(k_id k, - x)] (snd (record_tokens (k_id k) ty \<bar>x\<bar> f ((settle s)\<lparr>db_tokens := update_one P (spend_tokens x) (db_tokens s)\<rparr>)))"
proof -
  let ?ks = "update_one P (spend_tokens x) (db_tokens s)"
  have "(\<Sum>k\<leftarrow>?ks. if k_id k = i then k_tokens k else 0) = tokens_in s i + (if k_id k = i then - x else 0)" for i
    using sum_list_update_one [OF assms(1), of "\<lambda>k. if k_id k = i then k_tokens k else 0" "spend_tokens x"] by (simp add: tokens_in_def)
  moreover have "\<forall>k\<in>set ?ks. 0 \<le> k_tokens k" if "\<forall>k\<in>set (db_tokens s). 0 \<le> k_tokens k"
    by (rule spent_nonneg [OF that assms(1,2)])
  ultimately show ?thesis
    using assms(3) settle_simps(6) [of s]
    by (simp add: token_books_def record_tokens_def andThen_app map_update_one tokens_in_def moved_def entry_move_def current_settings_def)
qed

lemma spend_books:
  assumes "0 \<le> token_amount (current_settings s) ty over"
  shows "token_books s (fst (serve_request (Spend_request ty business customer over) s)) (snd (serve_request (Spend_request ty business customer over) s)) \<and>
    (isl (fst (spend ty business customer over s)) \<longleftrightarrow>
       (\<forall>k\<in>set (db_tokens s). spend_filter business customer k \<longrightarrow> k_tokens k < token_amount (current_settings s) ty over))"
proof -
  let ?x = "token_amount (current_settings s) ty over"
  let ?P = "\<lambda>k. spend_filter business customer k \<and> ?x \<le> k_tokens k"
  have same: "(settle s)\<lparr>db_tokens := db_tokens s\<rparr> = settle s"
    using settle_simps(1) [of s] by (metis db.surjective db.update_convs(2))
  show ?thesis
  proof (cases "find_one ?P (db_tokens s)")
    case None
    then have "spend ty business customer over s = (Inl (if exists_doc (spend_filter business customer) (db_tokens s)
        then BadRequestException ''Insufficient tokens'' else NotFoundException ''Token wallet not found''), settle s)"
      using same by (simp add: spend_def andThen_app getSettings_eq Let_def update_token_def update_one_None)
    with None token_books_settle [of s] show ?thesis by (auto simp: find_one_None_iff not_le)
  next
    case (Some k)
    then have k: "spend_filter business customer k" "?x \<le> k_tokens k" "k \<in> set (db_tokens s)" by (auto dest: find_one_SomeD)
    have run: "spend ty business customer over s = (Inr (spend_tokens ?x k),
        snd (record_tokens (k_id k) Tok_spend \<bar>?x\<bar> None ((settle s)\<lparr>db_tokens := update_one ?P (spend_tokens ?x) (db_tokens s)\<rparr>)))"
      using Some assms by (simp add: spend_def andThen_app getSettings_eq Let_def update_token_def record_tokens_def)
    with token_books_move [OF Some disjI1 [OF k(2)], of Tok_spend None] assms k show ?thesis by auto
  qed
qed

lemma refund_books:
  "token_books s (fst (serve_request (Refund_request ty business customer over) s)) (snd (serve_request (Refund_request ty business customer over) s))"
proof -
  let ?x = "token_amount (current_settings s) ty over" and ?P = "spend_filter business customer"
  have same: "(settle s)\<lparr>db_tokens := db_tokens s\<rparr> = settle s"
    using settle_simps(1) [of s] by (metis db.surjective db.update_convs(2))
  show ?thesis
  proof (cases "?x \<le> 0 \<or> customer = None \<and> business = None \<or> find_one ?P (db_tokens s) = None")
    case True
    then have "refund ty business customer over s = (Inr None, settle s)"
      using same by (auto simp: refund_def andThen_app getSettings_eq Let_def update_token_def update_one_None)
    with token_books_settle [of s] show ?thesis by simp
  next
    case False
    then obtain k where k: "find_one ?P (db_tokens s) = Some k" by auto
    have run: "refund ty business customer over s = (Inr (Some (spend_tokens (- ?x) k)),
        snd (record_tokens (k_id k) Tok_earn \<bar>- ?x\<bar> (Some (refund_label ty)) ((settle s)\<lparr>db_tokens := update_one ?P (spend_tokens (- ?x)) (db_tokens s)\<rparr>)))"
      using False k by (auto simp: refund_def andThen_app getSettings_eq Let_def update_token_def record_tokens_def)
    have "- ?x \<le> k_tokens k \<or> - ?x \<le> 0" using False by simp
    from token_books_move [OF k this, of Tok_earn "Some (refund_label ty)"] run False show ?thesis by simp
  qed
qed

lemma serve_books:
  "\<forall>q\<in>set qs. 0 \<le> request_amount (current_settings s) q \<Longrightarrow> token_books s (fst (serve_requests qs s)) (snd (serve_requests qs s))"
proof (induction qs arbitrary: s)
  case (Cons q qs)
  have q: "token_books s (fst (serve_request q s)) (snd (serve_request q s))"
    using Cons.prems spend_books refund_books by (cases q) auto
  then have "current_settings (snd (serve_request q s)) = current_settings s" by (simp add: token_books_def)
  with Cons.IH [of "snd (serve_request q s)"] Cons.prems q show ?case
    by (auto simp: Let_def split: prod.splits intro: token_books_trans)
qed (simp add: token_books_refl)

section \<open>Properties\<close>

text \<open>C24: Spends and refunds of tokens may arrive in any order, for any feature, customer or business and with the price of the
  settings or an amount of their own, as long as no amount is negative: every token wallet ends with its first
  balance plus the refunds less the spends that were accepted, no wallet goes below zero, the ledger of token
  transactions gets exactly one entry for each of them, and a spend is refused exactly when no wallet of the owner holds
  the amount.\<close>

theorem tokens_never_overspent:
  assumes "\<forall>k\<in>set (db_tokens s). 0 \<le> k_tokens k" "\<forall>q\<in>set qs. 0 \<le> request_amount (current_settings s) q"
    "serve_requests qs s = (moves, s')"
  shows "(\<forall>i. tokens_in s' i = tokens_in s i + moved i moves) \<and> (\<forall>k\<in>set (db_tokens s'). 0 \<le> k_tokens k) \<and>
    (\<exists>new. db_token_transactions s' = db_token_transactions s @ new \<and> map entry_move new = moves) \<and>
    (\<forall>ty business customer over. 0 \<le> token_amount (current_settings s) ty over \<longrightarrow>
       (isl (fst (spend ty business customer over s')) \<longleftrightarrow>
         (\<forall>k\<in>set (db_tokens s'). spend_filter business customer k \<longrightarrow> k_tokens k < token_amount (current_settings s) ty over)))"
proof -
  have books: "token_books s moves s'" using serve_books [OF assms(2)] assms(3) by simp
  then have "current_settings s' = current_settings s" by (simp add: token_books_def)
  with books assms(1) spend_books [of s'] show ?thesis by (simp add: token_books_def)
qed

definition sample_token :: token where
  "sample_token = \<lparr>k_id = 2, k_customer = Some 4, k_business = None, k_tokens = 30,
     k_lifetimeEarned = 30, k_lifetimeSpent = 0, k_expiresAt = None\<rparr>"

definition sample_tokens :: db where
  "sample_tokens = sample_shop\<lparr>db_tokens := [sample_token]\<rparr>"

lemma sample_tokens_wf: "wf_tokens sample_tokens"
  by (simp add: wf_tokens_def sample_tokens_def sample_token_def)

lemma sample_tokens_bal: "token_bal sample_tokens c = (if c = 4 then Some 30 else None)"
  by (simp add: token_bal_def sample_tokens_def sample_token_def)

theorem tokens_never_overspent_witness:
  "let (moves, s') = serve_requests [Spend_request Image None (Some 4) None, Spend_request Image None (Some 4) None,
       Refund_request Video None (Some 4) (Some 7), Spend_request Edit (Some 9) None (Some 1)] sample_tokens
   in moves = [(2, - 25), (2, 7)] \<and> tokens_in s' 2 = 12 \<and> length (db_token_transactions s') = length (db_token_transactions sample_tokens) + 2"
proof -
  let ?qs = "[Spend_request Image None (Some 4) None, Spend_request Image None (Some 4) None,
       Refund_request Video None (Some 4) (Some 7), Spend_request Edit (Some 9) None (Some 1)]"
  obtain moves s' where run: "serve_requests ?qs sample_tokens = (moves, s')" by force
  have "fst (serve_requests ?qs sample_tokens) = [(2, - 25), (2, 7)]" by code_simp
  then have moves: "moves = [(2, - 25), (2, 7)]" using run by simp
  have "token_amount (current_settings sample_tokens) Image None = 25"
    by (simp add: token_amount_def current_settings_def sample_tokens_def sample_shop_def empty_db_def
        hydrate_def defaultSettings_def no_settings_def)
  then have "\<forall>q\<in>set ?qs. 0 \<le> request_amount (current_settings sample_tokens) q" by simp
  moreover have "\<forall>k\<in>set (db_tokens sample_tokens). 0 \<le> k_tokens k" by (simp add: sample_tokens_def sample_token_def)
  ultimately have after: "\<forall>i. tokens_in s' i = tokens_in sample_tokens i + moved i moves"
    "\<exists>new. db_token_transactions s' = db_token_transactions sample_tokens @ new \<and> map entry_move new = moves"
    using tokens_never_overspent [of sample_tokens ?qs moves s'] run by blast+
  from after(2) obtain new where new: "db_token_transactions s' = db_token_transactions sample_tokens @ new" "map entry_move new = moves" by blast
  from arg_cong [OF new(2), of length] moves have "length new = 2" by simp
  moreover have "tokens_in sample_tokens 2 = 30" by (simp add: tokens_in_def sample_tokens_def sample_token_def)
  ultimately show ?thesis unfolding run using after(1) new(1) moves by (simp add: moved_def)
qed

text \<open>C31: a failed job gives the tokens back exactly: after an accepted spend, the refund of the same
  feature succeeds and leaves every token wallet, lifetime counters included, as before the spend.\<close>

theorem spend_then_refund:
  assumes "length (filter (spend_filter business customer) (db_tokens s)) \<le> 1"
    and "customer \<noteq> None \<or> business \<noteq> None"
    and "0 < token_amount (current_settings s) ty over"
    and "spend ty business customer over s = (Inr k, s')"
  shows "\<exists>k' s''. refund ty business customer over s' = (Inr (Some k'), s'') \<and>
           db_tokens s'' = db_tokens s \<and> length (db_token_transactions s'') = length (db_token_transactions s) + 2"
proof -
  let ?x = "token_amount (current_settings s) ty over" and ?P = "spend_filter business customer"
  obtain k0 where k0: "find_one ?P (db_tokens s) = Some k0" "?x \<le> k_tokens k0"
    and s': "s' = snd (record_tokens (k_id k0) Tok_spend ?x None ((settle s)\<lparr>db_tokens :=
                  update_one ?P (spend_tokens ?x) (db_tokens s)\<rparr>))"
    using assms(3,4) by (auto simp: spend_run [OF assms(1)] split: option.splits if_splits)
  have same: "current_settings s' = current_settings s"
    using settle_simps(6) [of s] by (simp add: s' current_settings_def)
  have found: "find_one ?P (db_tokens s') = Some (spend_tokens ?x k0)"
    using k0(1) find_one_SomeD [OF k0(1)] by (simp add: s' find_one_update_one_same)
  have "update_one ?P (spend_tokens (- ?x)) (update_one ?P (spend_tokens ?x) ts) = ts" for ts
    by (induction ts) simp_all
  then show ?thesis
    using refund_run [of s' ty over customer business] assms(2,3) found same
    by (simp add: s') (simp add: record_tokens_def andThen_app)
qed

theorem spend_then_refund_witness:
  "\<exists>k s' k' s''. spend Image None (Some 4) None sample_tokens = (Inr k, s') \<and> k_tokens k = 5 \<and>
     refund Image None (Some 4) None s' = (Inr (Some k'), s'') \<and> db_tokens s'' = [sample_token]"
proof -
  let ?r = "spend Image None (Some 4) None sample_tokens"
  have settings: "token_amount (current_settings sample_tokens) Image None = 25"
    by (simp add: token_amount_def current_settings_def sample_tokens_def sample_shop_def empty_db_def
        hydrate_def defaultSettings_def no_settings_def)
  have one: "length (filter (spend_filter None (Some 4)) (db_tokens sample_tokens)) \<le> 1"
    by (simp add: sample_tokens_def)
  have run: "?r = (Inr (spend_tokens 25 sample_token), snd ?r)"
    using settings by (simp add: spend_run [OF one]) (simp add: sample_tokens_def sample_token_def)
  have "k_tokens (spend_tokens 25 sample_token) = 5" by (simp add: sample_token_def)
  moreover have "db_tokens sample_tokens = [sample_token]" by (simp add: sample_tokens_def)
  ultimately show ?thesis
    using spend_then_refund [OF one _ _ run] settings run by force
qed

lemma getWallet_frame:
  assumes "getWallet customer business s = (r, s1)" and "wf_wallets s"
  shows "wf_wallets s1 \<and> db_tokens s1 = db_tokens s \<and> db_transactions s1 = db_transactions s \<and>
         (\<forall>a b. balance_of s a = Some b \<longrightarrow> balance_of s1 a = Some b) \<and>
         (\<forall>w. r = Inr w \<longrightarrow> balance_of s1 (w_id w) = Some (w_balance w))"
proof -
  have found: "balance_of s (w_id w) = Some (w_balance w)" if "find_wallet business customer s = Some w" for w
    using that assms(2) find_one_key_eq [of w_id "db_wallets s" w]
    by (auto simp: find_wallet_def Let_def balance_of_def wf_wallets_def split: option.splits
        dest: find_one_SomeD)
  have none: "find_one (\<lambda>w. w_id w = db_next s) (db_wallets s) = None" "db_next s \<notin> w_id ` set (db_wallets s)"
    using assms(2) by (force simp: wf_wallets_def find_one_None_iff)+
  show ?thesis
  proof (cases "business = None \<and> customer = None")
    case True
    with assms show ?thesis by (auto simp: getWallet_def getOrCreateWallet_def)
  next
    case False
    show ?thesis
    proof (cases "find_wallet business customer s")
      case (Some w)
      with assms False found show ?thesis by (auto simp: getWallet_def getOrCreateWallet_def andThen_app)
    next
      case None
      let ?w = "new_wallet business customer (db_next s)"
      have run: "r = Inr ?w" "s1 = s\<lparr>db_next := Suc (db_next s), db_wallets := db_wallets s @ [?w]\<rparr>"
        using assms(1) False None by (auto simp: getWallet_def getOrCreateWallet_def andThen_app Let_def)
      have "wf_wallets s1"
        using assms(2) none(2) by (auto simp: run(2) wf_wallets_def new_wallet_def)
      moreover have "balance_of s1 a = Some b" if "balance_of s a = Some b" for a b
        using that by (auto simp: run(2) balance_of_def find_one_append)
      ultimately show ?thesis
        using none(1) by (simp add: run balance_of_def find_one_append) (simp add: new_wallet_def)
    qed
  qed
qed

lemma upsert_token_run:
  "\<exists>k s'. upsert_token business customer (earn_tokens a) s = (Inr k, s') \<and>
     db_wallets s' = db_wallets s \<and> db_transactions s' = db_transactions s \<and>
     (\<Sum>k\<leftarrow>db_tokens s'. k_tokens k) = (\<Sum>k\<leftarrow>db_tokens s. k_tokens k) + a"
proof (cases "find_one (owner_filter business customer) (db_tokens s)")
  case None
  then show ?thesis
    by (simp add: upsert_token_def andThen_app update_token_def Let_def update_one_None earn_tokens_def)
next
  case (Some k)
  then show ?thesis
    by (simp add: upsert_token_def andThen_app update_token_def sum_list_update_one earn_tokens_def)
qed

text \<open>Buying tokens conserves value: when the purchase succeeds the wallet is lower by exactly the
  price, the token wallets hold exactly the bought tokens more, and one successful debit entry of
  the price is recorded; when it is refused, no token, no entry and no balance has changed.\<close>

theorem purchase_conserves_value:
  assumes "wf_wallets s" and "0 \<le> usd_to_ngn"
    and "purchase usd_to_ngn now n business customer s = (r, s')"
  shows "case r of
      Inl e \<Rightarrow> db_tokens s' = db_tokens s \<and> db_transactions s' = db_transactions s \<and>
        (\<forall>a b. balance_of s a = Some b \<longrightarrow> balance_of s' a = Some b)
    | Inr (w, k) \<Rightarrow> (let price = getTokenPurchasePrice usd_to_ngn n in
        0 \<le> price \<and> balance_of s' (w_id w) = Some (w_balance w) \<and> 0 \<le> w_balance w \<and>
        (\<forall>b. balance_of s (w_id w) = Some b \<longrightarrow> w_balance w = b - price) \<and>
        (\<Sum>k\<leftarrow>db_tokens s'. k_tokens k) = (\<Sum>k\<leftarrow>db_tokens s. k_tokens k) + n \<and>
        (\<exists>t. db_transactions s' = db_transactions s @ [t] \<and> t_type t = DEBIT \<and>
             t_status t = T_SUCCESS \<and> t_amount t = price \<and> t_wallet t = Some (w_id w)))"
proof (cases "n \<le> 0")
  case True
  with assms(3) show ?thesis by (auto simp: purchase_def)
next
  case False
  let ?price = "getTokenPurchasePrice usd_to_ngn n"
  have price: "0 \<le> ?price"
    using False assms(2) by (simp add: getTokenPurchasePrice_def js_round_nonneg)
  obtain rw s1 where get: "getWallet customer business s = (rw, s1)" by fastforce
  note g = getWallet_frame [OF get assms(1)]
  show ?thesis
  proof (cases rw)
    case (Inl e)
    with assms(3) False get g show ?thesis by (auto simp: purchase_def andThen_app)
  next
    case (Inr w)
    show ?thesis
    proof (cases "?price \<le> w_balance w")
      case short: False
      with assms(3) False get g Inr show ?thesis by (auto simp: purchase_def andThen_app)
    next
      case True
      let ?s2 = "s1\<lparr>db_wallets := update_one (\<lambda>x. w_id x = w_id w) (inc_balance now (- ?price)) (db_wallets s1)\<rparr>"
      have bal1: "balance_of s1 (w_id w) = Some (w_balance w)" using g Inr by simp
      then obtain w1 where w1: "find_one (\<lambda>x. w_id x = w_id w) (db_wallets s1) = Some w1"
          "w_balance w1 = w_balance w" by (auto simp: balance_of_def)
      then have debit: "debitWallet now (w_id w) ?price s1 = (Inr (inc_balance now (- ?price) w1), ?s2)"
        using True g by (simp add: debitWallet_run)
      have bal2: "balance_of ?s2 (w_id w) = Some (w_balance w - ?price)"
        using bal1 balance_inc [of "w_id w" now "- ?price" s1] by simp
      obtain k s3 where up: "upsert_token business customer (earn_tokens n) ?s2 = (Inr k, s3)"
        and s3: "db_wallets s3 = db_wallets ?s2" "db_transactions s3 = db_transactions ?s2"
          "(\<Sum>k\<leftarrow>db_tokens s3. k_tokens k) = (\<Sum>k\<leftarrow>db_tokens ?s2. k_tokens k) + n"
        using upsert_token_run [of business customer n ?s2] by blast
      have id1: "w_id w1 = w_id w" using find_one_SomeD [OF w1(1)] by simp
      have run: "r = Inr (inc_balance now (- ?price) w1, k)" "db_wallets s' = db_wallets ?s2"
        "db_tokens s' = db_tokens s3"
        "\<exists>t. db_transactions s' = db_transactions s @ [t] \<and> t_type t = DEBIT \<and>
             t_status t = T_SUCCESS \<and> t_amount t = ?price \<and> t_wallet t = Some (w_id w)"
        using assms(3) False get Inr True debit up price s3 g
        by (auto simp: purchase_def andThen_app record_tokens_def create_transaction_run Let_def
            new_transaction_def)
      have bal': "balance_of s' (w_id w) = Some (w_balance w - ?price)"
        using bal2 run(2) by (simp add: balance_of_def)
      have "b = w_balance w" if "balance_of s (w_id w) = Some b" for b
        using that g bal1 by fastforce
      with run(1,3,4) price bal' True w1(2) id1 s3(3) g show ?thesis by (simp add: Let_def)
    qed
  qed
qed

theorem purchase_conserves_value_witness:
  "\<exists>w k s'. purchase 1500 0 100 (Some 8) None sample_tokens = (Inr (w, k), s') \<and>
     balance_of s' 1 = Some 3500 \<and> (\<Sum>k\<leftarrow>db_tokens s'. k_tokens k) = 130"
proof -
  let ?r = "purchase 1500 0 100 (Some 8) None sample_tokens"
  have wf: "wf_wallets sample_tokens"
    by (simp add: sample_tokens_def sample_shop_def sample_wallet_def new_wallet_def wf_wallets_def empty_db_def)
  have price: "getTokenPurchasePrice 1500 100 = 1500"
    using js_round_of_int [of 15000] by (simp add: getTokenPurchasePrice_def)
  have "\<not> isl (fst ?r) \<and> (\<forall>x. fst ?r = Inr x \<longrightarrow> w_id (fst x) = 1)"
    by (simp add: purchase_def andThen_app price getWallet_def getOrCreateWallet_def find_wallet_def
        Let_def sample_tokens_def sample_shop_def sample_wallet_def new_wallet_def debitWallet_run
        wf_wallets_def empty_db_def upsert_token_def update_token_def record_tokens_def
        create_transaction_run owner_filter_def sample_token_def)
  then obtain w k where run: "?r = (Inr (w, k), snd ?r)" and one: "w_id w = 1"
    by (cases "fst ?r") (auto simp: prod_eq_iff)
  have "balance_of sample_tokens 1 = Some 5000" "(\<Sum>k\<leftarrow>db_tokens sample_tokens. k_tokens k) = 30"
    using sample_shop_balance [of 1] by (simp_all add: sample_tokens_def balance_of_def sample_token_def)
  then have "balance_of (snd ?r) 1 = Some 3500 \<and> (\<Sum>k\<leftarrow>db_tokens (snd ?r). k_tokens k) = 130"
    using purchase_conserves_value [OF wf _ run] one price by (simp add: Let_def)
  with run show ?thesis by blast
qed

text \<open>Where a request carries both a business and a customer, the balance that is checked first
  is the business's and the tokens are taken from the customer: a business with any number of tokens
  is refused, with nothing spent, as soon as the customer's wallet does not cover the price.\<close>

theorem balance_and_spend_disagree:
  assumes "length (filter (\<lambda>k. k_customer k = Some c) (db_tokens s)) \<le> 1"
    and "0 \<le> token_amount (current_settings s) ty over"
    and "find_one (\<lambda>k. k_customer k = Some c) (db_tokens s) = Some kc"
    and "k_tokens kc < token_amount (current_settings s) ty over"
    and "find_one (\<lambda>k. k_business k = Some b) (db_tokens s) = Some kb"
  shows "fst (token_balance (Some b) (Some c) s) = Inr (k_tokens kb) \<and>
         spend ty (Some b) (Some c) over s = (Inl (BadRequestException ''Insufficient tokens''), settle s)"
  using assms spend_run [of "Some b" "Some c" s ty over]
  by (simp add: token_balance_def)

theorem balance_and_spend_disagree_witness:
  "\<exists>s. fst (token_balance (Some 8) (Some 4) s) = Inr 9000 \<and>
     spend Video (Some 8) (Some 4) None s = (Inl (BadRequestException ''Insufficient tokens''), settle s)"
proof -
  let ?kb = "sample_token\<lparr>k_id := 3, k_customer := None, k_business := Some 8, k_tokens := 9000\<rparr>"
  let ?s = "sample_tokens\<lparr>db_tokens := [sample_token, ?kb]\<rparr>"
  have "token_amount (current_settings ?s) Video None = 45"
    by (simp add: token_amount_def current_settings_def sample_tokens_def sample_shop_def empty_db_def
        hydrate_def defaultSettings_def no_settings_def)
  then show ?thesis
    using balance_and_spend_disagree [of 4 ?s Video None sample_token 8 ?kb]
    by (intro exI [of _ ?s]) (simp add: sample_token_def)
qed

end
