(* ===== verification/Earnings.thy ===== *)
theory Earnings
  imports Wallets
begin

text \<open>
  Vendor earnings (\<open>src/modules/business/business.service.ts\<close>): recording them, split into commission
  and net, when an order is paid. \<open>books\<close> is the agreement of the vendors' pending balances with the
  earnings that are recorded and not yet released.
\<close>

section \<open>Recording\<close>

record earning_terms =
  et_type :: commission_type
  et_percent :: rat
  et_flat :: rat
  et_upfront :: rat

definition current_terms :: "db \<Rightarrow> earning_terms" where
  "current_terms s = \<lparr>et_type = setting platform_commission_type Percent s,
     et_percent = setting platform_commission_percent 10 s,
     et_flat = setting platform_commission_flat 0 s,
     et_upfront = setting tailored_order_upfront_percent 0 s\<rparr>"

definition commission_of :: "earning_terms \<Rightarrow> rat \<Rightarrow> rat" where
  "commission_of p gross =
     (if et_type p = Fixed_commission then min (et_flat p) gross else gross * (et_percent p / 100))"

definition create_earning ::
  "oid option \<Rightarrow> oid \<Rightarrow> oid \<Rightarrow> rat \<Rightarrow> rat \<Rightarrow> rat \<Rightarrow> milestone \<Rightarrow> (db, unit) action" where
  "create_earning business orderId itemId amount commission net milestone =
     (if business = None then throw (ExternalError ''ValidationError: business'')
      else andThen fresh (\<lambda>i. modify (\<lambda>s. s\<lparr>db_earnings := db_earnings s @
        [\<lparr>e_id = i, e_business = business, e_order = orderId, e_item = Some itemId,
          e_amount = amount, e_commission = commission, e_net_amount = net, e_released = False,
          e_release_date = None, e_released_at = None, e_milestone = milestone\<rparr>]\<rparr>)))"

text \<open>\<open>walletModel.findOneAndUpdate({ business }, ..., { upsert: true })\<close>.\<close>

definition upsert_business_wallet :: "oid option \<Rightarrow> (wallet \<Rightarrow> wallet) \<Rightarrow> (db, wallet) action" where
  "upsert_business_wallet business f =
     andThen (update_wallet (\<lambda>w. w_business w = business) f) (\<lambda>r. case r of
         Some w \<Rightarrow> ret w
       | None \<Rightarrow> andThen fresh (\<lambda>i.
           let w = f (new_wallet business None i)
           in andThen (modify (\<lambda>s. s\<lparr>db_wallets := db_wallets s @ [w]\<rparr>)) (\<lambda>_. ret w)))"

definition add_pending :: "rat \<Rightarrow> wallet \<Rightarrow> wallet" where
  "add_pending amount w = w\<lparr>w_pending_balance := w_pending_balance w + amount\<rparr>"

text \<open>
  A stored order item has no \<open>clothing_type\<close> (the schema has no such field), so \<open>isCustom\<close> is the
  order's type.
\<close>

definition record_item_earnings :: "earning_terms \<Rightarrow> order \<Rightarrow> order_item \<Rightarrow> (db, rat \<times> rat) action" where
  "record_item_earnings p ord item =
     (let gross = or_num (i_total_price item) 0;
          commission = commission_of p gross;
          net = gross - commission;
          isCustom = (o_type ord = Bespoke);
          upfrontPercent = et_upfront p
      in andThen
           (if isCustom \<and> upfrontPercent > 0 then
              let upfrontNet = net * (upfrontPercent / 100);
                  completionNet = net - upfrontNet
              in andThen (create_earning (i_business item) (o_id ord) (i_id item)
                     (gross * (upfrontPercent / 100)) (commission * (upfrontPercent / 100))
                     upfrontNet Upfront) (\<lambda>_.
                 create_earning (i_business item) (o_id ord) (i_id item)
                     (gross * ((100 - upfrontPercent) / 100))
                     (commission * ((100 - upfrontPercent) / 100)) completionNet Completion)
            else create_earning (i_business item) (o_id ord) (i_id item) gross commission net Completion)
         (\<lambda>_. andThen (upsert_business_wallet (i_business item) (add_pending net)) (\<lambda>_.
         ret (net, commission))))"

definition external_fabric_of :: "order_item \<Rightarrow> rat" where
  "external_fabric_of item =
     or_num (Option.bind (i_pricing item) pr_external_fabric) 0"

definition record_fabric_earning :: "earning_terms \<Rightarrow> order \<Rightarrow> order_item \<Rightarrow> (db, rat \<times> rat) action" where
  "record_fabric_earning p ord item =
     (let externalFabric = external_fabric_of item
      in case i_applied_fabric item of
           None \<Rightarrow> ret (0, 0)
         | Some fabricId \<Rightarrow>
             if \<not> externalFabric > 0 then ret (0, 0)
             else attempt
               (andThen (gets (\<lambda>s. find_one (\<lambda>p. p_id p = fabricId) (db_products s))) (\<lambda>fabric_product. case fabric_product of
                  None \<Rightarrow> throw (NotFoundException ''Product not found'')
                | Some fp \<Rightarrow> (case p_business fp of
                    None \<Rightarrow> ret (0, 0)
                  | Some vendor \<Rightarrow>
                      let fabricCommission = commission_of p externalFabric;
                          fabricNet = externalFabric - fabricCommission
                      in andThen (create_earning (Some vendor) (o_id ord) (i_id item) externalFabric
                             fabricCommission fabricNet Completion) (\<lambda>_.
                         andThen (upsert_business_wallet (Some vendor) (add_pending fabricNet)) (\<lambda>_.
                         ret (fabricNet, fabricCommission))))))
               (\<lambda>_. ret (0, 0)))"

fun record_items ::
  "earning_terms \<Rightarrow> order \<Rightarrow> order_item list \<Rightarrow> rat \<Rightarrow> rat \<Rightarrow> (db, rat \<times> rat) action" where
  "record_items p ord [] totalNet totalCommission = ret (totalNet, totalCommission)"
| "record_items p ord (item # items) totalNet totalCommission =
     andThen (record_item_earnings p ord item) (\<lambda>(net, commission).
     andThen (record_fabric_earning p ord item) (\<lambda>(fabricNet, fabricCommission).
     record_items p ord items (totalNet + net + fabricNet)
       (totalCommission + commission + fabricCommission)))"

text \<open>The atomic claim: \<open>updateOne({ _id, earnings_recorded: { $ne: true } }, ...)\<close>.\<close>

definition claim_order_earnings :: "oid \<Rightarrow> db \<Rightarrow> bool \<times> db" where
  "claim_order_earnings orderId s =
     (let P = (\<lambda>od. o_id od = orderId \<and> \<not> o_earnings_recorded od)
      in (exists_doc P (db_orders s),
          s\<lparr>db_orders := update_one P (\<lambda>od. od\<lparr>o_earnings_recorded := True\<rparr>) (db_orders s)\<rparr>))"

definition recordBusinessEarnings :: "oid \<Rightarrow> (db, unit) action" where
  "recordBusinessEarnings orderId =
     andThen (\<lambda>s. let (won, s') = claim_order_earnings orderId s in (Inr won, s')) (\<lambda>won.
     if \<not> won then ret ()
     else andThen (gets (\<lambda>s. exists_doc (\<lambda>e. e_order e = orderId) (db_earnings s))) (\<lambda>alreadyRecorded.
     if alreadyRecorded then ret ()
     else andThen (gets (\<lambda>s. find_one (\<lambda>od. o_id od = orderId) (db_orders s))) (\<lambda>ord. case ord of
         None \<Rightarrow> ret ()
       | Some ord \<Rightarrow> if o_items ord = [] then ret ()
           else andThen (gets current_terms) (\<lambda>p.
                andThen (record_items p ord (o_items ord) 0 0) (\<lambda>(totalNet, totalCommission).
                modify (\<lambda>s. s\<lparr>db_orders := update_one (\<lambda>od. o_id od = o_id ord)
                  (\<lambda>od. od\<lparr>o_vendor_earnings := totalNet, o_platform_commission := totalCommission\<rparr>)
                  (db_orders s)\<rparr>))))))"

definition paid_statuses :: "order_status set" where
  "paid_statuses = {O_IN_REVIEW, O_PROCESSING, O_IN_TRANSIT, O_COMPLETED}"

text \<open>The counters of \<open>backfillBusinessEarnings\<close>: recorded, skipped, failed.\<close>

fun backfill_orders :: "oid list \<Rightarrow> nat \<times> nat \<times> nat \<Rightarrow> (db, nat \<times> nat \<times> nat) action" where
  "backfill_orders [] counts = ret counts"
| "backfill_orders (orderId # ids) (recorded, skipped, failed) =
     andThen (attempt
       (andThen (gets (\<lambda>s. exists_doc (\<lambda>e. e_order e = orderId) (db_earnings s))) (\<lambda>already.
        if already then ret (recorded, Suc skipped, failed)
        else andThen (recordBusinessEarnings orderId) (\<lambda>_.
             andThen (gets (\<lambda>s. exists_doc (\<lambda>e. e_order e = orderId) (db_earnings s))) (\<lambda>nowExists.
             ret (if nowExists then (Suc recorded, skipped, failed) else (recorded, Suc skipped, failed))))))
       (\<lambda>_. ret (recorded, skipped, Suc failed)))
     (\<lambda>counts. backfill_orders ids counts)"

definition backfillBusinessEarnings :: "(db, nat \<times> nat \<times> nat) action" where
  "backfillBusinessEarnings =
     andThen (gets (\<lambda>s. map o_id (filter (\<lambda>od. o_status od \<in> paid_statuses) (db_orders s)))) (\<lambda>ids.
     backfill_orders ids (0, 0, 0))"

section \<open>The books\<close>

text \<open>
  The pending balance of a vendor's wallet mirrors the earnings that are recorded and not yet
  released. \<open>pending_of\<close> and \<open>owed\<close> are the two sides.
\<close>

definition pending_of :: "db \<Rightarrow> oid \<Rightarrow> rat" where
  "pending_of s b = (case find_one (\<lambda>w. w_business w = Some b) (db_wallets s) of
     None \<Rightarrow> 0 | Some w \<Rightarrow> w_pending_balance w)"

definition owed_by :: "oid \<Rightarrow> business_earning \<Rightarrow> rat" where
  "owed_by b e = (if \<not> e_released e \<and> e_business e = Some b then e_net_amount e else 0)"

definition owed :: "db \<Rightarrow> oid \<Rightarrow> rat" where
  "owed s b = (\<Sum>e\<leftarrow>db_earnings s. owed_by b e)"

definition wf_earnings :: "db \<Rightarrow> bool" where
  "wf_earnings s \<longleftrightarrow> wf_wallets s \<and> distinct (map e_id (db_earnings s)) \<and>
     (\<forall>e\<in>set (db_earnings s). e_id e < db_next s \<and> 0 \<le> e_net_amount e \<and> e_business e \<noteq> None)"

definition sane_terms :: "earning_terms \<Rightarrow> bool" where
  "sane_terms p \<longleftrightarrow> 0 \<le> et_percent p \<and> et_percent p \<le> 100 \<and> 0 \<le> et_upfront p \<and> et_upfront p \<le> 100"

definition sane_order :: "order \<Rightarrow> bool" where
  "sane_order ord \<longleftrightarrow> (\<forall>item\<in>set (o_items ord). 0 \<le> nullish (i_total_price item) 0)"

definition books :: "db \<Rightarrow> bool" where
  "books s \<longleftrightarrow> wf_earnings s \<and> sane_terms (current_terms s) \<and> (\<forall>ord\<in>set (db_orders s). sane_order ord) \<and>
     (\<forall>b. pending_of s b = owed s b)"

lemma owed_nonneg: "wf_earnings s \<Longrightarrow> 0 \<le> owed s b"
  unfolding owed_def by (rule sum_list_nonneg_rat) (auto simp: wf_earnings_def owed_by_def)

lemma owed_ge:
  assumes "wf_earnings s" "e \<in> set (db_earnings s)" "\<not> e_released e" "e_business e = Some b"
  shows "e_net_amount e \<le> owed s b"
proof -
  have "0 \<le> owed_by b x" if "x \<in> set (db_earnings s)" for x
    using assms(1) that by (auto simp: wf_earnings_def owed_by_def)
  then have "owed_by b e \<le> (\<Sum>x\<leftarrow>db_earnings s. owed_by b x)"
    by (intro member_le_sum_list) (use assms(2) in auto)
  with assms(3,4) show ?thesis by (simp add: owed_by_def owed_def)
qed

lemma terms_frame [simp]:
  "current_terms (s\<lparr>db_wallets := ws\<rparr>) = current_terms s"
  "current_terms (s\<lparr>db_next := n\<rparr>) = current_terms s"
  "current_terms (s\<lparr>db_earnings := es\<rparr>) = current_terms s"
  "current_terms (s\<lparr>db_orders := os\<rparr>) = current_terms s"
  "current_terms (s\<lparr>db_transactions := ts\<rparr>) = current_terms s"
  by (simp_all add: current_terms_def setting_def)

lemma sides_frame [simp]:
  "pending_of (s\<lparr>db_earnings := es\<rparr>) = pending_of s" "owed (s\<lparr>db_wallets := ws\<rparr>) = owed s"
  "pending_of (s\<lparr>db_next := n\<rparr>) = pending_of s" "owed (s\<lparr>db_next := n\<rparr>) = owed s"
  "pending_of (s\<lparr>db_orders := os\<rparr>) = pending_of s" "owed (s\<lparr>db_orders := os\<rparr>) = owed s"
  "pending_of (s\<lparr>db_transactions := ts\<rparr>) = pending_of s" "owed (s\<lparr>db_transactions := ts\<rparr>) = owed s"
  by (rule ext, simp add: pending_of_def owed_def)+

lemma pending_update:
  assumes "\<And>w. w_business (f w) = w_business w" "\<And>w. w_pending_balance (f w) = w_pending_balance w + x"
    and "find_one (\<lambda>w. w_business w = Some b) ws = Some w0"
  shows "pending_of (s\<lparr>db_wallets := update_one (\<lambda>w. w_business w = Some b) f ws\<rparr>) =
         (pending_of (s\<lparr>db_wallets := ws\<rparr>))(b := w_pending_balance w0 + x)"
proof (rule ext)
  fix c
  have "find_one (\<lambda>w. w_business w = Some c) (update_one (\<lambda>w. w_business w = Some b) f ws) =
      (if c = b then Some (f w0) else find_one (\<lambda>w. w_business w = Some c) ws)"
    using assms by (auto intro!: find_one_update_one_same find_one_update_one_other
        dest: find_one_SomeD)
  then show "pending_of (s\<lparr>db_wallets := update_one (\<lambda>w. w_business w = Some b) f ws\<rparr>) c =
      ((pending_of (s\<lparr>db_wallets := ws\<rparr>))(b := w_pending_balance w0 + x)) c"
    using assms(2) by (simp add: pending_of_def)
qed

text \<open>Crediting a vendor's wallet, which is created where it is missing, touches nothing else.\<close>

lemma upsert_business_wallet_spec:
  assumes wf: "wf_wallets s" and f: "\<And>w. w_id (f w) = w_id w" "\<And>w. w_business (f w) = w_business w"
    "\<And>w. w_pending_balance (f w) = w_pending_balance w + x" "\<And>w. w_balance (f w) = w_balance w + y"
  obtains w ws n where "upsert_business_wallet (Some b) f s = (Inr w, s\<lparr>db_next := n, db_wallets := ws\<rparr>)"
    "db_next s \<le> n" "wf_wallets (s\<lparr>db_next := n, db_wallets := ws\<rparr>)"
    "pending_of (s\<lparr>db_wallets := ws\<rparr>) = (pending_of s)(b := pending_of s b + x)"
    "(\<Sum>w\<leftarrow>ws. w_balance w) = (\<Sum>w\<leftarrow>db_wallets s. w_balance w) + y"
proof (cases "find_one (\<lambda>w. w_business w = Some b) (db_wallets s)")
  case None
  let ?w = "f (new_wallet (Some b) None (db_next s))" and ?n = "Suc (db_next s)"
  have run: "upsert_business_wallet (Some b) f s =
      (Inr ?w, s\<lparr>db_next := ?n, db_wallets := db_wallets s @ [?w]\<rparr>)"
    using None by (simp add: upsert_business_wallet_def andThen_app update_wallet_def update_one_None Let_def)
  show thesis
  proof (rule that [OF run])
    show "wf_wallets (s\<lparr>db_next := ?n, db_wallets := db_wallets s @ [?w]\<rparr>)"
      using wf f(1) by (fastforce simp: wf_wallets_def new_wallet_def)
    show "pending_of (s\<lparr>db_wallets := db_wallets s @ [?w]\<rparr>) = (pending_of s)(b := pending_of s b + x)"
      using None f by (auto simp: fun_eq_iff pending_of_def find_one_append new_wallet_def split: option.splits)
  qed (use f in \<open>simp_all add: new_wallet_def\<close>)
next
  case (Some w0)
  let ?ws = "update_one (\<lambda>w. w_business w = Some b) f (db_wallets s)"
  have run: "upsert_business_wallet (Some b) f s = (Inr (f w0), s\<lparr>db_next := db_next s, db_wallets := ?ws\<rparr>)"
    using Some by (simp add: upsert_business_wallet_def andThen_app update_wallet_def)
  show thesis
  proof (rule that [OF run])
    show "wf_wallets (s\<lparr>db_next := db_next s, db_wallets := ?ws\<rparr>)"
      using wf f(1) by (auto simp: wf_wallets_def map_update_one dest!: subsetD [OF set_update_one])
    show "pending_of (s\<lparr>db_wallets := ?ws\<rparr>) = (pending_of s)(b := pending_of s b + x)"
      using pending_update [OF f(2,3) Some] Some by (simp add: pending_of_def)
    show "(\<Sum>w\<leftarrow>?ws. w_balance w) = (\<Sum>w\<leftarrow>db_wallets s. w_balance w) + y"
      using sum_list_update_one [OF Some, of w_balance f] f(4) by simp
  qed simp
qed

section \<open>Recording keeps the books\<close>

lemma create_earning_run:
  "create_earning (Some b) orderId itemId amount commission net m s =
     (Inr (), s\<lparr>db_next := Suc (db_next s), db_earnings := db_earnings s @
        [\<lparr>e_id = db_next s, e_business = Some b, e_order = orderId, e_item = Some itemId,
          e_amount = amount, e_commission = commission, e_net_amount = net, e_released = False,
          e_release_date = None, e_released_at = None, e_milestone = m\<rparr>]\<rparr>)"
  by (simp add: create_earning_def andThen_app)

lemma create_earning_none: "create_earning None orderId itemId amount commission net m s =
    (Inl (ExternalError ''ValidationError: business''), s)"
  by (simp add: create_earning_def)

lemma commission_le: "\<lbrakk>sane_terms p; 0 \<le> gross\<rbrakk> \<Longrightarrow> commission_of p gross \<le> gross"
  using mult_left_mono [of "et_percent p" 100 gross] by (simp add: commission_of_def sane_terms_def)

text \<open>What vendor \<open>b\<close> has in a list of earnings, and what an item brings them of a share \<open>f\<close> of its prices: the price of the
  item where it is theirs, and the price of its fabric where that is theirs.\<close>

definition vendor_sum :: "oid \<Rightarrow> (business_earning \<Rightarrow> rat) \<Rightarrow> business_earning list \<Rightarrow> rat" where
  "vendor_sum b g es = (\<Sum>e\<leftarrow>es. if e_business e = Some b then g e else 0)"

definition fabric_vendor :: "product list \<Rightarrow> order_item \<Rightarrow> oid option" where
  "fabric_vendor ps item = (if external_fabric_of item > 0
     then Option.bind (i_applied_fabric item) (\<lambda>f. Option.bind (find_one (\<lambda>p. p_id p = f) ps) p_business) else None)"

definition item_share :: "oid \<Rightarrow> product list \<Rightarrow> (rat \<Rightarrow> rat) \<Rightarrow> order_item \<Rightarrow> rat" where
  "item_share b ps f item = (if i_business item = Some b then f (nullish (i_total_price item) 0) else 0) +
     (if fabric_vendor ps item = Some b then f (external_fabric_of item) else 0)"

lemma vendor_sum_append: "vendor_sum b g (es @ fs) = vendor_sum b g es + vendor_sum b g fs"
  by (simp add: vendor_sum_def)

lemma vendor_sum_one:
  "\<forall>e\<in>set es. e_business e = Some b \<Longrightarrow> vendor_sum c g es = (if b = c then (\<Sum>e\<leftarrow>es. g e) else 0)"
  by (induction es) (auto simp: vendor_sum_def)

text \<open>
  What a recording step adds: earnings for the order, unreleased and unscheduled, whose amounts
  split into commission and net, with every vendor's pending balance moved by what is now owed.
\<close>

definition new_earning :: "oid \<Rightarrow> business_earning \<Rightarrow> bool" where
  "new_earning orderId e \<longleftrightarrow> e_order e = orderId \<and> \<not> e_released e \<and> e_release_date e = None \<and>
     0 \<le> e_net_amount e \<and> e_amount e = e_commission e + e_net_amount e"

definition recorded :: "oid \<Rightarrow> db \<Rightarrow> db \<Rightarrow> business_earning list \<Rightarrow> bool" where
  "recorded orderId s s' es \<longleftrightarrow> wf_earnings s' \<and> db_earnings s' = db_earnings s @ es \<and>
     list_all (new_earning orderId) es \<and> (\<forall>b. pending_of s' b - owed s' b = pending_of s b - owed s b) \<and>
     db_orders s' = db_orders s \<and> db_products s' = db_products s \<and> current_terms s' = current_terms s \<and>
     (\<Sum>w\<leftarrow>db_wallets s'. w_balance w) = (\<Sum>w\<leftarrow>db_wallets s. w_balance w) \<and>
     db_transactions s' = db_transactions s"

lemma recorded_trans:
  "\<lbrakk>recorded i s s' es; recorded i s' s'' fs\<rbrakk> \<Longrightarrow> recorded i s s'' (es @ fs)"
  by (simp add: recorded_def)

lemma recorded_refl: "wf_earnings s \<Longrightarrow> recorded i s s []"
  by (simp add: recorded_def)

text \<open>One or two earnings of one business, followed by the increment of its pending balance.\<close>

lemma recorded_step:
  assumes wf: "wf_earnings s" and es: "list_all (new_earning i) es"
    "\<forall>e\<in>set es. e_business e = Some b \<and> e_id e < n" "distinct (map e_id es)"
    "\<forall>e\<in>set es. db_next s \<le> e_id e" and n: "db_next s \<le> n"
  obtains w s' where "upsert_business_wallet (Some b) (add_pending (\<Sum>e\<leftarrow>es. e_net_amount e))
      (s\<lparr>db_next := n, db_earnings := db_earnings s @ es\<rparr>) = (Inr w, s')" "recorded i s s' es"
proof -
  let ?x = "\<Sum>e\<leftarrow>es. e_net_amount e" and ?s = "s\<lparr>db_next := n, db_earnings := db_earnings s @ es\<rparr>"
  have ww: "wf_wallets ?s" using wf n by (fastforce simp: wf_earnings_def wf_wallets_def)
  obtain w ws m where run: "upsert_business_wallet (Some b) (add_pending ?x) ?s =
        (Inr w, ?s\<lparr>db_next := m, db_wallets := ws\<rparr>)" and m: "db_next ?s \<le> m"
    and ww': "wf_wallets (?s\<lparr>db_next := m, db_wallets := ws\<rparr>)"
    and p: "pending_of (?s\<lparr>db_wallets := ws\<rparr>) = (pending_of ?s)(b := pending_of ?s b + ?x)"
    and bal: "(\<Sum>w\<leftarrow>ws. w_balance w) = (\<Sum>w\<leftarrow>db_wallets ?s. w_balance w) + 0"
    by (rule upsert_business_wallet_spec [OF ww, of "add_pending ?x" ?x 0 b]) (auto simp: add_pending_def)
  let ?s' = "?s\<lparr>db_next := m, db_wallets := ws\<rparr>"
  have sums: "(\<Sum>e\<leftarrow>es. owed_by c e) = (if c = b then ?x else 0)" for c
    using es(1,2) by (induction es) (auto simp: owed_by_def new_earning_def)
  have gap: "pending_of ?s' c - owed ?s' c = pending_of s c - owed s c" for c
  proof -
    have "pending_of ?s' c = pending_of s c + (if c = b then ?x else 0)"
      using fun_cong [OF p, of c] by (simp add: pending_of_def)
    then show ?thesis by (simp add: owed_def sums)
  qed
  have "wf_earnings ?s'"
    using wf ww' es m n
    by (fastforce simp: wf_earnings_def list_all_iff new_earning_def)
  moreover have "current_terms ?s' = current_terms s" by (simp add: current_terms_def setting_def)
  ultimately have "recorded i s ?s' es"
    using gap es(1) bal by (simp add: recorded_def)
  with run show thesis by (rule that)
qed

lemma record_item_recorded:
  assumes "wf_earnings s" "sane_terms p" "0 \<le> nullish (i_total_price item) 0"
  shows "case record_item_earnings p ord item s of
      (Inl e, s') \<Rightarrow> s' = s \<and> i_business item = None
    | (Inr (net, com), s') \<Rightarrow> (\<exists>es. recorded (o_id ord) s s' es \<and> (\<Sum>e\<leftarrow>es. e_net_amount e) = net \<and>
        (\<Sum>e\<leftarrow>es. e_commission e) = com \<and> (\<exists>b. i_business item = Some b \<and> (\<forall>c.
          vendor_sum c e_amount es = (if b = c then nullish (i_total_price item) 0 else 0) \<and>
          vendor_sum c e_commission es = (if b = c then commission_of p (nullish (i_total_price item) 0) else 0))))"
proof (cases "i_business item")
  case None
  then show ?thesis
    by (simp add: record_item_earnings_def Let_def andThen_app create_earning_none)
next
  case (Some b)
  let ?gross = "nullish (i_total_price item) 0"
  let ?com = "commission_of p ?gross" let ?net = "?gross - ?com" let ?u = "et_upfront p / 100"
  let ?e = "\<lambda>i a c n m. \<lparr>e_id = i, e_business = Some b, e_order = o_id ord, e_item = Some (i_id item),
      e_amount = a, e_commission = c, e_net_amount = n, e_released = False,
      e_release_date = None, e_released_at = None, e_milestone = m\<rparr>"
  have net: "0 \<le> ?net" using commission_le [OF assms(2,3)] by simp
  show ?thesis
  proof (cases "o_type ord = Bespoke \<and> et_upfront p > 0")
    case True
    let ?es = "[?e (db_next s) (?gross * ?u) (?com * ?u) (?net * ?u) Upfront,
                ?e (Suc (db_next s)) (?gross * ((100 - et_upfront p) / 100))
                   (?com * ((100 - et_upfront p) / 100)) (?net - ?net * ?u) Completion]"
    have u: "0 \<le> ?u" "?u \<le> 1" using assms(2) by (simp_all add: sane_terms_def)
    then have "0 \<le> ?net * ?u" "?net * ?u \<le> ?net"
      using net mult_left_mono [of ?u 1 ?net] by (simp_all only: mult_nonneg_nonneg mult_1_right)
    then have new: "list_all (new_earning (o_id ord)) ?es"
      by (simp add: new_earning_def field_simps)
    have nets: "(\<Sum>e\<leftarrow>?es. e_net_amount e) = ?net" by simp
    obtain w s' where up: "upsert_business_wallet (Some b) (add_pending ?net)
        (s\<lparr>db_next := Suc (Suc (db_next s)), db_earnings := db_earnings s @ ?es\<rparr>) = (Inr w, s')"
        "recorded (o_id ord) s s' ?es"
      using recorded_step [OF assms(1) new, of b "Suc (Suc (db_next s))"] unfolding nets
      by (auto simp del: upt_rec_numeral)
    have "record_item_earnings p ord item s = (Inr (?net, ?com), s')"
      using True Some up(1)
      by (simp add: record_item_earnings_def Let_def andThen_app create_earning_run)
    moreover have "(\<Sum>e\<leftarrow>?es. e_commission e) = ?com" "(\<Sum>e\<leftarrow>?es. e_amount e) = ?gross" by (simp_all add: field_simps)
    moreover from this have "vendor_sum c e_amount ?es = (if b = c then ?gross else 0) \<and>
        vendor_sum c e_commission ?es = (if b = c then ?com else 0)" for c
      by (subst (1 2) vendor_sum_one [where b = b]) simp_all
    ultimately show ?thesis using up(2) nets Some by (auto intro!: exI [of _ ?es])
  next
    case False
    let ?es = "[?e (db_next s) ?gross ?com ?net Completion]"
    have new: "list_all (new_earning (o_id ord)) ?es" using net by (simp add: new_earning_def)
    have nets: "(\<Sum>e\<leftarrow>?es. e_net_amount e) = ?net" by simp
    obtain w s' where up: "upsert_business_wallet (Some b) (add_pending ?net)
        (s\<lparr>db_next := Suc (db_next s), db_earnings := db_earnings s @ ?es\<rparr>) = (Inr w, s')"
        "recorded (o_id ord) s s' ?es"
      using recorded_step [OF assms(1) new, of b "Suc (db_next s)"] unfolding nets by auto
    have "record_item_earnings p ord item s = (Inr (?net, ?com), s')"
      using False Some up(1)
      by (auto simp add: record_item_earnings_def Let_def andThen_app create_earning_run)
    with up(2) nets Some show ?thesis by (auto simp: vendor_sum_def intro!: exI [of _ ?es])
  qed
qed

lemma record_fabric_recorded:
  assumes "wf_earnings s" "sane_terms p"
  shows "\<exists>net com s' es. record_fabric_earning p ord item s = (Inr (net, com), s') \<and>
     recorded (o_id ord) s s' es \<and> (\<Sum>e\<leftarrow>es. e_net_amount e) = net \<and>
     (\<Sum>e\<leftarrow>es. e_commission e) = com \<and> (\<forall>c.
       vendor_sum c e_amount es = (if fabric_vendor (db_products s) item = Some c then external_fabric_of item else 0) \<and>
       vendor_sum c e_commission es = (if fabric_vendor (db_products s) item = Some c then commission_of p (external_fabric_of item) else 0))"
proof (cases "\<exists>f fp v. i_applied_fabric item = Some f \<and> external_fabric_of item > 0 \<and>
    find_one (\<lambda>p. p_id p = f) (db_products s) = Some fp \<and> p_business fp = Some v")
  case False
  then have "record_fabric_earning p ord item s = (Inr (0, 0), s)"
    by (auto simp: record_fabric_earning_def Let_def attempt_app andThen_app split: option.splits)
  moreover have "fabric_vendor (db_products s) item = None"
    using False by (cases "fabric_vendor (db_products s) item") (auto simp: fabric_vendor_def bind_eq_Some_conv split: if_splits)
  ultimately show ?thesis using recorded_refl [OF assms(1)] by (auto simp: vendor_sum_def intro!: exI [of _ "[]"])
next
  case True
  then obtain f fp v where ex: "i_applied_fabric item = Some f" "external_fabric_of item > 0"
    "find_one (\<lambda>p. p_id p = f) (db_products s) = Some fp" "p_business fp = Some v" by blast
  let ?x = "external_fabric_of item" let ?com = "commission_of p ?x"
  let ?es = "[\<lparr>e_id = db_next s, e_business = Some v, e_order = o_id ord, e_item = Some (i_id item),
      e_amount = ?x, e_commission = ?com, e_net_amount = ?x - ?com, e_released = False,
      e_release_date = None, e_released_at = None, e_milestone = Completion\<rparr>]"
  have new: "list_all (new_earning (o_id ord)) ?es"
    using commission_le [OF assms(2), of ?x] ex(2) by (simp add: new_earning_def)
  have nets: "(\<Sum>e\<leftarrow>?es. e_net_amount e) = ?x - ?com" by simp
  obtain w s' where up: "upsert_business_wallet (Some v) (add_pending (?x - ?com))
      (s\<lparr>db_next := Suc (db_next s), db_earnings := db_earnings s @ ?es\<rparr>) = (Inr w, s')"
      "recorded (o_id ord) s s' ?es"
    using recorded_step [OF assms(1) new, of v "Suc (db_next s)"] unfolding nets by auto
  have "record_fabric_earning p ord item s = (Inr (?x - ?com, ?com), s')"
    using ex up(1)
    by (simp add: record_fabric_earning_def Let_def attempt_app andThen_app create_earning_run)
  moreover have "fabric_vendor (db_products s) item = Some v" using ex by (simp add: fabric_vendor_def)
  ultimately show ?thesis using up(2) by (auto simp: vendor_sum_def intro!: exI [of _ ?es])
qed

lemma record_items_recorded:
  assumes "wf_earnings s" "sane_terms p" "\<forall>item\<in>set items. 0 \<le> nullish (i_total_price item) 0"
  shows "case record_items p ord items tn tc s of
      (Inl e, s') \<Rightarrow> (\<exists>es. recorded (o_id ord) s s' es) \<and> (\<exists>item\<in>set items. i_business item = None)
    | (Inr (net, com), s') \<Rightarrow> \<exists>es. recorded (o_id ord) s s' es \<and>
        tn + (\<Sum>e\<leftarrow>es. e_net_amount e) = net \<and> tc + (\<Sum>e\<leftarrow>es. e_commission e) = com \<and> (\<forall>c.
          vendor_sum c e_amount es = (\<Sum>item\<leftarrow>items. item_share c (db_products s) (\<lambda>x. x) item) \<and>
          vendor_sum c e_commission es = (\<Sum>item\<leftarrow>items. item_share c (db_products s) (commission_of p) item))"
  using assms
proof (induction items arbitrary: s tn tc)
  case Nil
  then show ?case using recorded_refl by (fastforce simp: vendor_sum_def)
next
  case (Cons item items)
  have item: "0 \<le> nullish (i_total_price item) 0" using Cons.prems(3) by simp
  note one = record_item_recorded [OF Cons.prems(1,2) item, of ord]
  show ?case
  proof (cases "record_item_earnings p ord item s")
    case (Pair r s1)
    show ?thesis
    proof (cases r)
      case (Inl e)
      with Pair one recorded_refl [OF Cons.prems(1), of "o_id ord"] show ?thesis
        by (auto simp: andThen_app)
    next
      case (Inr v)
      obtain net com where v: "v = (net, com)" by force
      with Pair Inr one obtain es where es: "recorded (o_id ord) s s1 es"
        "(\<Sum>e\<leftarrow>es. e_net_amount e) = net" "(\<Sum>e\<leftarrow>es. e_commission e) = com"
        "\<forall>c. vendor_sum c e_amount es = (if i_business item = Some c then nullish (i_total_price item) 0 else 0) \<and>
          vendor_sum c e_commission es = (if i_business item = Some c then commission_of p (nullish (i_total_price item) 0) else 0)"
        by auto
      then have wf1: "wf_earnings s1" by (simp add: recorded_def)
      obtain fn fc s2 fs where fab: "record_fabric_earning p ord item s1 = (Inr (fn, fc), s2)"
        "recorded (o_id ord) s1 s2 fs" "(\<Sum>e\<leftarrow>fs. e_net_amount e) = fn" "(\<Sum>e\<leftarrow>fs. e_commission e) = fc"
        "\<forall>c. vendor_sum c e_amount fs = (if fabric_vendor (db_products s1) item = Some c then external_fabric_of item else 0) \<and>
          vendor_sum c e_commission fs = (if fabric_vendor (db_products s1) item = Some c then commission_of p (external_fabric_of item) else 0)"
        using record_fabric_recorded [OF wf1 Cons.prems(2), of ord item] by blast
      then have wf2: "wf_earnings s2" by (simp add: recorded_def)
      have run: "record_items p ord (item # items) tn tc s =
          record_items p ord items (tn + net + fn) (tc + com + fc) s2"
        using Pair Inr v fab(1) by (simp add: andThen_app)
      have so_far: "recorded (o_id ord) s s2 (es @ fs)" using es(1) fab(2) by (rule recorded_trans)
      have prods: "db_products s1 = db_products s" "db_products s2 = db_products s"
        using es(1) so_far by (simp_all add: recorded_def)
      have shares: "vendor_sum c e_amount (es @ fs) = item_share c (db_products s) (\<lambda>x. x) item"
        "vendor_sum c e_commission (es @ fs) = item_share c (db_products s) (commission_of p) item" for c
        using es(4) fab(5) prods(1) by (simp_all add: vendor_sum_append item_share_def)
      have rest: "\<forall>item\<in>set items. 0 \<le> nullish (i_total_price item) 0" using Cons.prems(3) by simp
      note IH = Cons.IH [OF wf2 Cons.prems(2) rest, of "tn + net + fn" "tc + com + fc"]
      show ?thesis
      proof (cases "record_items p ord items (tn + net + fn) (tc + com + fc) s2")
        case last: (Pair r3 s3)
        with IH obtain gs where gs: "recorded (o_id ord) s2 s3 gs" "\<And>e. r3 = Inl e \<Longrightarrow> \<exists>item\<in>set items. i_business item = None"
          "\<And>a b. r3 = Inr (a, b) \<Longrightarrow> tn + net + fn + (\<Sum>e\<leftarrow>gs. e_net_amount e) = a \<and>
             tc + com + fc + (\<Sum>e\<leftarrow>gs. e_commission e) = b \<and> (\<forall>c.
             vendor_sum c e_amount gs = (\<Sum>item\<leftarrow>items. item_share c (db_products s) (\<lambda>x. x) item) \<and>
             vendor_sum c e_commission gs = (\<Sum>item\<leftarrow>items. item_share c (db_products s) (commission_of p) item))"
          using prods(2) by (cases r3) auto
        note whole = recorded_trans [OF so_far gs(1)]
        show ?thesis
        proof (cases r3)
          case (Inl e)
          with whole gs(2) run last show ?thesis by auto
        next
          case (Inr v)
          obtain a b where v: "v = (a, b)" by force
          have "vendor_sum c e_amount ((es @ fs) @ gs) = (\<Sum>item\<leftarrow>item # items. item_share c (db_products s) (\<lambda>x. x) item) \<and>
            vendor_sum c e_commission ((es @ fs) @ gs) = (\<Sum>item\<leftarrow>item # items. item_share c (db_products s) (commission_of p) item)" for c
            unfolding vendor_sum_append [of c _ "es @ fs" gs] shares using gs(3) Inr v by simp
          with whole gs(3) Inr v es(2,3) fab(3,4) run last show ?thesis
            by (auto intro!: exI [of _ "es @ fs @ gs"] simp: algebra_simps)
        qed
      qed
    qed
  qed
qed

lemma recorded_books:
  assumes "books s" "recorded i s s' es"
  shows "books s'"
  using assms by (auto simp: books_def recorded_def)

lemma claim_books:
  "books s \<Longrightarrow> books (snd (claim_order_earnings i s))"
  by (auto simp: books_def claim_order_earnings_def Let_def wf_earnings_def wf_wallets_def sane_order_def
      dest!: subsetD [OF set_update_one])

lemma orders_books:
  assumes "books s" "\<forall>ord\<in>set (db_orders s). sane_order (f ord)"
  shows "books (s\<lparr>db_orders := update_one P f (db_orders s)\<rparr>)"
  using assms
  by (auto simp: books_def wf_earnings_def wf_wallets_def dest!: subsetD [OF set_update_one])

lemma recording_run:
  assumes "books s" "distinct (map o_id (db_orders s))"
  shows "case recordBusinessEarnings orderId s of
      (Inl e, s') \<Rightarrow> \<exists>es. recorded orderId (snd (claim_order_earnings orderId s)) s' es
    | (Inr _, s') \<Rightarrow> s' = snd (claim_order_earnings orderId s) \<or>
        (\<exists>es s1. recorded orderId (snd (claim_order_earnings orderId s)) s1 es \<and>
          s' = s1\<lparr>db_orders := update_one (\<lambda>od. o_id od = orderId)
             (\<lambda>od. od\<lparr>o_vendor_earnings := \<Sum>e\<leftarrow>es. e_net_amount e,
                      o_platform_commission := \<Sum>e\<leftarrow>es. e_commission e\<rparr>) (db_orders s1)\<rparr>)"
proof -
  obtain won s1 where won: "claim_order_earnings orderId s = (won, s1)" by fastforce
  have b1: "books s1" using claim_books [OF assms(1), of orderId] won by simp
  note def = recordBusinessEarnings_def andThen_app won
  consider (skip) "recordBusinessEarnings orderId s = (Inr (), s1)"
    | (go) ord where "find_one (\<lambda>od. o_id od = orderId) (db_orders s1) = Some ord"
        "recordBusinessEarnings orderId s =
           andThen (record_items (current_terms s1) ord (o_items ord) 0 0) (\<lambda>(totalNet, totalCommission).
                modify (\<lambda>s. s\<lparr>db_orders := update_one (\<lambda>od. o_id od = o_id ord)
                  (\<lambda>od. od\<lparr>o_vendor_earnings := totalNet, o_platform_commission := totalCommission\<rparr>)
                  (db_orders s)\<rparr>)) s1"
  proof (cases "find_one (\<lambda>od. o_id od = orderId) (db_orders s1)")
    case None
    then show thesis by (intro skip) (simp add: def)
  next
    case (Some ord)
    show thesis
    proof (cases "won \<and> \<not> exists_doc (\<lambda>e. e_order e = orderId) (db_earnings s1) \<and> o_items ord \<noteq> []")
      case True
      with Some show thesis by (intro go) (simp_all add: def)
    next
      case False
      with Some show thesis by (intro skip) (auto simp: def)
    qed
  qed
  then show ?thesis
  proof cases
    case skip
    then show ?thesis using won by simp
  next
    case (go ord)
    from find_one_SomeD [OF go(1)] b1 have ord: "o_id ord = orderId" "sane_order ord"
      by (auto simp: books_def)
    have "wf_earnings s1" "sane_terms (current_terms s1)" "\<forall>item\<in>set (o_items ord). 0 \<le> nullish (i_total_price item) 0"
      using b1 ord(2) by (auto simp: books_def sane_order_def)
    note run = record_items_recorded [OF this, of ord 0 0]
    show ?thesis
      using run go(2) ord(1) won
      by (cases "record_items (current_terms s1) ord (o_items ord) 0 0 s1")
        (auto simp: andThen_app split: sum.splits prod.splits)
  qed
qed

text \<open>An order that was not recorded and whose items all belong to a business is recorded completely.\<close>

lemma recording_shares:
  assumes "books s" "distinct (map o_id (db_orders s))" "find_one (\<lambda>od. o_id od = orderId) (db_orders s) = Some ord"
    "\<not> o_earnings_recorded ord" "\<forall>e\<in>set (db_earnings s). e_order e \<noteq> orderId" "\<forall>item\<in>set (o_items ord). i_business item \<noteq> None"
    "o_items ord \<noteq> []"
  shows "\<exists>s' es. recordBusinessEarnings orderId s = (Inr (), s') \<and> db_earnings s' = db_earnings s @ es \<and> (\<forall>b.
     vendor_sum b e_amount es = (\<Sum>item\<leftarrow>o_items ord. item_share b (db_products s) (\<lambda>x. x) item) \<and>
     vendor_sum b e_commission es = (\<Sum>item\<leftarrow>o_items ord. item_share b (db_products s) (commission_of (current_terms s)) item))"
proof -
  let ?mark = "\<lambda>od. od\<lparr>o_earnings_recorded := True\<rparr>" and ?P = "\<lambda>od. o_id od = orderId \<and> \<not> o_earnings_recorded od"
  let ?s1 = "s\<lparr>db_orders := update_one ?P ?mark (db_orders s)\<rparr>"
  have one: "length (filter (\<lambda>od. o_id od = orderId) (db_orders s)) \<le> 1" by (rule one_match_key [OF assms(2)])
  have won: "claim_order_earnings orderId s = (True, ?s1)"
    using assms(3,4) by (simp add: claim_order_earnings_def Let_def exists_doc_def find_one_guarded [OF one])
  have ord: "o_id ord = orderId" using find_one_SomeD [OF assms(3)] by simp
  have found: "find_one (\<lambda>od. o_id od = orderId) (db_orders ?s1) = Some (?mark ord)"
    using find_one_update_one_same [OF assms(3), of ?mark] assms(3,4) ord by (simp add: update_one_guarded [OF one])
  have b1: "books ?s1" using claim_books [OF assms(1), of orderId] won by simp
  have "sane_order ord" using assms(1,3) by (auto simp: books_def dest: find_one_SomeD)
  then have pre: "wf_earnings ?s1" "sane_terms (current_terms ?s1)" "\<forall>item\<in>set (o_items ord). 0 \<le> nullish (i_total_price item) 0"
    using b1 by (simp_all add: books_def sane_order_def)
  note run = record_items_recorded [OF pre, of "?mark ord" 0 0]
  obtain net com s2 where r: "record_items (current_terms ?s1) (?mark ord) (o_items ord) 0 0 ?s1 = (Inr (net, com), s2)"
    using run assms(6) by (cases "record_items (current_terms ?s1) (?mark ord) (o_items ord) 0 0 ?s1") (auto split: sum.splits)
  with run obtain es where es: "recorded orderId ?s1 s2 es" "\<forall>b.
     vendor_sum b e_amount es = (\<Sum>item\<leftarrow>o_items ord. item_share b (db_products s) (\<lambda>x. x) item) \<and>
     vendor_sum b e_commission es = (\<Sum>item\<leftarrow>o_items ord. item_share b (db_products s) (commission_of (current_terms s)) item)"
    using ord by auto
  have "\<exists>s'. recordBusinessEarnings orderId s = (Inr (), s') \<and> db_earnings s' = db_earnings s2"
    using won found assms(5,7) r by (simp add: recordBusinessEarnings_def andThen_app exists_doc_iff)
  with es show ?thesis by (auto simp: recorded_def)
qed

lemma recording_empty:
  assumes "find_one (\<lambda>od. o_id od = orderId) (db_orders s) = Some ord" "o_items ord = []"
  shows "\<exists>s'. recordBusinessEarnings orderId s = (Inr (), s') \<and> db_earnings s' = db_earnings s"
proof -
  obtain won s1 where won: "claim_order_earnings orderId s = (won, s1)" "db_earnings s1 = db_earnings s"
    "s1 = s\<lparr>db_orders := update_one (\<lambda>od. o_id od = orderId \<and> \<not> o_earnings_recorded od) (\<lambda>od. od\<lparr>o_earnings_recorded := True\<rparr>) (db_orders s)\<rparr>"
    by (simp add: claim_order_earnings_def Let_def)
  have "\<exists>x. find_one (\<lambda>od. o_id od = orderId) (update_one P (\<lambda>od. od\<lparr>o_earnings_recorded := True\<rparr>) ods) = Some x \<and> o_items x = []"
    if "find_one (\<lambda>od. o_id od = orderId) ods = Some ord" for P ods
    using that assms(2) by (induction ods) (auto split: if_splits)
  from this [OF assms(1)] won(3) obtain x where "find_one (\<lambda>od. o_id od = orderId) (db_orders s1) = Some x" "o_items x = []" by auto
  with won(1,2) show ?thesis by (simp add: recordBusinessEarnings_def andThen_app)
qed

lemma recording_keeps_books:
  assumes "books s" and "distinct (map o_id (db_orders s))"
    and "recordBusinessEarnings orderId s = (r, s')"
  shows "books s' \<and> (\<exists>es. db_earnings s' = db_earnings s @ es \<and>
      (\<forall>e\<in>set es. e_order e = orderId \<and> \<not> e_released e \<and> 0 \<le> e_net_amount e \<and>
                   e_amount e = e_commission e + e_net_amount e) \<and>
      (\<Sum>w\<leftarrow>db_wallets s'. w_balance w) = (\<Sum>w\<leftarrow>db_wallets s. w_balance w) \<and>
      (r = Inr () \<and> es \<noteq> [] \<longrightarrow> (\<forall>ord\<in>set (db_orders s'). o_id ord = orderId \<longrightarrow>
         o_vendor_earnings ord = (\<Sum>e\<leftarrow>es. e_net_amount e) \<and>
         o_platform_commission ord = (\<Sum>e\<leftarrow>es. e_commission e))))"
proof -
  let ?s1 = "snd (claim_order_earnings orderId s)"
  have b1: "books ?s1" using assms(1) by (rule claim_books)
  have same: "db_earnings ?s1 = db_earnings s" "db_wallets ?s1 = db_wallets s"
    "distinct (map o_id (db_orders ?s1))"
    using assms(2) by (simp_all add: claim_order_earnings_def Let_def map_update_one)
  have totals: "\<forall>ord\<in>set (update_one (\<lambda>od. o_id od = orderId)
       (\<lambda>od. od\<lparr>o_vendor_earnings := x, o_platform_commission := y\<rparr>) (db_orders ?s1)).
     o_id ord = orderId \<longrightarrow> o_vendor_earnings ord = x \<and> o_platform_commission ord = y" for x y
    using update_one_key_at [OF same(3)] by fastforce
  have new: "\<forall>e\<in>set es. e_order e = orderId \<and> \<not> e_released e \<and> 0 \<le> e_net_amount e \<and>
       e_amount e = e_commission e + e_net_amount e"
    if "list_all (new_earning orderId) es" for es
    using that by (auto simp: list_all_iff new_earning_def)
  show ?thesis
  proof (cases r)
    case (Inl e)
    obtain es where es: "recorded orderId ?s1 s' es"
      using recording_run [OF assms(1,2), of orderId] unfolding assms(3) Inl by auto
    with Inl show ?thesis
      using recorded_books [OF b1 es] new same by (auto simp: recorded_def)
  next
    case (Inr u)
    have "s' = ?s1 \<or> (\<exists>es s1. recorded orderId ?s1 s1 es \<and>
        s' = s1\<lparr>db_orders := update_one (\<lambda>od. o_id od = orderId)
             (\<lambda>od. od\<lparr>o_vendor_earnings := \<Sum>e\<leftarrow>es. e_net_amount e,
                      o_platform_commission := \<Sum>e\<leftarrow>es. e_commission e\<rparr>) (db_orders s1)\<rparr>)"
      using recording_run [OF assms(1,2), of orderId] unfolding assms(3) Inr by simp
    then consider "s' = ?s1"
      | es s1 where "recorded orderId ?s1 s1 es" "s' = s1\<lparr>db_orders := update_one (\<lambda>od. o_id od = orderId)
             (\<lambda>od. od\<lparr>o_vendor_earnings := \<Sum>e\<leftarrow>es. e_net_amount e,
                      o_platform_commission := \<Sum>e\<leftarrow>es. e_commission e\<rparr>) (db_orders s1)\<rparr>"
      by blast
    then show ?thesis
    proof cases
      case 1
      with b1 same show ?thesis by simp
    next
      case (2 es s1)
      have bs1: "books s1" using recorded_books [OF b1 2(1)] .
      then have "books s'" unfolding 2(2) by (rule orders_books) (use bs1 in \<open>auto simp: books_def sane_order_def\<close>)
      then show ?thesis
        using 2 new [of es] same totals by (auto simp: recorded_def)
    qed
  qed
qed

text \<open>C4: Recording the earnings of an order keeps the books, touches no spendable balance, splits every amount into commission
  and net without remainder, and writes exactly the recorded totals back to the order. An order that was not recorded yet, with a
  business on every item, is recorded completely: every vendor gets the prices of their items and of the fabrics applied to
  other vendors' items, less the commission of the settings on each of these prices, a percentage or a flat fee capped by the price.\<close>

theorem recording_splits_exactly:
  assumes "books s" and "distinct (map o_id (db_orders s))"
    and "recordBusinessEarnings orderId s = (r, s')"
  shows "books s' \<and> (\<exists>es. db_earnings s' = db_earnings s @ es \<and>
      (\<forall>e\<in>set es. e_order e = orderId \<and> \<not> e_released e \<and> 0 \<le> e_net_amount e \<and>
                   e_amount e = e_commission e + e_net_amount e) \<and>
      (\<Sum>w\<leftarrow>db_wallets s'. w_balance w) = (\<Sum>w\<leftarrow>db_wallets s. w_balance w) \<and>
      (r = Inr () \<and> es \<noteq> [] \<longrightarrow> (\<forall>ord\<in>set (db_orders s'). o_id ord = orderId \<longrightarrow>
         o_vendor_earnings ord = (\<Sum>e\<leftarrow>es. e_net_amount e) \<and>
         o_platform_commission ord = (\<Sum>e\<leftarrow>es. e_commission e))) \<and>
      (let cut = (\<lambda>price. if setting platform_commission_type Percent s = Fixed_commission
                    then min (setting platform_commission_flat 0 s) price
                    else price * setting platform_commission_percent 10 s / 100)
       in \<forall>ord. find_one (\<lambda>od. o_id od = orderId) (db_orders s) = Some ord \<and> \<not> o_earnings_recorded ord \<and>
            (\<forall>e\<in>set (db_earnings s). e_order e \<noteq> orderId) \<and> (\<forall>item\<in>set (o_items ord). i_business item \<noteq> None) \<longrightarrow>
          r = Inr () \<and> (\<forall>b.
            (\<Sum>e\<leftarrow>es. if e_business e = Some b then e_amount e else 0) =
              (\<Sum>item\<leftarrow>o_items ord. item_share b (db_products s) (\<lambda>price. price) item) \<and>
            (\<Sum>e\<leftarrow>es. if e_business e = Some b then e_commission e else 0) =
              (\<Sum>item\<leftarrow>o_items ord. item_share b (db_products s) cut item))))"
proof -
  let ?full = "\<lambda>es. let cut = (\<lambda>price. if setting platform_commission_type Percent s = Fixed_commission
                    then min (setting platform_commission_flat 0 s) price
                    else price * setting platform_commission_percent 10 s / 100)
       in \<forall>ord. find_one (\<lambda>od. o_id od = orderId) (db_orders s) = Some ord \<and> \<not> o_earnings_recorded ord \<and>
            (\<forall>e\<in>set (db_earnings s). e_order e \<noteq> orderId) \<and> (\<forall>item\<in>set (o_items ord). i_business item \<noteq> None) \<longrightarrow>
          r = Inr () \<and> (\<forall>b.
            (\<Sum>e\<leftarrow>es. if e_business e = Some b then e_amount e else 0) =
              (\<Sum>item\<leftarrow>o_items ord. item_share b (db_products s) (\<lambda>price. price) item) \<and>
            (\<Sum>e\<leftarrow>es. if e_business e = Some b then e_commission e else 0) =
              (\<Sum>item\<leftarrow>o_items ord. item_share b (db_products s) cut item))"
  have cut: "commission_of (current_terms s) = (\<lambda>price. if setting platform_commission_type Percent s = Fixed_commission
      then min (setting platform_commission_flat 0 s) price else price * setting platform_commission_percent 10 s / 100)"
    by (simp add: fun_eq_iff commission_of_def current_terms_def)
  have full: "?full es" if "db_earnings s' = db_earnings s @ es" for es
    unfolding Let_def cut [symmetric]
  proof (intro allI impI)
    fix ord
    assume ord: "find_one (\<lambda>od. o_id od = orderId) (db_orders s) = Some ord \<and> \<not> o_earnings_recorded ord \<and>
        (\<forall>e\<in>set (db_earnings s). e_order e \<noteq> orderId) \<and> (\<forall>item\<in>set (o_items ord). i_business item \<noteq> None)"
    show "r = Inr () \<and> (\<forall>b. (\<Sum>e\<leftarrow>es. if e_business e = Some b then e_amount e else 0) =
              (\<Sum>item\<leftarrow>o_items ord. item_share b (db_products s) (\<lambda>price. price) item) \<and>
            (\<Sum>e\<leftarrow>es. if e_business e = Some b then e_commission e else 0) =
              (\<Sum>item\<leftarrow>o_items ord. item_share b (db_products s) (commission_of (current_terms s)) item))"
    proof (cases "o_items ord = []")
      case True
      with ord recording_empty [of orderId s ord] assms(3) that show ?thesis by auto
    next
      case False
      with recording_shares [OF assms(1,2), of orderId ord] ord assms(3) that show ?thesis by (auto simp: vendor_sum_def)
    qed
  qed
  from recording_keeps_books [OF assms] full show ?thesis by blast
qed

definition sample_item :: "oid \<Rightarrow> rat \<Rightarrow> order_item" where
  "sample_item i price = \<lparr>i_id = i, i_product = None, i_business = Some 8,
     i_color_variant_selections = [], i_fabric_selections = [], i_style_selections = [],
     i_accessory_selections = [], i_addon_selections = [], i_applied_fabric = None,
     i_applied_fabric_yards = None, i_note = None, i_total_price = Some price, i_pricing = None,
     i_rejected = False, i_rejected_at = None, i_rejection_reason = None\<rparr>"

definition sample_order :: order where
  "sample_order = \<lparr>o_id = 3, o_reference = 4, o_customer = 5, o_items = [sample_item 6 1000, sample_item 7 500],
     o_subtotal = 1500, o_shipping_fee = 0, o_total = 1500, o_status = O_IN_REVIEW, o_type = Bespoke, o_bespoke_design = None,
     o_bespoke_quote = None, o_shipments = [], o_vendor_earnings = 0, o_platform_commission = 0, o_earnings_recorded = False,
     o_inventory_deducted = False, o_payout_eligible_at = None, o_payout_status = Payout_pending,
     o_payment_status = Paid, o_refund_status = Refund_none, o_customer_satisfied = False,
     o_customer_satisfied_at = None, o_createdAt = 0\<rparr>"

definition sample_books :: db where
  "sample_books = sample_shop\<lparr>db_orders := [sample_order]\<rparr>"

lemma sample_books_ok: "books sample_books" "distinct (map o_id (db_orders sample_books))"
proof -
  have "pending_of sample_books b = 0" "owed sample_books b = 0" for b
    by (simp_all add: pending_of_def owed_def sample_books_def sample_shop_def sample_wallet_def
        new_wallet_def empty_db_def)
  then show "books sample_books"
    using sample_shop_wf(1)
    by (auto simp: books_def sample_books_def wf_earnings_def sample_shop_def empty_db_def sane_terms_def
        current_terms_def setting_def sane_order_def sample_order_def sample_item_def wf_wallets_def)
qed (simp add: sample_books_def)

theorem recording_splits_exactly_witness:
  "\<exists>s'. recordBusinessEarnings 3 sample_books = (Inr (), s') \<and> books s' \<and>
     map e_net_amount (db_earnings s') = [900, 450]"
proof -
  let ?r = "recordBusinessEarnings 3 sample_books"
  have val: "fst ?r = Inr () \<and> map e_net_amount (db_earnings (snd ?r)) = [900, 450]"
    by (simp add: recordBusinessEarnings_def andThen_app claim_order_earnings_def exists_doc_def Let_def
        sample_books_def sample_shop_def sample_order_def sample_item_def current_terms_def setting_def
        empty_db_def record_item_earnings_def create_earning_run upsert_business_wallet_def
        update_wallet_def commission_of_def sample_wallet_def new_wallet_def add_pending_def
        record_fabric_earning_def)
  then have run: "?r = (Inr (), snd ?r)" by (simp add: prod_eq_iff)
  note kept = conjunct1 [OF recording_splits_exactly [OF sample_books_ok run]]
  show ?thesis
    by (intro exI [of _ "snd ?r"] conjI run kept conjunct2 [OF val])
qed

section \<open>Recording once\<close>

definition unclaimed :: "db \<Rightarrow> oid \<Rightarrow> bool" where
  "unclaimed s orderId \<longleftrightarrow> exists_doc (\<lambda>od. o_id od = orderId \<and> \<not> o_earnings_recorded od) (db_orders s)"

lemma unclaimed_after:
  assumes "distinct (map o_id (db_orders s))"
  shows "\<not> unclaimed (snd (claim_order_earnings i s)) i"
proof -
  let ?mark = "\<lambda>od. od\<lparr>o_earnings_recorded := True\<rparr>"
  have "o_earnings_recorded d"
    if d: "d \<in> set (update_one (\<lambda>od. o_id od = i \<and> \<not> o_earnings_recorded od) ?mark (db_orders s))" "o_id d = i" for d
  proof (cases "find_one (\<lambda>od. o_id od = i) (db_orders s)")
    case None
    with d show ?thesis
      by (auto simp: update_one_guarded [OF one_match_key [OF assms]] find_one_None_iff)
  next
    case (Some x)
    show ?thesis
    proof (cases "o_earnings_recorded x")
      case True
      with Some d have "d \<in> set (db_orders s)"
        by (simp add: update_one_guarded [OF one_match_key [OF assms]])
      from find_one_key_eq [OF assms this] Some d(2) True show ?thesis by simp
    next
      case False
      with Some d have "d \<in> set (update_one (\<lambda>od. o_id od = i) ?mark (db_orders s))"
        by (simp add: update_one_guarded [OF one_match_key [OF assms]])
      from update_one_key_at [OF assms this d(2)] show ?thesis by auto
    qed
  qed
  then show ?thesis
    by (auto simp: unclaimed_def claim_order_earnings_def Let_def exists_doc_iff)
qed

interpretation order_claim: exclusive_claim "\<lambda>s. distinct (map o_id (db_orders s))" claim_order_earnings unclaimed
proof
  fix s :: db and k k' :: oid
  assume ok: "distinct (map o_id (db_orders s))"
  show "distinct (map o_id (db_orders (snd (claim_order_earnings k s))))"
    using ok by (simp add: claim_order_earnings_def Let_def map_update_one)
  show "fst (claim_order_earnings k s) = unclaimed s k"
    by (simp add: claim_order_earnings_def Let_def unclaimed_def)
  show "\<not> unclaimed (snd (claim_order_earnings k s)) k"
    using ok by (rule unclaimed_after)
  show "unclaimed (snd (claim_order_earnings k s)) k' = unclaimed s k'" if "k' \<noteq> k"
  proof -
    have "find_one (\<lambda>od. o_id od = k' \<and> \<not> o_earnings_recorded od)
        (update_one (\<lambda>od. o_id od = k \<and> \<not> o_earnings_recorded od) (\<lambda>od. od\<lparr>o_earnings_recorded := True\<rparr>) (db_orders s)) =
      find_one (\<lambda>od. o_id od = k' \<and> \<not> o_earnings_recorded od) (db_orders s)"
      using that by (intro find_one_update_one_other) auto
    then show ?thesis by (simp add: unclaimed_def claim_order_earnings_def Let_def exists_doc_def)
  qed
qed

lemma recording_skipped:
  assumes "\<not> unclaimed s i"
  shows "recordBusinessEarnings i s = (Inr (), s)"
proof -
  let ?P = "\<lambda>od. o_id od = i \<and> \<not> o_earnings_recorded od"
  have "find_one ?P (db_orders s) = None" using assms by (simp add: unclaimed_def exists_doc_def)
  then have "claim_order_earnings i s = (False, s)"
    by (simp add: claim_order_earnings_def Let_def exists_doc_def update_one_None)
  then show ?thesis by (simp add: recordBusinessEarnings_def andThen_app)
qed

text \<open>The earnings of an order are recorded once: after one attempt, whether it ended normally or
  threw half-way, every later attempt returns without writing anything.\<close>

theorem recording_is_once:
  assumes "books s" and "distinct (map o_id (db_orders s))"
    and "recordBusinessEarnings orderId s = (r, s')"
  shows "recordBusinessEarnings orderId s' = (Inr (), s')"
proof (rule recording_skipped)
  let ?s1 = "snd (claim_order_earnings orderId s)"
  have "\<not> unclaimed ?s1 orderId" using unclaimed_after [OF assms(2)] .
  moreover have "unclaimed (t\<lparr>db_orders := update_one (\<lambda>od. o_id od = orderId)
       (\<lambda>od. od\<lparr>o_vendor_earnings := x, o_platform_commission := y\<rparr>) (db_orders t)\<rparr>) orderId
     \<Longrightarrow> unclaimed t orderId" for t x y
    by (simp add: unclaimed_def exists_doc_update_same)
  moreover have "unclaimed t orderId = unclaimed ?s1 orderId" if "recorded orderId ?s1 t es" for t es
    using that by (simp add: recorded_def unclaimed_def)
  moreover have "(\<exists>es. recorded orderId ?s1 s' es) \<or> s' = ?s1 \<or> (\<exists>es s1 x y. recorded orderId ?s1 s1 es \<and>
      s' = s1\<lparr>db_orders := update_one (\<lambda>od. o_id od = orderId)
             (\<lambda>od. od\<lparr>o_vendor_earnings := x, o_platform_commission := y\<rparr>) (db_orders s1)\<rparr>)"
    using recording_run [OF assms(1,2), of orderId] unfolding assms(3) by (cases r) (simp, simp, blast)
  ultimately show "\<not> unclaimed s' orderId" by metis
qed

theorem recording_is_once_witness:
  "recordBusinessEarnings 3 (snd (recordBusinessEarnings 3 sample_books)) =
     (Inr (), snd (recordBusinessEarnings 3 sample_books))"
  by (rule recording_is_once [OF sample_books_ok surjective_pairing])

text \<open>C26: the webhook, the order creation and the bespoke acceptance may all try to record the
  earnings of an order at the same moment: of any sequence of attempts on any orders, at most one
  per order passes the claim, and exactly one where the order was not recorded yet.\<close>

theorem one_recorder_per_order:
  assumes "distinct (map o_id (db_orders s))"
  shows "length (filter (\<lambda>(i, won). i = orderId \<and> won) (fst (claim_run claim_order_earnings attempts s))) =
         (if unclaimed s orderId \<and> orderId \<in> set attempts then 1 else 0)"
  by (rule order_claim.wins_count [OF assms])

theorem one_recorder_per_order_witness:
  "length (filter (\<lambda>(i, won). i = 3 \<and> won) (fst (claim_run claim_order_earnings [3, 9, 3, 3] sample_books))) = 1"
proof -
  have "unclaimed sample_books 3"
    by (simp add: unclaimed_def exists_doc_def sample_books_def sample_order_def)
  then show ?thesis
    using one_recorder_per_order [OF sample_books_ok(2), of 3 "[3, 9, 3, 3]"] by (simp del: claim_run.simps)
qed

definition completion_only :: "oid \<Rightarrow> db \<Rightarrow> bool" where
  "completion_only orderId s \<longleftrightarrow>
     (\<forall>e\<in>set (db_earnings s). e_order e = orderId \<longrightarrow> e_milestone e = Completion)"

lemma completion_only_items:
  assumes "o_type ord \<noteq> Bespoke"
  shows "preserves (completion_only i) (record_items p ord items tn tc)"
proof (induction items arbitrary: tn tc)
  case (Cons item items)
  have upsert: "preserves (completion_only i) (upsert_business_wallet b f)" for b f
    by (auto simp: upsert_business_wallet_def update_wallet_def preserves_def completion_only_def andThen_app
        Let_def split: option.splits)
  have create: "preserves (completion_only i) (create_earning b j k x y z Completion)" for b j k x y z
    by (auto simp: create_earning_def completion_only_def preserves_def andThen_app)
  have "preserves (completion_only i) (record_item_earnings p ord item)"
    unfolding record_item_earnings_def Let_def using assms
    by (intro preserve_intros upsert create) simp
  moreover have "preserves (completion_only i) (record_fabric_earning p ord item)"
    unfolding record_fabric_earning_def by (intro preserve_intros upsert create)
  ultimately show ?case
    unfolding record_items.simps by (intro preserve_intros Cons.IH)
qed (simp add: preserve_intros)

text \<open>The upfront part is only ever split off bespoke orders: for every other order, whatever
  percentage is configured and whatever was ordered, all recorded earnings are completion earnings.\<close>

theorem only_bespoke_is_split:
  assumes "\<forall>ord\<in>set (db_orders s). o_id ord = orderId \<longrightarrow> o_type ord \<noteq> Bespoke"
    and "\<forall>e\<in>set (db_earnings s). e_order e \<noteq> orderId"
    and "e \<in> set (db_earnings (snd (recordBusinessEarnings orderId s)))" and "e_order e = orderId"
  shows "e_milestone e = Completion"
proof -
  obtain won s1 where won: "claim_order_earnings orderId s = (won, s1)" by fastforce
  have "\<forall>ord\<in>set (update_one (\<lambda>od. o_id od = orderId \<and> \<not> o_earnings_recorded od)
      (\<lambda>od. od\<lparr>o_earnings_recorded := True\<rparr>) (db_orders s)). o_id ord = orderId \<longrightarrow> o_type ord \<noteq> Bespoke"
    using assms(1) by (rule update_one_all) simp
  then have s1: "o_type ord \<noteq> Bespoke"
    if "find_one (\<lambda>od. o_id od = orderId) (db_orders s1) = Some ord" for ord
    using won find_one_SomeD [OF that] by (auto simp: claim_order_earnings_def Let_def)
  have start: "completion_only orderId s1"
    using assms(2) won by (auto simp: completion_only_def claim_order_earnings_def Let_def)
  have "completion_only orderId (snd (recordBusinessEarnings orderId s))"
  proof (cases "find_one (\<lambda>od. o_id od = orderId) (db_orders s1)")
    case None
    with start show ?thesis by (auto simp: recordBusinessEarnings_def andThen_app won)
  next
    case (Some ord)
    have "preserves (completion_only orderId)
        (andThen (record_items p ord (o_items ord) 0 0) (\<lambda>(totalNet, totalCommission).
           modify (\<lambda>s. s\<lparr>db_orders := update_one (\<lambda>od. o_id od = o_id ord)
             (\<lambda>od. od\<lparr>o_vendor_earnings := totalNet, o_platform_commission := totalCommission\<rparr>)
             (db_orders s)\<rparr>)))" for p
      by (intro preserve_intros completion_only_items s1 [OF Some]) (simp add: completion_only_def)
    from preservesD [OF this start] Some start show ?thesis
      by (simp add: recordBusinessEarnings_def andThen_app won)
  qed
  with assms(3,4) show ?thesis by (simp add: completion_only_def)
qed

text \<open>A ready-to-wear order under settings that ask for 65 percent up front.\<close>

definition sample_standard :: db where
  "sample_standard = sample_books\<lparr>db_orders := [sample_order\<lparr>o_type := Standard\<rparr>],
     db_settings := Some \<lparr>minimum_payout = None, payout_delay_days = None, auto_release_days = None,
     late_penalty_percent_per_day = None, late_penalty_max_percent = None, auto_reject_hours = None,
     return_window_days = None, platform_commission_percent = None, platform_commission_type = None,
     platform_commission_flat = None, image_measurement_token_price = None,
     video_measurement_token_price = None, outfit_generation_token_price = None,
     edit_garment_token_price = None, run_prediction_token_price = None, ai_ask_token_price = None,
     analyze_reference_token_price = None, tailored_order_upfront_percent = Some 65,
     reservation_fee_percent = None, low_stock_threshold = None, low_fabric_yards = None\<rparr>\<rparr>"

theorem only_bespoke_is_split_witness:
  "et_upfront (current_terms sample_standard) = 65 \<and>
   (\<exists>e\<in>set (db_earnings (snd (recordBusinessEarnings 3 sample_standard))).
      e_order e = 3 \<and> e_milestone e = Completion)"
proof -
  note run = recordBusinessEarnings_def andThen_app claim_order_earnings_def exists_doc_def Let_def
        sample_standard_def sample_books_def sample_shop_def sample_order_def sample_item_def current_terms_def
        setting_def empty_db_def record_item_earnings_def create_earning_run upsert_business_wallet_def
        update_wallet_def commission_of_def sample_wallet_def new_wallet_def add_pending_def
        record_fabric_earning_def
  have "\<exists>e\<in>set (db_earnings (snd (recordBusinessEarnings 3 sample_standard))). e_order e = 3"
    by (simp add: run)
  then obtain e where e: "e \<in> set (db_earnings (snd (recordBusinessEarnings 3 sample_standard)))" "e_order e = 3"
    by blast
  have "e_milestone e = Completion"
    using only_bespoke_is_split [OF _ _ e]
    by (simp add: sample_standard_def sample_books_def sample_shop_def empty_db_def)
  with e show ?thesis by (auto simp: current_terms_def setting_def sample_standard_def)
qed

end
