(* ===== verification/Payouts.thy ===== *)
theory Payouts
  imports Earnings
begin

text \<open>
  Releasing the vendors' earnings into their balances
  (\<open>src/modules/business/business-earning-cron.ts\<close>) and reversing them for a cancelled or refunded
  order (\<open>reverseBusinessEarnings\<close> of \<open>src/modules/orders/orders.service.ts\<close>). The argument \<open>fails\<close> of
  the release names the earnings whose wallet update the database refuses. The clock is \<open>now\<close>.
\<close>

section \<open>Releasing\<close>

definition pending_earnings :: "instant \<Rightarrow> db \<Rightarrow> business_earning list" where
  "pending_earnings now s = filter (\<lambda>e. \<not> e_released e \<and>
     (case e_release_date e of None \<Rightarrow> False | Some d \<Rightarrow> d \<le> now)) (db_earnings s)"

definition claim_release :: "instant \<Rightarrow> oid \<Rightarrow> db \<Rightarrow> bool \<times> db" where
  "claim_release now eid s =
     (let P = (\<lambda>e. e_id e = eid \<and> \<not> e_released e)
      in (exists_doc P (db_earnings s),
          s\<lparr>db_earnings := update_one P (\<lambda>e. e\<lparr>e_released := True, e_released_at := Some now\<rparr>)
              (db_earnings s)\<rparr>))"

definition revert_release :: "oid \<Rightarrow> db \<Rightarrow> db" where
  "revert_release eid s = s\<lparr>db_earnings := update_one (\<lambda>e. e_id e = eid)
     (\<lambda>e. e\<lparr>e_released := False, e_released_at := None\<rparr>) (db_earnings s)\<rparr>"

definition earning_credit_entry :: "business_earning \<Rightarrow> oid \<Rightarrow> oid \<Rightarrow> oid \<Rightarrow> transaction" where
  "earning_credit_entry e walletId reference tid =
     \<lparr>t_id = tid, t_wallet = Some walletId, t_order = Some (e_order e), t_initiator = None,
      t_type = CREDIT, t_amount = e_net_amount e, t_status = T_SUCCESS, t_reference = reference,
      t_description = ''Earnings released for order'', t_currency = ''NGN'',
      t_payment_method = ''wallet'', t_channel = Earning_channel,
      t_metadata = empty_metadata\<lparr>m_earning_id := Some (e_id e)\<rparr>\<rparr>"

definition is_earning_credit :: "oid \<Rightarrow> transaction \<Rightarrow> bool" where
  "is_earning_credit eid t \<longleftrightarrow> m_earning_id (t_metadata t) = Some eid \<and> t_type t = CREDIT"

definition recordEarningCredit :: "business_earning \<Rightarrow> oid \<Rightarrow> (db, unit) action" where
  "recordEarningCredit e walletId =
     andThen (gets (\<lambda>s. exists_doc (is_earning_credit (e_id e)) (db_transactions s))) (\<lambda>already.
     if already then ret ()
     else andThen fresh (\<lambda>reference. andThen fresh (\<lambda>tid.
          add_transaction (earning_credit_entry e walletId reference tid))))"

definition pay_out :: "rat \<Rightarrow> wallet \<Rightarrow> wallet" where
  "pay_out net w = w\<lparr>w_balance := w_balance w + net, w_pending_balance := w_pending_balance w - net\<rparr>"

definition credit_release :: "business_earning \<Rightarrow> (db, unit) action" where
  "credit_release e =
     andThen (upsert_business_wallet (e_business e) (pay_out (e_net_amount e))) (\<lambda>w.
     attempt (recordEarningCredit e (w_id w)) (\<lambda>_. ret ()))"

definition release_one ::
  "(business_earning \<Rightarrow> bool) \<Rightarrow> instant \<Rightarrow> business_earning \<Rightarrow> (db, unit) action" where
  "release_one fails now e =
     (if e_net_amount e = 0 then ret ()
      else (\<lambda>s. let (won, s1) = claim_release now (e_id e) s
                in if \<not> won then (Inr (), s1)
                   else if fails e then (Inr (), revert_release (e_id e) s1)
                   else credit_release e s1))"

definition releaseFunds :: "(business_earning \<Rightarrow> bool) \<Rightarrow> instant \<Rightarrow> (db, unit) action" where
  "releaseFunds fails now =
     andThen (gets (pending_earnings now)) (\<lambda>pending. for_each pending (release_one fails now))"

definition dispatched :: "shipment_status \<Rightarrow> bool" where
  "dispatched st \<longleftrightarrow> st \<in> {S_SHIPPED, S_IN_TRANSIT, S_DELIVERED}"

definition dispatch_anchors :: "order \<Rightarrow> instant list" where
  "dispatch_anchors ord = List.map_filter
     (\<lambda>sh. case sh_shipped_at sh of Some d \<Rightarrow> Some d | None \<Rightarrow> sh_confirmed_at sh)
     (filter (\<lambda>sh. dispatched (sh_status sh)) (o_shipments ord))"

definition stuck_and_due :: "rat \<Rightarrow> instant \<Rightarrow> order \<Rightarrow> bool" where
  "stuck_and_due days now ord \<longleftrightarrow>
     o_status ord \<in> {O_PROCESSING, O_IN_TRANSIT, O_COMPLETED} \<and>
     (let anchors = dispatch_anchors ord
      in anchors \<noteq> [] \<and> \<not> of_int (Max (set anchors)) + days * 24 * 60 * 60 * 1000 > (of_int now :: rat))"

definition autoReleaseStuckEarnings :: "instant \<Rightarrow> (db, unit) action" where
  "autoReleaseStuckEarnings now =
     andThen (gets (setting auto_release_days 10)) (\<lambda>days.
     andThen (gets (\<lambda>s. filter (\<lambda>e. \<not> e_released e \<and> e_release_date e = None) (db_earnings s))) (\<lambda>stuck.
     for_each stuck (\<lambda>e. andThen (gets (\<lambda>s. find_one (\<lambda>od. o_id od = e_order e) (db_orders s))) (\<lambda>ord.
       case ord of
         None \<Rightarrow> ret ()
       | Some ord \<Rightarrow> if \<not> stuck_and_due days now ord then ret ()
           else modify (\<lambda>s. s\<lparr>db_earnings := update_one
                  (\<lambda>x. e_id x = e_id e \<and> \<not> e_released x \<and> e_release_date x = None)
                  (\<lambda>x. x\<lparr>e_release_date := Some now\<rparr>) (db_earnings s)\<rparr>)))))"

section \<open>Reversing\<close>

definition in_scope :: "oid \<Rightarrow> oid option \<Rightarrow> oid option \<Rightarrow> business_earning \<Rightarrow> bool" where
  "in_scope orderId businessId itemId e \<longleftrightarrow> e_order e = orderId \<and>
     (businessId \<noteq> None \<longrightarrow> e_business e = businessId) \<and> (itemId \<noteq> None \<longrightarrow> e_item e = itemId)"

definition reconcile_earning :: "instant \<Rightarrow> oid option \<Rightarrow> rat option \<Rightarrow> rat option \<Rightarrow> (db, wallet option) action" where
  "reconcile_earning now business pending balance =
     (case business of None \<Rightarrow> ret None
      | Some b \<Rightarrow> reconcileBusinessWallet now b pending balance)"

definition reverse_unreleased :: "instant \<Rightarrow> business_earning \<Rightarrow> (db, unit) action" where
  "reverse_unreleased now e =
     andThen (reconcile_earning now (e_business e) (Some (- e_net_amount e)) None) (\<lambda>_.
     modify (\<lambda>s. s\<lparr>db_earnings := delete_one (\<lambda>x. e_id x = e_id e) (db_earnings s)\<rparr>))"

definition clawback_entry :: "business_earning \<Rightarrow> wallet \<Rightarrow> create_transaction_dto" where
  "clawback_entry e w =
     \<lparr>ct_initiator = None, ct_amount = e_net_amount e, ct_type = REFUND, ct_status = Some T_SUCCESS,
      ct_wallet = Some (w_id w), ct_order = Some (e_order e), ct_channel = Refund_channel,
      ct_description = Some ''Earnings reversed for order'', ct_currency = None,
      ct_payment_method = Some ''wallet'',
      ct_metadata = Some (empty_metadata\<lparr>m_earning_id := Some (e_id e)\<rparr>)\<rparr>"

definition claw_back :: "instant \<Rightarrow> business_earning \<Rightarrow> (db, unit) action" where
  "claw_back now e =
     andThen (reconcile_earning now (e_business e) None (Some (- e_net_amount e))) (\<lambda>vendorWallet.
     andThen (case vendorWallet of
         Some w \<Rightarrow> if e_net_amount e > 0
           then andThen (create_transaction (clawback_entry e w)) (\<lambda>_. ret ()) else ret ()
       | None \<Rightarrow> ret ()) (\<lambda>_.
     modify (\<lambda>s. s\<lparr>db_earnings := update_one (\<lambda>x. e_id x = e_id e)
       (\<lambda>x. x\<lparr>e_net_amount := 0\<rparr>) (db_earnings s)\<rparr>)))"

definition reverseBusinessEarnings ::
  "instant \<Rightarrow> oid \<Rightarrow> oid option \<Rightarrow> oid option \<Rightarrow> (db, unit) action" where
  "reverseBusinessEarnings now orderId businessId itemId =
     andThen (gets (\<lambda>s. filter (\<lambda>e. in_scope orderId businessId itemId e \<and> \<not> e_released e) (db_earnings s))) (\<lambda>unreleased.
     andThen (for_each unreleased (reverse_unreleased now)) (\<lambda>_.
     andThen (gets (\<lambda>s. filter (\<lambda>e. in_scope orderId businessId itemId e \<and> e_released e) (db_earnings s))) (\<lambda>released.
     andThen (for_each released (claw_back now)) (\<lambda>_.
     if businessId = None \<and> itemId = None
     then modify (\<lambda>s. s\<lparr>db_orders := update_one (\<lambda>od. o_id od = orderId)
            (\<lambda>od. od\<lparr>o_vendor_earnings := 0, o_platform_commission := 0\<rparr>) (db_orders s)\<rparr>)
     else ret ()))))"

definition cancelPendingEarnings :: "instant \<Rightarrow> oid \<Rightarrow> (db, unit) action" where
  "cancelPendingEarnings now orderId = modify (\<lambda>s. s\<lparr>db_earnings := update_many
     (\<lambda>e. e_order e = orderId \<and> \<not> e_released e)
     (\<lambda>e. e\<lparr>e_released := True, e_net_amount := 0, e_released_at := Some now\<rparr>) (db_earnings s)\<rparr>)"

section \<open>One release\<close>

lemma add_transaction_frame:
  "\<exists>ts. snd (add_transaction t s) = s\<lparr>db_transactions := ts\<rparr>"
  by (auto simp: add_transaction_def intro: exI [of _ "db_transactions s"])

lemma recordEarningCredit_frame:
  "\<exists>n ts. snd (recordEarningCredit e w s) = s\<lparr>db_next := n, db_transactions := ts\<rparr> \<and> db_next s \<le> n"
proof (cases "exists_doc (is_earning_credit (e_id e)) (db_transactions s)")
  case True
  then show ?thesis
    by (auto simp: recordEarningCredit_def andThen_app intro!: exI [of _ "db_next s"] exI [of _ "db_transactions s"])
next
  case False
  let ?s = "s\<lparr>db_next := Suc (Suc (db_next s))\<rparr>"
  from add_transaction_frame obtain ts where
    "snd (add_transaction (earning_credit_entry e w (db_next s) (Suc (db_next s))) ?s) = ?s\<lparr>db_transactions := ts\<rparr>"
    by blast
  with False show ?thesis
    by (auto simp: recordEarningCredit_def andThen_app intro!: exI [of _ "Suc (Suc (db_next s))"] exI [of _ ts])
qed

lemma credit_release_spec:
  assumes "wf_wallets s" "e_business e = Some b"
  obtains ws n ts where "credit_release e s = (Inr (), s\<lparr>db_wallets := ws, db_next := n, db_transactions := ts\<rparr>)"
    "db_next s \<le> n" "wf_wallets (s\<lparr>db_wallets := ws, db_next := n\<rparr>)"
    "pending_of (s\<lparr>db_wallets := ws\<rparr>) = (pending_of s)(b := pending_of s b - e_net_amount e)"
    "(\<Sum>w\<leftarrow>ws. w_balance w) = (\<Sum>w\<leftarrow>db_wallets s. w_balance w) + e_net_amount e"
proof -
  obtain w ws n where up: "upsert_business_wallet (Some b) (pay_out (e_net_amount e)) s =
        (Inr w, s\<lparr>db_next := n, db_wallets := ws\<rparr>)"
    "db_next s \<le> n" "wf_wallets (s\<lparr>db_next := n, db_wallets := ws\<rparr>)"
    "pending_of (s\<lparr>db_wallets := ws\<rparr>) = (pending_of s)(b := pending_of s b + - e_net_amount e)"
    "(\<Sum>w\<leftarrow>ws. w_balance w) = (\<Sum>w\<leftarrow>db_wallets s. w_balance w) + e_net_amount e"
    by (rule upsert_business_wallet_spec [OF assms(1), of "pay_out (e_net_amount e)" "- e_net_amount e" "e_net_amount e" b])
      (auto simp: pay_out_def)
  let ?s = "s\<lparr>db_next := n, db_wallets := ws\<rparr>"
  obtain m ts where fr: "snd (recordEarningCredit e (w_id w) ?s) = ?s\<lparr>db_next := m, db_transactions := ts\<rparr>" "n \<le> m"
    using recordEarningCredit_frame [of e "w_id w" ?s] by auto
  have "credit_release e s = (Inr (), snd (recordEarningCredit e (w_id w) ?s))"
    using up(1) assms(2)
    by (cases "recordEarningCredit e (w_id w) ?s"; cases "fst (recordEarningCredit e (w_id w) ?s)")
      (auto simp: credit_release_def andThen_app attempt_app)
  then have "credit_release e s = (Inr (), s\<lparr>db_wallets := ws, db_next := m, db_transactions := ts\<rparr>)"
    by (simp add: fr(1))
  moreover have "wf_wallets (s\<lparr>db_wallets := ws, db_next := m\<rparr>)"
    using up(3) fr(2) by (fastforce simp: wf_wallets_def)
  ultimately show thesis using up(2,4,5) fr(2) by (intro that) auto
qed

definition set_released :: "bool \<Rightarrow> instant option \<Rightarrow> oid \<Rightarrow> db \<Rightarrow> db" where
  "set_released flag when eid s = s\<lparr>db_earnings := update_one (\<lambda>e. e_id e = eid)
     (\<lambda>e. e\<lparr>e_released := flag, e_released_at := when\<rparr>) (db_earnings s)\<rparr>"

lemma claim_release_run:
  assumes "distinct (map e_id (db_earnings s))"
  shows "claim_release now eid s = (case find_one (\<lambda>e. e_id e = eid) (db_earnings s) of
      Some e \<Rightarrow> if e_released e then (False, s) else (True, set_released True (Some now) eid s)
    | None \<Rightarrow> (False, s))"
  using find_one_guarded [OF one_match_key [OF assms], of eid "\<lambda>e. \<not> e_released e"]
    update_one_guarded [OF one_match_key [OF assms], of eid "\<lambda>e. \<not> e_released e"]
  by (auto simp: claim_release_def Let_def exists_doc_def set_released_def split: option.splits)

lemma owed_set_released:
  assumes "find_one (\<lambda>e. e_id e = eid) (db_earnings s) = Some e" "\<not> e_released e" "e_business e = Some b"
  shows "owed (set_released True when eid s) = (owed s)(b := owed s b - e_net_amount e)"
proof (rule ext)
  fix c
  show "owed (set_released True when eid s) c = ((owed s)(b := owed s b - e_net_amount e)) c"
    using sum_list_update_one [OF assms(1), of "owed_by c" "\<lambda>e. e\<lparr>e_released := True, e_released_at := when\<rparr>"]
      assms(2,3)
    by (auto simp: owed_def set_released_def owed_by_def [abs_def] cong: if_cong)
qed

lemma set_released_frame [simp]:
  "pending_of (set_released f when eid s) = pending_of s"
  "db_wallets (set_released f when eid s) = db_wallets s"
  "db_orders (set_released f when eid s) = db_orders s"
  "current_terms (set_released f when eid s) = current_terms s"
  "wf_earnings s \<Longrightarrow> wf_earnings (set_released f when eid s)"
proof -
  show "wf_earnings (set_released f when eid s)" if "wf_earnings s"
  proof -
    have "\<forall>e\<in>set (db_earnings (set_released f when eid s)). e_id e < db_next s \<and> 0 \<le> e_net_amount e \<and> e_business e \<noteq> None"
      using that unfolding set_released_def
      by simp (rule update_one_all, auto simp: wf_earnings_def)
    with that show ?thesis
      by (simp add: wf_earnings_def set_released_def map_update_one wf_wallets_def)
  qed
qed (simp_all add: set_released_def)

text \<open>A release whose claim wins pays the vendor and clears the debt; one that fails to pay leaves the
  earning unreleased; every other leaves the state alone.\<close>

lemma release_one_spec:
  assumes books: "books s" and e: "find_one (\<lambda>x. e_id x = e_id e) (db_earnings s) = Some e" "\<not> e_released e"
  obtains (kept) "e_net_amount e = 0" "release_one fails now e s = (Inr (), s)"
    | (failed) "fails e" "release_one fails now e s = (Inr (), set_released False None (e_id e) s)"
    | (paid) s' where "e_net_amount e \<noteq> 0" "\<not> fails e" "release_one fails now e s = (Inr (), s')" "books s'"
        "db_earnings s' = db_earnings (set_released True (Some now) (e_id e) s)"
        "(\<Sum>w\<leftarrow>db_wallets s'. w_balance w) = (\<Sum>w\<leftarrow>db_wallets s. w_balance w) + e_net_amount e"
proof (cases "e_net_amount e = 0")
  case True
  then show thesis by (intro kept) (simp_all add: release_one_def)
next
  case False
  have dist: "distinct (map e_id (db_earnings s))" and wfe: "wf_earnings s"
    using books by (auto simp: books_def wf_earnings_def)
  let ?s1 = "set_released True (Some now) (e_id e) s"
  have claim: "claim_release now (e_id e) s = (True, ?s1)"
    using e by (simp add: claim_release_run [OF dist])
  show thesis
  proof (cases "fails e")
    case True
    have twice: "update_one (\<lambda>x. e_id x = e_id e) (\<lambda>x. x\<lparr>e_released := False, e_released_at := None\<rparr>)
        (update_one (\<lambda>x. e_id x = e_id e) (\<lambda>x. x\<lparr>e_released := True, e_released_at := Some now\<rparr>) es) =
      update_one (\<lambda>x. e_id x = e_id e) (\<lambda>x. x\<lparr>e_released := False, e_released_at := None\<rparr>) es" for es :: "business_earning list"
      by (induction es) auto
    have "release_one fails now e s = (Inr (), set_released False None (e_id e) s)"
      using False True claim twice by (simp add: release_one_def revert_release_def set_released_def)
    with True show thesis by (rule failed)
  next
    case paying: False
    from e(1) wfe obtain b where b: "e_business e = Some b"
      by (auto simp: wf_earnings_def dest: find_one_SomeD)
    have "wf_wallets ?s1" using wfe by (simp add: wf_earnings_def wf_wallets_def set_released_def)
    from credit_release_spec [OF this b] obtain ws n ts where cr:
      "credit_release e ?s1 = (Inr (), ?s1\<lparr>db_wallets := ws, db_next := n, db_transactions := ts\<rparr>)"
      "db_next ?s1 \<le> n" "wf_wallets (?s1\<lparr>db_wallets := ws, db_next := n\<rparr>)"
      "pending_of (?s1\<lparr>db_wallets := ws\<rparr>) = (pending_of ?s1)(b := pending_of ?s1 b - e_net_amount e)"
      "(\<Sum>w\<leftarrow>ws. w_balance w) = (\<Sum>w\<leftarrow>db_wallets ?s1. w_balance w) + e_net_amount e" .
    let ?s' = "?s1\<lparr>db_wallets := ws, db_next := n, db_transactions := ts\<rparr>"
    have run: "release_one fails now e s = (Inr (), ?s')"
      using False paying claim cr(1) by (simp add: release_one_def)
    have "pending_of ?s' c = owed ?s' c" for c
    proof -
      have "pending_of ?s' c = ((pending_of s)(b := pending_of s b - e_net_amount e)) c"
        using fun_cong [OF cr(4), of c] by (simp add: pending_of_def)
      moreover have "owed ?s' c = ((owed s)(b := owed s b - e_net_amount e)) c"
        using owed_set_released [OF e b, of "Some now"] by (simp add: owed_def)
      ultimately show ?thesis using books by (simp add: books_def)
    qed
    moreover have "wf_earnings ?s'"
      using cr(2,3) set_released_frame(5) [OF wfe, of True "Some now" "e_id e"]
      by (fastforce simp: wf_earnings_def wf_wallets_def)
    moreover have "current_terms ?s' = current_terms s"
      by (simp add: current_terms_def setting_def set_released_def)
    ultimately have "books ?s'" using books by (simp add: books_def)
    show thesis
      by (rule paid [OF False paying run \<open>books ?s'\<close>]) (use cr(5) in simp_all)
  qed
qed

section \<open>A run of the release cron\<close>

lemma find_set_released:
  "find_one (\<lambda>x. e_id x = i) (db_earnings (set_released flag when eid s)) =
     (if i = eid then map_option (\<lambda>e. e\<lparr>e_released := flag, e_released_at := when\<rparr>)
        (find_one (\<lambda>x. e_id x = i) (db_earnings s))
      else find_one (\<lambda>x. e_id x = i) (db_earnings s))"
proof -
  have "find_one (\<lambda>x. e_id x = i) (update_one (\<lambda>e. e_id e = eid)
       (\<lambda>e. e\<lparr>e_released := flag, e_released_at := when\<rparr>) es) =
     (if i = eid then map_option (\<lambda>e. e\<lparr>e_released := flag, e_released_at := when\<rparr>)
        (find_one (\<lambda>x. e_id x = i) es) else find_one (\<lambda>x. e_id x = i) es)" for es :: "business_earning list"
    by (induction es) auto
  then show ?thesis by (simp add: set_released_def)
qed

lemma books_unreleased:
  assumes "books s" "find_one (\<lambda>x. e_id x = eid) (db_earnings s) = Some e" "\<not> e_released e"
  shows "books (set_released False when eid s)"
proof -
  have "owed (set_released False when eid s) c = owed s c" for c
    using sum_list_update_one [OF assms(2), of "owed_by c" "\<lambda>e. e\<lparr>e_released := False, e_released_at := when\<rparr>"]
      assms(3) by (auto simp: owed_def set_released_def owed_by_def [abs_def] cong: if_cong)
  with assms(1) show ?thesis by (simp add: books_def)
qed

definition paid_out :: "(business_earning \<Rightarrow> bool) \<Rightarrow> business_earning \<Rightarrow> bool" where
  "paid_out fails e \<longleftrightarrow> e_net_amount e \<noteq> 0 \<and> \<not> fails e"

lemma release_loop:
  assumes "books s" "distinct (map e_id es)"
    and "\<forall>e\<in>set es. find_one (\<lambda>x. e_id x = e_id e) (db_earnings s) = Some e \<and> \<not> e_released e"
  shows "\<exists>s'. for_each es (release_one fails now) s = (Inr (), s') \<and> books s' \<and>
     (\<Sum>w\<leftarrow>db_wallets s'. w_balance w) =
       (\<Sum>w\<leftarrow>db_wallets s. w_balance w) + (\<Sum>e\<leftarrow>filter (paid_out fails) es. e_net_amount e) \<and>
     (\<forall>e\<in>set es. find_one (\<lambda>x. e_id x = e_id e) (db_earnings s') = Some (if paid_out fails e
         then e\<lparr>e_released := True, e_released_at := Some now\<rparr>
         else if fails e \<and> e_net_amount e \<noteq> 0 then e\<lparr>e_released := False, e_released_at := None\<rparr> else e)) \<and>
     (\<forall>i. i \<notin> e_id ` set es \<longrightarrow>
        find_one (\<lambda>x. e_id x = i) (db_earnings s') = find_one (\<lambda>x. e_id x = i) (db_earnings s))"
  using assms
proof (induction es arbitrary: s)
  case Nil
  then show ?case by simp
next
  case (Cons e es)
  have e: "find_one (\<lambda>x. e_id x = e_id e) (db_earnings s) = Some e" "\<not> e_released e"
    using Cons.prems(3) by auto
  obtain s1 where s1: "release_one fails now e s = (Inr (), s1)" "books s1"
    "(\<Sum>w\<leftarrow>db_wallets s1. w_balance w) = (\<Sum>w\<leftarrow>db_wallets s. w_balance w) +
       (if paid_out fails e then e_net_amount e else 0)"
    "find_one (\<lambda>x. e_id x = e_id e) (db_earnings s1) = Some (if paid_out fails e
         then e\<lparr>e_released := True, e_released_at := Some now\<rparr>
         else if fails e \<and> e_net_amount e \<noteq> 0 then e\<lparr>e_released := False, e_released_at := None\<rparr> else e)"
    "\<And>i. i \<noteq> e_id e \<Longrightarrow> find_one (\<lambda>x. e_id x = i) (db_earnings s1) = find_one (\<lambda>x. e_id x = i) (db_earnings s)"
  proof (cases "e_net_amount e = 0")
    case True
    with e show thesis by (intro that [of s]) (simp_all add: release_one_def Cons.prems(1) paid_out_def)
  next
    case nonzero: False
    show thesis
    proof (rule release_one_spec [OF Cons.prems(1) e, of fails now], goal_cases kept failed paid)
      case kept
      with nonzero show ?case by simp
    next
      case failed
      show ?case
        by (rule that [OF failed(2) books_unreleased [OF Cons.prems(1) e]])
          (use failed(1) nonzero e in \<open>simp_all add: paid_out_def find_set_released\<close>)
    next
      case (paid s')
      show ?case
        by (rule that [OF paid(3,4)])
          (use paid e in \<open>simp_all add: paid_out_def find_set_released\<close>)
    qed
  qed
  have "\<forall>x\<in>set es. find_one (\<lambda>y. e_id y = e_id x) (db_earnings s1) = Some x \<and> \<not> e_released x"
  proof
    fix x assume x: "x \<in> set es"
    then have "e_id x \<noteq> e_id e" using Cons.prems(2) by (auto simp: image_iff)
    with s1(5) [of "e_id x"] Cons.prems(3) x
    show "find_one (\<lambda>y. e_id y = e_id x) (db_earnings s1) = Some x \<and> \<not> e_released x" by simp
  qed
  from Cons.IH [OF s1(2) _ this] Cons.prems(2) obtain s' where s':
    "for_each es (release_one fails now) s1 = (Inr (), s')" "books s'"
    "(\<Sum>w\<leftarrow>db_wallets s'. w_balance w) =
       (\<Sum>w\<leftarrow>db_wallets s1. w_balance w) + (\<Sum>e\<leftarrow>filter (paid_out fails) es. e_net_amount e)"
    "\<forall>e\<in>set es. find_one (\<lambda>x. e_id x = e_id e) (db_earnings s') = Some (if paid_out fails e
         then e\<lparr>e_released := True, e_released_at := Some now\<rparr>
         else if fails e \<and> e_net_amount e \<noteq> 0 then e\<lparr>e_released := False, e_released_at := None\<rparr> else e)"
    "\<forall>i. i \<notin> e_id ` set es \<longrightarrow>
        find_one (\<lambda>x. e_id x = i) (db_earnings s') = find_one (\<lambda>x. e_id x = i) (db_earnings s1)"
    by auto
  have "find_one (\<lambda>x. e_id x = e_id e) (db_earnings s') = find_one (\<lambda>x. e_id x = e_id e) (db_earnings s1)"
    using s'(5) Cons.prems(2) by simp
  then show ?case
    using s1(1,3,4,5) s'
    by (intro exI [of _ s']) (simp add: andThen_app)
qed

lemma pending_earnings_found:
  assumes "wf_earnings s"
  shows "distinct (map e_id (pending_earnings now s)) \<and>
     (\<forall>e\<in>set (pending_earnings now s).
        find_one (\<lambda>x. e_id x = e_id e) (db_earnings s) = Some e \<and> \<not> e_released e)"
  using assms find_one_key_eq [of e_id "db_earnings s"]
  by (auto simp: pending_earnings_def wf_earnings_def distinct_map_filter)

text \<open>C5: one run of the release cron pays every due earning exactly once: the balances of the
  vendors grow by the sum of the due earnings whose payment succeeded, those earnings are released,
  a due earning whose payment failed is left to the next run, and the books stay in agreement.\<close>

theorem releaseFunds_pays_due_earnings:
  assumes "books s" and "releaseFunds fails now s = (r, s')"
  shows "r = Inr () \<and> books s' \<and>
     (\<Sum>w\<leftarrow>db_wallets s'. w_balance w) = (\<Sum>w\<leftarrow>db_wallets s. w_balance w) +
       (\<Sum>e\<leftarrow>filter (paid_out fails) (pending_earnings now s). e_net_amount e) \<and>
     (\<forall>e\<in>set (pending_earnings now s). \<exists>x\<in>set (db_earnings s'). e_id x = e_id e \<and>
        e_net_amount x = e_net_amount e \<and> (e_released x \<longleftrightarrow> paid_out fails e))"
proof -
  have wf: "wf_earnings s" using assms(1) by (simp add: books_def)
  note pend = pending_earnings_found [OF wf, of now]
  obtain s1 where s1: "for_each (pending_earnings now s) (release_one fails now) s = (Inr (), s1)" "books s1"
    "(\<Sum>w\<leftarrow>db_wallets s1. w_balance w) = (\<Sum>w\<leftarrow>db_wallets s. w_balance w) +
       (\<Sum>e\<leftarrow>filter (paid_out fails) (pending_earnings now s). e_net_amount e)"
    "\<forall>e\<in>set (pending_earnings now s). find_one (\<lambda>x. e_id x = e_id e) (db_earnings s1) = Some (if paid_out fails e
         then e\<lparr>e_released := True, e_released_at := Some now\<rparr>
         else if fails e \<and> e_net_amount e \<noteq> 0 then e\<lparr>e_released := False, e_released_at := None\<rparr> else e)"
    using release_loop [OF assms(1) conjunct1 [OF pend] conjunct2 [OF pend], of fails now] by blast
  have "(r, s') = (Inr (), s1)"
    using assms(2) s1(1) by (simp add: releaseFunds_def andThen_app)
  moreover have "\<exists>x\<in>set (db_earnings s1). e_id x = e_id e \<and> e_net_amount x = e_net_amount e \<and>
      (e_released x \<longleftrightarrow> paid_out fails e)" if e: "e \<in> set (pending_earnings now s)" for e
    using find_one_SomeD [OF bspec [OF s1(4) e]] pend e by (intro bexI [of _ "if paid_out fails e
         then e\<lparr>e_released := True, e_released_at := Some now\<rparr>
         else if fails e \<and> e_net_amount e \<noteq> 0 then e\<lparr>e_released := False, e_released_at := None\<rparr> else e"]) auto
  ultimately show ?thesis using s1(2,3) by simp
qed

definition sample_earning :: business_earning where
  "sample_earning = \<lparr>e_id = 5, e_business = Some 8, e_order = 3, e_item = Some 6, e_amount = 1000,
     e_commission = 100, e_net_amount = 900, e_released = False, e_release_date = Some 50,
     e_released_at = None, e_milestone = Completion\<rparr>"

definition sample_due :: db where
  "sample_due = sample_books\<lparr>db_wallets := [sample_wallet\<lparr>w_pending_balance := 900\<rparr>],
     db_earnings := [sample_earning]\<rparr>"

lemma sample_due_ok: "books sample_due" "distinct (map o_id (db_orders sample_due))"
proof -
  have "pending_of sample_due b = owed sample_due b" for b
    by (simp add: pending_of_def owed_def sample_due_def sample_wallet_def new_wallet_def
        sample_earning_def owed_by_def)
  then show "books sample_due"
    using sample_books_ok(1)
    by (simp add: books_def sample_due_def wf_earnings_def current_terms_def setting_def sample_books_def
        sample_shop_def empty_db_def wf_wallets_def sample_earning_def sample_wallet_def new_wallet_def)
qed (simp add: sample_due_def sample_books_ok)

theorem releaseFunds_pays_due_earnings_witness:
  "\<exists>s'. releaseFunds (\<lambda>_. False) 60 sample_due = (Inr (), s') \<and>
     (\<Sum>w\<leftarrow>db_wallets s'. w_balance w) = 5900 \<and> books s'"
proof -
  let ?r = "releaseFunds (\<lambda>_. False) 60 sample_due"
  have due: "pending_earnings 60 sample_due = [sample_earning]"
    by (simp add: pending_earnings_def sample_due_def sample_earning_def)
  have now: "(\<Sum>w\<leftarrow>db_wallets sample_due. w_balance w) = 5000" "e_net_amount sample_earning = 900"
    by (simp_all add: sample_due_def sample_wallet_def sample_earning_def)
  show ?thesis
    using releaseFunds_pays_due_earnings [OF sample_due_ok(1) surjective_pairing, of "\<lambda>_. False" 60] due now
    by (intro exI [of _ "snd ?r"]) (simp add: paid_out_def prod_eq_iff)
qed

section \<open>Runs of the cron on several instances\<close>

text \<open>
  Every backend instance runs the cron. A run holds the earnings it has read and not reached yet,
  and the one it has claimed and not paid. The steps of all runs interleave freely, with those of
  the rest of the program: it may add earnings, delete them or change their other fields, but
  never sets a released earning back. A run may also die at any moment. A credit is
  one update of the wallet, so one that is refused moved no money. \<open>cl_paid\<close> lists the earnings
  for which the vendor's wallet was credited.
\<close>

record cron_run =
  cr_todo :: "business_earning list"
  cr_paying :: "business_earning option"

record cluster =
  cl_db :: db
  cl_runs :: "cron_run list"
  cl_paid :: "oid list"

definition other_writes :: "db \<Rightarrow> db \<Rightarrow> bool" where
  "other_writes s s' \<longleftrightarrow> distinct (map e_id (db_earnings s')) \<and> db_next s \<le> db_next s' \<and>
     (\<forall>e'\<in>set (db_earnings s'). e_id e' < db_next s' \<and>
        (db_next s \<le> e_id e' \<or>
         (\<exists>e\<in>set (db_earnings s). e_id e = e_id e' \<and> (e_released e \<longrightarrow> e_released e'))))"

inductive cron_step :: "cluster \<Rightarrow> cluster \<Rightarrow> bool" where
  start: "cron_step c (c\<lparr>cl_runs := cl_runs c @
            [\<lparr>cr_todo = pending_earnings now (cl_db c), cr_paying = None\<rparr>]\<rparr>)"
| skip: "\<lbrakk>i < length (cl_runs c); cl_runs c ! i = \<lparr>cr_todo = e # es, cr_paying = None\<rparr>;
           e_net_amount e = 0\<rbrakk>
         \<Longrightarrow> cron_step c (c\<lparr>cl_runs := (cl_runs c)[i := \<lparr>cr_todo = es, cr_paying = None\<rparr>]\<rparr>)"
| claim: "\<lbrakk>i < length (cl_runs c); cl_runs c ! i = \<lparr>cr_todo = e # es, cr_paying = None\<rparr>;
            e_net_amount e \<noteq> 0; claim_release now (e_id e) (cl_db c) = (won, s')\<rbrakk>
         \<Longrightarrow> cron_step c (c\<lparr>cl_db := s', cl_runs := (cl_runs c)[i :=
               \<lparr>cr_todo = es, cr_paying = (if won then Some e else None)\<rparr>]\<rparr>)"
| pay: "\<lbrakk>i < length (cl_runs c); cl_runs c ! i = \<lparr>cr_todo = es, cr_paying = Some e\<rparr>;
          credit_release e (cl_db c) = (r, s')\<rbrakk>
         \<Longrightarrow> cron_step c (c\<lparr>cl_db := s', cl_paid := e_id e # cl_paid c,
               cl_runs := (cl_runs c)[i := \<lparr>cr_todo = es, cr_paying = None\<rparr>]\<rparr>)"
| refused: "\<lbrakk>i < length (cl_runs c); cl_runs c ! i = \<lparr>cr_todo = es, cr_paying = Some e\<rparr>\<rbrakk>
         \<Longrightarrow> cron_step c (c\<lparr>cl_db := revert_release (e_id e) (cl_db c),
               cl_runs := (cl_runs c)[i := \<lparr>cr_todo = es, cr_paying = None\<rparr>]\<rparr>)"
| crash: "i < length (cl_runs c)
         \<Longrightarrow> cron_step c (c\<lparr>cl_runs := (cl_runs c)[i := \<lparr>cr_todo = [], cr_paying = None\<rparr>]\<rparr>)"
| other: "other_writes (cl_db c) s' \<Longrightarrow> cron_step c (c\<lparr>cl_db := s'\<rparr>)"

text \<open>The earning that a run has claimed.\<close>

definition paying_id :: "cluster \<Rightarrow> nat \<Rightarrow> oid option" where
  "paying_id c i = (if i < length (cl_runs c) then map_option e_id (cr_paying (cl_runs c ! i)) else None)"

definition settled :: "db \<Rightarrow> oid \<Rightarrow> bool" where
  "settled s eid \<longleftrightarrow> eid < db_next s \<and> (\<forall>e\<in>set (db_earnings s). e_id e = eid \<longrightarrow> e_released e)"

definition cluster_ok :: "cluster \<Rightarrow> bool" where
  "cluster_ok c \<longleftrightarrow> distinct (map e_id (db_earnings (cl_db c))) \<and>
     (\<forall>e\<in>set (db_earnings (cl_db c)). e_id e < db_next (cl_db c)) \<and>
     distinct (cl_paid c) \<and> (\<forall>eid\<in>set (cl_paid c). settled (cl_db c) eid) \<and>
     (\<forall>i eid. paying_id c i = Some eid \<longrightarrow> settled (cl_db c) eid \<and> eid \<notin> set (cl_paid c)) \<and>
     (\<forall>i j eid. paying_id c i = Some eid \<and> paying_id c j = Some eid \<longrightarrow> i = j)"

lemma paying_id_update:
  assumes "i < length (cl_runs c)"
  shows "paying_id (c\<lparr>cl_runs := (cl_runs c)[i := r]\<rparr>) j =
           (if j = i then map_option e_id (cr_paying r) else paying_id c j)"
    and "paying_id (c\<lparr>cl_db := s, cl_runs := (cl_runs c)[i := r]\<rparr>) j =
           (if j = i then map_option e_id (cr_paying r) else paying_id c j)"
    and "paying_id (c\<lparr>cl_db := s, cl_paid := p, cl_runs := (cl_runs c)[i := r]\<rparr>) j =
           (if j = i then map_option e_id (cr_paying r) else paying_id c j)"
  using assms by (simp_all add: paying_id_def)

lemma paying_id_db [simp]:
  "paying_id (c\<lparr>cl_db := s\<rparr>) = paying_id c" "paying_id (c\<lparr>cl_paid := p\<rparr>) = paying_id c"
  by (rule ext, simp add: paying_id_def)+

lemma settled_other: "other_writes s s' \<Longrightarrow> settled s eid \<Longrightarrow> settled s' eid"
  by (fastforce simp: other_writes_def settled_def)

lemma credit_release_preserves:
  "preserves (\<lambda>s. db_earnings s = es \<and> n \<le> db_next s) (credit_release e)"
proof -
  have fresh: "preserves (\<lambda>s. db_earnings s = es \<and> n \<le> db_next s) fresh"
    by (simp add: preserves_def)
  have update: "preserves (\<lambda>s. db_earnings s = es \<and> n \<le> db_next s) (update_wallet P f)" for P f
    by (simp add: preserves_def update_wallet_def)
  show ?thesis
    unfolding credit_release_def upsert_business_wallet_def recordEarningCredit_def add_transaction_def
    by (intro preserve_intros fresh update) simp_all
qed

lemma credit_release_frame:
  "db_earnings (snd (credit_release e s)) = db_earnings s" "db_next s \<le> db_next (snd (credit_release e s))"
  using preservesD [OF credit_release_preserves, of s "db_earnings s" "db_next s" e] by simp_all

lemma cluster_ok_claim:
  assumes ok: "cluster_ok c" and run: "i < length (cl_runs c)" "cr_paying (cl_runs c ! i) = None"
    and won: "claim_release now (e_id e) (cl_db c) = (won, s')"
  shows "cluster_ok (c\<lparr>cl_db := s', cl_runs := (cl_runs c)[i :=
               \<lparr>cr_todo = es, cr_paying = (if won then Some e else None)\<rparr>]\<rparr>)"
proof -
  let ?s = "cl_db c" and ?c' = "c\<lparr>cl_db := s', cl_runs := (cl_runs c)[i :=
               \<lparr>cr_todo = es, cr_paying = (if won then Some e else None)\<rparr>]\<rparr>"
  have dist: "distinct (map e_id (db_earnings ?s))" using ok by (simp add: cluster_ok_def)
  note claim = claim_release_run [OF dist, of now "e_id e"]
  note ids = paying_id_update [OF run(1)]
  show ?thesis
  proof (cases won)
    case False
    then have "s' = ?s" using won claim by (auto split: option.splits if_splits)
    with ok ids False show ?thesis by (auto simp: cluster_ok_def split: if_splits)
  next
    case True
    then obtain x where x: "find_one (\<lambda>y. e_id y = e_id e) (db_earnings ?s) = Some x" "\<not> e_released x"
      and s': "s' = set_released True (Some now) (e_id e) ?s"
      using won claim by (auto split: option.splits if_splits)
    have xin: "x \<in> set (db_earnings ?s)" "e_id x = e_id e" using find_one_SomeD [OF x(1)] by auto
    then have new: "\<not> settled ?s (e_id e)" using x(2) by (auto simp: settled_def)
    have es': "db_earnings s' = map (\<lambda>y. if e_id y = e_id e then y\<lparr>e_released := True, e_released_at := Some now\<rparr>
        else y) (db_earnings ?s)" "db_next s' = db_next ?s"
      using update_one_key_map [OF dist] by (simp_all add: s' set_released_def)
    have keep: "settled s' k" if "settled ?s k" for k
      using that by (auto simp: settled_def es')
    have got: "settled s' (e_id e)"
      using ok xin by (auto simp: settled_def es' cluster_ok_def)
    have bound: "\<forall>y\<in>set (db_earnings s'). e_id y < db_next s'" "map e_id (db_earnings s') = map e_id (db_earnings ?s)"
      using ok by (auto simp: es' cluster_ok_def)
    have other: "paying_id c j \<noteq> Some (e_id e)" "e_id e \<notin> set (cl_paid c)" for j
      using ok new by (auto simp: cluster_ok_def)
    have "\<forall>j eid. paying_id ?c' j = Some eid \<longrightarrow> settled s' eid \<and> eid \<notin> set (cl_paid c)"
      using ok keep got other(2) True by (auto simp: ids cluster_ok_def)
    moreover have "\<forall>j k eid. paying_id ?c' j = Some eid \<and> paying_id ?c' k = Some eid \<longrightarrow> j = k"
      using ok other(1) True by (auto simp: ids cluster_ok_def)
    ultimately show ?thesis
      using ok keep bound dist by (simp add: cluster_ok_def)
  qed
qed

lemma cluster_ok_release:
  assumes ok: "cluster_ok c" and run: "i < length (cl_runs c)" "cr_paying (cl_runs c ! i) = Some e"
    and s': "\<And>k. settled (cl_db c) k \<Longrightarrow> k \<noteq> e_id e \<or> p = e_id e # cl_paid c \<Longrightarrow> settled s' k"
    "map e_id (db_earnings s') = map e_id (db_earnings (cl_db c))" "db_next (cl_db c) \<le> db_next s'"
    and p: "p = cl_paid c \<or> p = e_id e # cl_paid c"
  shows "cluster_ok (c\<lparr>cl_db := s', cl_paid := p, cl_runs := (cl_runs c)[i := \<lparr>cr_todo = es, cr_paying = None\<rparr>]\<rparr>)"
    (is "cluster_ok ?c'")
proof -
  note ids = paying_id_update [OF run(1)]
  have mine: "paying_id c i = Some (e_id e)" using run by (simp add: paying_id_def)
  have fresh: "e_id e \<notin> set (cl_paid c)" "settled (cl_db c) (e_id e)" "paying_id c j = Some (e_id e) \<Longrightarrow> j = i" for j
    using ok mine by (auto simp: cluster_ok_def)
  have paid: "\<forall>k\<in>set p. settled s' k" "distinct p"
    using p ok fresh(1,2) s'(1) by (auto simp: cluster_ok_def)
  have busy: "settled s' k \<and> k \<notin> set p" if "paying_id ?c' j = Some k" for j k
  proof -
    from that have j: "j \<noteq> i" "paying_id c j = Some k" by (auto simp: ids split: if_splits)
    then have "k \<noteq> e_id e" using fresh(3) by auto
    with j ok p s'(1) show ?thesis by (auto simp: cluster_ok_def)
  qed
  have "\<forall>x\<in>set (db_earnings s'). e_id x < db_next s'"
  proof
    fix x assume "x \<in> set (db_earnings s')"
    then have "e_id x \<in> set (map e_id (db_earnings (cl_db c)))" using s'(2) by (metis image_eqI set_map)
    then show "e_id x < db_next s'" using ok s'(3) by (auto simp: cluster_ok_def)
  qed
  moreover have "\<forall>j k eid. paying_id ?c' j = Some eid \<and> paying_id ?c' k = Some eid \<longrightarrow> j = k"
    using ok by (auto simp: ids cluster_ok_def)
  ultimately show ?thesis
    using paid busy ok s'(2) by (simp add: cluster_ok_def)
qed

lemma cron_step_keeps_ok: "cron_step c c' \<Longrightarrow> cluster_ok c \<Longrightarrow> cluster_ok c'"
proof (induction rule: cron_step.induct)
  case (start c now)
  have "paying_id (c\<lparr>cl_runs := cl_runs c @ [\<lparr>cr_todo = pending_earnings now (cl_db c), cr_paying = None\<rparr>]\<rparr>) =
      paying_id c"
    by (rule ext) (auto simp: paying_id_def nth_append)
  with start show ?case by (simp add: cluster_ok_def)
next
  case (skip i c e es)
  have "paying_id (c\<lparr>cl_runs := (cl_runs c)[i := \<lparr>cr_todo = es, cr_paying = None\<rparr>]\<rparr>) = paying_id c"
    using skip by (intro ext) (auto simp: paying_id_def nth_list_update)
  with skip show ?case by (simp add: cluster_ok_def)
next
  case (claim i c e es now won s')
  then show ?case by (intro cluster_ok_claim) simp_all
next
  case (pay i c es e r s')
  have s': "db_earnings s' = db_earnings (cl_db c)" "db_next (cl_db c) \<le> db_next s'"
    using credit_release_frame [where e = e and s = "cl_db c"] pay(3) by simp_all
  then have "settled s' k" if "settled (cl_db c) k" for k using that by (auto simp: settled_def)
  with pay s' show ?case by (intro cluster_ok_release) simp_all
next
  case (refused i c es e)
  have "settled (revert_release (e_id e) (cl_db c)) k" if "settled (cl_db c) k" "k \<noteq> e_id e" for k
  proof -
    have "\<forall>x\<in>set (update_one (\<lambda>x. e_id x = e_id e) (\<lambda>x. x\<lparr>e_released := False, e_released_at := None\<rparr>)
        (db_earnings (cl_db c))). e_id x = k \<longrightarrow> e_released x"
      by (rule update_one_all) (use that in \<open>auto simp: settled_def\<close>)
    with that show ?thesis by (simp add: settled_def revert_release_def)
  qed
  with refused cluster_ok_release [of c i e "cl_paid c" "revert_release (e_id e) (cl_db c)" es]
  show ?case by (simp add: revert_release_def map_update_one)
next
  case (crash i c)
  have "paying_id (c\<lparr>cl_runs := (cl_runs c)[i := \<lparr>cr_todo = [], cr_paying = None\<rparr>]\<rparr>) j =
      (if j = i then None else paying_id c j)" for j
    using crash(1) by (simp add: paying_id_def)
  with crash(2) show ?case by (auto simp: cluster_ok_def split: if_splits)
next
  case (other c s')
  then show ?case using settled_other [OF other(1)] by (auto simp: cluster_ok_def other_writes_def)
qed

definition idle_cluster :: "db \<Rightarrow> cluster" where
  "idle_cluster s = \<lparr>cl_db = s, cl_runs = [], cl_paid = []\<rparr>"

text \<open>C1: however many instances run the release cron, however their steps interleave with each
  other and with the rest of the program, and wherever they crash, no earning is credited twice.\<close>

theorem no_earning_paid_twice:
  assumes "wf_earnings s" and "cron_step\<^sup>*\<^sup>* (idle_cluster s) c"
  shows "distinct (cl_paid c)"
proof -
  have "cluster_ok (idle_cluster s)"
    using assms(1) by (auto simp: cluster_ok_def idle_cluster_def wf_earnings_def paying_id_def)
  with assms(2) have "cluster_ok c"
    by (induction rule: rtranclp_induct) (auto intro: cron_step_keeps_ok)
  then show ?thesis by (simp add: cluster_ok_def)
qed

theorem no_earning_paid_twice_witness:
  "\<exists>c. cron_step\<^sup>*\<^sup>* (idle_cluster sample_due) c \<and> length (cl_runs c) = 2 \<and> cl_paid c = [5] \<and> distinct (cl_paid c)"
proof -
  let ?c0 = "idle_cluster sample_due" and ?e = sample_earning
  let ?new = "\<lparr>cr_todo = [?e], cr_paying = None\<rparr>" and ?done = "\<lparr>cr_todo = [], cr_paying = None\<rparr>"
  let ?s1 = "set_released True (Some 60) 5 sample_due"
  let ?s2 = "snd (credit_release ?e ?s1)"
  let ?c1 = "?c0\<lparr>cl_runs := [?new]\<rparr>" and ?c2 = "?c0\<lparr>cl_runs := [?new, ?new]\<rparr>"
  let ?c3 = "?c0\<lparr>cl_db := ?s1, cl_runs := [\<lparr>cr_todo = [], cr_paying = Some ?e\<rparr>, ?new]\<rparr>"
  let ?c4 = "?c0\<lparr>cl_db := ?s1, cl_runs := [\<lparr>cr_todo = [], cr_paying = Some ?e\<rparr>, ?done]\<rparr>"
  let ?c5 = "?c0\<lparr>cl_db := ?s2, cl_paid := [5], cl_runs := [?done, ?done]\<rparr>"
  have due: "pending_earnings 60 sample_due = [?e]"
    by (simp add: pending_earnings_def sample_due_def sample_earning_def)
  have e: "e_id ?e = 5" "e_net_amount ?e \<noteq> 0" by (simp_all add: sample_earning_def)
  have dist: "distinct (map e_id (db_earnings sample_due))" "distinct (map e_id (db_earnings ?s1))"
    by (simp_all add: sample_due_def set_released_def)
  have won: "claim_release 60 5 sample_due = (True, ?s1)"
    by (simp add: claim_release_run [OF dist(1)]) (simp add: sample_due_def sample_earning_def)
  have lost: "claim_release 60 5 ?s1 = (False, ?s1)"
    by (simp add: claim_release_run [OF dist(2)] find_set_released) (simp add: sample_due_def sample_earning_def)
  have 1: "cron_step ?c0 ?c1" using cron_step.start [of ?c0 60] by (simp add: idle_cluster_def due)
  have 2: "cron_step ?c1 ?c2" using cron_step.start [of ?c1 60] by (simp add: idle_cluster_def due)
  have 3: "cron_step ?c2 ?c3" using cron_step.claim [of 0 ?c2 ?e "[]" 60 True ?s1] won e
    by (simp add: idle_cluster_def)
  have 4: "cron_step ?c3 ?c4" using cron_step.claim [of 1 ?c3 ?e "[]" 60 False ?s1] lost e
    by (simp add: idle_cluster_def)
  have 5: "cron_step ?c4 ?c5" using cron_step.pay [of 0 ?c4 "[]" ?e "fst (credit_release ?e ?s1)" ?s2] e
    by (simp add: idle_cluster_def)
  have "cron_step\<^sup>*\<^sup>* ?c0 ?c5"
    using 1 2 3 4 5 by (meson r_into_rtranclp rtranclp_trans)
  moreover have "wf_earnings sample_due" using sample_due_ok(1) by (simp add: books_def)
  ultimately show ?thesis
    using no_earning_paid_twice [of sample_due ?c5] by (intro exI [of _ ?c5]) simp
qed

section \<open>Reversal\<close>

lemma reconcile_pending:
  assumes wf: "wf_wallets s" and nonneg: "0 \<le> pending_of s b" and p: "nullish p 0 \<le> 0"
  obtains r ws where "reconcileBusinessWallet now b p q s = (Inr r, s\<lparr>db_wallets := ws\<rparr>)"
    "wf_wallets (s\<lparr>db_wallets := ws\<rparr>)"
    "pending_of (s\<lparr>db_wallets := ws\<rparr>) = (pending_of s)(b := max 0 (pending_of s b + nullish p 0))"
proof (cases "nullish p 0 = 0 \<and> nullish q 0 = 0")
  case True
  then show thesis
    using nonneg by (intro that [of None "db_wallets s"])
      (simp_all add: reconcileBusinessWallet_def Let_def wf fun_upd_idem)
next
  case False
  show thesis
  proof (cases "find_one (\<lambda>w. w_business w = Some b) (db_wallets s)")
    case None
    with False show thesis
      using p wf by (intro that [of None "db_wallets s"])
        (auto simp: reconcileBusinessWallet_def Let_def andThen_app pending_of_def fun_eq_iff max_def)
  next
    case (Some w)
    let ?w = "reconcile now (nullish p 0) (nullish q 0) w"
    let ?ws = "update_one (\<lambda>x. w_id x = w_id w) (\<lambda>_. ?w) (db_wallets s)"
    have dist: "distinct (map w_id (db_wallets s))" using wf by (simp add: wf_wallets_def)
    have same: "x = w" if "x \<in> set (db_wallets s)" "w_id x = w_id w" for x
      using dist that find_one_SomeD [OF Some] by (auto simp: distinct_map dest: inj_onD)
    have ws: "?ws = map (\<lambda>x. if x = w then ?w else x) (db_wallets s)"
      unfolding update_one_key_map [OF dist] using same find_one_SomeD [OF Some] by auto
    have found: "find_one (\<lambda>x. w_business x = Some c) (map (\<lambda>x. if x = w then ?w else x) xs) =
        map_option (\<lambda>x. if x = w then ?w else x) (find_one (\<lambda>x. w_business x = Some c) xs)" for c xs
      by (induction xs) (auto simp: reconcile_def)
    have "wf_wallets (s\<lparr>db_wallets := ?ws\<rparr>)"
    proof -
      have "map w_id ?ws = map w_id (db_wallets s)" by (rule map_update_one) (simp add: reconcile_def)
      moreover have "\<forall>x\<in>set ?ws. w_id x < db_next s"
        by (rule update_one_all) (use wf find_one_SomeD [OF Some] in \<open>auto simp: wf_wallets_def reconcile_def\<close>)
      ultimately show ?thesis using dist by (simp add: wf_wallets_def)
    qed
    moreover have "pending_of (s\<lparr>db_wallets := ?ws\<rparr>) = (pending_of s)(b := max 0 (pending_of s b + nullish p 0))"
    proof (rule ext)
      fix c
      show "pending_of (s\<lparr>db_wallets := ?ws\<rparr>) c = ((pending_of s)(b := max 0 (pending_of s b + nullish p 0))) c"
      proof (cases "c = b")
        case True
        have "pending_of (s\<lparr>db_wallets := ?ws\<rparr>) b = w_pending_balance ?w"
          unfolding pending_of_def ws by (simp add: found Some)
        moreover have "pending_of s b = w_pending_balance w" by (simp add: pending_of_def Some)
        ultimately show ?thesis using True by (simp add: reconcile_def)
      next
        case False
        have "find_one (\<lambda>x. w_business x = Some c) (db_wallets s) \<noteq> Some w"
          using find_one_SomeD [OF Some] False by (auto dest: find_one_SomeD)
        then have "map_option (\<lambda>x. if x = w then ?w else x) (find_one (\<lambda>x. w_business x = Some c) (db_wallets s)) =
            find_one (\<lambda>x. w_business x = Some c) (db_wallets s)"
          by (cases "find_one (\<lambda>x. w_business x = Some c) (db_wallets s)") auto
        then show ?thesis
          using False unfolding pending_of_def ws by (simp add: found)
      qed
    qed
    ultimately show thesis
      using False Some by (intro that [of "Some ?w" ?ws])
        (auto simp: reconcileBusinessWallet_def Let_def andThen_app)
  qed
qed

lemma delete_one_key_filter:
  "distinct (map key ds) \<Longrightarrow> delete_one (\<lambda>d. key d = k) ds = filter (\<lambda>d. key d \<noteq> k) ds"
proof (induction ds)
  case (Cons d ds)
  then show ?case by (auto simp: image_iff intro!: filter_True [symmetric])
qed simp

lemma books_wf_wallets: "books s \<Longrightarrow> wf_wallets s \<and> distinct (map e_id (db_earnings s)) \<and> 0 \<le> pending_of s b"
  using owed_nonneg by (auto simp: books_def wf_earnings_def)

lemma reverse_unreleased_spec:
  assumes books: "books s" and e: "e \<in> set (db_earnings s)" "\<not> e_released e"
  shows "\<exists>s'. reverse_unreleased now e s = (Inr (), s') \<and> books s' \<and> db_orders s' = db_orders s \<and>
     db_earnings s' = filter (\<lambda>x. e_id x \<noteq> e_id e) (db_earnings s)"
proof -
  from books e obtain b where b: "e_business e = Some b" and net: "0 \<le> e_net_amount e"
    by (auto simp: books_def wf_earnings_def)
  note ww = books_wf_wallets [OF books, of b]
  have le: "e_net_amount e \<le> pending_of s b"
    using owed_ge [OF _ e b] books by (simp add: books_def)
  obtain r ws where rec: "reconcileBusinessWallet now b (Some (- e_net_amount e)) None s = (Inr r, s\<lparr>db_wallets := ws\<rparr>)"
    "wf_wallets (s\<lparr>db_wallets := ws\<rparr>)"
    "pending_of (s\<lparr>db_wallets := ws\<rparr>) = (pending_of s)(b := max 0 (pending_of s b + nullish (Some (- e_net_amount e)) 0))"
    by (rule reconcile_pending [of s b "Some (- e_net_amount e)" now None]) (use ww net in auto)
  let ?es = "delete_one (\<lambda>x. e_id x = e_id e) (db_earnings s)"
  let ?s' = "s\<lparr>db_wallets := ws, db_earnings := ?es\<rparr>"
  have found: "find_one (\<lambda>x. e_id x = e_id e) (db_earnings s) = Some e"
    using find_one_key_eq [of e_id "db_earnings s" e] ww e by simp
  have "pending_of ?s' c = owed ?s' c" for c
  proof -
    have "owed ?s' c = owed s c - owed_by c e"
      using sum_list_delete_one [OF found, of "owed_by c"] by (simp add: owed_def)
    moreover have "pending_of ?s' c = pending_of s c - (if c = b then e_net_amount e else 0)"
      using fun_cong [OF rec(3), of c] le by (simp add: pending_of_def)
    ultimately show ?thesis
      using books b e(2) by (auto simp: books_def owed_by_def)
  qed
  moreover have "wf_earnings ?s'"
  proof -
    have "\<forall>x\<in>set ?es. x \<in> set (db_earnings s)"
      by (intro ballI) (erule subsetD [OF set_delete_one])
    with books rec(2) show ?thesis
      by (simp add: books_def wf_earnings_def wf_wallets_def distinct_delete_one)
  qed
  moreover have "current_terms ?s' = current_terms s" by (simp add: current_terms_def setting_def)
  ultimately have "books ?s'" using books by (simp add: books_def)
  moreover have "?es = filter (\<lambda>x. e_id x \<noteq> e_id e) (db_earnings s)"
    using ww by (intro delete_one_key_filter) simp
  ultimately show ?thesis
    using rec(1) b
    by (intro exI [of _ ?s']) (simp add: reverse_unreleased_def reconcile_earning_def andThen_app)
qed

lemma reverse_unreleased_loop:
  assumes "books s" "distinct (map e_id es)" "\<forall>e\<in>set es. e \<in> set (db_earnings s) \<and> \<not> e_released e"
  shows "\<exists>s'. for_each es (reverse_unreleased now) s = (Inr (), s') \<and> books s' \<and> db_orders s' = db_orders s \<and>
     db_earnings s' = filter (\<lambda>x. e_id x \<notin> e_id ` set es) (db_earnings s)"
  using assms
proof (induction es arbitrary: s)
  case Nil
  then show ?case by simp
next
  case (Cons e es)
  have "e \<in> set (db_earnings s)" "\<not> e_released e" using Cons.prems(3) by simp_all
  from reverse_unreleased_spec [OF Cons.prems(1) this] obtain s1 where
    s1: "reverse_unreleased now e s = (Inr (), s1)" "books s1" "db_orders s1 = db_orders s"
      "db_earnings s1 = filter (\<lambda>x. e_id x \<noteq> e_id e) (db_earnings s)" by blast
  have "\<forall>x\<in>set es. x \<in> set (db_earnings s1) \<and> \<not> e_released x"
    using Cons.prems(2,3) by (auto simp: s1(4) image_iff)
  from Cons.IH [OF s1(2) _ this] Cons.prems(2) obtain s' where
    "for_each es (reverse_unreleased now) s1 = (Inr (), s')" "books s'" "db_orders s' = db_orders s1"
    "db_earnings s' = filter (\<lambda>x. e_id x \<notin> e_id ` set es) (db_earnings s1)" by auto
  with s1 show ?case
    by (intro exI [of _ s']) (auto simp: andThen_app intro!: filter_cong)
qed

lemma claw_back_spec:
  assumes books: "books s" and e: "e \<in> set (db_earnings s)" "e_released e"
  shows "\<exists>s'. claw_back now e s = (Inr (), s') \<and> books s' \<and> db_orders s' = db_orders s \<and>
     db_earnings s' = map (\<lambda>x. if e_id x = e_id e then x\<lparr>e_net_amount := 0\<rparr> else x) (db_earnings s)"
proof -
  from books e obtain b where b: "e_business e = Some b" and net: "0 \<le> e_net_amount e"
    by (auto simp: books_def wf_earnings_def)
  note ww = books_wf_wallets [OF books, of b]
  obtain r ws where rec: "reconcileBusinessWallet now b None (Some (- e_net_amount e)) s = (Inr r, s\<lparr>db_wallets := ws\<rparr>)"
    "wf_wallets (s\<lparr>db_wallets := ws\<rparr>)"
    "pending_of (s\<lparr>db_wallets := ws\<rparr>) = (pending_of s)(b := max 0 (pending_of s b + nullish None 0))"
    by (rule reconcile_pending [of s b None now "Some (- e_net_amount e)"]) (use ww in auto)
  then have pend: "pending_of (s\<lparr>db_wallets := ws\<rparr>) = pending_of s"
    using ww by (simp add: fun_upd_idem)
  let ?es = "update_one (\<lambda>x. e_id x = e_id e) (\<lambda>x. x\<lparr>e_net_amount := 0\<rparr>) (db_earnings s)"
  let ?f = "\<lambda>x. if e_id x = e_id e then x\<lparr>e_net_amount := 0\<rparr> else x"
  have es: "?es = map ?f (db_earnings s)" using ww by (intro update_one_key_map) simp
  have "\<exists>n ts. (case r of Some w \<Rightarrow> if e_net_amount e > 0
           then andThen (create_transaction (clawback_entry e w)) (\<lambda>_. ret ()) else ret ()
       | None \<Rightarrow> ret ()) (s\<lparr>db_wallets := ws\<rparr>) =
       (Inr (), s\<lparr>db_wallets := ws, db_next := n, db_transactions := ts\<rparr>) \<and> db_next s \<le> n"
  proof (cases "\<exists>w. r = Some w \<and> e_net_amount e > 0")
    case True
    then obtain w where "r = Some w" "e_net_amount e > 0" by blast
    then show ?thesis
      by (intro exI [of _ "Suc (Suc (db_next s))"] exI)
        (simp add: andThen_app create_transaction_run Let_def clawback_entry_def)
  next
    case False
    then show ?thesis
      by (intro exI [of _ "db_next s"] exI [of _ "db_transactions s"]) (auto split: option.splits)
  qed
  then obtain n ts where ledger: "(case r of Some w \<Rightarrow> if e_net_amount e > 0
           then andThen (create_transaction (clawback_entry e w)) (\<lambda>_. ret ()) else ret ()
       | None \<Rightarrow> ret ()) (s\<lparr>db_wallets := ws\<rparr>) =
       (Inr (), s\<lparr>db_wallets := ws, db_next := n, db_transactions := ts\<rparr>)" "db_next s \<le> n" by blast
  let ?s' = "s\<lparr>db_wallets := ws, db_next := n, db_transactions := ts, db_earnings := ?es\<rparr>"
  have run: "claw_back now e s = (Inr (), ?s')"
    using rec(1) ledger(1) b by (simp add: claw_back_def reconcile_earning_def andThen_app)
  have same: "x = e" if "x \<in> set (db_earnings s)" "e_id x = e_id e" for x
    using ww e that by (auto simp: distinct_map dest: inj_onD)
  have "pending_of ?s' c = owed ?s' c" for c
  proof -
    have "owed_by c (?f x) = owed_by c x" if "x \<in> set (db_earnings s)" for x
      using same [OF that] e(2) by (auto simp: owed_by_def)
    then have "owed ?s' c = owed s c" by (auto simp: owed_def es comp_def intro: arg_cong [of _ _ sum_list])
    moreover have "pending_of ?s' c = pending_of s c"
      using fun_cong [OF pend, of c] by (simp add: pending_of_def)
    ultimately show ?thesis using books by (simp add: books_def)
  qed
  moreover have "wf_earnings ?s'"
  proof -
    have "\<forall>x\<in>set ?es. e_id x < n \<and> 0 \<le> e_net_amount x \<and> e_business x \<noteq> None"
      using books ledger(2) by (fastforce simp: es books_def wf_earnings_def)
    moreover have "map e_id ?es = map e_id (db_earnings s)" by (rule map_update_one) simp
    moreover have "wf_wallets ?s'" using rec(2) ledger(2) by (fastforce simp: wf_wallets_def)
    ultimately show ?thesis using ww by (simp add: wf_earnings_def)
  qed
  moreover have "current_terms ?s' = current_terms s" by (simp add: current_terms_def setting_def)
  ultimately have "books ?s'" using books by (simp add: books_def)
  with run es show ?thesis by (intro exI [of _ ?s']) simp
qed

lemma claw_back_loop:
  assumes "books s" "distinct (map e_id es)" "\<forall>e\<in>set es. e \<in> set (db_earnings s) \<and> e_released e"
  shows "\<exists>s'. for_each es (claw_back now) s = (Inr (), s') \<and> books s' \<and> db_orders s' = db_orders s \<and>
     db_earnings s' = map (\<lambda>x. if e_id x \<in> e_id ` set es then x\<lparr>e_net_amount := 0\<rparr> else x) (db_earnings s)"
  using assms
proof (induction es arbitrary: s)
  case Nil
  then show ?case by simp
next
  case (Cons e es)
  have "e \<in> set (db_earnings s)" "e_released e" using Cons.prems(3) by simp_all
  from claw_back_spec [OF Cons.prems(1) this] obtain s1 where
    s1: "claw_back now e s = (Inr (), s1)" "books s1" "db_orders s1 = db_orders s"
      "db_earnings s1 = map (\<lambda>x. if e_id x = e_id e then x\<lparr>e_net_amount := 0\<rparr> else x) (db_earnings s)" by blast
  have "\<forall>x\<in>set es. x \<in> set (db_earnings s1) \<and> e_released x"
  proof
    fix x assume x: "x \<in> set es"
    then have "e_id x \<noteq> e_id e" using Cons.prems(2) by (auto simp: image_iff)
    with x Cons.prems(3) show "x \<in> set (db_earnings s1) \<and> e_released x"
      by (auto simp: s1(4) intro: rev_image_eqI)
  qed
  from Cons.IH [OF s1(2) _ this] Cons.prems(2) obtain s' where
    "for_each es (claw_back now) s1 = (Inr (), s')" "books s'" "db_orders s' = db_orders s1"
    "db_earnings s' = map (\<lambda>x. if e_id x \<in> e_id ` set es then x\<lparr>e_net_amount := 0\<rparr> else x) (db_earnings s1)"
    by auto
  with s1 show ?case
    by (intro exI [of _ s']) (auto simp: andThen_app)
qed

definition reversed_earnings :: "(business_earning \<Rightarrow> bool) \<Rightarrow> business_earning list \<Rightarrow> business_earning list" where
  "reversed_earnings scope es =
     map (\<lambda>e. if scope e then e\<lparr>e_net_amount := 0\<rparr> else e) (filter (\<lambda>e. scope e \<longrightarrow> e_released e) es)"

text \<open>C6: reversing an order's earnings, for the whole order, one vendor or one item, deletes the
  unreleased ones and empties the released ones of exactly that scope, leaves every other earning
  alone, and keeps the vendors' pending balances in agreement with what they are still owed.\<close>

theorem reversal_keeps_books:
  assumes "books s" and "reverseBusinessEarnings now orderId businessId itemId s = (r, s')"
  shows "r = Inr () \<and> books s' \<and>
     db_earnings s' = reversed_earnings (in_scope orderId businessId itemId) (db_earnings s)"
proof -
  let ?scope = "in_scope orderId businessId itemId"
  let ?un = "filter (\<lambda>e. ?scope e \<and> \<not> e_released e) (db_earnings s)"
  have dist: "distinct (map e_id (db_earnings s))" using books_wf_wallets [OF assms(1)] by blast
  have inj: "x = y" if "x \<in> set (db_earnings s)" "y \<in> set (db_earnings s)" "e_id x = e_id y" for x y
    using dist that by (auto simp: distinct_map dest: inj_onD)
  obtain s1 where s1: "for_each ?un (reverse_unreleased now) s = (Inr (), s1)" "books s1"
    "db_orders s1 = db_orders s" "db_earnings s1 = filter (\<lambda>x. e_id x \<notin> e_id ` set ?un) (db_earnings s)"
  proof -
    have "\<forall>e\<in>set ?un. e \<in> set (db_earnings s) \<and> \<not> e_released e" by simp
    from reverse_unreleased_loop [OF assms(1) distinct_map_filter [OF dist] this, of now] that show thesis by blast
  qed
  have es1: "db_earnings s1 = filter (\<lambda>e. ?scope e \<longrightarrow> e_released e) (db_earnings s)"
    unfolding s1(4) using inj by (intro filter_cong) auto
  let ?re = "filter (\<lambda>e. ?scope e \<and> e_released e) (db_earnings s1)"
  have dist1: "distinct (map e_id (db_earnings s1))" using books_wf_wallets [OF s1(2)] by blast
  obtain s2 where s2: "for_each ?re (claw_back now) s1 = (Inr (), s2)" "books s2" "db_orders s2 = db_orders s1"
    "db_earnings s2 = map (\<lambda>x. if e_id x \<in> e_id ` set ?re then x\<lparr>e_net_amount := 0\<rparr> else x) (db_earnings s1)"
  proof -
    have "\<forall>e\<in>set ?re. e \<in> set (db_earnings s1) \<and> e_released e" by simp
    from claw_back_loop [OF s1(2) distinct_map_filter [OF dist1] this, of now] that show thesis by blast
  qed
  have es2: "db_earnings s2 = reversed_earnings ?scope (db_earnings s)"
    unfolding s2(4) reversed_earnings_def es1 using inj by (intro map_cong) auto
  have run: "reverseBusinessEarnings now orderId businessId itemId s =
      (Inr (), if businessId = None \<and> itemId = None then s2\<lparr>db_orders := update_one (\<lambda>od. o_id od = orderId)
            (\<lambda>od. od\<lparr>o_vendor_earnings := 0, o_platform_commission := 0\<rparr>) (db_orders s2)\<rparr> else s2)"
    using s1(1) s2(1) by (simp add: reverseBusinessEarnings_def andThen_app)
  have "books (s2\<lparr>db_orders := update_one (\<lambda>od. o_id od = orderId)
            (\<lambda>od. od\<lparr>o_vendor_earnings := 0, o_platform_commission := 0\<rparr>) (db_orders s2)\<rparr>)"
    by (rule orders_books [OF s2(2)]) (use s2(2) in \<open>auto simp: books_def sane_order_def\<close>)
  with run assms(2) es2 s2(2) show ?thesis by (auto split: if_splits)
qed

theorem reversal_keeps_books_witness:
  "\<exists>s'. reverseBusinessEarnings 0 3 None None sample_due = (Inr (), s') \<and> books s' \<and> db_earnings s' = []"
proof -
  let ?r = "reverseBusinessEarnings 0 3 None None sample_due"
  have "reversed_earnings (in_scope 3 None None) (db_earnings sample_due) = []"
    by (simp add: reversed_earnings_def in_scope_def sample_due_def sample_earning_def)
  with reversal_keeps_books [OF sample_due_ok(1) surjective_pairing, of 0 3 None None] show ?thesis
    by (intro exI [of _ "snd ?r"]) (simp add: prod_eq_iff)
qed

end
