(* ===== verification/Inventory.thy ===== *)
theory Inventory
  imports Earnings
begin

text \<open>
  Stock (\<open>src/modules/products/products.service.ts\<close>): deducting an order's fabrics, accessories and
  colour variants when it is paid, and restoring them when it is cancelled or rejected, each in
  one database transaction. Fabrics and accessories may be documents of their own, embedded in a
  garment, or the fabric or accessory of the product itself, and every operation looks for them in
  that order. A save through Mongoose validates the schema's minimum of 0.1 yard; an \<open>updateOne\<close>
  does not. The argument \<open>quantityMultiplier\<close> keeps its default 1. Low-stock notifications are left
  out.
\<close>

section \<open>Finding stock\<close>

definition find_product :: "oid option \<Rightarrow> db \<Rightarrow> product option" where
  "find_product pid s = (case pid of None \<Rightarrow> None | Some i \<Rightarrow> find_one (\<lambda>p. p_id p = i) (db_products s))"

definition clothing_fabrics :: "product \<Rightarrow> fabric list" where
  "clothing_fabrics p = (case p_clothing p of None \<Rightarrow> [] | Some c \<Rightarrow> c_fabrics c)"

definition clothing_accessories :: "product \<Rightarrow> accessory list" where
  "clothing_accessories p = (case p_clothing p of None \<Rightarrow> [] | Some c \<Rightarrow> c_accessories c)"

definition clothing_colors :: "product \<Rightarrow> color_variant list" where
  "clothing_colors p = (case p_clothing p of None \<Rightarrow> [] | Some c \<Rightarrow> c_color_variants c)"

definition own_fabric :: "oid \<Rightarrow> product \<Rightarrow> fabric option" where
  "own_fabric fabricId p =
     (case p_fabric p of None \<Rightarrow> None | Some f \<Rightarrow> if f_id f = fabricId then Some f else None)"

definition own_accessory :: "oid \<Rightarrow> product \<Rightarrow> accessory option" where
  "own_accessory accessoryId p =
     (case p_accessory p of None \<Rightarrow> None | Some a \<Rightarrow> if a_id a = accessoryId then Some a else None)"

definition find_av :: "oid \<Rightarrow> accessory \<Rightarrow> accessory_variant option" where
  "find_av variantId a = find_one (\<lambda>v. av_id v = variantId) (a_variants a)"

text \<open>The first colour variant that holds a size variant of the id, and that size variant.\<close>

fun find_size :: "oid \<Rightarrow> color_variant list \<Rightarrow> (color_variant \<times> variant) option" where
  "find_size variantId [] = None"
| "find_size variantId (cv # cvs) =
     (case find_one (\<lambda>v. v_id v = variantId) (cv_variants cv) of
        Some v \<Rightarrow> Some (cv, v)
      | None \<Rightarrow> find_size variantId cvs)"

section \<open>Writing stock\<close>

definition on_product :: "oid \<Rightarrow> (product \<Rightarrow> product) \<Rightarrow> db \<Rightarrow> db" where
  "on_product pid f s = s\<lparr>db_products := update_one (\<lambda>p. p_id p = pid) f (db_products s)\<rparr>"

definition on_clothing :: "(clothing \<Rightarrow> clothing) \<Rightarrow> product \<Rightarrow> product" where
  "on_clothing f p = p\<lparr>p_clothing := map_option f (p_clothing p)\<rparr>"

definition on_yards :: "(rat \<Rightarrow> rat) \<Rightarrow> fabric \<Rightarrow> fabric" where
  "on_yards g f = f\<lparr>f_yard_length := g (f_yard_length f)\<rparr>"

definition on_av :: "oid \<Rightarrow> (rat option \<Rightarrow> rat) \<Rightarrow> accessory \<Rightarrow> accessory" where
  "on_av variantId g a =
     a\<lparr>a_variants := update_many (\<lambda>v. av_id v = variantId) (\<lambda>v. v\<lparr>av_stock := Some (g (av_stock v))\<rparr>) (a_variants a)\<rparr>"

text \<open>\<open>$inc\<close> on a missing field starts from 0.\<close>

definition inc_stock :: "rat \<Rightarrow> rat option \<Rightarrow> rat" where
  "inc_stock q stock = nullish stock 0 + q"

definition on_size :: "oid \<Rightarrow> oid \<Rightarrow> (rat option \<Rightarrow> rat) \<Rightarrow> product \<Rightarrow> product" where
  "on_size colorId variantId g = on_clothing (\<lambda>c. c\<lparr>c_color_variants :=
     update_many (\<lambda>cv. cv_id cv = colorId) (\<lambda>cv. cv\<lparr>cv_variants :=
       update_many (\<lambda>v. v_id v = variantId) (\<lambda>v. v\<lparr>v_stock := Some (g (v_stock v))\<rparr>) (cv_variants cv)\<rparr>)
     (c_color_variants c)\<rparr>)"

definition on_clothing_fabric :: "oid \<Rightarrow> (rat \<Rightarrow> rat) \<Rightarrow> product \<Rightarrow> product" where
  "on_clothing_fabric fabricId g = on_clothing (\<lambda>c. c\<lparr>c_fabrics :=
     update_one (\<lambda>f. f_id f = fabricId) (on_yards g) (c_fabrics c)\<rparr>)"

definition on_own_fabric :: "(rat \<Rightarrow> rat) \<Rightarrow> product \<Rightarrow> product" where
  "on_own_fabric g p = p\<lparr>p_fabric := map_option (on_yards g) (p_fabric p)\<rparr>"

definition on_clothing_accessory :: "oid \<Rightarrow> oid \<Rightarrow> (rat option \<Rightarrow> rat) \<Rightarrow> product \<Rightarrow> product" where
  "on_clothing_accessory accessoryId variantId g = on_clothing (\<lambda>c. c\<lparr>c_accessories :=
     update_one (\<lambda>a. a_id a = accessoryId) (on_av variantId g) (c_accessories c)\<rparr>)"

definition on_own_accessory :: "oid \<Rightarrow> (rat option \<Rightarrow> rat) \<Rightarrow> product \<Rightarrow> product" where
  "on_own_accessory variantId g p = p\<lparr>p_accessory := map_option (on_av variantId g) (p_accessory p)\<rparr>"

definition on_fabric_doc :: "oid \<Rightarrow> (rat \<Rightarrow> rat) \<Rightarrow> db \<Rightarrow> db" where
  "on_fabric_doc fabricId g s = s\<lparr>db_fabrics := update_one (\<lambda>f. f_id f = fabricId) (on_yards g) (db_fabrics s)\<rparr>"

definition on_accessory_doc :: "oid \<Rightarrow> oid \<Rightarrow> (rat option \<Rightarrow> rat) \<Rightarrow> db \<Rightarrow> db" where
  "on_accessory_doc accessoryId variantId g s = s\<lparr>db_accessories :=
     update_one (\<lambda>a. a_id a = accessoryId) (on_av variantId g) (db_accessories s)\<rparr>"

definition validate_yards :: "rat \<Rightarrow> (db, unit) action" where
  "validate_yards yards = (if yards < 1/10 then throw (ExternalError ''ValidationError: yard_length'') else ret ())"

section \<open>Deducting\<close>

definition updateFabricStock :: "oid option \<Rightarrow> oid \<Rightarrow> rat \<Rightarrow> (db, unit) action" where
  "updateFabricStock productId fabricId newYardLength =
     andThen (gets (\<lambda>s. find_one (\<lambda>f. f_id f = fabricId) (db_fabrics s))) (\<lambda>standalone.
     case standalone of
       Some _ \<Rightarrow> andThen (validate_yards newYardLength) (\<lambda>_.
                 modify (on_fabric_doc fabricId (\<lambda>_. newYardLength)))
     | None \<Rightarrow> andThen (gets (find_product productId)) (\<lambda>r. case r of
         None \<Rightarrow> throw (BadRequestException ''Product not found'')
       | Some p \<Rightarrow>
           if find_one (\<lambda>f. f_id f = fabricId) (clothing_fabrics p) \<noteq> None
           then modify (on_product (p_id p) (on_clothing_fabric fabricId (\<lambda>_. newYardLength)))
           else if own_fabric fabricId p \<noteq> None
           then modify (on_product (p_id p) (on_own_fabric (\<lambda>_. newYardLength)))
           else throw (BadRequestException ''Fabric not found in product or standalone'')))"

definition yards_of :: "fabric_selection \<Rightarrow> rat" where
  "yards_of sel = nullish (fs_yardage sel) 0 * nullish (fs_quantity sel) 1"

definition find_fabric :: "oid option \<Rightarrow> oid \<Rightarrow> (db, fabric) action" where
  "find_fabric productId fabricId =
     andThen (gets (\<lambda>s. find_one (\<lambda>f. f_id f = fabricId) (db_fabrics s))) (\<lambda>standalone.
     case standalone of
       Some f \<Rightarrow> ret f
     | None \<Rightarrow> andThen (gets (find_product productId)) (\<lambda>r. case r of
         None \<Rightarrow> throw (BadRequestException ''Product not found'')
       | Some p \<Rightarrow> (case find_one (\<lambda>f. f_id f = fabricId) (clothing_fabrics p) of
           Some f \<Rightarrow> ret f
         | None \<Rightarrow> (case own_fabric fabricId p of
             Some f \<Rightarrow> ret f
           | None \<Rightarrow> throw (BadRequestException ''Fabric not found in product or standalone'')))))"

definition updateFabric :: "order_item \<Rightarrow> (db, unit) action" where
  "updateFabric item = for_each (i_fabric_selections item) (\<lambda>sel.
     andThen (find_fabric (i_product item) (fs_fabric_id sel)) (\<lambda>f.
     if f_yard_length f < yards_of sel then throw (BadRequestException ''Not enough fabric available'')
     else updateFabricStock (i_product item) (f_id f) (f_yard_length f - yards_of sel)))"

definition updateAccessoryVariantStock :: "oid option \<Rightarrow> oid \<Rightarrow> oid \<Rightarrow> rat \<Rightarrow> (db, unit) action" where
  "updateAccessoryVariantStock productId accessoryId variantId new_stock =
     andThen (gets (\<lambda>s. exists_doc (\<lambda>a. a_id a = accessoryId \<and> find_av variantId a \<noteq> None) (db_accessories s))) (\<lambda>standalone.
     if standalone then modify (on_accessory_doc accessoryId variantId (\<lambda>_. new_stock))
     else andThen (gets (find_product productId)) (\<lambda>r.
       case r of
         None \<Rightarrow> throw (BadRequestException ''Accessory variant not found'')
       | Some p \<Rightarrow>
           if exists_doc (\<lambda>a. a_id a = accessoryId) (clothing_accessories p) \<and>
              exists_doc (\<lambda>a. find_av variantId a \<noteq> None) (clothing_accessories p)
           then modify (on_product (p_id p) (on_clothing_accessory accessoryId variantId (\<lambda>_. new_stock)))
           else (case own_accessory accessoryId p of
               None \<Rightarrow> throw (BadRequestException ''Accessory variant not found'')
             | Some a \<Rightarrow> if find_av variantId a = None
                 then throw (BadRequestException ''Accessory variant not found'')
                 else modify (on_product (p_id p) (on_own_accessory variantId (\<lambda>_. new_stock))))))"

text \<open>The variant in the standalone accessory, else in the garment's accessory, else in the product's own.\<close>

definition find_accessory_variant :: "oid option \<Rightarrow> oid \<Rightarrow> oid \<Rightarrow> (db, accessory_variant) action" where
  "find_accessory_variant productId accessoryId variantId =
     andThen (gets (\<lambda>s. Option.bind (find_one (\<lambda>a. a_id a = accessoryId) (db_accessories s)) (find_av variantId))) (\<lambda>r.
     case r of
       Some v \<Rightarrow> ret v
     | None \<Rightarrow> andThen (gets (find_product productId)) (\<lambda>r. case r of
         None \<Rightarrow> throw (BadRequestException ''Product not found'')
       | Some p \<Rightarrow>
           (case Option.bind (find_one (\<lambda>a. a_id a = accessoryId) (clothing_accessories p)) (find_av variantId) of
              Some v \<Rightarrow> ret v
            | None \<Rightarrow> (case Option.bind (own_accessory accessoryId p) (find_av variantId) of
                Some v \<Rightarrow> ret v
              | None \<Rightarrow> throw (BadRequestException ''Accessory variant not found in standalone or embedded accessory'')))))"

definition updateAccessory :: "order_item \<Rightarrow> (db, unit) action" where
  "updateAccessory item = for_each (i_accessory_selections item) (\<lambda>sel.
     case as_variant_id sel of
       None \<Rightarrow> ret ()
     | Some variantId \<Rightarrow>
         andThen (find_accessory_variant (i_product item) (as_accessory_id sel) variantId) (\<lambda>v.
         let totalQuantity = nullish (as_quantity sel) 1
         in if nullish (av_stock v) 0 < totalQuantity
            then throw (BadRequestException ''Not enough stock for accessory variant'')
            else updateAccessoryVariantStock (i_product item) (as_accessory_id sel) variantId
                   (nullish (av_stock v) 0 - totalQuantity)))"

text \<open>
  The colour variants are read once, before the loop over the selections. The write counts as a
  modification whenever the product is found, because it also sets the product's \<open>updatedAt\<close>.
\<close>

definition deduct_size :: "oid \<Rightarrow> color_variant list \<Rightarrow> variant_selection \<Rightarrow> (db, unit) action" where
  "deduct_size productId colorVariants sel =
     (case find_size (vs_variant_id sel) colorVariants of
        None \<Rightarrow> throw (BadRequestException ''Variant not found'')
      | Some (cv, v) \<Rightarrow>
          let totalQuantity = nullish (vs_quantity sel) 1
          in if nullish (v_stock v) 0 < totalQuantity
             then throw (BadRequestException ''Not enough stock'')
             else modify (on_product productId (on_size (cv_id cv) (v_id v) (inc_stock (- totalQuantity)))))"

definition updateColorVariant :: "order_item \<Rightarrow> (db, unit) action" where
  "updateColorVariant item =
     (if i_color_variant_selections item = [] then ret ()
      else andThen (gets (find_product (i_product item))) (\<lambda>r. case r of
          None \<Rightarrow> throw (BadRequestException ''Product not found'')
        | Some p \<Rightarrow> for_each (i_color_variant_selections item) (deduct_size (p_id p) (clothing_colors p))))"

definition deduct_applied_fabric :: "order_item \<Rightarrow> (db, unit) action" where
  "deduct_applied_fabric item =
     (case (i_applied_fabric item, truthy_num (i_applied_fabric_yards item)) of
        (Some fabricId, True) \<Rightarrow>
          andThen (gets (find_product (Some fabricId))) (\<lambda>r. case r of
            None \<Rightarrow> ret ()
          | Some p \<Rightarrow> (case p_fabric p of
              None \<Rightarrow> ret ()
            | Some f \<Rightarrow>
                let newYards = f_yard_length f - nullish (i_applied_fabric_yards item) 0
                in if newYards < 0 then throw (BadRequestException ''Not enough applied fabric available'')
                   else andThen (validate_yards newYards) (\<lambda>_.
                        modify (on_product (p_id p) (on_own_fabric (\<lambda>_. newYards))))))
      | _ \<Rightarrow> ret ())"

definition deduct_item :: "order_item \<Rightarrow> (db, unit) action" where
  "deduct_item item =
     andThen (updateFabric item) (\<lambda>_. andThen (updateAccessory item) (\<lambda>_.
     andThen (updateColorVariant item) (\<lambda>_. deduct_applied_fabric item)))"

definition set_deducted :: "oid \<Rightarrow> bool \<Rightarrow> db \<Rightarrow> db" where
  "set_deducted orderId flag s = s\<lparr>db_orders := update_one (\<lambda>od. o_id od = orderId)
     (\<lambda>od. od\<lparr>o_inventory_deducted := flag\<rparr>) (db_orders s)\<rparr>"

definition updateInventory :: "oid \<Rightarrow> (db, unit) action" where
  "updateInventory orderId = with_transaction
     (andThen (gets (\<lambda>s. find_one (\<lambda>od. o_id od = orderId) (db_orders s))) (\<lambda>ord. case ord of
        None \<Rightarrow> ret ()
      | Some ord \<Rightarrow>
          if o_items ord = [] then ret ()
          else if o_inventory_deducted ord then ret ()
          else andThen (for_each (o_items ord) deduct_item) (\<lambda>_. modify (set_deducted orderId True))))"

section \<open>Restoring\<close>

definition restore_fabric :: "oid option \<Rightarrow> fabric_selection \<Rightarrow> (db, unit) action" where
  "restore_fabric productId sel =
     (let totalYards = yards_of sel; fabricId = fs_fabric_id sel
      in if totalYards \<le> 0 then ret ()
         else andThen (gets (\<lambda>s. find_one (\<lambda>f. f_id f = fabricId) (db_fabrics s))) (\<lambda>standalone.
         case standalone of
           Some f \<Rightarrow> andThen (validate_yards (f_yard_length f + totalYards)) (\<lambda>_.
                     modify (on_fabric_doc fabricId (\<lambda>y. y + totalYards)))
         | None \<Rightarrow> andThen (gets (find_product productId)) (\<lambda>r. case r of
             None \<Rightarrow> ret ()
           | Some p \<Rightarrow>
               if exists_doc (\<lambda>f. f_id f = fabricId) (clothing_fabrics p)
               then modify (on_product (p_id p) (on_clothing_fabric fabricId (\<lambda>y. y + totalYards)))
               else if own_fabric fabricId p \<noteq> None
               then modify (on_product (p_id p) (on_own_fabric (\<lambda>y. y + totalYards)))
               else ret ())))"

text \<open>
  A selection without a variant matches no variant. \<open>$[acc]\<close> and \<open>$[v]\<close> act on every match; the
  write counts as a modification (of \<open>updatedAt\<close>) whenever the filter matches the product.
\<close>

definition on_all_clothing_accessories :: "oid \<Rightarrow> oid \<Rightarrow> (rat option \<Rightarrow> rat) \<Rightarrow> product \<Rightarrow> product" where
  "on_all_clothing_accessories accessoryId variantId g = on_clothing (\<lambda>c. c\<lparr>c_accessories :=
     update_many (\<lambda>a. a_id a = accessoryId) (on_av variantId g) (c_accessories c)\<rparr>)"

definition restore_accessory :: "oid option \<Rightarrow> accessory_selection \<Rightarrow> (db, unit) action" where
  "restore_accessory productId sel =
     (case as_variant_id sel of
        None \<Rightarrow> ret ()
      | Some variantId \<Rightarrow>
          let totalQty = nullish (as_quantity sel) 1; accessoryId = as_accessory_id sel
          in andThen (gets (\<lambda>s. exists_doc (\<lambda>a. a_id a = accessoryId \<and> find_av variantId a \<noteq> None) (db_accessories s))) (\<lambda>standalone.
             if standalone then modify (on_accessory_doc accessoryId variantId (inc_stock totalQty))
             else andThen (gets (find_product productId)) (\<lambda>r. case r of
                 None \<Rightarrow> ret ()
               | Some p \<Rightarrow>
                   if exists_doc (\<lambda>a. a_id a = accessoryId) (clothing_accessories p) \<and>
                      exists_doc (\<lambda>a. find_av variantId a \<noteq> None) (clothing_accessories p)
                   then modify (on_product (p_id p) (on_all_clothing_accessories accessoryId variantId (inc_stock totalQty)))
                   else if Option.bind (own_accessory accessoryId p) (find_av variantId) \<noteq> None
                   then modify (on_product (p_id p) (on_own_accessory variantId (inc_stock totalQty)))
                   else ret ())))"

definition restore_size :: "oid \<Rightarrow> color_variant list \<Rightarrow> variant_selection \<Rightarrow> (db, unit) action" where
  "restore_size productId colorVariants sel =
     (case find_size (vs_variant_id sel) colorVariants of
        None \<Rightarrow> ret ()
      | Some (cv, v) \<Rightarrow> modify (on_product productId
          (on_size (cv_id cv) (v_id v) (inc_stock (nullish (vs_quantity sel) 1)))))"

definition restore_sizes :: "order_item \<Rightarrow> (db, unit) action" where
  "restore_sizes item =
     (if i_color_variant_selections item = [] then ret ()
      else andThen (gets (find_product (i_product item))) (\<lambda>r. case r of
          None \<Rightarrow> ret ()
        | Some p \<Rightarrow> for_each (i_color_variant_selections item) (restore_size (p_id p) (clothing_colors p))))"

definition restore_applied_fabric :: "order_item \<Rightarrow> (db, unit) action" where
  "restore_applied_fabric item =
     (case (i_applied_fabric item, truthy_num (i_applied_fabric_yards item)) of
        (Some fabricId, True) \<Rightarrow>
          andThen (gets (find_product (Some fabricId))) (\<lambda>r. case r of
            None \<Rightarrow> ret ()
          | Some p \<Rightarrow> (case p_fabric p of
              None \<Rightarrow> ret ()
            | Some f \<Rightarrow>
                let yards = nullish (i_applied_fabric_yards item) 0
                in andThen (validate_yards (f_yard_length f + yards)) (\<lambda>_.
                   modify (on_product (p_id p) (on_own_fabric (\<lambda>y. y + yards))))))
      | _ \<Rightarrow> ret ())"

definition restore_item :: "order_item \<Rightarrow> (db, unit) action" where
  "restore_item item =
     andThen (for_each (i_fabric_selections item) (restore_fabric (i_product item))) (\<lambda>_.
     andThen (for_each (i_accessory_selections item) (restore_accessory (i_product item))) (\<lambda>_.
     andThen (restore_sizes item) (\<lambda>_. restore_applied_fabric item)))"

definition items_to_restore :: "oid option \<Rightarrow> oid option \<Rightarrow> order_item list \<Rightarrow> order_item list" where
  "items_to_restore businessId itemId items =
     (let mine = (case businessId of None \<Rightarrow> items
                  | Some b \<Rightarrow> filter (\<lambda>i. i_business i = Some b) items)
      in case itemId of
           Some k \<Rightarrow> filter (\<lambda>i. i_id i = k) mine
         | None \<Rightarrow> filter (\<lambda>i. \<not> i_rejected i) mine)"

definition restoreInventory :: "oid \<Rightarrow> oid option \<Rightarrow> oid option \<Rightarrow> (db, unit) action" where
  "restoreInventory orderId businessId itemId = with_transaction
     (andThen (gets (\<lambda>s. find_one (\<lambda>od. o_id od = orderId) (db_orders s))) (\<lambda>ord. case ord of
        None \<Rightarrow> ret ()
      | Some ord \<Rightarrow>
          if o_items ord = [] then ret ()
          else if \<not> o_inventory_deducted ord then ret ()
          else andThen (for_each (items_to_restore businessId itemId (o_items ord)) restore_item) (\<lambda>_.
               if businessId = None then modify (set_deducted orderId False) else ret ())))"

section \<open>Stock locations\<close>

text \<open>
  Every place that holds stock, and the write that adds to it. Deducting is adding a negative
  quantity; both operations find the same place, because finding looks at identifiers only.
\<close>

datatype location =
    Fabric_doc oid
  | Garment_fabric oid oid
  | Own_fabric oid
  | Accessory_doc oid oid
  | Garment_accessory oid oid oid
  | Own_accessory oid oid
  | Size_stock oid oid oid

fun add_at :: "location \<Rightarrow> rat \<Rightarrow> db \<Rightarrow> db" where
  "add_at (Fabric_doc f) q = on_fabric_doc f (\<lambda>y. y + q)"
| "add_at (Garment_fabric p f) q = on_product p (on_clothing_fabric f (\<lambda>y. y + q))"
| "add_at (Own_fabric p) q = on_product p (on_own_fabric (\<lambda>y. y + q))"
| "add_at (Accessory_doc a v) q = on_accessory_doc a v (inc_stock q)"
| "add_at (Garment_accessory p a v) q = on_product p (on_clothing_accessory a v (inc_stock q))"
| "add_at (Own_accessory p v) q = on_product p (on_own_accessory v (inc_stock q))"
| "add_at (Size_stock p c v) q = on_product p (on_size c v (inc_stock q))"

fun add_all :: "(location \<times> rat) list \<Rightarrow> db \<Rightarrow> db" where
  "add_all [] s = s"
| "add_all ((l, q) # ms) s = add_all ms (add_at l q s)"

definition negate :: "(location \<times> rat) list \<Rightarrow> (location \<times> rat) list" where
  "negate ms = map (\<lambda>(l, q). (l, - q)) ms"

lemma add_all_append: "add_all (ms @ ns) s = add_all ns (add_all ms s)"
  by (induction ms s rule: add_all.induct) simp_all

text \<open>Two writes commute, wherever they go.\<close>

lemma update_one_commute:
  assumes "\<And>d. P (g d) = P d" "\<And>d. Q (f d) = Q d" "\<And>d. f (g d) = g (f d)"
  shows "update_one P f (update_one Q g ds) = update_one Q g (update_one P f ds)"
  using assms by (induction ds) auto

lemma update_many_commute:
  assumes "\<And>d. P (g d) = P d" "\<And>d. Q (f d) = Q d" "\<And>d. f (g d) = g (f d)"
  shows "update_many P f (update_many Q g ds) = update_many Q g (update_many P f ds)"
  using assms by (auto simp: update_many_def)

lemma on_yards_commute: "on_yards (\<lambda>y. y + a) (on_yards (\<lambda>y. y + b) f) = on_yards (\<lambda>y. y + b) (on_yards (\<lambda>y. y + a) f)"
  by (simp add: on_yards_def)

lemma on_yards_id [simp]: "f_id (on_yards g f) = f_id f"
  by (simp add: on_yards_def)

lemma on_av_id [simp]: "a_id (on_av v g a) = a_id a"
  by (simp add: on_av_def)

lemma on_av_commute: "on_av v (inc_stock a) (on_av w (inc_stock b) x) = on_av w (inc_stock b) (on_av v (inc_stock a) x)"
  unfolding on_av_def
  by (simp add: inc_stock_def algebra_simps update_many_commute
      [of "\<lambda>d. av_id d = v" _ "\<lambda>d. av_id d = w"])

definition product_write :: "location \<Rightarrow> rat \<Rightarrow> product \<Rightarrow> product" where
  "product_write l q = (case l of
      Garment_fabric p f \<Rightarrow> on_clothing_fabric f (\<lambda>y. y + q)
    | Own_fabric p \<Rightarrow> on_own_fabric (\<lambda>y. y + q)
    | Garment_accessory p a v \<Rightarrow> on_clothing_accessory a v (inc_stock q)
    | Own_accessory p v \<Rightarrow> on_own_accessory v (inc_stock q)
    | Size_stock p c v \<Rightarrow> on_size c v (inc_stock q)
    | _ \<Rightarrow> id)"

lemmas product_writes = on_clothing_fabric_def on_own_fabric_def on_clothing_accessory_def
  on_own_accessory_def on_size_def on_clothing_def

lemma product_write_id [simp]: "p_id (product_write l q p) = p_id p"
  by (simp add: product_write_def product_writes split: location.splits)

lemma size_commute:
  "update_many (\<lambda>cv. cv_id cv = c) (\<lambda>cv. cv\<lparr>cv_variants :=
       update_many (\<lambda>x. v_id x = v) (\<lambda>x. x\<lparr>v_stock := Some (inc_stock a (v_stock x))\<rparr>) (cv_variants cv)\<rparr>)
     (update_many (\<lambda>cv. cv_id cv = d) (\<lambda>cv. cv\<lparr>cv_variants :=
       update_many (\<lambda>x. v_id x = w) (\<lambda>x. x\<lparr>v_stock := Some (inc_stock b (v_stock x))\<rparr>) (cv_variants cv)\<rparr>) cvs) =
   update_many (\<lambda>cv. cv_id cv = d) (\<lambda>cv. cv\<lparr>cv_variants :=
       update_many (\<lambda>x. v_id x = w) (\<lambda>x. x\<lparr>v_stock := Some (inc_stock b (v_stock x))\<rparr>) (cv_variants cv)\<rparr>)
     (update_many (\<lambda>cv. cv_id cv = c) (\<lambda>cv. cv\<lparr>cv_variants :=
       update_many (\<lambda>x. v_id x = v) (\<lambda>x. x\<lparr>v_stock := Some (inc_stock a (v_stock x))\<rparr>) (cv_variants cv)\<rparr>) cvs)"
  by (intro update_many_commute) (simp_all add: inc_stock_def algebra_simps
      update_many_commute [of "\<lambda>x. v_id x = v" _ "\<lambda>x. v_id x = w"])

lemma product_write_commute:
  "product_write l a (product_write k b p) = product_write k b (product_write l a p)"
proof -
  have fabrics: "update_one (\<lambda>f. f_id f = i) (on_yards (\<lambda>y. y + a)) (update_one (\<lambda>f. f_id f = j) (on_yards (\<lambda>y. y + b)) fs) =
      update_one (\<lambda>f. f_id f = j) (on_yards (\<lambda>y. y + b)) (update_one (\<lambda>f. f_id f = i) (on_yards (\<lambda>y. y + a)) fs)" for i j fs
    by (intro update_one_commute) (simp_all add: on_yards_commute)
  have accessories: "update_one (\<lambda>x. a_id x = i) (on_av v (inc_stock a)) (update_one (\<lambda>x. a_id x = j) (on_av w (inc_stock b)) xs) =
      update_one (\<lambda>x. a_id x = j) (on_av w (inc_stock b)) (update_one (\<lambda>x. a_id x = i) (on_av v (inc_stock a)) xs)" for i j v w xs
    by (intro update_one_commute) (simp_all add: on_av_commute)
  show ?thesis
    by (cases l; cases k; cases "p_clothing p"; cases "p_fabric p"; cases "p_accessory p")
      (simp_all add: product_write_def product_writes fabrics accessories size_commute on_yards_commute
        on_av_commute)
qed

lemma add_at_product:
  "add_at l q = (case l of
      Fabric_doc f \<Rightarrow> on_fabric_doc f (\<lambda>y. y + q)
    | Accessory_doc a v \<Rightarrow> on_accessory_doc a v (inc_stock q)
    | Garment_fabric p f \<Rightarrow> on_product p (product_write l q)
    | Own_fabric p \<Rightarrow> on_product p (product_write l q)
    | Garment_accessory p a v \<Rightarrow> on_product p (product_write l q)
    | Own_accessory p v \<Rightarrow> on_product p (product_write l q)
    | Size_stock p c v \<Rightarrow> on_product p (product_write l q))"
  by (cases l) (simp_all add: product_write_def)

lemma add_at_commute: "add_at l a (add_at k b s) = add_at k b (add_at l a s)"
proof -
  have products: "on_product i (product_write l' a) (on_product j (product_write k' b) s) =
      on_product j (product_write k' b) (on_product i (product_write l' a) s)" for i j l' k'
    unfolding on_product_def by (simp add: update_one_commute product_write_commute)
  have fabrics: "on_fabric_doc i (\<lambda>y. y + a) (on_fabric_doc j (\<lambda>y. y + b) s) =
      on_fabric_doc j (\<lambda>y. y + b) (on_fabric_doc i (\<lambda>y. y + a) s)" for i j
    unfolding on_fabric_doc_def by (simp add: update_one_commute on_yards_commute)
  have accessories: "on_accessory_doc i v (inc_stock a) (on_accessory_doc j w (inc_stock b) s) =
      on_accessory_doc j w (inc_stock b) (on_accessory_doc i v (inc_stock a) s)" for i j v w
    unfolding on_accessory_doc_def by (simp add: update_one_commute on_av_commute)
  show ?thesis
    by (cases l; cases k)
      (simp_all add: add_at_product products fabrics accessories,
        simp_all add: on_product_def on_fabric_doc_def on_accessory_doc_def)
qed

text \<open>Every size variant and accessory variant carries a number.\<close>

definition stocked_accessory :: "accessory \<Rightarrow> bool" where
  "stocked_accessory a \<longleftrightarrow> (\<forall>v\<in>set (a_variants a). av_stock v \<noteq> None)"

definition stocked_product :: "product \<Rightarrow> bool" where
  "stocked_product p \<longleftrightarrow> (\<forall>a\<in>set (clothing_accessories p). stocked_accessory a) \<and>
     (\<forall>a. p_accessory p = Some a \<longrightarrow> stocked_accessory a) \<and>
     (\<forall>cv\<in>set (clothing_colors p). \<forall>v\<in>set (cv_variants cv). v_stock v \<noteq> None)"

definition stocked :: "db \<Rightarrow> bool" where
  "stocked s \<longleftrightarrow> (\<forall>a\<in>set (db_accessories s). stocked_accessory a) \<and> (\<forall>p\<in>set (db_products s). stocked_product p)"

lemma update_one_inverse:
  assumes "\<And>d. P d \<Longrightarrow> d \<in> set ds \<Longrightarrow> P (f d) \<and> g (f d) = d"
  shows "update_one P g (update_one P f ds) = ds"
  using assms by (induction ds) auto

lemma update_many_inverse:
  assumes "\<And>d. P d \<Longrightarrow> d \<in> set ds \<Longrightarrow> P (f d) \<and> g (f d) = d"
  shows "update_many P g (update_many P f ds) = ds"
  using assms by (induction ds) (auto simp: update_many_def)

lemma on_yards_inverse [simp]: "on_yards (\<lambda>y. y + q) (on_yards (\<lambda>y. y - q) f) = f"
  by (simp add: on_yards_def)

lemma on_av_inverse: "stocked_accessory a \<Longrightarrow> on_av v (inc_stock q) (on_av v (inc_stock (- q)) a) = a"
  unfolding on_av_def stocked_accessory_def
  by (simp add: update_many_inverse inc_stock_def) (subst update_many_inverse, auto)

lemma sizes_inverse:
  assumes "\<forall>cv\<in>set cvs. \<forall>v\<in>set (cv_variants cv). v_stock v \<noteq> None"
  shows "update_many (\<lambda>cv. cv_id cv = c) (\<lambda>cv. cv\<lparr>cv_variants :=
       update_many (\<lambda>x. v_id x = v) (\<lambda>x. x\<lparr>v_stock := Some (inc_stock q (v_stock x))\<rparr>) (cv_variants cv)\<rparr>)
     (update_many (\<lambda>cv. cv_id cv = c) (\<lambda>cv. cv\<lparr>cv_variants :=
       update_many (\<lambda>x. v_id x = v) (\<lambda>x. x\<lparr>v_stock := Some (inc_stock (- q) (v_stock x))\<rparr>) (cv_variants cv)\<rparr>) cvs) = cvs"
proof (rule update_many_inverse)
  fix cv assume "cv \<in> set cvs"
  with assms have "\<forall>x\<in>set (cv_variants cv). v_stock x \<noteq> None" by blast
  then have "update_many (\<lambda>x. v_id x = v) (\<lambda>x. x\<lparr>v_stock := Some (inc_stock q (v_stock x))\<rparr>)
      (update_many (\<lambda>x. v_id x = v) (\<lambda>x. x\<lparr>v_stock := Some (inc_stock (- q) (v_stock x))\<rparr>) (cv_variants cv)) = cv_variants cv"
    by (intro update_many_inverse) (auto simp: inc_stock_def)
  then show "cv_id (cv\<lparr>cv_variants := update_many (\<lambda>x. v_id x = v) (\<lambda>x. x\<lparr>v_stock := Some (inc_stock (- q) (v_stock x))\<rparr>) (cv_variants cv)\<rparr>) = c \<and>
      cv\<lparr>cv_variants := update_many (\<lambda>x. v_id x = v) (\<lambda>x. x\<lparr>v_stock := Some (inc_stock (- q) (v_stock x))\<rparr>) (cv_variants cv)\<rparr>
        \<lparr>cv_variants := update_many (\<lambda>x. v_id x = v) (\<lambda>x. x\<lparr>v_stock := Some (inc_stock q (v_stock x))\<rparr>)
          (cv_variants (cv\<lparr>cv_variants := update_many (\<lambda>x. v_id x = v) (\<lambda>x. x\<lparr>v_stock := Some (inc_stock (- q) (v_stock x))\<rparr>) (cv_variants cv)\<rparr>))\<rparr> = cv"
    if "cv_id cv = c" using that by simp
qed

lemma product_write_inverse:
  "stocked_product p \<Longrightarrow> product_write l q (product_write l (- q) p) = p"
  by (cases l; cases "p_clothing p"; cases "p_fabric p"; cases "p_accessory p")
    (auto simp: product_write_def product_writes update_one_inverse on_av_inverse sizes_inverse
      stocked_product_def clothing_accessories_def clothing_colors_def)

lemma add_at_inverse:
  assumes "stocked s"
  shows "add_at l q (add_at l (- q) s) = s"
proof -
  have products: "on_product i (product_write k q) (on_product i (product_write k (- q)) s) = s" for i k
    using assms by (simp add: on_product_def update_one_inverse product_write_inverse stocked_def)
  have fabrics: "on_fabric_doc i (\<lambda>y. y + q) (on_fabric_doc i (\<lambda>y. y + - q) s) = s" for i
    by (simp add: on_fabric_doc_def update_one_inverse)
  have accessories: "on_accessory_doc i v (inc_stock q) (on_accessory_doc i v (inc_stock (- q)) s) = s" for i v
    using assms by (simp add: on_accessory_doc_def update_one_inverse on_av_inverse stocked_def)
  show ?thesis
    by (cases l) (simp_all only: add_at_product location.case products fabrics accessories)
qed

lemma stocked_on_av: "stocked_accessory a \<Longrightarrow> stocked_accessory (on_av v g a)"
  by (auto simp: stocked_accessory_def on_av_def update_many_def)

lemma stocked_product_write:
  assumes "stocked_product p"
  shows "stocked_product (product_write l q p)"
proof -
  have accessories: "\<forall>a\<in>set (update_one P (on_av v g) as). stocked_accessory a"
    if "\<forall>a\<in>set as. stocked_accessory a" for P v g as
    using that by (rule update_one_all) (rule stocked_on_av)
  show ?thesis
    using assms
    by (cases l; cases "p_clothing p")
      (auto simp: product_write_def product_writes stocked_product_def clothing_accessories_def
        clothing_colors_def stocked_on_av accessories update_many_def)
qed

lemma stocked_add_at:
  assumes "stocked s"
  shows "stocked (add_at l q s)"
proof -
  have "\<forall>p\<in>set (update_one P (product_write l q) (db_products s)). stocked_product p" for P
    by (rule update_one_all) (use assms in \<open>auto simp: stocked_def stocked_product_write\<close>)
  moreover have "\<forall>a\<in>set (update_one P (on_av v g) (db_accessories s)). stocked_accessory a" for P v g
    by (rule update_one_all) (use assms in \<open>auto simp: stocked_def stocked_on_av\<close>)
  ultimately show ?thesis
    using assms
    by (cases l) (simp_all add: add_at_product on_product_def on_fabric_doc_def on_accessory_doc_def stocked_def)
qed

lemma add_at_add_all: "add_at l q (add_all ms s) = add_all ms (add_at l q s)"
  by (induction ms s rule: add_all.induct) (simp_all add: add_at_commute)

lemma add_all_inverse: "stocked s \<Longrightarrow> add_all ms (add_all (negate ms) s) = s"
proof (induction ms arbitrary: s)
  case Nil
  then show ?case by (simp add: negate_def)
next
  case (Cons m ms)
  obtain l q where m: "m = (l, q)" by force
  have "add_all (m # ms) (add_all (negate (m # ms)) s) = add_all ms (add_all (negate ms) (add_at l q (add_at l (- q) s)))"
    by (simp add: m negate_def add_at_add_all)
  with Cons show ?case by (simp add: add_at_inverse)
qed

section \<open>Where an item's stock is\<close>

text \<open>The shape of the stock: all identifiers, no quantity. Writing stock does not change it.\<close>

definition accessory_shape :: "accessory \<Rightarrow> oid \<times> oid list" where
  "accessory_shape a = (a_id a, map av_id (a_variants a))"

definition color_shape :: "color_variant \<Rightarrow> oid \<times> oid list" where
  "color_shape cv = (cv_id cv, map v_id (cv_variants cv))"

definition product_shape ::
  "product \<Rightarrow> oid \<times> oid list \<times> oid option \<times> (oid \<times> oid list) list \<times> (oid \<times> oid list) option \<times> (oid \<times> oid list) list" where
  "product_shape p = (p_id p, map f_id (clothing_fabrics p), map_option f_id (p_fabric p),
     map accessory_shape (clothing_accessories p), map_option accessory_shape (p_accessory p),
     map color_shape (clothing_colors p))"

definition same_shape :: "db \<Rightarrow> db \<Rightarrow> bool" where
  "same_shape s s' \<longleftrightarrow> map f_id (db_fabrics s) = map f_id (db_fabrics s') \<and>
     map accessory_shape (db_accessories s) = map accessory_shape (db_accessories s') \<and>
     map product_shape (db_products s) = map product_shape (db_products s')"

lemma same_shape_trans: "same_shape s t \<Longrightarrow> same_shape t u \<Longrightarrow> same_shape s u"
  by (simp add: same_shape_def)

lemma same_shape_sym: "same_shape s t \<Longrightarrow> same_shape t s"
  by (simp add: same_shape_def)

lemma same_shape_refl [simp]: "same_shape s s"
  by (simp add: same_shape_def)

lemma shape_on_av [simp]: "accessory_shape (on_av v g a) = accessory_shape a"
  by (simp add: accessory_shape_def on_av_def map_update_many)

lemma product_shape_write [simp]: "product_shape (product_write l q p) = product_shape p"
  by (cases l; cases "p_clothing p"; cases "p_fabric p"; cases "p_accessory p")
    (simp_all add: product_write_def product_writes product_shape_def clothing_fabrics_def
      clothing_accessories_def clothing_colors_def map_update_one map_update_many color_shape_def)

lemma same_shape_add_at [simp]: "same_shape (add_at l q s) s"
  by (cases l) (simp_all add: add_at_product same_shape_def on_product_def on_fabric_doc_def
      on_accessory_doc_def map_update_one)

lemma same_shape_add_all [simp]: "same_shape (add_all ms s) s"
  by (induction ms s rule: add_all.induct) (auto intro: same_shape_trans)

lemma find_one_shape:
  assumes "map g xs = map g ys" "\<And>x y. g x = g y \<Longrightarrow> P x = P y"
  shows "map_option g (find_one P xs) = map_option g (find_one P ys)"
  using assms(1)
proof (induction xs arbitrary: ys)
  case (Cons x xs)
  then obtain y ys' where ys: "ys = y # ys'" "g x = g y" "map g xs = map g ys'" by (cases ys) auto
  with Cons.IH assms(2) [OF ys(2)] show ?case by simp
qed simp

lemma find_product_shape:
  assumes "same_shape s s'"
  shows "map_option product_shape (find_product pid s) = map_option product_shape (find_product pid s')"
  using assms by (auto simp: find_product_def same_shape_def product_shape_def split: option.splits
      intro!: find_one_shape)

text \<open>The place of a fabric selection, of an accessory variant, of a size variant and of an applied fabric.\<close>

definition product_fabric_loc :: "oid \<Rightarrow> product \<Rightarrow> location option" where
  "product_fabric_loc fid p =
     (if find_one (\<lambda>f. f_id f = fid) (clothing_fabrics p) \<noteq> None then Some (Garment_fabric (p_id p) fid)
      else if own_fabric fid p \<noteq> None then Some (Own_fabric (p_id p)) else None)"

definition fabric_loc :: "oid option \<Rightarrow> oid \<Rightarrow> db \<Rightarrow> location option" where
  "fabric_loc pid fid s =
     (if find_one (\<lambda>f. f_id f = fid) (db_fabrics s) \<noteq> None then Some (Fabric_doc fid)
      else Option.bind (find_product pid s) (product_fabric_loc fid))"

definition product_accessory_loc :: "oid \<Rightarrow> oid \<Rightarrow> product \<Rightarrow> location option" where
  "product_accessory_loc aid vid p =
     (if find_one (\<lambda>a. a_id a = aid \<and> find_av vid a \<noteq> None) (clothing_accessories p) \<noteq> None
      then Some (Garment_accessory (p_id p) aid vid)
      else if Option.bind (own_accessory aid p) (find_av vid) \<noteq> None then Some (Own_accessory (p_id p) vid)
      else None)"

definition accessory_loc :: "oid option \<Rightarrow> oid \<Rightarrow> oid \<Rightarrow> db \<Rightarrow> location option" where
  "accessory_loc pid aid vid s =
     (if find_one (\<lambda>a. a_id a = aid \<and> find_av vid a \<noteq> None) (db_accessories s) \<noteq> None
      then Some (Accessory_doc aid vid)
      else Option.bind (find_product pid s) (product_accessory_loc aid vid))"

definition product_size_loc :: "oid \<Rightarrow> product \<Rightarrow> location option" where
  "product_size_loc vid p =
     map_option (\<lambda>(cv, v). Size_stock (p_id p) (cv_id cv) (v_id v)) (find_size vid (clothing_colors p))"

definition size_loc :: "oid option \<Rightarrow> oid \<Rightarrow> db \<Rightarrow> location option" where
  "size_loc pid vid s = Option.bind (find_product pid s) (product_size_loc vid)"

definition applied_loc :: "order_item \<Rightarrow> db \<Rightarrow> location option" where
  "applied_loc item s =
     (case (i_applied_fabric item, truthy_num (i_applied_fabric_yards item)) of
        (Some fid, True) \<Rightarrow> Option.bind (find_product (Some fid) s)
           (\<lambda>p. if p_fabric p = None then None else Some (Own_fabric (p_id p)))
      | _ \<Rightarrow> None)"

definition move :: "location option \<Rightarrow> rat \<Rightarrow> (location \<times> rat) list" where
  "move l q = (case l of None \<Rightarrow> [] | Some l \<Rightarrow> [(l, q)])"

definition fabric_moves :: "order_item \<Rightarrow> fabric_selection \<Rightarrow> db \<Rightarrow> (location \<times> rat) list" where
  "fabric_moves item sel s = move (fabric_loc (i_product item) (fs_fabric_id sel) s) (yards_of sel)"

definition accessory_moves :: "order_item \<Rightarrow> accessory_selection \<Rightarrow> db \<Rightarrow> (location \<times> rat) list" where
  "accessory_moves item sel s = (case as_variant_id sel of None \<Rightarrow> []
     | Some vid \<Rightarrow> move (accessory_loc (i_product item) (as_accessory_id sel) vid s) (nullish (as_quantity sel) 1))"

definition size_moves :: "order_item \<Rightarrow> variant_selection \<Rightarrow> db \<Rightarrow> (location \<times> rat) list" where
  "size_moves item sel s = move (size_loc (i_product item) (vs_variant_id sel) s) (nullish (vs_quantity sel) 1)"

definition applied_moves :: "order_item \<Rightarrow> db \<Rightarrow> (location \<times> rat) list" where
  "applied_moves item s = move (applied_loc item s) (nullish (i_applied_fabric_yards item) 0)"

lemma bind_shape:
  assumes "map_option g x = map_option g y" "\<And>a b. g a = g b \<Longrightarrow> f a = f b"
  shows "Option.bind x f = Option.bind y f"
proof (cases x)
  case (Some a)
  with assms(1) obtain b where "y = Some b" "g a = g b" by (cases y) auto
  with Some assms(2) [of a b] show ?thesis by simp
qed (use assms(1) in simp)

lemma find_one_map_eq:
  assumes "map g xs = map g ys" "\<And>x y. g x = g y \<Longrightarrow> P x = P y"
  shows "find_one P xs = None \<longleftrightarrow> find_one P ys = None"
  using arg_cong [OF find_one_shape [of g xs ys P, OF assms], of "\<lambda>r. r = None"] by simp

lemma find_av_shape: "accessory_shape a = accessory_shape b \<Longrightarrow> (find_av v a = None) = (find_av v b = None)"
  unfolding find_av_def accessory_shape_def by (intro find_one_map_eq [where g = av_id]) auto

lemma accessory_match_shape:
  assumes "accessory_shape a = accessory_shape b"
  shows "(a_id a = aid \<and> find_av vid a \<noteq> None) = (a_id b = aid \<and> find_av vid b \<noteq> None)"
proof -
  have "a_id a = a_id b" using assms by (simp add: accessory_shape_def)
  with find_av_shape [OF assms, of vid] show ?thesis by simp
qed

lemma find_size_shape:
  assumes "map color_shape cvs = map color_shape cvs'"
  shows "map_option (\<lambda>(cv, v). (cv_id cv, v_id v)) (find_size vid cvs) =
         map_option (\<lambda>(cv, v). (cv_id cv, v_id v)) (find_size vid cvs')"
  using assms
proof (induction cvs arbitrary: cvs')
  case (Cons cv cvs)
  then obtain cv' cvs'' where c: "cvs' = cv' # cvs''" "color_shape cv = color_shape cv'"
    "map color_shape cvs = map color_shape cvs''" by (cases cvs') auto
  have "map_option v_id (find_one (\<lambda>v. v_id v = vid) (cv_variants cv)) =
        map_option v_id (find_one (\<lambda>v. v_id v = vid) (cv_variants cv'))"
    using c(2) by (intro find_one_shape) (auto simp: color_shape_def)
  with Cons.IH [OF c(3)] c(1,2) show ?case
    by (auto simp: color_shape_def split: option.splits)
qed simp

lemma product_locs_shape:
  assumes "product_shape p = product_shape p'"
  shows "product_fabric_loc fid p = product_fabric_loc fid p'"
    "product_accessory_loc aid vid p = product_accessory_loc aid vid p'"
    "product_size_loc vid p = product_size_loc vid p'"
    "(p_fabric p = None) = (p_fabric p' = None)" "p_id p = p_id p'"
proof -
  have own: "map_option f_id (p_fabric p) = map_option f_id (p_fabric p')"
    "map_option accessory_shape (p_accessory p) = map_option accessory_shape (p_accessory p')"
    "map f_id (clothing_fabrics p) = map f_id (clothing_fabrics p')"
    "map accessory_shape (clothing_accessories p) = map accessory_shape (clothing_accessories p')"
    "map color_shape (clothing_colors p) = map color_shape (clothing_colors p')"
    "p_id p = p_id p'"
    using assms by (simp_all add: product_shape_def)
  show "p_id p = p_id p'" by (rule own(6))
  show "(p_fabric p = None) = (p_fabric p' = None)" using own(1) by (cases "p_fabric p"; cases "p_fabric p'") auto
  have "(own_fabric fid p = None) = (own_fabric fid p' = None)"
    using own(1) by (cases "p_fabric p"; cases "p_fabric p'") (auto simp: own_fabric_def)
  moreover have "(find_one (\<lambda>f. f_id f = fid) (clothing_fabrics p) = None) =
      (find_one (\<lambda>f. f_id f = fid) (clothing_fabrics p') = None)"
    using own(3) by (intro find_one_map_eq [where g = f_id]) auto
  ultimately show "product_fabric_loc fid p = product_fabric_loc fid p'"
    using own(6) by (simp add: product_fabric_loc_def)
  have "(find_one (\<lambda>a. a_id a = aid \<and> find_av vid a \<noteq> None) (clothing_accessories p) = None) =
      (find_one (\<lambda>a. a_id a = aid \<and> find_av vid a \<noteq> None) (clothing_accessories p') = None)"
    by (rule find_one_map_eq [OF own(4)]) (rule accessory_match_shape)
  moreover have "(Option.bind (own_accessory aid p) (find_av vid) = None) =
      (Option.bind (own_accessory aid p') (find_av vid) = None)"
  proof (cases "p_accessory p")
    case (Some a)
    with own(2) obtain b where "p_accessory p' = Some b" "accessory_shape a = accessory_shape b"
      by (cases "p_accessory p'") auto
    with Some accessory_match_shape [of a b aid vid] show ?thesis by (auto simp: own_accessory_def)
  qed (use own(2) in \<open>simp add: own_accessory_def\<close>)
  ultimately show "product_accessory_loc aid vid p = product_accessory_loc aid vid p'"
    using own(6) by (simp add: product_accessory_loc_def)
  show "product_size_loc vid p = product_size_loc vid p'"
    using find_size_shape [OF own(5), of vid] own(6)
    by (cases "find_size vid (clothing_colors p)"; cases "find_size vid (clothing_colors p')")
      (auto simp: product_size_loc_def)
qed

lemma locs_shape:
  assumes "same_shape s s'"
  shows "fabric_loc pid fid s = fabric_loc pid fid s'"
    "accessory_loc pid aid vid s = accessory_loc pid aid vid s'"
    "size_loc pid vid s = size_loc pid vid s'"
    "applied_loc item s = applied_loc item s'"
proof -
  note bind = bind_shape [OF find_product_shape [OF assms]]
  have "(find_one (\<lambda>f. f_id f = fid) (db_fabrics s) = None) = (find_one (\<lambda>f. f_id f = fid) (db_fabrics s') = None)"
    using assms by (intro find_one_map_eq [where g = f_id]) (auto simp: same_shape_def)
  then show "fabric_loc pid fid s = fabric_loc pid fid s'"
    unfolding fabric_loc_def using bind [OF product_locs_shape(1)] by simp
  have "(find_one (\<lambda>a. a_id a = aid \<and> find_av vid a \<noteq> None) (db_accessories s) = None) =
      (find_one (\<lambda>a. a_id a = aid \<and> find_av vid a \<noteq> None) (db_accessories s') = None)"
    by (rule find_one_map_eq [of accessory_shape]) (use assms in \<open>simp add: same_shape_def\<close>, rule accessory_match_shape)
  then show "accessory_loc pid aid vid s = accessory_loc pid aid vid s'"
    unfolding accessory_loc_def using bind [OF product_locs_shape(2)] by simp
  show "size_loc pid vid s = size_loc pid vid s'"
    unfolding size_loc_def by (rule bind) (rule product_locs_shape(3))
  have "Option.bind (find_product (Some fid) s) (\<lambda>p. if p_fabric p = None then None else Some (Own_fabric (p_id p))) =
      Option.bind (find_product (Some fid) s') (\<lambda>p. if p_fabric p = None then None else Some (Own_fabric (p_id p)))" for fid
  proof (rule bind)
    fix a b assume "product_shape a = product_shape b"
    from product_locs_shape(4,5) [OF this]
    show "(if p_fabric a = None then None else Some (Own_fabric (p_id a))) =
        (if p_fabric b = None then None else Some (Own_fabric (p_id b)))" by simp
  qed
  then show "applied_loc item s = applied_loc item s'"
    by (simp add: applied_loc_def split: option.splits bool.splits)
qed

section \<open>Deducting and restoring move stock at these places\<close>

definition wf_stock :: "db \<Rightarrow> bool" where
  "wf_stock s \<longleftrightarrow> distinct (map fst (map accessory_shape (db_accessories s))) \<and>
     (\<forall>sh\<in>set (map accessory_shape (db_accessories s)). distinct (snd sh)) \<and>
     (\<forall>sh\<in>set (map product_shape (db_products s)). case sh of (_, _, _, as, own, _) \<Rightarrow>
        distinct (map fst as) \<and> (\<forall>a\<in>set as. distinct (snd a)) \<and>
        (\<forall>a. own = Some a \<longrightarrow> distinct (snd a) \<and> as = []))"

definition yards_ok :: "db \<Rightarrow> bool" where
  "yards_ok s \<longleftrightarrow> (\<forall>f\<in>set (db_fabrics s). 0 \<le> f_yard_length f) \<and>
     (\<forall>p\<in>set (db_products s). (\<forall>f\<in>set (clothing_fabrics p). 0 \<le> f_yard_length f) \<and>
        (\<forall>f. p_fabric p = Some f \<longrightarrow> 0 \<le> f_yard_length f))"

definition stock_ok :: "db \<Rightarrow> bool" where
  "stock_ok s \<longleftrightarrow> wf_stock s \<and> stocked s \<and> yards_ok s"

lemma wf_stock_shape: "same_shape s s' \<Longrightarrow> wf_stock s = wf_stock s'"
  unfolding wf_stock_def same_shape_def by simp

lemma update_one_found:
  assumes "find_one P ds = Some d" "f d = g d"
  shows "update_one P f ds = update_one P g ds"
  using assms by (induction ds) (auto split: if_splits)

lemma on_product_found:
  assumes "find_product pid s = Some p" "f p = g p"
  shows "on_product (p_id p) f s = on_product (p_id p) g s"
proof -
  from assms(1) obtain i where i: "find_one (\<lambda>p. p_id p = i) (db_products s) = Some p"
    by (auto simp: find_product_def split: option.splits)
  then have "p_id p = i" by (rule find_one_keyD)
  with update_one_found [where f = f and g = g, OF i] assms(2) show ?thesis by (simp add: on_product_def)
qed

lemma find_product_in: "find_product pid s = Some p \<Longrightarrow> p \<in> set (db_products s)"
  by (auto simp: find_product_def split: option.splits dest: find_one_SomeD)

text \<open>Writing a number computed from the document found is adding the difference to it.\<close>

lemma set_clothing_fabric:
  assumes "find_one (\<lambda>f. f_id f = fid) (clothing_fabrics p) = Some f"
  shows "on_clothing_fabric fid (\<lambda>_. f_yard_length f + q) p = on_clothing_fabric fid (\<lambda>y. y + q) p"
proof (cases "p_clothing p")
  case (Some c)
  with assms have "find_one (\<lambda>f. f_id f = fid) (c_fabrics c) = Some f" by (simp add: clothing_fabrics_def)
  then have "update_one (\<lambda>f. f_id f = fid) (on_yards (\<lambda>_. f_yard_length f + q)) (c_fabrics c) =
      update_one (\<lambda>f. f_id f = fid) (on_yards (\<lambda>y. y + q)) (c_fabrics c)"
    by (rule update_one_found) (simp add: on_yards_def)
  with Some show ?thesis by (simp add: on_clothing_fabric_def on_clothing_def)
qed (simp add: on_clothing_fabric_def on_clothing_def)

lemma set_own_fabric:
  "p_fabric p = Some f \<Longrightarrow> on_own_fabric (\<lambda>_. f_yard_length f + q) p = on_own_fabric (\<lambda>y. y + q) p"
  by (simp add: on_own_fabric_def on_yards_def)

lemma set_fabric_doc:
  assumes "find_one (\<lambda>f. f_id f = fid) (db_fabrics s) = Some f"
  shows "on_fabric_doc fid (\<lambda>_. f_yard_length f + q) s = on_fabric_doc fid (\<lambda>y. y + q) s"
  unfolding on_fabric_doc_def using update_one_found [OF assms, of "on_yards (\<lambda>_. f_yard_length f + q)"
      "on_yards (\<lambda>y. y + q)"] by (simp add: on_yards_def)

lemma set_av:
  assumes "distinct (map av_id (a_variants a))" "find_av vid a = Some v"
  shows "on_av vid (\<lambda>_. nullish (av_stock v) 0 + q) a = on_av vid (inc_stock q) a"
proof -
  have "x = v" if "x \<in> set (a_variants a)" "av_id x = vid" for x
    using find_one_key_eq [OF assms(1) that(1)] that(2) assms(2) by (simp add: find_av_def)
  then show ?thesis by (auto simp: on_av_def update_many_def inc_stock_def)
qed

lemma set_accessory_doc:
  assumes "wf_stock s" "find_one (\<lambda>a. a_id a = aid) (db_accessories s) = Some a" "find_av vid a = Some v"
  shows "on_accessory_doc aid vid (\<lambda>_. nullish (av_stock v) 0 + q) s = on_accessory_doc aid vid (inc_stock q) s"
proof -
  have "distinct (map av_id (a_variants a))"
    using assms(1) find_one_SomeD [OF assms(2)] by (auto simp: wf_stock_def accessory_shape_def)
  with update_one_found [OF assms(2), of "on_av vid (\<lambda>_. nullish (av_stock v) 0 + q)" "on_av vid (inc_stock q)"]
    set_av assms(3) show ?thesis by (simp add: on_accessory_doc_def)
qed

lemma wf_product_accessories:
  assumes "wf_stock s" "find_product pid s = Some p"
  shows "distinct (map a_id (clothing_accessories p))"
    "a \<in> set (clothing_accessories p) \<Longrightarrow> distinct (map av_id (a_variants a))"
    "p_accessory p = Some b \<Longrightarrow> distinct (map av_id (a_variants b)) \<and> clothing_accessories p = []"
proof -
  have "product_shape p \<in> set (map product_shape (db_products s))"
    using find_product_in [OF assms(2)] by simp
  moreover have "\<forall>sh\<in>set (map product_shape (db_products s)). case sh of (_, _, _, as, own, _) \<Rightarrow>
      distinct (map fst as) \<and> (\<forall>a\<in>set as. distinct (snd a)) \<and>
      (\<forall>a. own = Some a \<longrightarrow> distinct (snd a) \<and> as = [])"
    using assms(1) unfolding wf_stock_def by (elim conjE)
  ultimately have "case product_shape p of (_, _, _, as, own, _) \<Rightarrow>
      distinct (map fst as) \<and> (\<forall>a\<in>set as. distinct (snd a)) \<and>
      (\<forall>a. own = Some a \<longrightarrow> distinct (snd a) \<and> as = [])" by (rule bspec [rotated])
  then have c: "distinct (map fst (map accessory_shape (clothing_accessories p))) \<and>
    (\<forall>a\<in>set (map accessory_shape (clothing_accessories p)). distinct (snd a)) \<and>
    (\<forall>a. map_option accessory_shape (p_accessory p) = Some a \<longrightarrow>
       distinct (snd a) \<and> map accessory_shape (clothing_accessories p) = [])"
    unfolding product_shape_def prod.case .
  note w = conjunct1 [OF c] conjunct1 [OF conjunct2 [OF c]] conjunct2 [OF conjunct2 [OF c]]
  show "distinct (map a_id (clothing_accessories p))"
    using w(1) by (simp add: comp_def accessory_shape_def)
  show "distinct (map av_id (a_variants a))" if "a \<in> set (clothing_accessories p)"
    using bspec [OF w(2), of "accessory_shape a"] that by (simp add: accessory_shape_def)
  show "distinct (map av_id (a_variants b)) \<and> clothing_accessories p = []" if "p_accessory p = Some b"
    using w(3) that by (simp add: accessory_shape_def)
qed

lemma set_clothing_accessory:
  assumes "distinct (map av_id (a_variants a))" "find_av vid a = Some v"
    "find_one (\<lambda>a. a_id a = aid) (clothing_accessories p) = Some a"
  shows "on_clothing_accessory aid vid (\<lambda>_. nullish (av_stock v) 0 + q) p = on_clothing_accessory aid vid (inc_stock q) p"
proof (cases "p_clothing p")
  case (Some c)
  with assms(3) have "find_one (\<lambda>a. a_id a = aid) (c_accessories c) = Some a" by (simp add: clothing_accessories_def)
  then have "update_one (\<lambda>a. a_id a = aid) (on_av vid (\<lambda>_. nullish (av_stock v) 0 + q)) (c_accessories c) =
      update_one (\<lambda>a. a_id a = aid) (on_av vid (inc_stock q)) (c_accessories c)"
    by (rule update_one_found) (rule set_av [OF assms(1,2)])
  with Some show ?thesis by (simp add: on_clothing_accessory_def on_clothing_def)
qed (simp add: on_clothing_accessory_def on_clothing_def)

text \<open>
  An action deducts (restores) the moves \<open>mv\<close>: when it ends normally, it has done these writes and
  no others. Restoring always ends normally.
\<close>

definition by_shape :: "(db \<Rightarrow> 'm) \<Rightarrow> bool" where
  "by_shape mv \<longleftrightarrow> (\<forall>s t. same_shape s t \<longrightarrow> mv s = mv t)"

definition deducts :: "(db, unit) action \<Rightarrow> (db \<Rightarrow> (location \<times> rat) list) \<Rightarrow> bool" where
  "deducts m mv \<longleftrightarrow> (\<forall>s s'. stock_ok s \<longrightarrow> m s = (Inr (), s') \<longrightarrow> s' = add_all (negate (mv s)) s \<and> stock_ok s')"

definition restores :: "(db, unit) action \<Rightarrow> (db \<Rightarrow> (location \<times> rat) list) \<Rightarrow> bool" where
  "restores m mv \<longleftrightarrow> (\<forall>s. stock_ok s \<longrightarrow> m s = (Inr (), add_all (mv s) s) \<and> stock_ok (add_all (mv s) s))"

lemma negate_append [simp]: "negate (ms @ ns) = negate ms @ negate ns"
  by (simp add: negate_def)

lemma deducts_ret: "deducts (ret ()) (\<lambda>_. [])"
  by (simp add: deducts_def negate_def)

lemma restores_ret: "restores (ret ()) (\<lambda>_. [])"
  by (simp add: restores_def)

lemma deducts_andThen:
  assumes "deducts m mv" "deducts n nv" "by_shape nv"
  shows "deducts (andThen m (\<lambda>_. n)) (\<lambda>s. mv s @ nv s)"
  unfolding deducts_def
proof (intro allI impI)
  fix s s'
  assume ok: "stock_ok s" and "andThen m (\<lambda>_. n) s = (Inr (), s')"
  then obtain t where t: "m s = (Inr (), t)" "n t = (Inr (), s')"
    by (cases "m s"; cases "fst (m s)") (auto simp: andThen_app)
  with assms(1) ok have mt: "t = add_all (negate (mv s)) s" "stock_ok t" by (auto simp: deducts_def)
  with assms(2) t(2) have "s' = add_all (negate (nv t)) t" "stock_ok s'" by (auto simp: deducts_def)
  moreover have "nv t = nv s" using assms(3) mt(1) by (simp add: by_shape_def)
  ultimately show "s' = add_all (negate (mv s @ nv s)) s \<and> stock_ok s'"
    using mt(1) by (simp add: add_all_append)
qed

lemma restores_andThen:
  assumes "restores m mv" "restores n nv" "by_shape nv"
  shows "restores (andThen m (\<lambda>_. n)) (\<lambda>s. mv s @ nv s)"
  unfolding restores_def
proof (intro allI impI)
  fix s assume "stock_ok s"
  with assms(1) have m: "m s = (Inr (), add_all (mv s) s)" "stock_ok (add_all (mv s) s)"
    by (auto simp: restores_def)
  moreover have "nv (add_all (mv s) s) = nv s" using assms(3) by (simp add: by_shape_def)
  ultimately show "andThen m (\<lambda>_. n) s = (Inr (), add_all (mv s @ nv s) s) \<and> stock_ok (add_all (mv s @ nv s) s)"
    using assms(2) by (auto simp: restores_def add_all_append)
qed

lemma by_shape_append: "by_shape mv \<Longrightarrow> by_shape nv \<Longrightarrow> by_shape (\<lambda>s. mv s @ nv s)"
  unfolding by_shape_def by metis

lemma by_shape_concat:
  "(\<And>x. x \<in> set xs \<Longrightarrow> by_shape (mv x)) \<Longrightarrow> by_shape (\<lambda>s. concat (map (\<lambda>x. mv x s) xs))"
  unfolding by_shape_def by (intro allI impI arg_cong [of _ _ concat] map_cong refl) blast

lemma deducts_for_each:
  assumes "\<And>x. x \<in> set xs \<Longrightarrow> deducts (f x) (mv x)" "\<And>x. x \<in> set xs \<Longrightarrow> by_shape (mv x)"
  shows "deducts (for_each xs f) (\<lambda>s. concat (map (\<lambda>x. mv x s) xs))"
  using assms
proof (induction xs)
  case (Cons x xs)
  then have "by_shape (\<lambda>s. concat (map (\<lambda>x. mv x s) xs))" by (intro by_shape_concat) simp
  with Cons show ?case using deducts_andThen [of "f x" "mv x"] by simp
qed (simp add: deducts_ret)

lemma restores_for_each:
  assumes "\<And>x. x \<in> set xs \<Longrightarrow> restores (f x) (mv x)" "\<And>x. x \<in> set xs \<Longrightarrow> by_shape (mv x)"
  shows "restores (for_each xs f) (\<lambda>s. concat (map (\<lambda>x. mv x s) xs))"
  using assms
proof (induction xs)
  case (Cons x xs)
  then have "by_shape (\<lambda>s. concat (map (\<lambda>x. mv x s) xs))" by (intro by_shape_concat) simp
  with Cons show ?case using restores_andThen [of "f x" "mv x"] by simp
qed (simp add: restores_ret)

lemma moves_by_shape:
  "by_shape (fabric_moves item fsel)" "by_shape (accessory_moves item asel)"
  "by_shape (size_moves item vsel)" "by_shape (applied_moves item)"
  using locs_shape unfolding by_shape_def fabric_moves_def accessory_moves_def size_moves_def applied_moves_def
  by (auto split: option.splits)

text \<open>Adding stock leaves no negative yardage behind; sizes and accessories have none.\<close>

fun yard_free :: "location \<Rightarrow> bool" where
  "yard_free (Fabric_doc f) = False"
| "yard_free (Garment_fabric p f) = False"
| "yard_free (Own_fabric p) = False"
| "yard_free _ = True"

definition yards_ok_product :: "product \<Rightarrow> bool" where
  "yards_ok_product p \<longleftrightarrow> (\<forall>f\<in>set (clothing_fabrics p). 0 \<le> f_yard_length f) \<and>
     (\<forall>f. p_fabric p = Some f \<longrightarrow> 0 \<le> f_yard_length f)"

lemma yards_update:
  "\<forall>f\<in>set fs. 0 \<le> f_yard_length f \<Longrightarrow> (\<And>y. 0 \<le> y \<Longrightarrow> 0 \<le> g y) \<Longrightarrow>
     \<forall>f\<in>set (update_one P (on_yards g) fs). 0 \<le> f_yard_length f"
  by (rule update_one_all) (auto simp: on_yards_def)

lemma yards_ok_product_fabric:
  assumes "yards_ok_product p" "\<And>y. 0 \<le> y \<Longrightarrow> 0 \<le> g y"
  shows "yards_ok_product (on_clothing_fabric fid g p)" "yards_ok_product (on_own_fabric g p)"
  using assms yards_update [of _ g]
  by (cases "p_clothing p"; auto simp: yards_ok_product_def product_writes clothing_fabrics_def on_yards_def)+

lemma yards_ok_product_other:
  assumes "yards_ok_product p"
  shows "yards_ok_product (on_clothing_accessory a v h p)" "yards_ok_product (on_own_accessory v h p)"
    "yards_ok_product (on_size c v h p)"
  using assms
  by (cases "p_clothing p"; auto simp: yards_ok_product_def product_writes clothing_fabrics_def)+

lemma yards_ok_iff: "yards_ok s \<longleftrightarrow> (\<forall>f\<in>set (db_fabrics s). 0 \<le> f_yard_length f) \<and> (\<forall>p\<in>set (db_products s). yards_ok_product p)"
  by (simp add: yards_ok_def yards_ok_product_def)

lemma yards_ok_on_product:
  assumes "yards_ok s" "\<And>p. yards_ok_product p \<Longrightarrow> yards_ok_product (g p)"
  shows "yards_ok (on_product pid g s)"
proof -
  have "\<forall>p\<in>set (update_one (\<lambda>p. p_id p = pid) g (db_products s)). yards_ok_product p"
    by (rule update_one_all) (use assms(1) in \<open>simp add: yards_ok_iff\<close>, rule assms(2))
  with assms(1) show ?thesis by (simp add: yards_ok_iff on_product_def)
qed

lemma yards_ok_on_fabric_doc:
  "yards_ok s \<Longrightarrow> (\<And>y. 0 \<le> y \<Longrightarrow> 0 \<le> g y) \<Longrightarrow> yards_ok (on_fabric_doc fid g s)"
  using yards_update [of "db_fabrics s" g] by (simp add: yards_ok_iff on_fabric_doc_def)

lemma yards_ok_add_at:
  assumes "yards_ok s" "yard_free l \<or> 0 \<le> q"
  shows "yards_ok (add_at l q s)"
  using assms
proof (cases l)
  case (Accessory_doc a v)
  with assms show ?thesis by (simp add: yards_ok_iff on_accessory_doc_def)
qed (use assms in \<open>auto intro!: yards_ok_on_product yards_ok_on_fabric_doc yards_ok_product_fabric
    yards_ok_product_other\<close>)

lemma stock_ok_add_at:
  assumes "stock_ok s" "yard_free l \<or> 0 \<le> q \<or> yards_ok (add_at l q s)"
  shows "stock_ok (add_at l q s)"
  using assms wf_stock_shape [OF same_shape_add_at [of l q s]] stocked_add_at [of s l q] yards_ok_add_at [of s l q]
  by (auto simp: stock_ok_def)

text \<open>A deduction: the write of the difference, where it ends in sound stock.\<close>

lemma deducted:
  assumes "stock_ok s" "s' = add_at l (- q) s" "yard_free l \<or> yards_ok s'"
  shows "s' = add_all (negate (move (Some l) q)) s \<and> stock_ok s'"
  using assms stock_ok_add_at [of s l "- q"] by (auto simp: move_def negate_def)

text \<open>The same for the fabrics, accessories and sizes of the product found.\<close>

lemma found_garment_fabric:
  assumes "find_product pid s = Some p" "find_one (\<lambda>f. f_id f = fid) (clothing_fabrics p) = Some f"
  shows "on_product (p_id p) (on_clothing_fabric fid (\<lambda>_. f_yard_length f + q)) s = add_at (Garment_fabric (p_id p) fid) q s"
  unfolding add_at.simps by (rule on_product_found [OF assms(1)]) (rule set_clothing_fabric [OF assms(2)])

lemma found_own_fabric:
  assumes "find_product pid s = Some p" "p_fabric p = Some f"
  shows "on_product (p_id p) (on_own_fabric (\<lambda>_. f_yard_length f + q)) s = add_at (Own_fabric (p_id p)) q s"
  unfolding add_at.simps by (rule on_product_found [OF assms(1)]) (rule set_own_fabric [OF assms(2)])

lemma found_garment_accessory:
  assumes "wf_stock s" "find_product pid s = Some p" "find_av vid a = Some v"
    "find_one (\<lambda>a. a_id a = aid) (clothing_accessories p) = Some a"
  shows "on_product (p_id p) (on_clothing_accessory aid vid (\<lambda>_. nullish (av_stock v) 0 + q)) s =
    add_at (Garment_accessory (p_id p) aid vid) q s"
proof -
  have "distinct (map av_id (a_variants a))"
    using wf_product_accessories(2) [OF assms(1,2)] find_one_SomeD [OF assms(4)] by blast
  from set_clothing_accessory [OF this assms(3,4)] show ?thesis
    unfolding add_at.simps by (rule on_product_found [OF assms(2)])
qed

lemma found_own_accessory:
  assumes "wf_stock s" "find_product pid s = Some p" "find_av vid a = Some v" "p_accessory p = Some a"
  shows "on_product (p_id p) (on_own_accessory vid (\<lambda>_. nullish (av_stock v) 0 + q)) s =
    add_at (Own_accessory (p_id p) vid) q s"
proof -
  have "distinct (map av_id (a_variants a))"
    using wf_product_accessories(3) [OF assms(1,2,4)] by blast
  from set_av [OF this assms(3)] have "on_own_accessory vid (\<lambda>_. nullish (av_stock v) 0 + q) p =
      on_own_accessory vid (inc_stock q) p" using assms(4) by (simp add: on_own_accessory_def)
  then show ?thesis unfolding add_at.simps by (rule on_product_found [OF assms(2)])
qed

lemma deducts_fabric:
  "deducts (andThen (find_fabric (i_product item) (fs_fabric_id sel)) (\<lambda>f.
     if f_yard_length f < yards_of sel then throw (BadRequestException ''Not enough fabric available'')
     else updateFabricStock (i_product item) (f_id f) (f_yard_length f - yards_of sel)))
   (fabric_moves item sel)"
  unfolding deducts_def
proof (intro allI impI)
  fix s s'
  let ?fid = "fs_fabric_id sel" and ?q = "yards_of sel"
  assume ok: "stock_ok s" and run: "andThen (find_fabric (i_product item) ?fid) (\<lambda>f.
     if f_yard_length f < ?q then throw (BadRequestException ''Not enough fabric available'')
     else updateFabricStock (i_product item) (f_id f) (f_yard_length f - ?q)) s = (Inr (), s')"
  have yards: "yards_ok s" using ok by (simp add: stock_ok_def)
  show "s' = add_all (negate (fabric_moves item sel s)) s \<and> stock_ok s'"
  proof (cases "find_one (\<lambda>f. f_id f = ?fid) (db_fabrics s)")
    case (Some f)
    then have id: "f_id f = ?fid" by (rule find_one_keyD)
    from run Some id have enough: "?q \<le> f_yard_length f"
      and s': "s' = on_fabric_doc ?fid (\<lambda>_. f_yard_length f - ?q) s"
      by (auto simp: find_fabric_def updateFabricStock_def validate_yards_def andThen_app split: if_splits)
    have "s' = add_at (Fabric_doc ?fid) (- ?q) s"
      unfolding s' using set_fabric_doc [OF Some, of "- ?q"] by simp
    moreover have "yards_ok s'" unfolding s' by (rule yards_ok_on_fabric_doc [OF yards]) (use enough in simp)
    moreover have moves: "fabric_moves item sel s = move (Some (Fabric_doc ?fid)) ?q"
      using Some by (simp add: fabric_moves_def fabric_loc_def)
    ultimately show ?thesis unfolding moves by (intro deducted [OF ok] disjI2)
  next
    case None
    with run obtain p where p: "find_product (i_product item) s = Some p"
      by (auto simp: find_fabric_def andThen_app split: option.splits)
    show ?thesis
    proof (cases "find_one (\<lambda>f. f_id f = ?fid) (clothing_fabrics p)")
      case (Some f)
      then have id: "f_id f = ?fid" by (rule find_one_keyD)
      from run None p Some id have enough: "?q \<le> f_yard_length f"
        and s': "s' = on_product (p_id p) (on_clothing_fabric ?fid (\<lambda>_. f_yard_length f - ?q)) s"
        by (auto simp: find_fabric_def updateFabricStock_def andThen_app split: if_splits)
      have "s' = add_at (Garment_fabric (p_id p) ?fid) (- ?q) s"
        unfolding s' using found_garment_fabric [OF p Some, of "- ?q"] by simp
      moreover have "yards_ok s'" unfolding s'
        by (intro yards_ok_on_product [OF yards] yards_ok_product_fabric) (use enough in auto)
      moreover have moves: "fabric_moves item sel s = move (Some (Garment_fabric (p_id p) ?fid)) ?q"
        using None p Some by (simp add: fabric_moves_def fabric_loc_def product_fabric_loc_def)
      ultimately show ?thesis unfolding moves by (intro deducted [OF ok] disjI2)
    next
      case none: None
      with run None p obtain f where own: "own_fabric ?fid p = Some f"
        by (auto simp: find_fabric_def andThen_app split: option.splits)
      then have f: "p_fabric p = Some f" "f_id f = ?fid" by (auto simp: own_fabric_def split: option.splits if_splits)
      from run None p none own f have enough: "?q \<le> f_yard_length f"
        and s': "s' = on_product (p_id p) (on_own_fabric (\<lambda>_. f_yard_length f - ?q)) s"
        by (auto simp: find_fabric_def updateFabricStock_def andThen_app split: if_splits)
      have "s' = add_at (Own_fabric (p_id p)) (- ?q) s"
        unfolding s' using found_own_fabric [OF p f(1), of "- ?q"] by simp
      moreover have "yards_ok s'" unfolding s'
        by (intro yards_ok_on_product [OF yards] yards_ok_product_fabric) (use enough in auto)
      moreover have moves: "fabric_moves item sel s = move (Some (Own_fabric (p_id p))) ?q"
        using None p none own by (simp add: fabric_moves_def fabric_loc_def product_fabric_loc_def)
      ultimately show ?thesis unfolding moves by (intro deducted [OF ok] disjI2)
    qed
  qed
qed

lemma find_accessory_guarded:
  assumes "distinct (map a_id as)"
  shows "find_one (\<lambda>a. a_id a = aid \<and> find_av vid a \<noteq> None) as =
    (case find_one (\<lambda>a. a_id a = aid) as of None \<Rightarrow> None | Some a \<Rightarrow> if find_av vid a \<noteq> None then Some a else None)"
  by (rule find_one_guarded [OF one_match_key [OF assms]])

lemma wf_accessory_docs: "wf_stock s \<Longrightarrow> distinct (map a_id (db_accessories s))"
  by (simp add: wf_stock_def comp_def accessory_shape_def)

lemma deducts_accessory:
  "deducts (case as_variant_id sel of
       None \<Rightarrow> ret ()
     | Some variantId \<Rightarrow>
         andThen (find_accessory_variant (i_product item) (as_accessory_id sel) variantId) (\<lambda>v.
         let totalQuantity = nullish (as_quantity sel) 1
         in if nullish (av_stock v) 0 < totalQuantity
            then throw (BadRequestException ''Not enough stock for accessory variant'')
            else updateAccessoryVariantStock (i_product item) (as_accessory_id sel) variantId
                   (nullish (av_stock v) 0 - totalQuantity)))
     (accessory_moves item sel)"
proof (cases "as_variant_id sel")
  case None
  then show ?thesis by (simp add: deducts_def accessory_moves_def negate_def)
next
  case (Some vid)
  let ?aid = "as_accessory_id sel" and ?q = "nullish (as_quantity sel) 1"
  have "s' = add_all (negate (accessory_moves item sel s)) s \<and> stock_ok s'"
    if ok: "stock_ok s" and run: "andThen (find_accessory_variant (i_product item) ?aid vid) (\<lambda>v.
       if nullish (av_stock v) 0 < ?q
       then throw (BadRequestException ''Not enough stock for accessory variant'')
       else updateAccessoryVariantStock (i_product item) ?aid vid (nullish (av_stock v) 0 - ?q)) s = (Inr (), s')"
    for s s'
  proof -
    have wf: "wf_stock s" using ok by (simp add: stock_ok_def)
    note docs = find_accessory_guarded [OF wf_accessory_docs [OF wf], of ?aid vid]
    show ?thesis
    proof (cases "Option.bind (find_one (\<lambda>a. a_id a = ?aid) (db_accessories s)) (find_av vid)")
      case (Some v)
      then obtain a where a: "find_one (\<lambda>a. a_id a = ?aid) (db_accessories s) = Some a" "find_av vid a = Some v"
        by (auto simp: bind_eq_Some_conv)
      have s': "s' = on_accessory_doc ?aid vid (\<lambda>_. nullish (av_stock v) 0 - ?q) s"
        using run a docs by (auto simp: find_accessory_variant_def updateAccessoryVariantStock_def
            andThen_app exists_doc_def split: if_splits)
      have "s' = add_at (Accessory_doc ?aid vid) (- ?q) s"
        unfolding s' using set_accessory_doc [OF wf a, of "- ?q"] by simp
      moreover have moves: "accessory_moves item sel s = move (Some (Accessory_doc ?aid vid)) ?q"
        using docs a \<open>as_variant_id sel = Some vid\<close> by (simp add: accessory_moves_def accessory_loc_def)
      ultimately show ?thesis unfolding moves by (intro deducted [OF ok] disjI1) simp_all
    next
      case None
      then have none: "find_one (\<lambda>a. a_id a = ?aid \<and> find_av vid a \<noteq> None) (db_accessories s) = None"
        using docs by (auto split: option.splits)
      from run None obtain p where p: "find_product (i_product item) s = Some p"
        by (auto simp: find_accessory_variant_def andThen_app split: option.splits)
      note garment = find_accessory_guarded [OF wf_product_accessories(1) [OF wf p], of ?aid vid]
      show ?thesis
      proof (cases "Option.bind (find_one (\<lambda>a. a_id a = ?aid) (clothing_accessories p)) (find_av vid)")
        case (Some v)
        then obtain a where a: "find_one (\<lambda>a. a_id a = ?aid) (clothing_accessories p) = Some a" "find_av vid a = Some v"
          by (auto simp: bind_eq_Some_conv)
        have "exists_doc (\<lambda>a. a_id a = ?aid) (clothing_accessories p)"
          "exists_doc (\<lambda>a. find_av vid a \<noteq> None) (clothing_accessories p)"
          using find_one_SomeD [OF a(1)] a(2) by (auto simp: exists_doc_iff)
        with run None none p a have s': "s' = on_product (p_id p) (on_clothing_accessory ?aid vid (\<lambda>_. nullish (av_stock v) 0 - ?q)) s"
          by (auto simp: find_accessory_variant_def updateAccessoryVariantStock_def exists_doc_def
              andThen_app split: if_splits)
        have "s' = add_at (Garment_accessory (p_id p) ?aid vid) (- ?q) s"
          unfolding s' using found_garment_accessory [OF wf p a(2,1), of "- ?q"] by simp
        moreover have moves: "accessory_moves item sel s = move (Some (Garment_accessory (p_id p) ?aid vid)) ?q"
          using none p garment a \<open>as_variant_id sel = Some vid\<close>
          by (simp add: accessory_moves_def accessory_loc_def product_accessory_loc_def)
        ultimately show ?thesis unfolding moves by (intro deducted [OF ok] disjI1) simp_all
      next
        case none': None
        with run None p obtain v a where a: "own_accessory ?aid p = Some a" "find_av vid a = Some v"
          by (auto simp: find_accessory_variant_def andThen_app bind_eq_Some_conv split: option.splits)
        then have pa: "p_accessory p = Some a" by (auto simp: own_accessory_def split: option.splits if_splits)
        then have "clothing_accessories p = []" using wf_product_accessories(3) [OF wf p] by blast
        with run None none none' p a have s': "s' = on_product (p_id p) (on_own_accessory vid (\<lambda>_. nullish (av_stock v) 0 - ?q)) s"
          by (auto simp: find_accessory_variant_def updateAccessoryVariantStock_def exists_doc_def
              andThen_app split: if_splits)
        have "s' = add_at (Own_accessory (p_id p) vid) (- ?q) s"
          unfolding s' using found_own_accessory [OF wf p a(2) pa, of "- ?q"] by simp
        moreover have moves: "accessory_moves item sel s = move (Some (Own_accessory (p_id p) vid)) ?q"
          using none p a \<open>clothing_accessories p = []\<close> \<open>as_variant_id sel = Some vid\<close>
          by (simp add: accessory_moves_def accessory_loc_def product_accessory_loc_def)
        ultimately show ?thesis unfolding moves by (intro deducted [OF ok] disjI1) simp_all
      qed
    qed
  qed
  with Some show ?thesis by (simp add: deducts_def Let_def)
qed

lemma deducts_add_at:
  assumes "\<And>s s'. stock_ok s \<Longrightarrow> m s = (Inr (), s') \<Longrightarrow> \<exists>l q. mv s = move (Some l) q \<and> yard_free l \<and> s' = add_at l (- q) s"
  shows "deducts m mv"
  unfolding deducts_def
proof (intro allI impI)
  fix s s' assume ok: "stock_ok s" and "m s = (Inr (), s')"
  with assms obtain l q where *: "mv s = move (Some l) q" "yard_free l" "s' = add_at l (- q) s" by blast
  show "s' = add_all (negate (mv s)) s \<and> stock_ok s'"
    unfolding *(1) by (intro deducted [OF ok] disjI1 *)
qed

lemma deducts_size:
  "deducts (deduct_size pid cvs sel)
     (\<lambda>_. move (map_option (\<lambda>(cv, v). Size_stock pid (cv_id cv) (v_id v)) (find_size (vs_variant_id sel) cvs))
       (nullish (vs_quantity sel) 1))"
proof (rule deducts_add_at)
  fix s s' assume "deduct_size pid cvs sel s = (Inr (), s')"
  then obtain cv v where "find_size (vs_variant_id sel) cvs = Some (cv, v)"
    "s' = on_product pid (on_size (cv_id cv) (v_id v) (inc_stock (- nullish (vs_quantity sel) 1))) s"
    by (auto simp: deduct_size_def Let_def split: option.splits if_splits)
  then show "\<exists>l q. move (map_option (\<lambda>(cv, v). Size_stock pid (cv_id cv) (v_id v)) (find_size (vs_variant_id sel) cvs))
      (nullish (vs_quantity sel) 1) = move (Some l) q \<and> yard_free l \<and> s' = add_at l (- q) s"
    by (intro exI [of _ "Size_stock pid (cv_id cv) (v_id v)"] exI [of _ "nullish (vs_quantity sel) 1"]) simp
qed

lemma deducts_sizes:
  "deducts (updateColorVariant item) (\<lambda>s. concat (map (\<lambda>sel. size_moves item sel s) (i_color_variant_selections item)))"
proof (cases "i_color_variant_selections item = []")
  case True
  then show ?thesis by (simp add: updateColorVariant_def deducts_ret)
next
  case sels: False
  show ?thesis unfolding deducts_def
  proof (intro allI impI)
    fix s s' assume ok: "stock_ok s" and run: "updateColorVariant item s = (Inr (), s')"
    with sels obtain p where p: "find_product (i_product item) s = Some p"
      and loop: "for_each (i_color_variant_selections item) (deduct_size (p_id p) (clothing_colors p)) s = (Inr (), s')"
      by (auto simp: updateColorVariant_def andThen_app split: option.splits)
    have "deducts (for_each (i_color_variant_selections item) (deduct_size (p_id p) (clothing_colors p)))
        (\<lambda>t. concat (map (\<lambda>sel. (\<lambda>_. move (map_option (\<lambda>(cv, v). Size_stock (p_id p) (cv_id cv) (v_id v))
           (find_size (vs_variant_id sel) (clothing_colors p))) (nullish (vs_quantity sel) 1)) t) (i_color_variant_selections item)))"
      by (intro deducts_for_each deducts_size) (simp add: by_shape_def)
    with ok loop p show "s' = add_all (negate (concat (map (\<lambda>sel. size_moves item sel s) (i_color_variant_selections item)))) s \<and> stock_ok s'"
      unfolding deducts_def size_moves_def size_loc_def product_size_loc_def by simp
  qed
qed

lemma deducts_applied: "deducts (deduct_applied_fabric item) (applied_moves item)"
  unfolding deducts_def
proof (intro allI impI)
  fix s s' assume ok: "stock_ok s" and run: "deduct_applied_fabric item s = (Inr (), s')"
  let ?q = "nullish (i_applied_fabric_yards item) 0"
  have yards: "yards_ok s" using ok by (simp add: stock_ok_def)
  show "s' = add_all (negate (applied_moves item s)) s \<and> stock_ok s'"
  proof (cases "applied_loc item s")
    case None
    with run have "s' = s"
      by (auto simp: deduct_applied_fabric_def applied_loc_def andThen_app split: option.splits bool.splits if_splits)
    with None ok show ?thesis by (simp add: applied_moves_def move_def negate_def)
  next
    case (Some l)
    then obtain fid p f where i: "i_applied_fabric item = Some fid" "truthy_num (i_applied_fabric_yards item)"
      and p: "find_product (Some fid) s = Some p" "p_fabric p = Some f" and l: "l = Own_fabric (p_id p)"
      by (auto simp: applied_loc_def bind_eq_Some_conv split: option.splits bool.splits if_splits)
    from run i p have enough: "0 \<le> f_yard_length f - ?q"
      and s': "s' = on_product (p_id p) (on_own_fabric (\<lambda>_. f_yard_length f - ?q)) s"
      by (auto simp: deduct_applied_fabric_def validate_yards_def Let_def andThen_app split: if_splits)
    have "s' = add_at (Own_fabric (p_id p)) (- ?q) s"
      unfolding s' using found_own_fabric [OF p, of "- ?q"] by simp
    moreover have "yards_ok s'" unfolding s'
      by (intro yards_ok_on_product [OF yards] yards_ok_product_fabric) (use enough in auto)
    moreover have moves: "applied_moves item s = move (Some (Own_fabric (p_id p))) ?q"
      using Some l by (simp add: applied_moves_def)
    ultimately show ?thesis unfolding moves by (intro deducted [OF ok] disjI2)
  qed
qed

text \<open>All the moves of an item, and of a list of items.\<close>

definition item_moves :: "order_item \<Rightarrow> db \<Rightarrow> (location \<times> rat) list" where
  "item_moves item s =
     concat (map (\<lambda>sel. fabric_moves item sel s) (i_fabric_selections item)) @
     concat (map (\<lambda>sel. accessory_moves item sel s) (i_accessory_selections item)) @
     concat (map (\<lambda>sel. size_moves item sel s) (i_color_variant_selections item)) @
     applied_moves item s"

definition items_moves :: "order_item list \<Rightarrow> db \<Rightarrow> (location \<times> rat) list" where
  "items_moves items s = concat (map (\<lambda>item. item_moves item s) items)"

lemma item_moves_by_shape: "by_shape (item_moves item)"
  unfolding item_moves_def by (intro by_shape_append by_shape_concat moves_by_shape)

lemma deducts_item: "deducts (deduct_item item) (item_moves item)"
  unfolding deduct_item_def item_moves_def updateFabric_def updateAccessory_def
  by (intro deducts_andThen deducts_for_each deducts_fabric deducts_accessory deducts_sizes deducts_applied
      by_shape_append by_shape_concat moves_by_shape)

lemma deducts_items: "deducts (for_each items deduct_item) (items_moves items)"
  unfolding items_moves_def by (intro deducts_for_each deducts_item item_moves_by_shape)

lemma restores_add_at:
  assumes "\<And>s. stock_ok s \<Longrightarrow> (mv s = [] \<and> m s = (Inr (), s)) \<or>
    (\<exists>l q. mv s = move (Some l) q \<and> (yard_free l \<or> 0 \<le> q) \<and> m s = (Inr (), add_at l q s))"
  shows "restores m mv"
  unfolding restores_def
proof (intro allI impI)
  fix s assume ok: "stock_ok s"
  show "m s = (Inr (), add_all (mv s) s) \<and> stock_ok (add_all (mv s) s)"
  proof (cases "mv s = [] \<and> m s = (Inr (), s)")
    case False
    with assms [OF ok] obtain l q
      where *: "mv s = move (Some l) q" "yard_free l \<or> 0 \<le> q" "m s = (Inr (), add_at l q s)" by blast
    have "stock_ok (add_at l q s)" by (rule stock_ok_add_at [OF ok]) (use *(2) in blast)
    with * show ?thesis by (simp add: move_def)
  qed (use ok in simp)
qed

text \<open>
  The quantities of an order line that leave the yardage at or above the schema's minimum when they
  come back: every fabric selection, and the applied fabric, takes at least a tenth of a yard.
\<close>

definition good_quantities :: "order_item \<Rightarrow> bool" where
  "good_quantities item \<longleftrightarrow> (\<forall>sel\<in>set (i_fabric_selections item). 1/10 \<le> yards_of sel) \<and>
     (truthy_num (i_applied_fabric_yards item) \<longrightarrow> 1/10 \<le> nullish (i_applied_fabric_yards item) 0)"

lemma yards_ok_doc: "stock_ok s \<Longrightarrow> find_one P (db_fabrics s) = Some f \<Longrightarrow> 0 \<le> f_yard_length f"
  by (auto simp: stock_ok_def yards_ok_iff dest: find_one_SomeD)

lemma yards_ok_own: "stock_ok s \<Longrightarrow> find_product pid s = Some p \<Longrightarrow> p_fabric p = Some f \<Longrightarrow> 0 \<le> f_yard_length f"
  using find_product_in [of pid s p] by (auto simp: stock_ok_def yards_ok_def)

lemma restores_fabric:
  assumes "1/10 \<le> yards_of sel"
  shows "restores (restore_fabric (i_product item) sel) (fabric_moves item sel)"
proof (rule restores_add_at)
  fix s assume ok: "stock_ok s"
  let ?fid = "fs_fabric_id sel"
  have q: "0 \<le> yards_of sel" "\<not> yards_of sel \<le> 0" using assms by linarith+
  show "fabric_moves item sel s = [] \<and> restore_fabric (i_product item) sel s = (Inr (), s) \<or>
    (\<exists>l q. fabric_moves item sel s = move (Some l) q \<and> (yard_free l \<or> 0 \<le> q) \<and>
       restore_fabric (i_product item) sel s = (Inr (), add_at l q s))"
  proof (cases "find_one (\<lambda>f. f_id f = ?fid) (db_fabrics s)")
    case (Some f)
    have "\<not> f_yard_length f + yards_of sel < 1/10" using yards_ok_doc [OF ok Some] assms by simp
    with Some q have "restore_fabric (i_product item) sel s = (Inr (), add_at (Fabric_doc ?fid) (yards_of sel) s)"
      by (simp add: restore_fabric_def validate_yards_def andThen_app Let_def)
    moreover have "fabric_moves item sel s = move (Some (Fabric_doc ?fid)) (yards_of sel)"
      using Some by (simp add: fabric_moves_def fabric_loc_def)
    ultimately show ?thesis using q(1) by blast
  next
    case none: None
    show ?thesis
    proof (cases "Option.bind (find_product (i_product item) s) (product_fabric_loc ?fid)")
      case None
      with none q(2) show ?thesis
        by (intro disjI1) (auto simp: fabric_moves_def fabric_loc_def move_def restore_fabric_def andThen_app
            Let_def product_fabric_loc_def exists_doc_def split: option.splits if_splits)
    next
      case (Some l)
      with none q(2) have "restore_fabric (i_product item) sel s = (Inr (), add_at l (yards_of sel) s)"
        by (auto simp: restore_fabric_def andThen_app Let_def product_fabric_loc_def exists_doc_def bind_eq_Some_conv
            split: option.splits if_splits)
      moreover have "fabric_moves item sel s = move (Some l) (yards_of sel)"
        using none Some by (simp add: fabric_moves_def fabric_loc_def)
      ultimately show ?thesis using q(1) by blast
    qed
  qed
qed

lemma all_garment_accessories:
  assumes "wf_stock s" "find_product pid s = Some p"
  shows "on_product (p_id p) (on_all_clothing_accessories aid vid (inc_stock q)) s =
    add_at (Garment_accessory (p_id p) aid vid) q s"
  unfolding add_at.simps
proof (rule on_product_found [OF assms(2)])
  show "on_all_clothing_accessories aid vid (inc_stock q) p = on_clothing_accessory aid vid (inc_stock q) p"
    using wf_product_accessories(1) [OF assms]
    by (cases "p_clothing p") (auto simp: on_all_clothing_accessories_def on_clothing_accessory_def on_clothing_def
        clothing_accessories_def update_one_key_map update_many_def)
qed

text \<open>The write to a garment accessory that lacks the variant changes nothing.\<close>

lemma update_many_fix: "(\<And>d. d \<in> set ds \<Longrightarrow> P d \<Longrightarrow> f d = d) \<Longrightarrow> update_many P f ds = ds"
  by (induction ds) (simp_all add: update_many_def)

lemma no_garment_accessory:
  assumes "wf_stock s" "find_product pid s = Some p"
    "find_one (\<lambda>a. a_id a = aid \<and> find_av vid a \<noteq> None) (clothing_accessories p) = None"
  shows "on_product (p_id p) (on_all_clothing_accessories aid vid g) s = s"
proof -
  have none: "a_id a = aid \<Longrightarrow> find_av vid a = None" if "a \<in> set (clothing_accessories p)" for a
    using assms(3) that by (auto simp: find_one_None_iff)
  have "on_av vid g a = a" if "a \<in> set (clothing_accessories p)" "a_id a = aid" for a
  proof -
    have "update_many (\<lambda>v. av_id v = vid) (\<lambda>v. v\<lparr>av_stock := Some (g (av_stock v))\<rparr>) (a_variants a) = a_variants a"
      using none [OF that] by (intro update_many_fix) (auto simp: find_av_def find_one_None_iff)
    then show ?thesis by (simp add: on_av_def)
  qed
  then have "on_all_clothing_accessories aid vid g p = id p"
    by (cases "p_clothing p") (simp_all add: on_all_clothing_accessories_def on_clothing_def clothing_accessories_def
        update_many_fix)
  from on_product_found [where f = "on_all_clothing_accessories aid vid g" and g = id, OF assms(2) this]
  have "on_product (p_id p) (on_all_clothing_accessories aid vid g) s = on_product (p_id p) id s" .
  moreover have "update_one P id ds = ds" for P and ds :: "product list" by (induction ds) auto
  ultimately show ?thesis by (simp add: on_product_def)
qed

lemma restore_found_accessory:
  assumes wf: "wf_stock s" and p: "find_product (i_product item) s = Some p" and vid: "as_variant_id sel = Some vid"
    and doc: "find_one (\<lambda>a. a_id a = as_accessory_id sel \<and> find_av vid a \<noteq> None) (db_accessories s) = None"
  shows "accessory_moves item sel s = [] \<and> restore_accessory (i_product item) sel s = (Inr (), s) \<or>
    (\<exists>l q. accessory_moves item sel s = move (Some l) q \<and> (yard_free l \<or> 0 \<le> q) \<and>
       restore_accessory (i_product item) sel s = (Inr (), add_at l q s))"
proof -
  let ?aid = "as_accessory_id sel" and ?q = "nullish (as_quantity sel) 1"
  let ?garment = "find_one (\<lambda>a. a_id a = ?aid \<and> find_av vid a \<noteq> None) (clothing_accessories p)"
  have moves: "accessory_moves item sel s = move (product_accessory_loc ?aid vid p) ?q"
    using vid doc p by (simp add: accessory_moves_def accessory_loc_def)
  show ?thesis
  proof (cases "exists_doc (\<lambda>a. a_id a = ?aid) (clothing_accessories p) \<and>
      exists_doc (\<lambda>a. find_av vid a \<noteq> None) (clothing_accessories p)")
    case True
    with vid doc p have run: "restore_accessory (i_product item) sel s =
        (Inr (), on_product (p_id p) (on_all_clothing_accessories ?aid vid (inc_stock ?q)) s)"
      by (simp add: restore_accessory_def andThen_app exists_doc_def Let_def)
    have own: "p_accessory p = None"
      using True wf_product_accessories(3) [OF wf p] by (cases "p_accessory p") (auto simp: exists_doc_iff)
    show ?thesis
    proof (cases ?garment)
      case None
      then have "product_accessory_loc ?aid vid p = None" using own by (simp add: product_accessory_loc_def own_accessory_def)
      with moves run no_garment_accessory [OF wf p None] show ?thesis by (intro disjI1) (simp add: move_def)
    next
      case (Some a)
      then have "product_accessory_loc ?aid vid p = Some (Garment_accessory (p_id p) ?aid vid)"
        by (simp add: product_accessory_loc_def)
      with moves run all_garment_accessories [OF wf p] show ?thesis
        by (intro disjI2 exI [of _ "Garment_accessory (p_id p) ?aid vid"] exI [of _ ?q]) simp
    qed
  next
    case False
    then have garment: "?garment = None" by (auto simp: exists_doc_iff find_one_None_iff)
    show ?thesis
    proof (cases "Option.bind (own_accessory ?aid p) (find_av vid)")
      case None
      with False vid doc p garment moves show ?thesis
        by (intro disjI1) (auto simp: product_accessory_loc_def move_def restore_accessory_def andThen_app Let_def
            exists_doc_def [of _ "db_accessories s"])
    next
      case (Some v)
      then have "\<exists>a. own_accessory ?aid p = Some a \<and> find_av vid a \<noteq> None" by (auto simp: bind_eq_Some_conv)
      with False vid doc p have "restore_accessory (i_product item) sel s = (Inr (), add_at (Own_accessory (p_id p) vid) ?q s)"
        by (auto simp: restore_accessory_def andThen_app Let_def exists_doc_def [of _ "db_accessories s"])
      with Some garment moves show ?thesis
        by (intro disjI2 exI [of _ "Own_accessory (p_id p) vid"] exI [of _ ?q]) (simp add: product_accessory_loc_def)
    qed
  qed
qed

lemma restores_accessory:
  "restores (restore_accessory (i_product item) sel) (accessory_moves item sel)"
proof (rule restores_add_at)
  fix s assume ok: "stock_ok s"
  then have wf: "wf_stock s" by (simp add: stock_ok_def)
  show "accessory_moves item sel s = [] \<and> restore_accessory (i_product item) sel s = (Inr (), s) \<or>
    (\<exists>l q. accessory_moves item sel s = move (Some l) q \<and> (yard_free l \<or> 0 \<le> q) \<and>
       restore_accessory (i_product item) sel s = (Inr (), add_at l q s))"
  proof (cases "as_variant_id sel")
    case None
    then show ?thesis by (simp add: accessory_moves_def restore_accessory_def)
  next
    case vid: (Some vid)
    let ?aid = "as_accessory_id sel" and ?q = "nullish (as_quantity sel) 1"
    show ?thesis
    proof (cases "find_one (\<lambda>a. a_id a = ?aid \<and> find_av vid a \<noteq> None) (db_accessories s)")
      case (Some a)
      with vid show ?thesis
        by (intro disjI2 exI [of _ "Accessory_doc ?aid vid"] exI [of _ ?q])
          (simp add: accessory_moves_def accessory_loc_def restore_accessory_def andThen_app exists_doc_def Let_def)
    next
      case doc: None
      show ?thesis
      proof (cases "find_product (i_product item) s")
        case None
        with vid doc show ?thesis
          by (simp add: accessory_moves_def accessory_loc_def move_def restore_accessory_def andThen_app
              exists_doc_def Let_def)
      next
        case (Some p)
        from restore_found_accessory [OF wf Some vid doc] show ?thesis .
      qed
    qed
  qed
qed

lemma restores_size:
  "restores (restore_size pid cvs sel)
     (\<lambda>_. move (map_option (\<lambda>(cv, v). Size_stock pid (cv_id cv) (v_id v)) (find_size (vs_variant_id sel) cvs))
       (nullish (vs_quantity sel) 1))"
proof (rule restores_add_at)
  fix s
  let ?mv = "move (map_option (\<lambda>(cv, v). Size_stock pid (cv_id cv) (v_id v)) (find_size (vs_variant_id sel) cvs))
      (nullish (vs_quantity sel) 1)"
  show "?mv = [] \<and> restore_size pid cvs sel s = (Inr (), s) \<or>
    (\<exists>l q. ?mv = move (Some l) q \<and> (yard_free l \<or> 0 \<le> q) \<and> restore_size pid cvs sel s = (Inr (), add_at l q s))"
  proof (cases "find_size (vs_variant_id sel) cvs")
    case None
    then show ?thesis by (simp add: restore_size_def move_def)
  next
    case (Some r)
    obtain cv v where "r = (cv, v)" by force
    with Some show ?thesis
      by (intro disjI2 exI [of _ "Size_stock pid (cv_id cv) (v_id v)"] exI [of _ "nullish (vs_quantity sel) 1"])
        (simp add: restore_size_def)
  qed
qed

lemma restores_sizes:
  "restores (restore_sizes item) (\<lambda>s. concat (map (\<lambda>sel. size_moves item sel s) (i_color_variant_selections item)))"
proof (cases "i_color_variant_selections item = []")
  case True
  then show ?thesis by (simp add: restore_sizes_def restores_ret)
next
  case sels: False
  show ?thesis unfolding restores_def
  proof (intro allI impI)
    fix s assume ok: "stock_ok s"
    let ?mv = "concat (map (\<lambda>sel. size_moves item sel s) (i_color_variant_selections item))"
    show "restore_sizes item s = (Inr (), add_all ?mv s) \<and> stock_ok (add_all ?mv s)"
    proof (cases "find_product (i_product item) s")
      case None
      then have "?mv = []" by (simp add: size_moves_def size_loc_def move_def)
      moreover have "restore_sizes item s = (Inr (), s)" using None sels by (simp add: restore_sizes_def andThen_app)
      ultimately show ?thesis using ok by (simp only: add_all.simps simp_thms)
    next
      case (Some p)
      have "restores (for_each (i_color_variant_selections item) (restore_size (p_id p) (clothing_colors p)))
          (\<lambda>t. concat (map (\<lambda>sel. (\<lambda>_. move (map_option (\<lambda>(cv, v). Size_stock (p_id p) (cv_id cv) (v_id v))
             (find_size (vs_variant_id sel) (clothing_colors p))) (nullish (vs_quantity sel) 1)) t) (i_color_variant_selections item)))"
        by (intro restores_for_each restores_size) (simp add: by_shape_def)
      moreover have "?mv = concat (map (\<lambda>sel. move (map_option (\<lambda>(cv, v). Size_stock (p_id p) (cv_id cv) (v_id v))
             (find_size (vs_variant_id sel) (clothing_colors p))) (nullish (vs_quantity sel) 1)) (i_color_variant_selections item))"
        using Some by (simp add: size_moves_def size_loc_def product_size_loc_def)
      ultimately show ?thesis using ok Some sels by (simp add: restores_def restore_sizes_def andThen_app)
    qed
  qed
qed

lemma restores_applied:
  assumes "truthy_num (i_applied_fabric_yards item) \<longrightarrow> 1/10 \<le> nullish (i_applied_fabric_yards item) 0"
  shows "restores (restore_applied_fabric item) (applied_moves item)"
proof (rule restores_add_at)
  fix s assume ok: "stock_ok s"
  let ?q = "nullish (i_applied_fabric_yards item) 0"
  show "applied_moves item s = [] \<and> restore_applied_fabric item s = (Inr (), s) \<or>
    (\<exists>l q. applied_moves item s = move (Some l) q \<and> (yard_free l \<or> 0 \<le> q) \<and>
       restore_applied_fabric item s = (Inr (), add_at l q s))"
  proof (cases "applied_loc item s")
    case None
    then show ?thesis
      by (intro disjI1) (auto simp: applied_moves_def move_def restore_applied_fabric_def applied_loc_def andThen_app
          bind_eq_None_conv split: option.splits bool.splits if_splits)
  next
    case (Some l)
    then obtain fid p f where i: "i_applied_fabric item = Some fid" "truthy_num (i_applied_fabric_yards item)"
      and p: "find_product (Some fid) s = Some p" "p_fabric p = Some f" and l: "l = Own_fabric (p_id p)"
      by (auto simp: applied_loc_def bind_eq_Some_conv split: option.splits bool.splits if_splits)
    have q: "1/10 \<le> ?q" using assms i(2) by simp
    have "\<not> f_yard_length f + ?q < 1/10" using yards_ok_own [OF ok p] q by simp
    with i p l have "restore_applied_fabric item s = (Inr (), add_at l ?q s)"
      by (simp add: restore_applied_fabric_def validate_yards_def Let_def andThen_app)
    moreover have "applied_moves item s = move (Some l) ?q" using Some by (simp add: applied_moves_def)
    moreover have "0 \<le> ?q" using q by simp
    ultimately show ?thesis by blast
  qed
qed

lemma restores_item:
  assumes "good_quantities item"
  shows "restores (restore_item item) (item_moves item)"
proof -
  have "1/10 \<le> yards_of sel" if "sel \<in> set (i_fabric_selections item)" for sel
    using assms that by (simp add: good_quantities_def)
  moreover have "truthy_num (i_applied_fabric_yards item) \<longrightarrow> 1/10 \<le> nullish (i_applied_fabric_yards item) 0"
    using assms by (simp add: good_quantities_def)
  ultimately show ?thesis
    unfolding restore_item_def item_moves_def
    by (intro restores_andThen restores_for_each restores_fabric restores_accessory restores_sizes restores_applied
        by_shape_append by_shape_concat moves_by_shape)
qed

lemma restores_items:
  "(\<And>item. item \<in> set items \<Longrightarrow> good_quantities item) \<Longrightarrow> restores (for_each items restore_item) (items_moves items)"
  unfolding items_moves_def by (intro restores_for_each restores_item item_moves_by_shape)

section \<open>The order's flag\<close>

lemma set_deducted_stock [simp]:
  "db_products (set_deducted i b s) = db_products s" "db_fabrics (set_deducted i b s) = db_fabrics s"
  "db_accessories (set_deducted i b s) = db_accessories s"
  by (simp_all add: set_deducted_def)

lemma stock_ok_set_deducted [simp]: "stock_ok (set_deducted i b s) = stock_ok s"
  by (simp add: stock_ok_def wf_stock_def stocked_def yards_ok_def)

lemma same_shape_set_deducted: "same_shape (set_deducted i b s) s"
  by (simp add: same_shape_def)

lemma add_at_orders [simp]: "db_orders (add_at l q s) = db_orders s"
  by (cases l) (simp_all add: on_product_def on_fabric_doc_def on_accessory_doc_def)

lemma add_all_orders [simp]: "db_orders (add_all ms s) = db_orders s"
  by (induction ms s rule: add_all.induct) simp_all

lemma add_at_set_deducted: "add_at l q (set_deducted i b s) = set_deducted i b (add_at l q s)"
  by (cases l) (simp_all add: on_product_def on_fabric_doc_def on_accessory_doc_def set_deducted_def)

lemma add_all_set_deducted: "add_all ms (set_deducted i b s) = set_deducted i b (add_all ms s)"
  by (induction ms s rule: add_all.induct) (simp_all add: add_at_set_deducted)

lemma set_deducted_back:
  assumes "find_one (\<lambda>od. o_id od = i) (db_orders s) = Some ord" "\<not> o_inventory_deducted ord"
  shows "set_deducted i False (set_deducted i True s) = s"
proof -
  have "update_one (\<lambda>od. o_id od = i) (\<lambda>od. od\<lparr>o_inventory_deducted := False\<rparr>)
      (update_one (\<lambda>od. o_id od = i) (\<lambda>od. od\<lparr>o_inventory_deducted := True\<rparr>) ds) = ds"
    if "find_one (\<lambda>od. o_id od = i) ds = Some ord" for ds
    using that assms(2) by (induction ds) (auto split: if_splits)
  with assms(1) show ?thesis by (simp add: set_deducted_def)
qed

section \<open>Properties of the stock operations\<close>

lemma updateInventory_run:
  assumes "find_one (\<lambda>od. o_id od = i) (db_orders s) = Some ord" "o_items ord \<noteq> []" "\<not> o_inventory_deducted ord"
    and "updateInventory i s = (Inr (), s')"
  obtains t where "for_each (o_items ord) deduct_item s = (Inr (), t)" "s' = set_deducted i True t"
proof -
  have "andThen (for_each (o_items ord) deduct_item) (\<lambda>_. modify (set_deducted i True)) s = (Inr (), s')"
    using assms(4) assms(1-3) unfolding updateInventory_def with_transaction_ok by (simp add: andThen_app)
  then obtain t where "for_each (o_items ord) deduct_item s = (Inr (), t)" "s' = set_deducted i True t"
    by (cases "for_each (o_items ord) deduct_item s"; cases "fst (for_each (o_items ord) deduct_item s)")
      (auto simp: andThen_app)
  then show thesis by (rule that)
qed

text \<open>C10: Deducting an order's stock refines an abstract ledger of stock places: where updateInventory
  of an order not deducted yet succeeds, the new database is the old one with the quantity of every
  fabric, accessory, colour variant and applied fabric selection of every line taken from exactly the
  place (standalone document, garment or the product's own) where the selection is found, and the
  order flagged; nothing else changes.\<close>

theorem updateInventory_refines_moves:
  assumes "stock_ok s" "find_one (\<lambda>od. o_id od = orderId) (db_orders s) = Some ord"
    "o_items ord \<noteq> []" "\<not> o_inventory_deducted ord" "updateInventory orderId s = (Inr (), s')"
  shows "s' = set_deducted orderId True (add_all (negate (items_moves (o_items ord) s)) s)"
proof -
  obtain t where "for_each (o_items ord) deduct_item s = (Inr (), t)" "s' = set_deducted orderId True t"
    using updateInventory_run [OF assms(2-5)] by blast
  with deducts_items [of "o_items ord"] assms(1) show ?thesis by (simp add: deducts_def)
qed

text \<open>C11: Restoring undoes deducting. After updateInventory of an order, restoreInventory of the whole
  order gives back the very database from before: every stock number, and the order's flag.\<close>

theorem restore_undoes_deduct:
  assumes "stock_ok s" "find_one (\<lambda>od. o_id od = orderId) (db_orders s) = Some ord"
    "o_items ord \<noteq> []" "\<not> o_inventory_deducted ord"
    "list_all (\<lambda>item. good_quantities item \<and> \<not> i_rejected item) (o_items ord)"
    "updateInventory orderId s = (Inr (), s')"
  shows "restoreInventory orderId None None s' = (Inr (), s)"
proof -
  let ?mv = "items_moves (o_items ord)"
  obtain t where t: "for_each (o_items ord) deduct_item s = (Inr (), t)" "s' = set_deducted orderId True t"
    using updateInventory_run [OF assms(2-4,6)] by blast
  with deducts_items [of "o_items ord"] assms(1)
  have add: "t = add_all (negate (?mv s)) s" "stock_ok t" by (auto simp: deducts_def)
  have found: "find_one (\<lambda>od. o_id od = orderId) (db_orders s') = Some (ord\<lparr>o_inventory_deducted := True\<rparr>)"
    using assms(2) find_one_keyD [OF assms(2)] t(2) add(1)
    by (simp add: set_deducted_def find_one_update_one_same)
  have items: "items_to_restore None None (o_items ord) = o_items ord"
    using assms(5) by (simp add: items_to_restore_def list_all_iff)
  have "same_shape s' s" using t(2) add(1) same_shape_trans [OF same_shape_set_deducted same_shape_add_all] by blast
  moreover have "by_shape ?mv" unfolding items_moves_def by (intro by_shape_concat item_moves_by_shape)
  ultimately have mv: "?mv s' = ?mv s" by (simp add: by_shape_def)
  have "restores (for_each (o_items ord) restore_item) ?mv"
    using assms(5) by (intro restores_items) (simp add: list_all_iff)
  moreover have "stock_ok s'" using add(2) t(2) by simp
  ultimately have "for_each (o_items ord) restore_item s' = (Inr (), add_all (?mv s') s')"
    unfolding restores_def by blast
  then have "for_each (o_items ord) restore_item s' = (Inr (), add_all (?mv s) s')" unfolding mv .
  moreover have "add_all (?mv s) s' = set_deducted orderId True s"
    using assms(1) t(2) add(1) by (simp add: add_all_set_deducted add_all_inverse stock_ok_def)
  ultimately show ?thesis
    using found items assms(3) set_deducted_back [OF assms(2,4)]
    by (simp add: restoreInventory_def with_transaction_def andThen_app)
qed

text \<open>Deducting and restoring touch only the stock: everything else of the database is kept.\<close>

definition unstocked :: "db \<Rightarrow> db" where
  "unstocked s = s\<lparr>db_products := [], db_fabrics := [], db_accessories := []\<rparr>"

lemma preserves_bool [preserve_intros]:
  "\<lbrakk>preserves P m; preserves P n\<rbrakk> \<Longrightarrow> preserves P (case b of True \<Rightarrow> m | False \<Rightarrow> n)"
  by (cases b) simp_all

lemma stock_write_rest [simp]:
  "unstocked (on_product i f s) = unstocked s" "unstocked (on_fabric_doc i g s) = unstocked s"
  "unstocked (on_accessory_doc i v h s) = unstocked s"
  by (simp_all add: unstocked_def on_product_def on_fabric_doc_def on_accessory_doc_def)

lemma unstocked_eq:
  assumes "unstocked s = unstocked t"
  shows "db_orders s = db_orders t" "db_wallets s = db_wallets t" "db_next s = db_next t"
  using arg_cong [OF assms, of db_orders] arg_cong [OF assms, of db_wallets] arg_cong [OF assms, of db_next]
  by (simp_all add: unstocked_def)

lemma deduct_keeps_rest: "preserves (\<lambda>s. unstocked s = u) (deduct_item item)"
proof -
  let ?P = "\<lambda>s. unstocked s = u"
  have "preserves ?P (updateFabric item)"
    unfolding updateFabric_def find_fabric_def updateFabricStock_def validate_yards_def
    by (intro preserve_intros) simp_all
  moreover have "preserves ?P (updateAccessory item)"
    unfolding updateAccessory_def find_accessory_variant_def updateAccessoryVariantStock_def Let_def
    by (intro preserve_intros) simp_all
  moreover have "preserves ?P (updateColorVariant item)"
    unfolding updateColorVariant_def deduct_size_def Let_def by (intro preserve_intros) simp_all
  moreover have "preserves ?P (deduct_applied_fabric item)"
    unfolding deduct_applied_fabric_def validate_yards_def Let_def by (intro preserve_intros) simp_all
  ultimately show ?thesis unfolding deduct_item_def by (intro preserve_intros)
qed

lemma restore_keeps_rest: "preserves (\<lambda>s. unstocked s = u) (restore_item item)"
proof -
  let ?P = "\<lambda>s. unstocked s = u"
  have "preserves ?P (restore_fabric i sel)" for i sel
    unfolding restore_fabric_def validate_yards_def Let_def by (intro preserve_intros) simp_all
  moreover have "preserves ?P (restore_accessory i sel)" for i sel
    unfolding restore_accessory_def Let_def by (intro preserve_intros) simp_all
  moreover have "preserves ?P (restore_sizes item)"
    unfolding restore_sizes_def restore_size_def Let_def by (intro preserve_intros) simp_all
  moreover have "preserves ?P (restore_applied_fabric item)"
    unfolding restore_applied_fabric_def validate_yards_def Let_def by (intro preserve_intros) simp_all
  ultimately show ?thesis unfolding restore_item_def by (intro preserve_intros)
qed

text \<open>What a whole deduction or restoration keeps: whatever does not depend on the stock nor on the flag.\<close>

lemma inventory_keeps:
  assumes "\<And>s t. unstocked s = unstocked t \<Longrightarrow> P s = P t" "\<And>flag s. P s \<Longrightarrow> P (set_deducted orderId flag s)"
  shows "preserves P (updateInventory orderId)" "preserves P (restoreInventory orderId b i)"
proof -
  have weaker: "preserves P m" if "\<And>u. preserves (\<lambda>s. unstocked s = u) m" for m :: "(db, 'x) action"
    unfolding preserves_def using preservesD [OF that] assms(1) by blast
  have deduct: "preserves P (deduct_item item)" and restore: "preserves P (restore_item item)" for item
    by (rule weaker, rule deduct_keeps_rest) (rule weaker, rule restore_keeps_rest)
  show "preserves P (updateInventory orderId)"
    unfolding updateInventory_def by (intro preserve_intros deduct assms(2))
  show "preserves P (restoreInventory orderId b i)"
    unfolding restoreInventory_def by (intro preserve_intros restore assms(2))
qed

definition deducted :: "db \<Rightarrow> oid \<Rightarrow> bool" where
  "deducted s orderId \<longleftrightarrow> (case find_one (\<lambda>od. o_id od = orderId) (db_orders s) of
     None \<Rightarrow> True | Some ord \<Rightarrow> o_items ord = [] \<or> o_inventory_deducted ord)"

lemma deducted_skip: "deducted s orderId \<Longrightarrow> updateInventory orderId s = (Inr (), s)"
  by (auto simp: deducted_def updateInventory_def with_transaction_def andThen_app split: option.splits)

lemma deducted_after:
  assumes run: "updateInventory orderId s = (Inr (), s')"
  shows "deducted s' orderId"
proof (cases "deducted s orderId")
  case True
  with run show ?thesis by (simp add: deducted_skip)
next
  case False
  then obtain ord where ord: "find_one (\<lambda>od. o_id od = orderId) (db_orders s) = Some ord" "o_items ord \<noteq> []"
    "\<not> o_inventory_deducted ord" by (auto simp: deducted_def split: option.splits)
  obtain t where t: "for_each (o_items ord) deduct_item s = (Inr (), t)" "s' = set_deducted orderId True t"
    using updateInventory_run [OF ord run] by blast
  have "unstocked t = unstocked s"
    using preservesD [OF preserves_for_each [where f = deduct_item, OF deduct_keeps_rest], of s "unstocked s" "o_items ord"]
      t(1) by simp
  then have "db_orders t = db_orders s" by (rule unstocked_eq(1))
  then have "find_one (\<lambda>od. o_id od = orderId) (db_orders s') = Some (ord\<lparr>o_inventory_deducted := True\<rparr>)"
    using ord(1) find_one_keyD [OF ord(1)] t(2) by (simp add: set_deducted_def find_one_update_one_same)
  then show ?thesis by (simp add: deducted_def)
qed

text \<open>Deducting happens at most once and never by halves: when updateInventory throws, nothing has
  changed; when it succeeds, calling it again for the same order changes nothing more.\<close>

theorem deduction_once_or_nothing:
  "case updateInventory orderId s of
     (Inl e, s') \<Rightarrow> s' = s
   | (Inr _, s') \<Rightarrow> updateInventory orderId s' = (Inr (), s')"
proof (cases "updateInventory orderId s")
  case (Pair r s')
  show ?thesis
  proof (cases r)
    case (Inl e)
    with Pair have "updateInventory orderId s = (Inl e, s')" by (simp only:)
    then have "s' = s" unfolding updateInventory_def by (rule with_transaction_err)
    with Pair Inl show ?thesis by simp
  next
    case (Inr u)
    with Pair have "deducted s' orderId" by (intro deducted_after [of orderId s]) simp
    with Pair Inr show ?thesis by (simp add: deducted_skip)
  qed
qed

text \<open>The check that enough is in stock reads the colour variants once, before the loop: an item
  whose selections are each within the stock read is accepted however often they name the same size,
  and every selection is taken off, so the stock can end below zero.\<close>

theorem repeated_selections_oversell:
  assumes "find_product (i_product item) s = Some p"
    "list_all (\<lambda>sel. case find_size (vs_variant_id sel) (clothing_colors p) of None \<Rightarrow> False
       | Some (_, v) \<Rightarrow> nullish (vs_quantity sel) 1 \<le> nullish (v_stock v) 0)
     (i_color_variant_selections item)"
  shows "updateColorVariant item s =
    (Inr (), add_all (negate (concat (map (\<lambda>sel. size_moves item sel s) (i_color_variant_selections item)))) s)"
proof -
  have loop: "for_each sels (deduct_size (p_id p) (clothing_colors p)) t =
      (Inr (), add_all (negate (concat (map (\<lambda>sel. size_moves item sel s) sels))) t)"
    if "list_all (\<lambda>sel. case find_size (vs_variant_id sel) (clothing_colors p) of None \<Rightarrow> False
       | Some (_, v) \<Rightarrow> nullish (vs_quantity sel) 1 \<le> nullish (v_stock v) 0) sels" for sels t
    using that
  proof (induction sels arbitrary: t)
    case Nil
    then show ?case by (simp add: negate_def)
  next
    case (Cons sel sels)
    then obtain cv v where v: "find_size (vs_variant_id sel) (clothing_colors p) = Some (cv, v)"
      "\<not> nullish (v_stock v) 0 < nullish (vs_quantity sel) 1"
      by (auto split: option.splits prod.splits)
    then have "size_moves item sel s = [(Size_stock (p_id p) (cv_id cv) (v_id v), nullish (vs_quantity sel) 1)]"
      using assms(1) by (simp add: size_moves_def size_loc_def product_size_loc_def move_def)
    with v Cons show ?case by (simp add: deduct_size_def Let_def andThen_app negate_def)
  qed
  show ?thesis
  proof (cases "i_color_variant_selections item = []")
    case True
    then show ?thesis by (simp add: updateColorVariant_def negate_def)
  next
    case False
    with assms(1) loop [OF assms(2), of s] show ?thesis by (simp add: updateColorVariant_def andThen_app)
  qed
qed

text \<open>A garment with five pieces of one size, ten yards of a fabric, and an order for both.\<close>

definition sample_variant :: variant where
  "sample_variant = \<lparr>v_id = 21, v_size = Some ''M'', v_stock = Some 5, v_price = None, v_yard_per_order = None, v_sku = None\<rparr>"

definition sample_clothing :: clothing where
  "sample_clothing = \<lparr>c_type = NON_CUSTOMIZE, c_name = ''kaftan'', c_description = None, c_turnaround_days = None,
     c_styles = [], c_accessories = [], c_color_variants = [\<lparr>cv_id = 20, cv_name = ''red'', cv_hex = ''#f00'',
     cv_variants = [sample_variant]\<rparr>], c_fabrics = [], c_yardage_per_size = [], c_accepts_external_fabric = None,
     c_addons = []\<rparr>"

definition sample_product :: product where
  "sample_product = \<lparr>p_id = 10, p_kind = CLOTHING, p_base_price = 100, p_status = P_active, p_fabric = None,
     p_accessory = None, p_clothing = Some sample_clothing, p_business = Some 1, p_scheduled_activation_date = None,
     p_applied_discount = None, p_discounted_price = None, p_discount_percentage = None, p_collections = []\<rparr>"

definition sample_fabric :: fabric where
  "sample_fabric = \<lparr>f_id = 30, f_name = ''ankara'', f_description = None, f_product_type = ''fabric'', f_material = None,
     f_pattern = None, f_yard_length = 10, f_width = 1, f_min_cut = 1, f_price_per_yard = 20, f_variants = []\<rparr>"

definition sample_pieces :: "rat \<Rightarrow> variant_selection" where
  "sample_pieces q = \<lparr>vs_variant_id = 21, vs_size = None, vs_color = None, vs_hex = None, vs_price = None,
     vs_quantity = Some q, vs_total_amount = None\<rparr>"

definition sample_line :: "rat list \<Rightarrow> fabric_selection list \<Rightarrow> order_item" where
  "sample_line qs fabrics = (sample_item 6 1000)\<lparr>i_product := Some 10,
     i_color_variant_selections := map sample_pieces qs, i_fabric_selections := fabrics\<rparr>"

definition sample_stock :: "rat list \<Rightarrow> db" where
  "sample_stock qs = empty_db\<lparr>db_products := [sample_product], db_fabrics := [sample_fabric],
     db_orders := [sample_order\<lparr>o_items := [sample_line qs [\<lparr>fs_fabric_id = 30, fs_yardage = Some 3, fs_price = None,
       fs_quantity = None, fs_total_amount = None\<rparr>]]\<rparr>]\<rparr>"

lemmas sample_stock_defs = sample_stock_def sample_line_def sample_item_def sample_order_def sample_pieces_def
  sample_fabric_def sample_product_def sample_clothing_def sample_variant_def empty_db_def

definition size_stock :: "db \<Rightarrow> rat option list" where
  "size_stock s = map v_stock (concat (map cv_variants (concat (map clothing_colors (db_products s)))))"

lemma sample_stock_ok: "stock_ok (sample_stock qs)"
  by (simp add: stock_ok_def wf_stock_def stocked_def stocked_product_def yards_ok_def sample_stock_defs
      clothing_fabrics_def clothing_accessories_def clothing_colors_def product_shape_def)

lemmas run_inventory = updateInventory_def with_transaction_def andThen_app deduct_item_def updateFabric_def
  updateAccessory_def updateColorVariant_def deduct_applied_fabric_def find_fabric_def updateFabricStock_def
  validate_yards_def yards_of_def deduct_size_def Let_def find_product_def clothing_colors_def on_fabric_doc_def
  on_product_def on_size_def on_clothing_def on_yards_def inc_stock_def update_many_def set_deducted_def

lemma sample_deducted:
  "fst (updateInventory 3 (sample_stock [2])) = Inr ()"
  "size_stock (snd (updateInventory 3 (sample_stock [2]))) = [Some 3]"
  "map f_yard_length (db_fabrics (snd (updateInventory 3 (sample_stock [2])))) = [7]"
  by (simp_all add: run_inventory sample_stock_defs size_stock_def)

lemma sample_stock_order:
  "find_one (\<lambda>od. o_id od = 3) (db_orders (sample_stock qs)) = Some (hd (db_orders (sample_stock qs)))"
  "o_items (hd (db_orders (sample_stock qs))) \<noteq> []" "\<not> o_inventory_deducted (hd (db_orders (sample_stock qs)))"
  "list_all (\<lambda>item. good_quantities item \<and> \<not> i_rejected item) (o_items (hd (db_orders (sample_stock qs))))"
  by (simp_all add: sample_stock_defs good_quantities_def yards_of_def)

lemma sample_deducted_run:
  "updateInventory 3 (sample_stock [2]) = (Inr (), snd (updateInventory 3 (sample_stock [2])))"
  using sample_deducted(1) by (simp add: prod_eq_iff)

theorem updateInventory_refines_moves_witness:
  "\<exists>s'. updateInventory 3 (sample_stock [2]) = (Inr (), s') \<and>
     s' = set_deducted 3 True (add_at (Size_stock 10 20 21) (- 2) (add_at (Fabric_doc 30) (- 3) (sample_stock [2])))"
proof -
  have moves: "items_moves (o_items (hd (db_orders (sample_stock [2])))) (sample_stock [2]) =
      [(Fabric_doc 30, 3), (Size_stock 10 20 21, 2)]"
    by (simp add: items_moves_def item_moves_def fabric_moves_def fabric_loc_def size_moves_def size_loc_def
        product_size_loc_def applied_moves_def applied_loc_def move_def find_product_def clothing_colors_def
        yards_of_def sample_stock_defs)
  from updateInventory_refines_moves [OF sample_stock_ok sample_stock_order(1-3) sample_deducted_run]
  have "snd (updateInventory 3 (sample_stock [2])) =
    set_deducted 3 True (add_at (Size_stock 10 20 21) (- 2) (add_at (Fabric_doc 30) (- 3) (sample_stock [2])))"
    unfolding moves by (simp only: negate_def list.map prod.case add_all.simps)
  with sample_deducted_run show ?thesis by (intro exI conjI)
qed

theorem restore_undoes_deduct_witness:
  "\<exists>s'. updateInventory 3 (sample_stock [2]) = (Inr (), s') \<and> size_stock s' = [Some 3] \<and>
     restoreInventory 3 None None s' = (Inr (), sample_stock [2])"
  using restore_undoes_deduct [OF sample_stock_ok sample_stock_order sample_deducted_run] sample_deducted(2)
    sample_deducted_run by (intro exI conjI)

theorem repeated_selections_oversell_witness:
  "size_stock (snd (updateColorVariant (sample_line [3, 3] []) (sample_stock []))) = [Some (- 1)]"
proof -
  have "updateColorVariant (sample_line [3, 3] []) (sample_stock []) = (Inr (), add_all (negate (concat
      (map (\<lambda>sel. size_moves (sample_line [3, 3] []) sel (sample_stock [])) (i_color_variant_selections (sample_line [3, 3] [])))))
      (sample_stock []))"
    by (rule repeated_selections_oversell [of _ _ sample_product])
      (simp_all add: find_product_def clothing_colors_def sample_stock_defs)
  then show ?thesis
    by (simp add: size_stock_def size_moves_def size_loc_def product_size_loc_def move_def negate_def find_product_def
        clothing_colors_def on_product_def on_size_def on_clothing_def inc_stock_def update_many_def sample_stock_defs)
qed

end
