(* ===== verification/Orders.thy ===== *)
theory Orders
  imports Documents
begin

text \<open>
  Storing a new order (\<open>src/modules/orders/schemas/orders.schema.ts\<close>): the schema's defaults, and the
  validation Mongoose runs on the enumeration of the type and on the minima of the selections. An
  order that fails it is not stored.
\<close>

definition default_order :: "oid \<Rightarrow> oid \<Rightarrow> oid \<Rightarrow> instant \<Rightarrow> order" where
  "default_order i reference customer now = \<lparr>o_id = i, o_reference = reference, o_customer = customer, o_items = [],
     o_subtotal = 0, o_shipping_fee = 0, o_total = 0, o_status = O_PENDING, o_type = Standard,
     o_bespoke_design = None, o_bespoke_quote = None, o_shipments = [],
     o_vendor_earnings = 0, o_platform_commission = 0, o_earnings_recorded = False, o_inventory_deducted = False,
     o_payout_eligible_at = None, o_payout_status = Payout_pending, o_payment_status = Unpaid,
     o_refund_status = Refund_none, o_customer_satisfied = False, o_customer_satisfied_at = None, o_createdAt = now\<rparr>"

definition default_item :: "oid \<Rightarrow> order_item" where
  "default_item i = \<lparr>i_id = i, i_product = None, i_business = None, i_color_variant_selections = [],
     i_fabric_selections = [], i_style_selections = [], i_accessory_selections = [], i_addon_selections = [],
     i_applied_fabric = None, i_applied_fabric_yards = None, i_note = None, i_total_price = Some 0, i_pricing = None,
     i_rejected = False, i_rejected_at = None, i_rejection_reason = None\<rparr>"

definition min_ok :: "rat \<Rightarrow> rat option \<Rightarrow> bool" where
  "min_ok m x = (case x of None \<Rightarrow> True | Some v \<Rightarrow> m \<le> v)"

definition valid_variant_selection :: "variant_selection \<Rightarrow> bool" where
  "valid_variant_selection sel \<longleftrightarrow> min_ok 1 (vs_price sel) \<and> min_ok 1 (vs_quantity sel) \<and> min_ok 1 (vs_total_amount sel)"

definition valid_fabric_selection :: "fabric_selection \<Rightarrow> bool" where
  "valid_fabric_selection sel \<longleftrightarrow> min_ok (1/10) (fs_yardage sel) \<and> min_ok 1 (fs_price sel) \<and>
     min_ok 1 (fs_quantity sel) \<and> min_ok 1 (fs_total_amount sel)"

definition valid_style_selection :: "style_selection \<Rightarrow> bool" where
  "valid_style_selection sel \<longleftrightarrow> min_ok 1 (ss_price sel) \<and> min_ok 1 (ss_quantity sel) \<and> min_ok 1 (ss_total_amount sel)"

definition valid_accessory_selection :: "accessory_selection \<Rightarrow> bool" where
  "valid_accessory_selection sel \<longleftrightarrow> min_ok 1 (as_price sel) \<and> min_ok 1 (as_quantity sel) \<and> min_ok 1 (as_total_amount sel)"

definition valid_addon_selection :: "addon_selection \<Rightarrow> bool" where
  "valid_addon_selection sel \<longleftrightarrow> min_ok 1 (ads_quantity sel) \<and> min_ok 0 (ads_price sel) \<and> min_ok 0 (ads_total_amount sel)"

definition valid_item :: "order_item \<Rightarrow> bool" where
  "valid_item i \<longleftrightarrow> list_all valid_variant_selection (i_color_variant_selections i) \<and>
     list_all valid_fabric_selection (i_fabric_selections i) \<and> list_all valid_style_selection (i_style_selections i) \<and>
     list_all valid_accessory_selection (i_accessory_selections i) \<and> list_all valid_addon_selection (i_addon_selections i)"

definition insert_order :: "order \<Rightarrow> (db, unit) action" where
  "insert_order ord =
     (if o_type ord \<notin> {Standard, Bespoke} then throw (ExternalError ''ValidationError: type'')
      else if \<not> list_all valid_item (o_items ord) then throw (ExternalError ''ValidationError: items'')
      else modify (\<lambda>s. s\<lparr>db_orders := db_orders s @ [ord]\<rparr>))"

lemma insert_order_Inl: "insert_order ord s = (Inl e, t) \<Longrightarrow> t = s"
  by (auto simp: insert_order_def split: if_splits)

lemma insert_order_Inr:
  "insert_order ord s = (Inr u, t) \<longleftrightarrow> (o_type ord = Standard \<or> o_type ord = Bespoke) \<and>
     list_all valid_item (o_items ord) \<and> t = s\<lparr>db_orders := db_orders s @ [ord]\<rparr>"
  by (auto simp: insert_order_def)


end
