(* ===== verification/Reservations.thy ===== *)
theory Reservations
  imports Inventory Tokens Orders
begin

text \<open>
  Fabric reservations for events (\<open>src/modules/fabric-reservation/fabric-reservation.service.ts\<close>): an
  organizer locks yards of a fabric product until a deadline, guests claim from them, and the rest
  returns to the product on cancellation or when the hourly cron finds the deadline passed. A
  document is written by the fields that changed: a save sets the value computed from what was read
  before. The Paystack initialisation is the parameter \<open>pay_init\<close> (the error raised for a reference,
  if any); its effect on the transaction's metadata, the e-mail address sent and the paginated
  listings are left out.
\<close>

section \<open>The order made for a reservation\<close>

definition fabric_order_item :: "oid \<Rightarrow> oid \<Rightarrow> oid option \<Rightarrow> oid \<Rightarrow> rat \<Rightarrow> rat \<Rightarrow> string \<Rightarrow> order_item" where
  "fabric_order_item itemId productId business fabricId yards price note = (default_item itemId)
     \<lparr>i_product := Some productId, i_business := business, i_fabric_selections :=
        [\<lparr>fs_fabric_id = fabricId, fs_yardage = Some yards, fs_price = Some price, fs_quantity = Some 1,
          fs_total_amount = Some (yards * price)\<rparr>], i_note := Some note\<rparr>"

section \<open>Creating\<close>

record reservation_dto =
  rd_fabricId :: oid
  rd_eventName :: string
  rd_totalYards :: rat
  rd_deadline :: instant

definition set_own_yards :: "oid \<Rightarrow> rat \<Rightarrow> (db, unit) action" where
  "set_own_yards productId yards = andThen (validate_yards yards) (\<lambda>_.
     modify (on_product productId (on_own_fabric (\<lambda>_. yards))))"

definition reservation_fee :: "rat \<Rightarrow> rat \<Rightarrow> rat" where
  "reservation_fee feePercent totalFabricValue = js_ceil ((feePercent / 100) * totalFabricValue)"

definition insert_reservation :: "fabric_reservation \<Rightarrow> (db, unit) action" where
  "insert_reservation r =
     (if r_total_yards r < 1 \<or> r_claimed_yards r < 0 \<or> r_price_per_yard r < 0 \<or> r_reservation_fee r < 0 \<or> r_event_name r = []
      then throw (ExternalError ''ValidationError: reservation'')
      else modify (\<lambda>s. s\<lparr>db_reservations := db_reservations s @ [r]\<rparr>))"

definition set_reservation :: "oid \<Rightarrow> (fabric_reservation \<Rightarrow> fabric_reservation) \<Rightarrow> db \<Rightarrow> db" where
  "set_reservation i f s = s\<lparr>db_reservations := update_one (\<lambda>r. r_id r = i) f (db_reservations s)\<rparr>"

definition reservation_transaction :: "oid option \<Rightarrow> oid \<Rightarrow> rat \<Rightarrow> channel \<Rightarrow> string \<Rightarrow> create_transaction_dto" where
  "reservation_transaction initiator orderId amount ch description = \<lparr>ct_initiator = initiator, ct_amount = amount,
     ct_type = DEBIT, ct_status = None, ct_wallet = None, ct_order = Some orderId, ct_channel = ch,
     ct_description = Some description, ct_currency = None, ct_payment_method = None, ct_metadata = Some empty_metadata\<rparr>"

definition initialize_payment :: "(oid \<Rightarrow> error option) \<Rightarrow> oid \<Rightarrow> (db, unit) action" where
  "initialize_payment pay_init reference = (case pay_init reference of None \<Rightarrow> ret () | Some e \<Rightarrow> throw e)"

definition createReservation ::
  "(oid \<Rightarrow> error option) \<Rightarrow> reservation_dto \<Rightarrow> oid \<Rightarrow> instant \<Rightarrow> (db, fabric_reservation) action" where
  "createReservation pay_init dto organizer now =
     andThen (gets (find_product (Some (rd_fabricId dto)))) (\<lambda>fabricProduct.
     case fabricProduct of
       None \<Rightarrow> throw (BadRequestException ''Invalid fabric: product not found or not a fabric type'')
     | Some p \<Rightarrow>
     if p_kind p \<noteq> FABRIC
     then throw (BadRequestException ''Invalid fabric: product not found or not a fabric type'')
     else (case p_fabric p of
       None \<Rightarrow> throw (BadRequestException ''Fabric data is missing from this product'')
     | Some f \<Rightarrow>
     if f_yard_length f < rd_totalYards dto then throw (BadRequestException ''Not enough fabric available'')
     else if rd_totalYards dto < f_min_cut f then throw (BadRequestException ''Minimum reservation'')
     else if rd_deadline dto \<le> now then throw (BadRequestException ''Deadline must be in the future'')
     else andThen getSettings (\<lambda>settings.
     let totalFabricValue = rd_totalYards dto * f_price_per_yard f;
         fee = reservation_fee (nullish (reservation_fee_percent settings) 10) totalFabricValue
     in andThen (set_own_yards (p_id p) (f_yard_length f - rd_totalYards dto)) (\<lambda>_.
     andThen fresh (\<lambda>reference. andThen fresh (\<lambda>rid.
     let r = \<lparr>r_id = rid, r_reference = reference, r_organizer = organizer, r_fabric = p_id p,
              r_event_name = rd_eventName dto, r_total_yards = rd_totalYards dto, r_claimed_yards = 0,
              r_price_per_yard = f_price_per_yard f, r_reservation_fee = fee, r_fee_transaction = None,
              r_deadline = rd_deadline dto, r_status = R_ACTIVE\<rparr>
     in andThen (insert_reservation r) (\<lambda>_.
     andThen fresh (\<lambda>orderReference. andThen fresh (\<lambda>orderId. andThen fresh (\<lambda>itemId.
     andThen (insert_order ((default_order orderId orderReference organizer now)
       \<lparr>o_items := [fabric_order_item itemId (p_id p) (p_business p) (f_id f) (rd_totalYards dto) (f_price_per_yard f)
          (''Reservation fee for event: '' @ rd_eventName dto)],
        o_subtotal := fee, o_total := fee, o_type := Order_reservation\<rparr>)) (\<lambda>_.
     andThen (create_transaction (reservation_transaction (Some organizer) orderId fee Reservation_channel
       ''Reservation fee'')) (\<lambda>tx.
     andThen (modify (set_reservation rid (\<lambda>r. r\<lparr>r_fee_transaction := Some (t_id tx)\<rparr>))) (\<lambda>_.
     andThen (initialize_payment pay_init (t_reference tx)) (\<lambda>_.
     ret (r\<lparr>r_fee_transaction := Some (t_id tx)\<rparr>)))))))))))))))"

section \<open>Claiming\<close>

definition claimFromReservation ::
  "(oid \<Rightarrow> error option) \<Rightarrow> oid \<Rightarrow> rat \<Rightarrow> oid option \<Rightarrow> instant \<Rightarrow> (db, fabric_claim) action" where
  "claimFromReservation pay_init reservationId yards guest now =
     andThen (gets (\<lambda>s. find_one (\<lambda>r. r_id r = reservationId) (db_reservations s))) (\<lambda>r. case r of
       None \<Rightarrow> throw (NotFoundException ''Reservation not found'')
     | Some r \<Rightarrow>
     if r_status r \<noteq> R_ACTIVE then throw (BadRequestException ''Claims are no longer accepted'')
     else if r_deadline r < now then throw (BadRequestException ''This reservation has passed its deadline'')
     else if r_total_yards r - r_claimed_yards r < yards then throw (BadRequestException ''Not enough yards available'')
     else andThen (gets (find_product (Some (r_fabric r)))) (\<lambda>fabricProduct.
     let fab = Option.bind fabricProduct p_fabric
     in if truthy_num (map_option f_min_cut fab) \<and> yards < nullish (map_option f_min_cut fab) 0
     then throw (BadRequestException ''Minimum claim'')
     else let totalAmount = yards * r_price_per_yard r
     in andThen fresh (\<lambda>orderReference. andThen fresh (\<lambda>orderId. andThen fresh (\<lambda>itemId.
     case guest of
       None \<Rightarrow> throw (ExternalError ''ValidationError: customer'')
     | Some customer \<Rightarrow>
     andThen (insert_order ((default_order orderId orderReference customer now)
       \<lparr>o_items := [fabric_order_item itemId (r_fabric r) (Option.bind fabricProduct p_business)
          (nullish (map_option f_id fab) (r_fabric r)) yards (r_price_per_yard r)
          (''Fabric claim from reservation: '' @ r_event_name r)],
        o_subtotal := totalAmount, o_total := totalAmount, o_type := Order_reservation_claim\<rparr>)) (\<lambda>_.
     andThen fresh (\<lambda>cid.
     let claim = \<lparr>fc_id = cid, fc_reservation = r_id r, fc_guest = guest, fc_order = Some orderId,
                  fc_yards_claimed = yards, fc_total_amount = totalAmount\<rparr>
     in andThen (if yards < 1/10 \<or> totalAmount < 0 then throw (ExternalError ''ValidationError: claim'')
                 else modify (\<lambda>s. s\<lparr>db_claims := db_claims s @ [claim]\<rparr>)) (\<lambda>_.
     andThen (modify (set_reservation (r_id r) (\<lambda>d. d\<lparr>r_claimed_yards := r_claimed_yards r + yards,
       r_status := (if r_total_yards r \<le> r_claimed_yards r + yards then R_COMPLETED else r_status d)\<rparr>))) (\<lambda>_.
     andThen (create_transaction (reservation_transaction guest orderId totalAmount Checkout
       ''Fabric claim from reservation'')) (\<lambda>tx.
     andThen (initialize_payment pay_init (t_reference tx)) (\<lambda>_.
     ret claim)))))))))))"

section \<open>Releasing\<close>

text \<open>Both releases work on the reservation as read before; the product is read at that moment.\<close>

definition release_unclaimed :: "fabric_reservation \<Rightarrow> (db, unit) action" where
  "release_unclaimed r =
     (let unclaimed = r_total_yards r - r_claimed_yards r
      in if 0 < unclaimed
         then andThen (gets (find_product (Some (r_fabric r)))) (\<lambda>fabricProduct.
              case fabricProduct of
                None \<Rightarrow> ret ()
              | Some p \<Rightarrow> (case p_fabric p of
                  None \<Rightarrow> ret ()
                | Some f \<Rightarrow> set_own_yards (p_id p) (f_yard_length f + unclaimed)))
         else ret ())"

definition cancelReservation :: "oid \<Rightarrow> oid \<Rightarrow> (db, unit) action" where
  "cancelReservation reservationId organizerId =
     andThen (gets (\<lambda>s. find_one (\<lambda>r. r_id r = reservationId) (db_reservations s))) (\<lambda>r. case r of
       None \<Rightarrow> throw (NotFoundException ''Reservation not found'')
     | Some r \<Rightarrow>
     if r_organizer r \<noteq> organizerId then throw (ForbiddenException ''You are not the organizer of this reservation'')
     else if r_status r \<noteq> R_ACTIVE then throw (BadRequestException ''Cannot cancel'')
     else andThen (release_unclaimed r) (\<lambda>_.
          modify (set_reservation (r_id r) (\<lambda>d. d\<lparr>r_status := R_CANCELLED\<rparr>))))"

definition expire_one :: "fabric_reservation \<Rightarrow> (db, unit) action" where
  "expire_one r = attempt
     (andThen (release_unclaimed r) (\<lambda>_. modify (set_reservation (r_id r) (\<lambda>d. d\<lparr>r_status := R_EXPIRED\<rparr>))))
     (\<lambda>_. ret ())"

definition expired_reservations :: "instant \<Rightarrow> db \<Rightarrow> fabric_reservation list" where
  "expired_reservations now s = filter (\<lambda>r. r_deadline r < now \<and> r_status r = R_ACTIVE) (db_reservations s)"

definition releaseExpiredReservations :: "instant \<Rightarrow> (db, unit) action" where
  "releaseExpiredReservations now = andThen (gets (expired_reservations now)) (\<lambda>rs. for_each rs expire_one)"

section \<open>Reading\<close>

record reservation_details =
  pg_total_yards :: rat
  pg_claimed_yards :: rat
  pg_remaining_yards :: rat
  pg_progress_percent :: rat
  pg_is_expired :: bool
  pg_is_sold_out :: bool

definition getReservationDetails :: "oid \<Rightarrow> instant \<Rightarrow> (db, reservation_details) action" where
  "getReservationDetails reservationId now =
     andThen (gets (\<lambda>s. find_one (\<lambda>r. r_id r = reservationId) (db_reservations s))) (\<lambda>r. case r of
       None \<Rightarrow> throw (NotFoundException ''Reservation not found'')
     | Some r \<Rightarrow>
         let remaining = r_total_yards r - r_claimed_yards r
         in ret \<lparr>pg_total_yards = r_total_yards r, pg_claimed_yards = r_claimed_yards r, pg_remaining_yards = remaining,
                 pg_progress_percent = (if 0 < r_total_yards r then js_round ((r_claimed_yards r / r_total_yards r) * 100) else 0),
                 pg_is_expired = (r_deadline r < now), pg_is_sold_out = (remaining \<le> 0)\<rparr>)"

section \<open>Yards are neither made nor lost\<close>

definition own_yards :: "oid \<Rightarrow> db \<Rightarrow> rat" where
  "own_yards i s = (case Option.bind (find_product (Some i) s) p_fabric of None \<Rightarrow> 0 | Some f \<Rightarrow> f_yard_length f)"

definition locked_by :: "oid \<Rightarrow> fabric_reservation \<Rightarrow> rat" where
  "locked_by i r = (if r_status r = R_ACTIVE \<and> r_fabric r = i then r_total_yards r - r_claimed_yards r else 0)"

definition locked_yards :: "oid \<Rightarrow> db \<Rightarrow> rat" where
  "locked_yards i s = (\<Sum>r\<leftarrow>db_reservations s. locked_by i r)"

definition all_yards :: "oid \<Rightarrow> db \<Rightarrow> rat" where
  "all_yards i s = own_yards i s + locked_yards i s"

definition has_fabric :: "oid \<Rightarrow> db \<Rightarrow> bool" where
  "has_fabric i s \<longleftrightarrow> Option.bind (find_product (Some i) s) p_fabric \<noteq> None"

definition priced :: "product \<Rightarrow> bool" where
  "priced p \<longleftrightarrow> (case p_fabric p of None \<Rightarrow> True | Some f \<Rightarrow> 0 \<le> f_price_per_yard f)"

definition wf_reservations :: "db \<Rightarrow> bool" where
  "wf_reservations s \<longleftrightarrow> distinct (map r_id (db_reservations s)) \<and>
     (\<forall>r\<in>set (db_reservations s). r_id r < db_next s \<and>
        (r_status r = R_ACTIVE \<longrightarrow> r_claimed_yards r \<le> r_total_yards r \<and> has_fabric (r_fabric r) s)) \<and>
     (\<forall>p\<in>set (db_products s). priced p) \<and>
     0 \<le> nullish (reservation_fee_percent (current_settings s)) 10"

lemma find_one_update_key:
  assumes "\<And>d. key (f d) = key d"
  shows "find_one (\<lambda>d. key d = i) (update_one (\<lambda>d. key d = j) f ds) =
    (if i = j then map_option f (find_one (\<lambda>d. key d = i) ds) else find_one (\<lambda>d. key d = i) ds)"
  using assms by (induction ds) auto

lemma find_product_on_product:
  assumes "\<And>p. p_id (f p) = p_id p"
  shows "find_product (Some i) (on_product j f s) =
    (if i = j then map_option f (find_product (Some i) s) else find_product (Some i) s)"
  using find_one_update_key [of p_id f, OF assms] by (simp add: find_product_def on_product_def)

lemma on_own_fabric_simps [simp]:
  "p_id (on_own_fabric g p) = p_id p" "p_fabric (on_own_fabric g p) = map_option (on_yards g) (p_fabric p)"
  by (simp_all add: on_own_fabric_def)

lemma own_yards_set:
  assumes "find_product (Some j) s = Some p" "p_fabric p = Some f"
  shows "own_yards i (on_product j (on_own_fabric (\<lambda>_. y)) s) = (if i = j then y else own_yards i s)"
  using assms by (auto simp: own_yards_def find_product_on_product on_yards_def split: option.splits)

lemma has_fabric_set [simp]: "has_fabric i (on_product j (on_own_fabric g) s) = has_fabric i s"
  by (auto simp: has_fabric_def find_product_on_product bind_eq_None_conv)

lemma priced_set [simp]: "priced (on_own_fabric g p) = priced p"
  by (simp add: priced_def on_own_fabric_def on_yards_def split: option.splits)

lemma priced_on_product:
  "\<forall>p\<in>set (db_products s). priced p \<Longrightarrow> \<forall>p\<in>set (db_products (on_product j (on_own_fabric g) s)). priced p"
  unfolding on_product_def by simp (rule update_one_all, auto)

lemma on_product_other [simp]:
  "db_reservations (on_product j f s) = db_reservations s" "db_next (on_product j f s) = db_next s"
  "db_settings (on_product j f s) = db_settings s"
  by (simp_all add: on_product_def)

lemma products_cong:
  assumes "db_products s = db_products t"
  shows "find_product i s = find_product i t" "own_yards k s = own_yards k t" "has_fabric k s = has_fabric k t"
  using assms by (simp_all add: find_product_def own_yards_def has_fabric_def split: option.split)

lemma set_reservation_products [simp]:
  "db_products (set_reservation i f s) = db_products s" "db_next (set_reservation i f s) = db_next s"
  "db_settings (set_reservation i f s) = db_settings s"
  by (simp_all add: set_reservation_def)

lemma set_reservation_simps [simp]:
  "find_product j (set_reservation i f s) = find_product j s"
  "own_yards k (set_reservation i f s) = own_yards k s" "has_fabric k (set_reservation i f s) = has_fabric k s"
  using products_cong [OF set_reservation_products(1)] by simp_all

lemma current_settings_cong: "db_settings s = db_settings t \<Longrightarrow> current_settings s = current_settings t"
  by (simp add: current_settings_def)

lemma wf_reservations_product:
  "wf_reservations s \<Longrightarrow> wf_reservations (on_product j (on_own_fabric g) s)"
  using priced_on_product [of s j g] current_settings_cong [of "on_product j (on_own_fabric g) s" s]
  by (simp add: wf_reservations_def)

lemma wf_reservations_status:
  assumes "wf_reservations s" "st \<noteq> R_ACTIVE"
  shows "wf_reservations (set_reservation i (\<lambda>d. d\<lparr>r_status := st\<rparr>) s)"
proof -
  let ?rs = "update_one (\<lambda>r. r_id r = i) (\<lambda>d. d\<lparr>r_status := st\<rparr>) (db_reservations s)"
  have "map r_id ?rs = map r_id (db_reservations s)" by (rule map_update_one) simp
  moreover have "\<forall>r\<in>set ?rs. r_id r < db_next s \<and>
      (r_status r = R_ACTIVE \<longrightarrow> r_claimed_yards r \<le> r_total_yards r \<and> has_fabric (r_fabric r) s)"
    by (rule update_one_all) (use assms in \<open>auto simp: wf_reservations_def\<close>)
  ultimately show ?thesis
    using assms(1) current_settings_cong [of "set_reservation i (\<lambda>d. d\<lparr>r_status := st\<rparr>) s" s]
    unfolding wf_reservations_def set_reservation_simps set_reservation_products by (simp add: set_reservation_def)
qed

text \<open>Releasing a reservation that is still active moves its unclaimed yards back.\<close>

definition release_as :: "reservation_status \<Rightarrow> fabric_reservation \<Rightarrow> (db, unit) action" where
  "release_as st r = andThen (release_unclaimed r) (\<lambda>_. modify (set_reservation (r_id r) (\<lambda>d. d\<lparr>r_status := st\<rparr>)))"

lemma release_unclaimed_cases:
  assumes "has_fabric (r_fabric r) s"
  obtains (failed) e where "release_unclaimed r s = (Inl e, s)"
  | (none) "release_unclaimed r s = (Inr (), s)" "r_total_yards r \<le> r_claimed_yards r"
  | (moved) s' where "release_unclaimed r s = (Inr (), s')" "s' = on_product (r_fabric r) (on_own_fabric
       (\<lambda>_. own_yards (r_fabric r) s + (r_total_yards r - r_claimed_yards r))) s"
       "r_claimed_yards r < r_total_yards r"
proof -
  obtain p f where p: "find_product (Some (r_fabric r)) s = Some p" "p_fabric p = Some f"
    using assms by (auto simp: has_fabric_def bind_eq_Some_conv)
  then have "p_id p = r_fabric r" "own_yards (r_fabric r) s = f_yard_length f"
    by (auto simp: own_yards_def find_product_def dest: find_one_keyD)
  with p that show thesis
    by (cases "f_yard_length f + (r_total_yards r - r_claimed_yards r) < 1/10";
        cases "0 < r_total_yards r - r_claimed_yards r")
      (auto simp: release_unclaimed_def Let_def andThen_app set_own_yards_def validate_yards_def)
qed

lemma locked_yards_status:
  assumes "wf_reservations s" "r \<in> set (db_reservations s)" "st \<noteq> R_ACTIVE"
  shows "locked_yards i (set_reservation (r_id r) (\<lambda>d. d\<lparr>r_status := st\<rparr>) s) = locked_yards i s - locked_by i r"
proof -
  have "find_one (\<lambda>x. r_id x = r_id r) (db_reservations s) = Some r"
    using assms by (intro find_one_key_eq) (auto simp: wf_reservations_def)
  from sum_list_update_one [OF this, of "locked_by i" "\<lambda>d. d\<lparr>r_status := st\<rparr>"]
  have "locked_yards i (set_reservation (r_id r) (\<lambda>d. d\<lparr>r_status := st\<rparr>) s) =
      locked_yards i s + (locked_by i (r\<lparr>r_status := st\<rparr>) - locked_by i r)"
    by (simp add: locked_yards_def set_reservation_def)
  moreover have "locked_by i (r\<lparr>r_status := st\<rparr>) = 0" using assms(3) by (simp add: locked_by_def)
  ultimately show ?thesis by simp
qed

lemma release_as_conserves:
  assumes wf: "wf_reservations s" and r: "r \<in> set (db_reservations s)" "r_status r = R_ACTIVE" and st: "st \<noteq> R_ACTIVE"
  defines "s' \<equiv> snd (release_as st r s)"
  shows "wf_reservations s'" "all_yards i s' = all_yards i s"
    "x \<in> set (db_reservations s) \<Longrightarrow> r_id x \<noteq> r_id r \<Longrightarrow> x \<in> set (db_reservations s')"
proof -
  have fab: "has_fabric (r_fabric r) s" and claimed: "r_claimed_yards r \<le> r_total_yards r"
    using wf r by (auto simp: wf_reservations_def)
  have other: "x \<in> set (update_one (\<lambda>d. r_id d = r_id r) g ds)" if "x \<in> set ds" "r_id x \<noteq> r_id r" for g ds
    using that by (induction ds) auto
  have "wf_reservations s' \<and> all_yards i s' = all_yards i s \<and>
      (x \<in> set (db_reservations s) \<longrightarrow> r_id x \<noteq> r_id r \<longrightarrow> x \<in> set (db_reservations s'))"
    using fab
  proof (cases rule: release_unclaimed_cases)
    case (failed e)
    then show ?thesis using wf by (simp add: s'_def release_as_def)
  next
    case none
    then have s': "s' = set_reservation (r_id r) (\<lambda>d. d\<lparr>r_status := st\<rparr>) s" by (simp add: s'_def release_as_def)
    have "locked_by i r = 0" using none claimed by (simp add: locked_by_def)
    then have "all_yards i s' = all_yards i s"
      using locked_yards_status [OF wf r(1) st, of i] by (simp add: s' all_yards_def)
    moreover have "x \<in> set (db_reservations s')" if "x \<in> set (db_reservations s)" "r_id x \<noteq> r_id r"
      using other [OF that] by (simp add: s' set_reservation_def)
    moreover have "wf_reservations s'" unfolding s' by (rule wf_reservations_status [OF wf st])
    ultimately show ?thesis by blast
  next
    case (moved t)
    then have s': "s' = set_reservation (r_id r) (\<lambda>d. d\<lparr>r_status := st\<rparr>) t" by (simp add: s'_def release_as_def)
    have t: "wf_reservations t" "db_reservations t = db_reservations s"
      unfolding moved(2) by (simp_all add: wf_reservations_product wf)
    obtain p f where p: "find_product (Some (r_fabric r)) s = Some p" "p_fabric p = Some f"
      using fab by (auto simp: has_fabric_def bind_eq_Some_conv)
    have own: "own_yards i t = own_yards i s + locked_by i r"
      unfolding moved(2) own_yards_set [OF p] using r(2) by (auto simp: locked_by_def)
    have "locked_yards i s' = locked_yards i t - locked_by i r"
      unfolding s' by (rule locked_yards_status) (use t r st in auto)
    moreover have "locked_yards i t = locked_yards i s" using t(2) by (simp add: locked_yards_def)
    moreover have "own_yards i s' = own_yards i t" unfolding s' by simp
    ultimately have "all_yards i s' = all_yards i s" using own by (simp add: all_yards_def)
    moreover have "wf_reservations s'" unfolding s' by (rule wf_reservations_status [OF t(1) st])
    moreover have "x \<in> set (db_reservations s')" if "x \<in> set (db_reservations s)" "r_id x \<noteq> r_id r"
      using other [OF that] t(2) by (simp add: s' set_reservation_def)
    ultimately show ?thesis by blast
  qed
  then show "wf_reservations s'" "all_yards i s' = all_yards i s"
    "x \<in> set (db_reservations s) \<Longrightarrow> r_id x \<noteq> r_id r \<Longrightarrow> x \<in> set (db_reservations s')" by blast+
qed

definition conserved :: "(oid \<Rightarrow> rat) \<Rightarrow> db \<Rightarrow> bool" where
  "conserved yards s \<longleftrightarrow> wf_reservations s \<and> (\<forall>i. all_yards i s = yards i)"

text \<open>The cron works on a batch of copies. While they are the stored, active documents, the next one can be expired.\<close>

definition batch_ok :: "fabric_reservation list \<Rightarrow> db \<Rightarrow> bool" where
  "batch_ok rs s \<longleftrightarrow> distinct (map r_id rs) \<and> (\<forall>r\<in>set rs. r \<in> set (db_reservations s) \<and> r_status r = R_ACTIVE)"

lemma read_batch: "wf_reservations s \<Longrightarrow> batch_ok (expired_reservations now s) s"
  by (auto simp: batch_ok_def wf_reservations_def expired_reservations_def distinct_map_filter)

lemma expire_conserves:
  assumes "conserved yards s" "batch_ok (r # rs) s"
  shows "conserved yards (snd (expire_one r s)) \<and> batch_ok rs (snd (expire_one r s))"
proof -
  have "expire_one r s = (case release_as R_EXPIRED r s of (Inl e, s') \<Rightarrow> (Inr (), s') | (Inr x, s') \<Rightarrow> (Inr x, s'))"
    by (simp add: expire_one_def release_as_def attempt_def split: prod.split sum.split)
  then have s': "snd (expire_one r s) = snd (release_as R_EXPIRED r s)"
    by (simp split: prod.split sum.split)
  have r: "wf_reservations s" "r \<in> set (db_reservations s)" "r_status r = R_ACTIVE" and ids: "r_id r \<notin> r_id ` set rs"
    using assms by (auto simp: conserved_def batch_ok_def)
  note release = release_as_conserves [OF r, of R_EXPIRED, simplified]
  have "x \<in> set (db_reservations (snd (release_as R_EXPIRED r s)))" if x: "x \<in> set rs" for x
  proof (rule release(3))
    show "x \<in> set (db_reservations s)" using x assms(2) by (simp add: batch_ok_def)
    show "r_id x \<noteq> r_id r" using x ids by (metis imageI)
  qed
  with release(1,2) assms show ?thesis unfolding s' conserved_def batch_ok_def by auto
qed

lemma cancel_conserves:
  assumes "conserved yards s"
  shows "conserved yards (snd (cancelReservation i organizer s))"
proof (cases "find_one (\<lambda>r. r_id r = i) (db_reservations s)")
  case None
  with assms show ?thesis by (simp add: cancelReservation_def andThen_app)
next
  case (Some r)
  show ?thesis
  proof (cases "r_organizer r = organizer \<and> r_status r = R_ACTIVE")
    case True
    have "snd (cancelReservation i organizer s) = snd (release_as R_CANCELLED r s)"
      using Some True by (simp add: cancelReservation_def release_as_def andThen_app [of "gets _"])
    with release_as_conserves [of s r R_CANCELLED] find_one_SomeD [OF Some] True assms show ?thesis
      by (simp add: conserved_def)
  next
    case False
    with Some assms show ?thesis by (auto simp: cancelReservation_def andThen_app)
  qed
qed

text \<open>Cancelling a reservation leaves every other one in place.\<close>

lemma release_unclaimed_reservations: "db_reservations (snd (release_unclaimed r s)) = db_reservations s"
  by (simp add: release_unclaimed_def Let_def andThen_app set_own_yards_def validate_yards_def split: option.split)

lemma cancel_batch:
  assumes "batch_ok rs s" "i \<notin> r_id ` set rs"
  shows "batch_ok rs (snd (cancelReservation i organizer s))"
proof -
  have other: "x \<in> set (update_one (\<lambda>d. r_id d = i) g ds)" if "x \<in> set ds" "r_id x \<noteq> i" for x g and ds :: "fabric_reservation list"
    using that by (induction ds) auto
  have "x \<in> set (db_reservations (snd (cancelReservation i organizer s)))" if "x \<in> set (db_reservations s)" "r_id x \<noteq> i" for x
  proof (cases "find_one (\<lambda>r. r_id r = i) (db_reservations s)")
    case (Some r)
    obtain z u where z: "release_unclaimed r s = (z, u)" by force
    have "db_reservations u = db_reservations s" using release_unclaimed_reservations [of r s] z by simp
    with Some that z other find_one_SomeD [OF Some] show ?thesis
      by (cases z) (auto simp: cancelReservation_def andThen_app set_reservation_def)
  qed (use that in \<open>simp add: cancelReservation_def andThen_app\<close>)
  with assms show ?thesis unfolding batch_ok_def by (metis imageI)
qed

text \<open>
  Creating and claiming both ask for an order of a type the order schema does not know, so both end
  with the validation error; creating has locked the yards by then.
\<close>

definition new_reservation :: "db \<Rightarrow> reservation_dto \<Rightarrow> oid \<Rightarrow> product \<Rightarrow> fabric \<Rightarrow> fabric_reservation" where
  "new_reservation s dto organizer p f = \<lparr>r_id = Suc (db_next s), r_reference = db_next s, r_organizer = organizer,
     r_fabric = p_id p, r_event_name = rd_eventName dto, r_total_yards = rd_totalYards dto, r_claimed_yards = 0,
     r_price_per_yard = f_price_per_yard f,
     r_reservation_fee = reservation_fee (nullish (reservation_fee_percent (current_settings s)) 10)
       (rd_totalYards dto * f_price_per_yard f),
     r_fee_transaction = None, r_deadline = rd_deadline dto, r_status = R_ACTIVE\<rparr>"

definition reservable :: "reservation_dto \<Rightarrow> instant \<Rightarrow> db \<Rightarrow> product \<Rightarrow> fabric \<Rightarrow> bool" where
  "reservable dto now s p f \<longleftrightarrow> find_product (Some (rd_fabricId dto)) s = Some p \<and> p_kind p = FABRIC \<and>
     p_fabric p = Some f \<and> rd_totalYards dto \<le> f_yard_length f - 1/10 \<and> f_min_cut f \<le> rd_totalYards dto \<and>
     now < rd_deadline dto"

definition after_create :: "reservation_dto \<Rightarrow> oid \<Rightarrow> db \<Rightarrow> product \<Rightarrow> fabric \<Rightarrow> db" where
  "after_create dto organizer s p f = (on_product (p_id p) (on_own_fabric (\<lambda>_. f_yard_length f - rd_totalYards dto)) (settle s))
     \<lparr>db_next := db_next s + 5, db_reservations := db_reservations s @ [new_reservation s dto organizer p f]\<rparr>"

lemma settle_reservations [simp]:
  "db_reservations (settle s) = db_reservations s" "db_products (settle s) = db_products s"
  by (simp_all add: settle_def getSettings_def andThen_app split: option.splits)

lemma reservation_fee_nonneg:
  assumes "0 \<le> p" "0 \<le> v"
  shows "0 \<le> reservation_fee p v"
proof -
  have "0 \<le> p / 100 * v" using assms by simp
  then have "0 \<le> \<lceil>p / 100 * v\<rceil>" by linarith
  then show ?thesis by (simp add: reservation_fee_def js_ceil_def)
qed

lemma create_cases:
  assumes "wf_reservations s" "1 \<le> rd_totalYards dto" "rd_eventName dto \<noteq> []"
  obtains (refused) e s' where "createReservation pay dto organizer now s = (Inl e, s')" "s' = s \<or> s' = settle s"
    "\<nexists>p f. reservable dto now s p f"
  | (locked) p f where "reservable dto now s p f"
    "createReservation pay dto organizer now s = (Inl (ExternalError ''ValidationError: type''), after_create dto organizer s p f)"
proof (cases "\<exists>p f. reservable dto now s p f")
  case False
  have "\<exists>e s'. createReservation pay dto organizer now s = (Inl e, s') \<and> (s' = s \<or> s' = settle s)"
  proof (cases "\<exists>p f. find_product (Some (rd_fabricId dto)) s = Some p \<and> p_kind p = FABRIC \<and> p_fabric p = Some f \<and>
      rd_totalYards dto \<le> f_yard_length f \<and> f_min_cut f \<le> rd_totalYards dto \<and> now < rd_deadline dto")
    case True
    then obtain p f where p: "find_product (Some (rd_fabricId dto)) s = Some p" "p_kind p = FABRIC" "p_fabric p = Some f"
      "\<not> f_yard_length f < rd_totalYards dto" "\<not> rd_totalYards dto < f_min_cut f" "\<not> rd_deadline dto \<le> now"
      by (auto simp: not_less not_le)
    with False have "f_yard_length f - rd_totalYards dto < 1/10" by (auto simp: reservable_def not_less not_le)
    with p show ?thesis
      by (simp add: createReservation_def andThen_app getSettings_eq set_own_yards_def validate_yards_def Let_def)
  next
    case no: False
    show ?thesis
    proof (cases "find_product (Some (rd_fabricId dto)) s")
      case None
      then show ?thesis by (simp add: createReservation_def andThen_app)
    next
      case (Some p)
      with no show ?thesis
        by (cases "p_fabric p") (auto simp: createReservation_def andThen_app)
    qed
  qed
  with refused False show thesis by blast
next
  case True
  then obtain p f where ok: "reservable dto now s p f" by blast
  then have p: "find_product (Some (rd_fabricId dto)) s = Some p" "p_kind p = FABRIC" "p_fabric p = Some f"
    "\<not> f_yard_length f < rd_totalYards dto" "\<not> rd_totalYards dto < f_min_cut f" "\<not> rd_deadline dto \<le> now"
    "\<not> f_yard_length f - rd_totalYards dto < 1/10"
    by (auto simp: reservable_def)
  have price: "0 \<le> f_price_per_yard f"
    using assms(1) p(1,3) find_product_in [OF p(1)] by (auto simp: wf_reservations_def priced_def split: option.splits)
  have "0 \<le> reservation_fee (nullish (reservation_fee_percent (current_settings s)) 10)
      (rd_totalYards dto * f_price_per_yard f)"
    by (rule reservation_fee_nonneg) (use assms price in \<open>auto simp: wf_reservations_def\<close>)
  with price assms(2,3) have "\<not> (r_total_yards (new_reservation s dto organizer p f) < 1 \<or>
      r_claimed_yards (new_reservation s dto organizer p f) < 0 \<or> r_price_per_yard (new_reservation s dto organizer p f) < 0 \<or>
      r_reservation_fee (new_reservation s dto organizer p f) < 0 \<or> r_event_name (new_reservation s dto organizer p f) = [])"
    by (simp add: new_reservation_def)
  with p have "createReservation pay dto organizer now s =
      (Inl (ExternalError ''ValidationError: type''), after_create dto organizer s p f)"
    by (simp add: createReservation_def andThen_app getSettings_eq set_own_yards_def validate_yards_def Let_def
        insert_reservation_def new_reservation_def insert_order_def after_create_def)
  with ok locked show thesis by blast
qed

lemma claim_refused:
  obtains e n where "claimFromReservation pay i yards guest now s = (Inl e, s\<lparr>db_next := n\<rparr>)"
proof -
  note found = that
  have same: thesis if "claimFromReservation pay i yards guest now s = (Inl e, s)" for e
    by (rule found [of e "db_next s"]) (use that in simp)
  show thesis
  proof (cases "find_one (\<lambda>r. r_id r = i) (db_reservations s)")
    case None
    then show thesis by (intro same [of "NotFoundException ''Reservation not found''"]) (simp add: claimFromReservation_def andThen_app)
  next
    case (Some r)
    let ?fab = "Option.bind (find_product (Some (r_fabric r)) s) p_fabric"
    show thesis
    proof (cases "r_status r \<noteq> R_ACTIVE \<or> r_deadline r < now \<or> r_total_yards r - r_claimed_yards r < yards \<or>
        truthy_num (map_option f_min_cut ?fab) \<and> yards < nullish (map_option f_min_cut ?fab) 0")
      case True
      then have "\<exists>e. claimFromReservation pay i yards guest now s = (Inl e, s)"
        using Some by (auto simp: claimFromReservation_def andThen_app Let_def)
      with same show thesis by blast
    next
      case False
      then have ok: "r_status r = R_ACTIVE" "\<not> r_deadline r < now" "\<not> r_total_yards r - r_claimed_yards r < yards"
        "(truthy_num (map_option f_min_cut ?fab) \<and> yards < nullish (map_option f_min_cut ?fab) 0) = False" by simp_all
      have "claimFromReservation pay i yards guest now s = (Inl (case guest of
          None \<Rightarrow> ExternalError ''ValidationError: customer'' | Some _ \<Rightarrow> ExternalError ''ValidationError: type''),
          s\<lparr>db_next := db_next s + 3\<rparr>)"
        unfolding claimFromReservation_def Let_def andThen_app gets_app prod.case sum.case Some option.case
        using ok(4) by (cases guest) (simp_all only: ok(1-3) not_False_eq_True if_False if_True andThen_app fresh_app prod.case sum.case
            option.case not_True_eq_False insert_order_def, simp_all)
      then show thesis by (rule found)
    qed
  qed
qed

lemma conserved_cong:
  assumes "conserved yards s" "db_products t = db_products s" "db_reservations t = db_reservations s"
    "db_next s \<le> db_next t" "current_settings t = current_settings s"
  shows "conserved yards t"
  using assms products_cong(2,3) [OF assms(2)]
  by (auto simp: conserved_def wf_reservations_def all_yards_def locked_yards_def)

lemma claim_conserves:
  assumes "conserved yards s"
  shows "conserved yards (snd (claimFromReservation pay i q guest now s))"
proof -
  have keeps: "db_next s \<le> db_next (snd (claimFromReservation pay i q guest now s))"
    by (auto simp: claimFromReservation_def andThen_app Let_def insert_order_def split: option.splits)
  obtain e n where "claimFromReservation pay i q guest now s = (Inl e, s\<lparr>db_next := n\<rparr>)" by (rule claim_refused)
  with keeps conserved_cong [OF assms, of "s\<lparr>db_next := n\<rparr>"] show ?thesis
    by (simp add: current_settings_def)
qed

lemma create_conserves:
  assumes "conserved yards s" "1 \<le> rd_totalYards dto" "rd_eventName dto \<noteq> []"
  shows "conserved yards (snd (createReservation pay dto organizer now s))"
proof -
  have wf: "wf_reservations s" using assms(1) by (simp add: conserved_def)
  show ?thesis
    using wf assms(2,3)
  proof (cases rule: create_cases [of s dto pay organizer now])
    case (refused e s')
    with assms(1) conserved_cong [OF assms(1), of "settle s"] show ?thesis by auto
  next
    case (locked p f)
    let ?u = "on_product (p_id p) (on_own_fabric (\<lambda>_. f_yard_length f - rd_totalYards dto)) (settle s)"
    let ?r = "new_reservation s dto organizer p f" and ?s = "after_create dto organizer s p f"
    have p: "find_product (Some (rd_fabricId dto)) s = Some p" "p_fabric p = Some f"
      and id: "p_id p = rd_fabricId dto"
      using locked(1) by (auto simp: reservable_def find_product_def dest: find_one_keyD)
    have ps: "find_product (Some (p_id p)) (settle s) = Some p"
      using p(1) id products_cong(1) [of "settle s" s] by simp
    have cu: "conserved yards (settle s)" by (rule conserved_cong [OF assms(1)]) simp_all
    have wfu: "wf_reservations ?u" using cu by (intro wf_reservations_product) (simp add: conserved_def)
    have prods: "db_products ?s = db_products ?u" by (simp add: after_create_def)
    have "has_fabric (p_id p) (settle s)" using ps p(2) by (simp add: has_fabric_def)
    then have fab: "has_fabric (p_id p) ?s" using products_cong(3) [OF prods] by simp
    have "wf_reservations ?s"
    proof -
      have sets: "current_settings ?s = current_settings ?u" by (simp add: after_create_def current_settings_def)
      have "r_id ?r \<notin> r_id ` set (db_reservations s)"
        using wf by (force simp: wf_reservations_def new_reservation_def)
      moreover have "\<forall>r\<in>set (db_reservations ?s). r_id r < db_next ?s \<and>
          (r_status r = R_ACTIVE \<longrightarrow> r_claimed_yards r \<le> r_total_yards r \<and> has_fabric (r_fabric r) ?s)"
        using wfu fab assms(2) products_cong(3) [OF prods]
        by (force simp: wf_reservations_def after_create_def new_reservation_def)
      ultimately show ?thesis
        using wfu prods sets by (simp add: wf_reservations_def after_create_def)
    qed
    moreover have "all_yards i ?s = yards i" for i
    proof -
      have "own_yards i ?s = (if i = p_id p then f_yard_length f - rd_totalYards dto else own_yards i s)"
        using products_cong(2) [OF prods] own_yards_set [OF ps p(2)] products_cong(2) [of "settle s" s] by simp
      moreover have "own_yards (p_id p) s = f_yard_length f" using p id by (simp add: own_yards_def)
      moreover have "locked_yards i ?s = locked_yards i s + (if i = p_id p then rd_totalYards dto else 0)"
        by (simp add: locked_yards_def after_create_def locked_by_def new_reservation_def)
      moreover have "own_yards i s + locked_yards i s = yards i"
        using assms(1) by (simp add: all_yards_def conserved_def)
      ultimately show ?thesis by (auto simp: all_yards_def)
    qed
    ultimately show ?thesis using locked(2) by (simp add: conserved_def)
  qed
qed

section \<open>Properties of the reservations\<close>

text \<open>What the request validation of \<open>CreateReservationDto\<close> lets through.\<close>

definition valid_dto :: "reservation_dto \<Rightarrow> bool" where
  "valid_dto dto \<longleftrightarrow> 1 \<le> rd_totalYards dto \<and> rd_eventName dto \<noteq> []"

text \<open>
  The store and the batch of the cron: one run at a time reads its batch, and between two of its documents requests are
  served. A claim always fails. A cancellation names a reservation that does not wait in the batch; for the others
  see \<open>cancelled_in_batch_releases_twice\<close> below.
\<close>

inductive reservation_step ::
    "(oid \<Rightarrow> error option) \<Rightarrow> db \<times> fabric_reservation list \<Rightarrow> db \<times> fabric_reservation list \<Rightarrow> bool" for pay where
  creating: "valid_dto dto \<Longrightarrow> reservation_step pay (s, batch) (snd (createReservation pay dto organizer now s), batch)"
| claiming: "reservation_step pay (s, batch) (snd (claimFromReservation pay i yards guest now s), batch)"
| cancelling: "i \<notin> r_id ` set batch \<Longrightarrow> reservation_step pay (s, batch) (snd (cancelReservation i organizer s), batch)"
| reading: "reservation_step pay (s, []) (s, expired_reservations now s)"
| expiring: "reservation_step pay (s, r # batch) (snd (expire_one r s), batch)"

lemma cron_batch: "(reservation_step pay)\<^sup>*\<^sup>* (s, rs) (snd (for_each rs expire_one s), [])"
proof (induction rs arbitrary: s)
  case (Cons r rs)
  have "fst (expire_one r s) = Inr ()" by (simp add: expire_one_def attempt_app split: prod.split sum.split)
  then have "snd (for_each (r # rs) expire_one s) = snd (for_each rs expire_one (snd (expire_one r s)))"
    by (cases "expire_one r s") (simp add: andThen_app)
  with converse_rtranclp_into_rtranclp [OF reservation_step.expiring Cons.IH] show ?case by simp
qed simp

text \<open>The handler of the cron, undisturbed, is a run of these steps.\<close>

lemma undisturbed_run: "(reservation_step pay)\<^sup>*\<^sup>* (s, []) (snd (releaseExpiredReservations now s), [])"
  using converse_rtranclp_into_rtranclp [OF reservation_step.reading [of pay s now] cron_batch]
  by (simp add: releaseExpiredReservations_def andThen_app)

lemma create_reservations:
  assumes "wf_reservations s" "valid_dto dto"
  shows "\<exists>new. db_reservations (snd (createReservation pay dto organizer now s)) = db_reservations s @ new"
proof -
  from assms(2) have "1 \<le> rd_totalYards dto" "rd_eventName dto \<noteq> []" by (simp_all add: valid_dto_def)
  with assms(1) show ?thesis
    by (cases rule: create_cases [of s dto pay organizer now]) (auto simp: after_create_def)
qed

lemma step_conserves:
  assumes "reservation_step pay u v" "conserved yards (fst u) \<and> batch_ok (snd u) (fst u)"
  shows "conserved yards (fst v) \<and> batch_ok (snd v) (fst v)"
  using assms
proof (induction rule: reservation_step.induct)
  case (creating dto s batch organizer now)
  then have "wf_reservations s" by (simp add: conserved_def)
  from create_reservations [OF this creating(1), of pay organizer now] creating show ?case
    using create_conserves [of yards s dto pay organizer now] by (auto simp: valid_dto_def batch_ok_def)
next
  case (claiming s batch i q guest now)
  obtain e n where "claimFromReservation pay i q guest now s = (Inl e, s\<lparr>db_next := n\<rparr>)" by (rule claim_refused)
  with claiming claim_conserves [of yards s pay i q guest now] show ?case by (auto simp: batch_ok_def)
next
  case (cancelling i batch s organizer)
  then show ?case by (simp add: cancel_conserves cancel_batch)
next
  case (reading s now)
  then show ?case by (simp add: read_batch conserved_def)
next
  case (expiring s r batch)
  then show ?case using expire_conserves by auto
qed


text \<open>Actions that always throw.\<close>

definition throws :: "('s, 'a) action \<Rightarrow> bool" where
  "throws m \<longleftrightarrow> (\<forall>s. isl (fst (m s)))"

lemma throws_throw: "throws (throw e)"
  by (simp add: throws_def)

lemma throws_andThen: "(\<And>x. throws (f x)) \<Longrightarrow> throws (andThen m f)"
  by (simp add: throws_def andThen_app split: prod.split sum.split)

lemma throws_insert_order: "o_type ord \<notin> {Standard, Bespoke} \<Longrightarrow> throws (andThen (insert_order ord) f)"
  by (simp add: throws_def insert_order_def andThen_app)

lemma throws_if: "\<lbrakk>throws m; throws n\<rbrakk> \<Longrightarrow> throws (if b then m else n)"
  by simp

lemma throws_option: "\<lbrakk>throws m; \<And>x. throws (g x)\<rbrakk> \<Longrightarrow> throws (case r of None \<Rightarrow> m | Some x \<Rightarrow> g x)"
  by (cases r) simp_all

lemmas throws_rules = throws_insert_order throws_throw throws_if throws_option throws_andThen

text \<open>No reservation is ever created and none is ever claimed: both requests end with an exception in
  every state, because the order they ask for has a type outside the order schema's enumeration.\<close>

theorem reservation_requests_always_fail:
  "isl (fst (createReservation pay dto organizer now s)) \<and> isl (fst (claimFromReservation pay i yards guest now s))"
proof -
  have "throws (createReservation pay dto organizer now)"
    unfolding createReservation_def Let_def by (intro throws_rules) simp
  moreover have "throws (claimFromReservation pay i yards guest now)"
    unfolding claimFromReservation_def Let_def by (intro throws_rules) simp
  ultimately show ?thesis by (simp add: throws_def)
qed

text \<open>The failed creation is not clean: where the fabric can be reserved, the exception leaves the
  yards locked in an active reservation that has no order, no fee and no payment.\<close>

theorem failed_creation_locks_yards:
  assumes "wf_reservations s" "1 \<le> rd_totalYards dto" "rd_eventName dto \<noteq> []" "reservable dto now s p f"
  shows "\<exists>s' r. createReservation pay dto organizer now s = (Inl (ExternalError ''ValidationError: type''), s') \<and>
    db_reservations s' = db_reservations s @ [r] \<and> r_status r = R_ACTIVE \<and> r_fee_transaction r = None \<and>
    own_yards (rd_fabricId dto) s' = own_yards (rd_fabricId dto) s - rd_totalYards dto \<and>
    db_orders s' = db_orders s \<and> db_transactions s' = db_transactions s"
  using assms(1-3)
proof (cases rule: create_cases [of s dto pay organizer now])
  case (refused e s')
  with assms(4) show ?thesis by blast
next
  case (locked p f)
  let ?s = "after_create dto organizer s p f" and ?r = "new_reservation s dto organizer p f"
  have p: "find_product (Some (rd_fabricId dto)) s = Some p" "p_fabric p = Some f" and id: "p_id p = rd_fabricId dto"
    using locked(1) by (auto simp: reservable_def find_product_def dest: find_one_keyD)
  have ps: "find_product (Some (p_id p)) (settle s) = Some p" using p(1) id products_cong(1) [of "settle s" s] by simp
  have "own_yards (rd_fabricId dto) ?s = f_yard_length f - rd_totalYards dto"
    using products_cong(2) [of ?s "on_product (p_id p) (on_own_fabric (\<lambda>_. f_yard_length f - rd_totalYards dto)) (settle s)"]
      own_yards_set [OF ps p(2)] id by (simp add: after_create_def)
  moreover have "own_yards (rd_fabricId dto) s = f_yard_length f" using p by (simp add: own_yards_def)
  moreover have "db_orders ?s = db_orders s" "db_transactions ?s = db_transactions s"
    by (simp_all add: after_create_def on_product_def settle_def getSettings_def andThen_app split: option.split)
  ultimately show ?thesis
    using locked(2) by (intro exI [of _ ?s] exI [of _ ?r]) (simp add: after_create_def new_reservation_def)
qed

text \<open>A reservation in the cron's batch that its organizer cancels before its turn comes gives its
  unclaimed yards back twice: the cron works on the copy it read and does not look at the status again.\<close>

theorem cancelled_in_batch_releases_twice:
  assumes "wf_reservations s" "r \<in> set (expired_reservations now s)" "r_claimed_yards r < r_total_yards r"
    "1/10 \<le> own_yards (r_fabric r) s"
  shows "all_yards (r_fabric r) (snd (expire_one r (snd (cancelReservation (r_id r) (r_organizer r) s)))) =
    all_yards (r_fabric r) s + (r_total_yards r - r_claimed_yards r)"
proof -
  let ?u = "r_total_yards r - r_claimed_yards r" and ?i = "r_fabric r"
  let ?t = "snd (release_as R_CANCELLED r s)"
  have r: "r \<in> set (db_reservations s)" "r_status r = R_ACTIVE" using assms(2) by (auto simp: expired_reservations_def)
  then have found: "find_one (\<lambda>x. r_id x = r_id r) (db_reservations s) = Some r"
    using assms(1) by (intro find_one_key_eq) (auto simp: wf_reservations_def)
  have cancel: "snd (cancelReservation (r_id r) (r_organizer r) s) = ?t"
    using found r by (simp add: cancelReservation_def release_as_def andThen_app [of "gets _"])
  have fab: "has_fabric ?i s" using assms(1) r by (auto simp: wf_reservations_def)
  note t = release_as_conserves [OF assms(1) r, of R_CANCELLED, simplified]
  obtain p f where p: "find_product (Some ?i) s = Some p" "p_fabric p = Some f"
    using fab by (auto simp: has_fabric_def bind_eq_Some_conv)
  then have id: "p_id p = ?i" and own: "own_yards ?i s = f_yard_length f"
    by (auto simp: own_yards_def find_product_def dest: find_one_keyD)
  have release: "release_unclaimed r s = (Inr (), on_product ?i (on_own_fabric (\<lambda>_. f_yard_length f + ?u)) s)"
    using p id own assms(3,4) by (simp add: release_unclaimed_def Let_def andThen_app set_own_yards_def validate_yards_def)
  then have t': "?t = set_reservation (r_id r) (\<lambda>d. d\<lparr>r_status := R_CANCELLED\<rparr>)
      (on_product ?i (on_own_fabric (\<lambda>_. f_yard_length f + ?u)) s)"
    by (simp add: release_as_def)
  have own_t: "own_yards ?i ?t = f_yard_length f + ?u" unfolding t' by (simp add: own_yards_set [OF p])
  have fab_t: "has_fabric ?i ?t" unfolding t' using fab by simp
  have e: "snd (expire_one r ?t) = snd (release_as R_EXPIRED r ?t)"
    by (simp add: expire_one_def release_as_def attempt_def split: prod.split sum.split)
  have again: "release_unclaimed r ?t = (Inr (), on_product ?i (on_own_fabric (\<lambda>_. own_yards ?i ?t + ?u)) ?t)"
    using fab_t
  proof (cases rule: release_unclaimed_cases)
    case (failed e)
    obtain q g where q: "find_product (Some ?i) ?t = Some q" "p_fabric q = Some g"
      using fab_t by (auto simp: has_fabric_def bind_eq_Some_conv)
    then have "f_yard_length g = f_yard_length f + ?u" using own_t by (simp add: own_yards_def)
    with failed q own assms(3,4) show ?thesis
      by (simp add: release_unclaimed_def Let_def andThen_app set_own_yards_def validate_yards_def split: if_splits)
  qed (use assms(3) in auto)
  obtain q g where q: "find_product (Some ?i) ?t = Some q" "p_fabric q = Some g"
    using fab_t by (auto simp: has_fabric_def bind_eq_Some_conv)
  let ?w = "on_product ?i (on_own_fabric (\<lambda>_. own_yards ?i ?t + ?u)) ?t"
  have w: "snd (release_as R_EXPIRED r ?t) = set_reservation (r_id r) (\<lambda>d. d\<lparr>r_status := R_EXPIRED\<rparr>) ?w"
    using again by (simp add: release_as_def)
  have "own_yards ?i (snd (release_as R_EXPIRED r ?t)) = own_yards ?i ?t + ?u"
    unfolding w by (simp add: own_yards_set [OF q])
  moreover have "locked_yards ?i (snd (release_as R_EXPIRED r ?t)) = locked_yards ?i ?t"
  proof -
    have "map (locked_by ?i) (update_one (\<lambda>x. r_id x = r_id r) (\<lambda>d. d\<lparr>r_status := R_EXPIRED\<rparr>)
        (update_one (\<lambda>x. r_id x = r_id r) (\<lambda>d. d\<lparr>r_status := R_CANCELLED\<rparr>) ds)) =
      map (locked_by ?i) (update_one (\<lambda>x. r_id x = r_id r) (\<lambda>d. d\<lparr>r_status := R_CANCELLED\<rparr>) ds)" for ds
      by (induction ds) (auto simp: locked_by_def)
    moreover have "db_reservations ?t = update_one (\<lambda>x. r_id x = r_id r) (\<lambda>d. d\<lparr>r_status := R_CANCELLED\<rparr>) (db_reservations s)"
      unfolding t' by (simp add: set_reservation_def)
    ultimately show ?thesis unfolding w by (simp add: locked_yards_def set_reservation_def [of _ _ ?w])
  qed
  ultimately show ?thesis unfolding cancel e using t(2) [of ?i] by (simp add: all_yards_def)
qed

text \<open>Ten yards of a fabric product, and five more in a reservation of which guests claimed two.\<close>

definition sample_reservation :: fabric_reservation where
  "sample_reservation = \<lparr>r_id = 2, r_reference = 1, r_organizer = 7, r_fabric = 10, r_event_name = ''wedding'',
     r_total_yards = 5, r_claimed_yards = 2, r_price_per_yard = 20, r_reservation_fee = 10, r_fee_transaction = None,
     r_deadline = 40, r_status = R_ACTIVE\<rparr>"

definition sample_fabrics :: db where
  "sample_fabrics = empty_db\<lparr>db_products := [sample_product\<lparr>p_kind := FABRIC, p_clothing := None, p_fabric := Some sample_fabric\<rparr>],
     db_reservations := [sample_reservation], db_next := 50\<rparr>"

definition sample_dto :: reservation_dto where
  "sample_dto = \<lparr>rd_fabricId = 10, rd_eventName = ''party'', rd_totalYards = 4, rd_deadline = 100\<rparr>"

lemma sample_fabrics_wf: "wf_reservations sample_fabrics"
proof -
  have "0 \<le> nullish (reservation_fee_percent (current_settings sample_fabrics)) 10"
    by (simp add: current_settings_def sample_fabrics_def empty_db_def hydrate_def defaultSettings_def no_settings_def)
  then show ?thesis
    by (simp add: wf_reservations_def sample_fabrics_def empty_db_def sample_reservation_def has_fabric_def
        find_product_def sample_product_def priced_def sample_fabric_def)
qed

lemma sample_yards: "own_yards 10 sample_fabrics = 10" "locked_yards 10 sample_fabrics = 3"
  by (simp_all add: own_yards_def locked_yards_def locked_by_def find_product_def sample_fabrics_def empty_db_def
      sample_product_def sample_fabric_def sample_reservation_def)

lemma sample_reservable: "\<exists>p f. reservable sample_dto 30 sample_fabrics p f"
  by (simp add: reservable_def find_product_def sample_fabrics_def empty_db_def sample_product_def sample_fabric_def
      sample_dto_def)


theorem failed_creation_locks_yards_witness:
  "\<exists>s'. createReservation (\<lambda>_. None) sample_dto 8 30 sample_fabrics = (Inl (ExternalError ''ValidationError: type''), s') \<and>
     own_yards 10 s' = 6 \<and> length (db_reservations s') = 2 \<and> db_orders s' = []"
proof -
  obtain p f where "reservable sample_dto 30 sample_fabrics p f" using sample_reservable by blast
  from failed_creation_locks_yards [OF sample_fabrics_wf _ _ this, of "\<lambda>_. None" 8]
  obtain s' r where "createReservation (\<lambda>_. None) sample_dto 8 30 sample_fabrics = (Inl (ExternalError ''ValidationError: type''), s')"
    "db_reservations s' = db_reservations sample_fabrics @ [r]" "db_orders s' = db_orders sample_fabrics"
    "own_yards (rd_fabricId sample_dto) s' = own_yards (rd_fabricId sample_dto) sample_fabrics - rd_totalYards sample_dto"
    by (auto simp: sample_dto_def)
  then show ?thesis
    using sample_yards(1) by (intro exI [of _ s']) (simp add: sample_dto_def sample_fabrics_def empty_db_def)
qed

theorem cancelled_in_batch_releases_twice_witness:
  "all_yards 10 (snd (expire_one sample_reservation (snd (cancelReservation 2 7 sample_fabrics)))) = 16"
  using cancelled_in_batch_releases_twice [OF sample_fabrics_wf, of sample_reservation 60] sample_yards
  by (simp add: expired_reservations_def all_yards_def sample_fabrics_def empty_db_def sample_reservation_def)

end
