(* ===== verification/Pricing.thy ===== *)
theory Pricing
  imports Inventory
begin

text \<open>
  Prices (\<open>src/modules/orders/orders.price-calculation.ts\<close>) and stock availability
  (\<open>src/modules/products/product-availability.ts\<close>). Prices only read the database, so a price is a
  function of it that gives an exception or a number; a loop over selections is the sum of the cost of
  each, and stops at the first exception. \<open>toLowerCase\<close> acts on the ASCII letters. The method
  \<open>applyDiscount\<close>, which nothing calls, is left out.
\<close>

section \<open>Computations that may throw\<close>

definition bind_result :: "error + 'a \<Rightarrow> ('a \<Rightarrow> error + 'b) \<Rightarrow> error + 'b" where
  "bind_result m f = (case m of Inl e \<Rightarrow> Inl e | Inr x \<Rightarrow> f x)"

fun sum_costs :: "('s \<Rightarrow> error + rat) \<Rightarrow> 's list \<Rightarrow> error + rat" where
  "sum_costs cost [] = Inr 0"
| "sum_costs cost (s # ss) = bind_result (cost s) (\<lambda>x. bind_result (sum_costs cost ss) (\<lambda>y. Inr (x + y)))"

lemma bind_result_simps [simp]: "bind_result (Inl e) f = Inl e" "bind_result (Inr x) f = f x"
  by (simp_all add: bind_result_def)

lemma bind_result_Inr: "bind_result m f = Inr y \<longleftrightarrow> (\<exists>x. m = Inr x \<and> f x = Inr y)"
  by (cases m) simp_all

section \<open>Requests\<close>

record variant_dto =
  vd_color_variant_id :: oid
  vd_size :: "string option"
  vd_quantity :: "rat option"

record fabric_dto =
  fd_fabric_id :: oid
  fd_yardage :: "rat option"
  fd_size :: "string option"
  fd_quantity :: "rat option"

record style_dto =
  sd_style_id :: oid
  sd_quantity :: "rat option"

record accessory_dto =
  acd_accessory_id :: oid
  acd_variant_id :: "oid option"
  acd_quantity :: "rat option"

record addon_dto =
  add_addon_id :: oid
  add_variant_id :: oid
  add_quantity :: "rat option"

record selections_dto =
  se_color_variant :: "variant_dto list option"
  se_style :: "style_dto list option"
  se_fabric :: "fabric_dto list option"
  se_accessory :: "accessory_dto list option"
  se_addon :: "addon_dto list option"

record normalized_selections =
  ns_color_variant :: "variant_dto list"
  ns_style :: "style_dto list"
  ns_fabric :: "fabric_dto list"
  ns_accessory :: "accessory_dto list"
  ns_addon :: "addon_dto list"

record processed_item =
  po_product_id :: oid
  po_quantity :: "rat option"
  po_applied_fabric_id :: "oid option"
  po_applied_fabric_yards :: "rat option"
  po_selections :: "selections_dto option"

definition normalizeSelections :: "selections_dto option \<Rightarrow> normalized_selections" where
  "normalizeSelections selections = (case selections of
      None \<Rightarrow> \<lparr>ns_color_variant = [], ns_style = [], ns_fabric = [], ns_accessory = [], ns_addon = []\<rparr>
    | Some s \<Rightarrow> \<lparr>ns_color_variant = nullish (se_color_variant s) [], ns_style = nullish (se_style s) [],
        ns_fabric = nullish (se_fabric s) [], ns_accessory = nullish (se_accessory s) [],
        ns_addon = nullish (se_addon s) []\<rparr>)"

section \<open>Costs of the selections\<close>

definition effective_price :: "product \<Rightarrow> rat" where
  "effective_price p = (case p_discounted_price p of
      Some d \<Rightarrow> if 0 < d \<and> d < p_base_price p then d else p_base_price p
    | None \<Rightarrow> p_base_price p)"

definition is_customize :: "product \<Rightarrow> bool" where
  "is_customize p \<longleftrightarrow> map_option c_type (p_clothing p) = Some CUSTOMIZE"

definition same_size :: "string option \<Rightarrow> string \<Rightarrow> bool" where
  "same_size v s = (case v of None \<Rightarrow> False | Some x \<Rightarrow> map lower_char x = map lower_char s)"

text \<open>\<open>externalFabricCost\<close>\<close>

definition externalFabricCost :: "processed_item \<Rightarrow> db \<Rightarrow> rat" where
  "externalFabricCost item s =
     (case (po_applied_fabric_id item, po_applied_fabric_yards item) of
        (Some fabricId, Some yards) \<Rightarrow>
          if yards \<le> 0 then 0
          else (case Option.bind (find_product (Some fabricId) s) p_fabric of
              None \<Rightarrow> 0
            | Some f \<Rightarrow> if f_price_per_yard f \<le> 0 then 0 else round2 (f_price_per_yard f * yards))
      | _ \<Rightarrow> 0)"

definition style_cost :: "product \<Rightarrow> style_dto \<Rightarrow> error + rat" where
  "style_cost p s = (case p_clothing p of
      None \<Rightarrow> Inr 0
    | Some c \<Rightarrow> (case find_one (\<lambda>st. s_id st = sd_style_id s) (c_styles c) of
        None \<Rightarrow> Inl (BadRequestException ''Selected style not found in product'')
      | Some st \<Rightarrow> Inr (s_price st * nullish (sd_quantity s) 1)))"

definition calculateStyleCost :: "style_dto list \<Rightarrow> product \<Rightarrow> error + rat" where
  "calculateStyleCost selections p = sum_costs (style_cost p) selections"

text \<open>The yards a selection asks for: the request's, else the garment's for the size, else the fabric's.\<close>

definition or_truthy :: "rat option \<Rightarrow> rat option \<Rightarrow> rat option" where
  "or_truthy x y = (if truthy_num x then x else if truthy_num y then y else x)"

definition variant_yards :: "fabric \<Rightarrow> string option \<Rightarrow> rat option" where
  "variant_yards f sz = (if truthy_string sz
     then Option.bind (find_one (\<lambda>v. same_size (v_size v) (nullish sz [])) (f_variants f)) v_yard_per_order else None)"

definition garment_yards :: "product \<Rightarrow> string option \<Rightarrow> rat option" where
  "garment_yards p sz = (if truthy_string sz
     then Option.bind (Option.bind (p_clothing p) (\<lambda>c. find_one (\<lambda>y. same_size (y_size y) (nullish sz [])) (c_yardage_per_size c))) y_yards
     else None)"

definition fabric_product_cost :: "product \<Rightarrow> fabric_dto \<Rightarrow> error + rat" where
  "fabric_product_cost p s = (case p_fabric p of
      None \<Rightarrow> Inr 0
    | Some f \<Rightarrow>
        if fd_fabric_id s \<noteq> f_id f \<and> fd_fabric_id s \<noteq> p_id p
        then Inl (BadRequestException ''Selected fabric does not exist on product'')
        else let resolvedYardage = nullish (or_truthy (fd_yardage s) (variant_yards f (fd_size s))) 0
        in if f_min_cut f \<noteq> 0 \<and> resolvedYardage < f_min_cut f
           then Inl (BadRequestException ''Minimum cut'')
           else if f_yard_length f < resolvedYardage then Inl (BadRequestException ''Not enough yardage'')
           else Inr (resolvedYardage * f_price_per_yard f * nullish (fd_quantity s) 1))"

definition garment_fabric_cost :: "product \<Rightarrow> fabric_dto \<Rightarrow> error + rat" where
  "garment_fabric_cost p s = (case find_one (\<lambda>f. f_id f = fd_fabric_id s) (clothing_fabrics p) of
      None \<Rightarrow> Inl (BadRequestException ''Selected fabric not found in clothing'')
    | Some f \<Rightarrow>
        let asked = nullish (or_truthy (or_truthy (fd_yardage s) (garment_yards p (fd_size s))) (variant_yards f (fd_size s))) 0;
            resolvedYardage = (if f_min_cut f \<noteq> 0 \<and> 0 < asked \<and> asked < f_min_cut f then f_min_cut f else asked)
        in if f_yard_length f < resolvedYardage then Inl (BadRequestException ''Not enough yardage in clothing'')
           else Inr (resolvedYardage * f_price_per_yard f * nullish (fd_quantity s) 1))"

definition calculateFabricCost :: "fabric_dto list \<Rightarrow> product \<Rightarrow> error + rat" where
  "calculateFabricCost selections p = bind_result
     (sum_costs (\<lambda>s. case p_kind p of FABRIC \<Rightarrow> fabric_product_cost p s | CLOTHING \<Rightarrow> garment_fabric_cost p s
        | ACCESSORY \<Rightarrow> Inr 0) selections) (\<lambda>total. Inr (round2 total))"

definition accessory_product_cost :: "product \<Rightarrow> accessory_dto \<Rightarrow> error + rat" where
  "accessory_product_cost p s = (case p_accessory p of
      None \<Rightarrow> Inr 0
    | Some a \<Rightarrow>
        if acd_accessory_id s \<noteq> a_id a then Inl (BadRequestException ''Selected accessory does not exist on product'')
        else let v = Option.bind (acd_variant_id s) (\<lambda>i. find_av i a);
                 unit_price = (if 0 < effective_price p then effective_price p else nullish (a_price a) 0)
        in if (case v of None \<Rightarrow> False | Some v \<Rightarrow> nullish (av_stock v) 0 < nullish (acd_quantity s) 0)
           then Inl (BadRequestException ''Not enough stock for variant'')
           else Inr (unit_price * nullish (acd_quantity s) 1))"

definition garment_accessory_cost :: "product \<Rightarrow> accessory_dto \<Rightarrow> error + rat" where
  "garment_accessory_cost p s = (case find_one (\<lambda>a. a_id a = acd_accessory_id s) (clothing_accessories p) of
      None \<Rightarrow> Inl (BadRequestException ''Selected accessory not found in clothing'')
    | Some a \<Rightarrow> (case (acd_variant_id s, a_variants a \<noteq> []) of
        (Some i, True) \<Rightarrow> (case find_av i a of
            None \<Rightarrow> Inl (BadRequestException ''Selected variant not found for accessory'')
          | Some v \<Rightarrow> if nullish (av_stock v) 0 < nullish (acd_quantity s) 0
              then Inl (BadRequestException ''Not enough stock for variant in clothing'')
              else Inr (nullish (a_price a) 0 * nullish (acd_quantity s) 1))
      | _ \<Rightarrow> Inr (nullish (a_price a) 0 * nullish (acd_quantity s) 1)))"

definition calculateAccessoryTotal :: "accessory_dto list \<Rightarrow> product \<Rightarrow> rat \<Rightarrow> error + rat" where
  "calculateAccessoryTotal selections p qty =
     (if p_kind p = ACCESSORY \<and> selections = [] then Inr (round2 (effective_price p * qty))
      else bind_result (sum_costs (\<lambda>s. case p_kind p of ACCESSORY \<Rightarrow> accessory_product_cost p s
        | CLOTHING \<Rightarrow> garment_accessory_cost p s | FABRIC \<Rightarrow> Inr 0) selections) (\<lambda>total. Inr (round2 total)))"

text \<open>The id of a colour selection is that of a size variant, or that of the colour (then the size decides).\<close>

definition resolve_variant :: "variant_dto \<Rightarrow> product \<Rightarrow> (color_variant \<times> variant) option" where
  "resolve_variant s p =
     (case find_size (vd_color_variant_id s) (clothing_colors p) of
        Some r \<Rightarrow> Some r
      | None \<Rightarrow> (case find_one (\<lambda>cv. cv_id cv = vd_color_variant_id s) (clothing_colors p) of
          None \<Rightarrow> None
        | Some cv \<Rightarrow> (case (if truthy_string (vd_size s)
              then find_one (\<lambda>v. same_size (v_size v) (nullish (vd_size s) [])) (cv_variants cv) else None) of
            Some v \<Rightarrow> Some (cv, v)
          | None \<Rightarrow> (case cv_variants cv of [v] \<Rightarrow> Some (cv, v) | _ \<Rightarrow> None))))"

definition variant_cost :: "product \<Rightarrow> variant_dto \<Rightarrow> error + rat" where
  "variant_cost p s = (case resolve_variant s p of
      None \<Rightarrow> Inl (BadRequestException ''Selected variant not found in clothing'')
    | Some (_, v) \<Rightarrow>
        if nullish (v_stock v) 0 < nullish (vd_quantity s) 0
        then Inl (BadRequestException ''Not enough stock for variant in clothing'')
        else Inr (or_num (v_price v) 0 * nullish (vd_quantity s) 1))"

definition calculateColorVariantCost :: "variant_dto list \<Rightarrow> product \<Rightarrow> error + rat" where
  "calculateColorVariantCost selections p =
     bind_result (sum_costs (variant_cost p) selections) (\<lambda>total. Inr (round2 total))"

definition clothing_addons :: "product \<Rightarrow> addon list" where
  "clothing_addons p = (case p_clothing p of None \<Rightarrow> [] | Some c \<Rightarrow> c_addons c)"

definition addon_cost :: "product \<Rightarrow> addon_dto \<Rightarrow> error + rat" where
  "addon_cost p s = (case find_one (\<lambda>a. ad_id a = add_addon_id s) (clothing_addons p) of
      None \<Rightarrow> Inl (BadRequestException ''Selected addon not found on product'')
    | Some a \<Rightarrow> (case find_one (\<lambda>v. adv_id v = add_variant_id s) (ad_variants a) of
        None \<Rightarrow> Inl (BadRequestException ''Selected addon variant not found'')
      | Some v \<Rightarrow> Inr (nullish (adv_price v) 0 * nullish (add_quantity s) 1)))"

definition calculateAddonCost :: "addon_dto list \<Rightarrow> product \<Rightarrow> error + rat" where
  "calculateAddonCost selections p =
     (if clothing_addons p = [] then Inr 0
      else bind_result (sum_costs (addon_cost p) selections) (\<lambda>total. Inr (round2 total)))"

definition applyDiscountToTotal :: "rat \<Rightarrow> discount \<Rightarrow> rat" where
  "applyDiscountToTotal t d =
     (if d_type d \<in> {D_percentage, D_flash_percentage, D_store_wide} then t * d_value d / 100
      else if d_type d \<in> {D_fixed, D_flash_fixed} then min (d_value d) t
      else 0)"

section \<open>Prices of an item\<close>

definition discount_of :: "product \<Rightarrow> db \<Rightarrow> discount option" where
  "discount_of p s = (if is_customize p
     then Option.bind (p_applied_discount p) (\<lambda>i. find_one (\<lambda>d. d_id d = i) (db_discounts s)) else None)"

definition calculateClothingTotal :: "normalized_selections \<Rightarrow> rat \<Rightarrow> product \<Rightarrow> db \<Rightarrow> error + rat" where
  "calculateClothingTotal sel qty p s =
     bind_result (calculateColorVariantCost (ns_color_variant sel) p) (\<lambda>variantTotal.
     let base = (if is_customize p then p_base_price p * qty else effective_price p * qty)
     in bind_result (calculateFabricCost (ns_fabric sel) p) (\<lambda>fab.
     bind_result (calculateAccessoryTotal (ns_accessory sel) p 1) (\<lambda>acc.
     bind_result (calculateStyleCost (ns_style sel) p) (\<lambda>sty.
     bind_result (calculateAddonCost (ns_addon sel) p) (\<lambda>add.
     let before = base + fab + acc + variantTotal + sty + add;
         after = (case discount_of p s of None \<Rightarrow> before | Some d \<Rightarrow> max 0 (before - applyDiscountToTotal before d))
     in Inr (round2 after))))))"

definition calculateFabricTotal :: "normalized_selections \<Rightarrow> rat \<Rightarrow> product \<Rightarrow> error + rat" where
  "calculateFabricTotal sel qty p =
     (if ns_fabric sel \<noteq> [] then bind_result (calculateFabricCost (ns_fabric sel) p) (\<lambda>c. Inr (round2 c))
      else Inr (round2 (effective_price p * qty)))"

definition calculateItemTotal :: "processed_item \<Rightarrow> db \<Rightarrow> error + rat" where
  "calculateItemTotal item s =
     (case find_product (Some (po_product_id item)) s of
        None \<Rightarrow> Inl (NotFoundException ''Product not found'')
      | Some p \<Rightarrow>
          let sel = normalizeSelections (po_selections item); qty = nullish (po_quantity item) 1
          in case p_kind p of
               CLOTHING \<Rightarrow> calculateClothingTotal sel qty p s
             | FABRIC \<Rightarrow> calculateFabricTotal sel qty p
             | ACCESSORY \<Rightarrow> calculateAccessoryTotal (ns_accessory sel) p qty)"

record order_total =
  ot_subtotal :: rat
  ot_total :: rat
  ot_breakdown :: "(processed_item \<times> rat) list"

fun price_items :: "processed_item list \<Rightarrow> db \<Rightarrow> error + (processed_item \<times> rat) list" where
  "price_items [] s = Inr []"
| "price_items (i # is) s = bind_result (calculateItemTotal i s) (\<lambda>c.
     bind_result (price_items is s) (\<lambda>cs. Inr ((i, c) # cs)))"

definition calculateOrderTotal :: "processed_item list \<Rightarrow> db \<Rightarrow> error + order_total" where
  "calculateOrderTotal items s = bind_result (price_items items s) (\<lambda>cs.
     let subtotal = (\<Sum>(i, c)\<leftarrow>cs. c)
     in Inr \<lparr>ot_subtotal = round2 subtotal, ot_total = round2 subtotal, ot_breakdown = cs\<rparr>)"

definition flat_breakdown :: "rat \<Rightarrow> rat \<Rightarrow> rat \<Rightarrow> item_pricing" where
  "flat_breakdown before discount final = \<lparr>pr_base = before, pr_styles_total = 0, pr_fabric_total = 0,
     pr_variant_total = 0, pr_accessories_total = 0, pr_addons_total = 0, pr_external_fabric = Some 0,
     pr_before_discount = before, pr_discount = discount, pr_final = final\<rparr>"

definition clothing_breakdown :: "processed_item \<Rightarrow> product \<Rightarrow> db \<Rightarrow> error + item_pricing" where
  "clothing_breakdown item p s =
     (let sel = normalizeSelections (po_selections item); qty = nullish (po_quantity item) 1
      in bind_result (calculateStyleCost (ns_style sel) p) (\<lambda>styles.
         bind_result (calculateFabricCost (ns_fabric sel) p) (\<lambda>fab.
         bind_result (calculateAccessoryTotal (ns_accessory sel) p 1) (\<lambda>accessories.
         bind_result (calculateColorVariantCost (ns_color_variant sel) p) (\<lambda>variant.
         bind_result (calculateAddonCost (ns_addon sel) p) (\<lambda>addons.
         let base = p_base_price p * qty;
             baseDiscount = (if is_customize p then 0 else max 0 (base - effective_price p * qty));
             before = base + styles + fab + accessories + variant + addons;
             discount = (case discount_of p s of None \<Rightarrow> baseDiscount
                         | Some d \<Rightarrow> min (applyDiscountToTotal before d) before);
             final = max 0 (before - discount)
         in Inr \<lparr>pr_base = round2 base, pr_styles_total = round2 styles, pr_fabric_total = round2 fab,
                 pr_variant_total = round2 variant, pr_accessories_total = round2 accessories,
                 pr_addons_total = round2 addons, pr_external_fabric = Some (round2 (externalFabricCost item s)),
                 pr_before_discount = round2 before, pr_discount = round2 discount, pr_final = round2 final\<rparr>))))))"

definition calculateItemBreakdown :: "processed_item \<Rightarrow> db \<Rightarrow> error + item_pricing" where
  "calculateItemBreakdown item s =
     (case find_product (Some (po_product_id item)) s of
        None \<Rightarrow> Inl (NotFoundException ''Product not found'')
      | Some p \<Rightarrow>
          if p_kind p = CLOTHING then clothing_breakdown item p s
          else bind_result (calculateItemTotal item s) (\<lambda>final.
            if p_kind p = ACCESSORY
            then let hasDisc = (case p_discounted_price p of None \<Rightarrow> False | Some d \<Rightarrow> 0 < d \<and> d < p_base_price p);
                     before = (if hasDisc then round2 (p_base_price p * nullish (po_quantity item) 1) else final)
                 in Inr (flat_breakdown before (max 0 (round2 (before - final))) final)
            else Inr (flat_breakdown final 0 final)))"

section \<open>Availability\<close>

text \<open>An accessory variant has a list of sizes where a size variant has one; both are kept as a list here.\<close>

datatype stock_state = In_stock | Low_stock | Out_of_stock

record stock_thresholds =
  th_lowStock :: rat
  th_lowFabricYards :: rat

record variant_availability =
  va_id :: oid
  va_label :: "string list"
  va_color :: "string option"
  va_size :: "string list"
  va_stock :: rat
  va_state :: stock_state

record fabric_availability =
  fa_yard_length :: rat
  fa_min_cut :: rat
  fa_low_yards :: rat
  fa_available :: bool

record product_availability =
  pa_state :: stock_state
  pa_in_stock :: bool
  pa_low_stock :: bool
  pa_made_to_order :: bool
  pa_total_stock :: "rat option"
  pa_fabric :: "fabric_availability option"
  pa_variants :: "variant_availability list"

definition variantState :: "rat \<Rightarrow> rat \<Rightarrow> stock_state" where
  "variantState stock lowStock = (if stock \<le> 0 then Out_of_stock else if stock \<le> lowStock then Low_stock else In_stock)"

definition plain_availability :: "bool \<Rightarrow> bool \<Rightarrow> product_availability" where
  "plain_availability available made_to_order = \<lparr>pa_state = (if available then In_stock else Out_of_stock),
     pa_in_stock = available, pa_low_stock = False, pa_made_to_order = made_to_order, pa_total_stock = None,
     pa_fabric = None, pa_variants = []\<rparr>"

definition rollup :: "variant_availability list \<Rightarrow> rat \<Rightarrow> rat \<Rightarrow> product_availability" where
  "rollup variants units lowStock =
     (let anyIn = list_ex (\<lambda>v. 0 < va_stock v) variants;
          state = (if \<not> anyIn then Out_of_stock else if units \<le> lowStock then Low_stock else In_stock)
      in \<lparr>pa_state = state, pa_in_stock = anyIn, pa_low_stock = (state = Low_stock), pa_made_to_order = False,
          pa_total_stock = Some units, pa_fabric = None, pa_variants = variants\<rparr>)"

text \<open>\<open>[name, size].filter(Boolean).join(' / ')\<close>\<close>

definition size_label :: "string \<Rightarrow> string option \<Rightarrow> string" where
  "size_label name sz =
     (if name = [] then nullish sz [] else if truthy_string sz then name @ '' / '' @ nullish sz [] else name)"

definition clothing_variants :: "rat \<Rightarrow> product \<Rightarrow> variant_availability list" where
  "clothing_variants lowStock p = concat (map (\<lambda>cv. map (\<lambda>v. \<lparr>va_id = v_id v, va_label = [size_label (cv_name cv) (v_size v)],
     va_color = Some (cv_name cv), va_size = (case v_size v of None \<Rightarrow> [] | Some x \<Rightarrow> [x]), va_stock = nullish (v_stock v) 0,
     va_state = variantState (nullish (v_stock v) 0) lowStock\<rparr>) (cv_variants cv)) (clothing_colors p))"

definition accessory_variants :: "rat \<Rightarrow> accessory \<Rightarrow> variant_availability list" where
  "accessory_variants lowStock a = map (\<lambda>v. \<lparr>va_id = av_id v, va_label = av_size v, va_color = None,
     va_size = av_size v, va_stock = nullish (av_stock v) 0,
     va_state = variantState (nullish (av_stock v) 0) lowStock\<rparr>) (a_variants a)"

definition total_stock :: "variant_availability list \<Rightarrow> rat" where
  "total_stock vs = (\<Sum>v\<leftarrow>vs. va_stock v)"

definition fabric_stock :: "stock_thresholds \<Rightarrow> rat \<Rightarrow> rat \<Rightarrow> product_availability" where
  "fabric_stock th yard minCut =
     (let lowYards = (if 0 < th_lowFabricYards th then th_lowFabricYards th else minCut * 2);
          available = (0 < minCut \<and> minCut \<le> yard);
          state = (if \<not> available then Out_of_stock else if yard < lowYards then Low_stock else In_stock)
      in \<lparr>pa_state = state, pa_in_stock = available, pa_low_stock = (state = Low_stock), pa_made_to_order = False,
          pa_total_stock = None, pa_fabric = Some \<lparr>fa_yard_length = yard, fa_min_cut = minCut, fa_low_yards = lowYards,
          fa_available = available\<rparr>, pa_variants = []\<rparr>)"

definition computeAvailability :: "product \<Rightarrow> stock_thresholds \<Rightarrow> product_availability" where
  "computeAvailability p th =
     (let lowStock = (if 0 < th_lowStock th then th_lowStock th else 5)
      in case p_kind p of
           CLOTHING \<Rightarrow>
             if is_customize p then plain_availability True True
             else let vs = clothing_variants lowStock p
               in if vs = [] then plain_availability True False else rollup vs (total_stock vs) lowStock
         | ACCESSORY \<Rightarrow> (case p_accessory p of
               None \<Rightarrow> plain_availability True False
             | Some a \<Rightarrow> if a_variants a = [] then plain_availability (a_in_stock a \<noteq> Some False) False
                 else let vs = accessory_variants lowStock a in rollup vs (total_stock vs) lowStock)
         | FABRIC \<Rightarrow> (case p_fabric p of
               None \<Rightarrow> fabric_stock th 0 0
             | Some f \<Rightarrow> fabric_stock th (f_yard_length f) (f_min_cut f)))"

section \<open>Properties of prices\<close>

lemma effective_price_le: "effective_price p \<le> p_base_price p"
  by (simp add: effective_price_def split: option.split)

lemma round2_of_int: "round2 (of_int k) = of_int k"
  using js_round_of_int [of "k * 100"] by (simp add: round2_def)

lemma round2_max: "round2 (max 0 x) = max 0 (round2 x)"
  using round2_mono [of 0 x] round2_mono [of x 0] by (cases "0 \<le> x") (auto simp: max_def)

lemma clothing_breakdown_total:
  assumes "0 \<le> nullish (po_quantity item) 1"
  shows "case calculateClothingTotal (normalizeSelections (po_selections item)) (nullish (po_quantity item) 1) p s of
      Inl _ \<Rightarrow> isl (clothing_breakdown item p s)
    | Inr t \<Rightarrow> \<exists>b. clothing_breakdown item p s = Inr b \<and> pr_final b = max 0 t"
proof -
  let ?sel = "normalizeSelections (po_selections item)" and ?qty = "nullish (po_quantity item) 1"
  have "effective_price p * ?qty \<le> p_base_price p * ?qty"
    by (rule mult_right_mono [OF effective_price_le assms])
  then have rtw: "max 0 (p_base_price p * ?qty - effective_price p * ?qty) = p_base_price p * ?qty - effective_price p * ?qty"
    by simp
  have custom: "discount_of p s = None" if "\<not> is_customize p" using that by (simp add: discount_of_def)
  show ?thesis
  proof (cases "\<exists>v f a st ad. calculateColorVariantCost (ns_color_variant ?sel) p = Inr v \<and>
      calculateFabricCost (ns_fabric ?sel) p = Inr f \<and> calculateAccessoryTotal (ns_accessory ?sel) p 1 = Inr a \<and>
      calculateStyleCost (ns_style ?sel) p = Inr st \<and> calculateAddonCost (ns_addon ?sel) p = Inr ad")
    case True
    then obtain v f a st ad where ok: "calculateColorVariantCost (ns_color_variant ?sel) p = Inr v"
      "calculateFabricCost (ns_fabric ?sel) p = Inr f" "calculateAccessoryTotal (ns_accessory ?sel) p 1 = Inr a"
      "calculateStyleCost (ns_style ?sel) p = Inr st" "calculateAddonCost (ns_addon ?sel) p = Inr ad" by blast
    show ?thesis
    proof (cases "discount_of p s")
      case None
      then show ?thesis
        by (simp add: calculateClothingTotal_def clothing_breakdown_def Let_def ok rtw round2_max [symmetric] algebra_simps)
    next
      case (Some d)
      then have c: "is_customize p" using custom by fastforce
      let ?before = "p_base_price p * ?qty + st + f + a + v + ad"
      have "max 0 (?before - min (applyDiscountToTotal ?before d) ?before) = max 0 (?before - applyDiscountToTotal ?before d)"
        by (simp add: max_def min_def)
      moreover have "p_base_price p * ?qty + f + a + v + st + ad = ?before" by simp
      moreover have "max 0 (max 0 x) = max 0 x" for x :: rat by simp
      ultimately show ?thesis using Some c
        by (simp only: calculateClothingTotal_def clothing_breakdown_def Let_def ok bind_result_simps option.case if_True
            sum.case item_pricing.simps sum.inject round2_max [symmetric] ex_simps simp_thms)
    qed
  next
    case False
    then show ?thesis
      by (cases "calculateColorVariantCost (ns_color_variant ?sel) p"; cases "calculateFabricCost (ns_fabric ?sel) p";
          cases "calculateAccessoryTotal (ns_accessory ?sel) p 1"; cases "calculateStyleCost (ns_style ?sel) p";
          cases "calculateAddonCost (ns_addon ?sel) p")
        (simp_all add: calculateClothingTotal_def clothing_breakdown_def Let_def)
  qed
qed

text \<open>C28: The itemised breakdown and the price charged agree: they fail together, and when they succeed the
  breakdown's final price is the price of the item (a negative price of a garment is shown as 0).\<close>

theorem breakdown_final_is_price:
  assumes "0 \<le> nullish (po_quantity item) 1"
  shows "case calculateItemTotal item s of
      Inl _ \<Rightarrow> isl (calculateItemBreakdown item s)
    | Inr t \<Rightarrow> \<exists>b. calculateItemBreakdown item s = Inr b \<and> (pr_final b = t \<or> pr_final b = 0 \<and> t < 0)"
proof (cases "find_product (Some (po_product_id item)) s")
  case None
  then show ?thesis by (simp add: calculateItemTotal_def calculateItemBreakdown_def)
next
  case (Some p)
  show ?thesis
  proof (cases "p_kind p = CLOTHING")
    case True
    with Some clothing_breakdown_total [OF assms, of p s] show ?thesis
      by (auto simp: calculateItemTotal_def calculateItemBreakdown_def max_def split: sum.splits)
  next
    case False
    with Some show ?thesis
      by (cases "calculateItemTotal item s") (auto simp: calculateItemBreakdown_def flat_breakdown_def Let_def)
  qed
qed

text \<open>A marked-down accessory bought through selections is shown wrongly: the price before the discount is
  that of the line's own quantity while the final price is that of the selection's quantity, so the price
  before the discount can be below the final price, with a discount of 0.\<close>

theorem accessory_breakdown_inconsistent:
  assumes "find_product (Some (po_product_id item)) s = Some p" "p_kind p = ACCESSORY" "p_accessory p = Some a"
    "p_discounted_price p = Some d" "0 < d" "d < p_base_price p" "po_quantity item = None"
    "ns_accessory (normalizeSelections (po_selections item)) =
       [\<lparr>acd_accessory_id = a_id a, acd_variant_id = None, acd_quantity = Some q\<rparr>]"
    "p_base_price p + 1/50 \<le> d * q"
  shows "\<exists>b. calculateItemBreakdown item s = Inr b \<and> pr_before_discount b < pr_final b \<and> pr_discount b = 0"
proof -
  have "calculateItemTotal item s = Inr (round2 (d * q))"
    using assms by (simp add: calculateItemTotal_def calculateAccessoryTotal_def accessory_product_cost_def
        effective_price_def Let_def)
  moreover have less: "round2 (p_base_price p) < round2 (d * q)"
    using round2_close [of "p_base_price p"] round2_close [of "d * q"] assms(9) by linarith
  moreover have "max 0 (round2 (round2 (p_base_price p) - round2 (d * q))) = 0"
    using round2_mono [of "round2 (p_base_price p) - round2 (d * q)" 0] less by simp
  ultimately show ?thesis
    using assms by (simp add: calculateItemBreakdown_def flat_breakdown_def Let_def)
qed

text \<open>C30: A fabric shown as in stock can be bought at its minimum cut, and one shown as out of stock cannot.\<close>

theorem fabric_in_stock_iff_min_cut_sells:
  assumes "p_kind p = FABRIC" "p_fabric p = Some f" "0 < f_min_cut f"
  shows "pa_in_stock (computeAvailability p th) \<longleftrightarrow>
    \<not> isl (calculateFabricCost [\<lparr>fd_fabric_id = f_id f, fd_yardage = Some (f_min_cut f), fd_size = None, fd_quantity = q\<rparr>] p)"
  using assms
  by (auto simp: computeAvailability_def fabric_stock_def calculateFabricCost_def fabric_product_cost_def
      or_truthy_def Let_def)

text \<open>A ready-to-wear garment is shown as in stock exactly when it has no size variants at all or some size
  has a piece left; it is shown as out of stock otherwise, and low stock is a kind of in stock.\<close>

theorem garment_availability:
  assumes "p_kind p = CLOTHING" "\<not> is_customize p"
  shows "pa_in_stock (computeAvailability p th) = ((\<forall>cv\<in>set (clothing_colors p). cv_variants cv = []) \<or>
      (\<exists>cv\<in>set (clothing_colors p). \<exists>v\<in>set (cv_variants cv). 0 < nullish (v_stock v) 0)) \<and>
    (pa_state (computeAvailability p th) = Out_of_stock) = (\<not> pa_in_stock (computeAvailability p th)) \<and>
    (pa_low_stock (computeAvailability p th) \<longrightarrow> pa_in_stock (computeAvailability p th))"
proof -
  have empty: "clothing_variants low p = [] \<longleftrightarrow> (\<forall>cv\<in>set (clothing_colors p). cv_variants cv = [])" for low
    by (auto simp: clothing_variants_def)
  have some: "(\<exists>v\<in>set (clothing_variants low p). 0 < va_stock v) \<longleftrightarrow>
      (\<exists>cv\<in>set (clothing_colors p). \<exists>v\<in>set (cv_variants cv). 0 < nullish (v_stock v) 0)" for low
    by (auto simp: clothing_variants_def)
  show ?thesis
    using assms some by (auto simp: computeAvailability_def Let_def empty plain_availability_def rollup_def list_ex_iff)
qed

text \<open>The total of an order is the sum of its items' prices, whatever their order.\<close>

fun right_or :: "'a \<Rightarrow> error + 'a \<Rightarrow> 'a" where
  "right_or d (Inl e) = d"
| "right_or d (Inr x) = x"

lemma price_items_eq:
  "price_items items s = Inr cs \<longleftrightarrow> (\<forall>i\<in>set items. \<not> isl (calculateItemTotal i s)) \<and>
     cs = map (\<lambda>i. (i, right_or 0 (calculateItemTotal i s))) items"
proof (induction items arbitrary: cs)
  case (Cons i items)
  then show ?case by (cases "calculateItemTotal i s") (auto simp: bind_result_Inr)
qed auto

text \<open>The total of an order does not depend on the order of its lines.\<close>

theorem order_total_ignores_line_order:
  assumes "mset items = mset items'" "calculateOrderTotal items s = Inr r"
  shows "\<exists>r'. calculateOrderTotal items' s = Inr r' \<and> ot_total r' = ot_total r"
proof -
  have sums: "(\<Sum>i\<leftarrow>items. g i) = (\<Sum>i\<leftarrow>items'. g i)" for g :: "processed_item \<Rightarrow> rat"
    using assms(1) by (metis mset_map sum_mset_sum_list)
  from assms(2) obtain cs where cs: "price_items items s = Inr cs"
    and r: "r = \<lparr>ot_subtotal = round2 (\<Sum>(i, c)\<leftarrow>cs. c), ot_total = round2 (\<Sum>(i, c)\<leftarrow>cs. c), ot_breakdown = cs\<rparr>"
    by (auto simp: calculateOrderTotal_def bind_result_Inr Let_def)
  let ?p = "\<lambda>i. right_or 0 (calculateItemTotal i s)"
  have all: "\<forall>i\<in>set items. \<not> isl (calculateItemTotal i s)" "cs = map (\<lambda>i. (i, ?p i)) items"
    using cs by (simp_all add: price_items_eq)
  then have "price_items items' s = Inr (map (\<lambda>i. (i, ?p i)) items')"
    using mset_eq_setD [OF assms(1)] by (simp add: price_items_eq)
  moreover have "(\<Sum>(i, c)\<leftarrow>map (\<lambda>i. (i, ?p i)) items'. c) = (\<Sum>(i, c)\<leftarrow>cs. c)"
    using sums [of ?p] all(2) by (simp add: comp_def)
  ultimately show ?thesis using r by (simp add: calculateOrderTotal_def Let_def)
qed

section \<open>Sample requests\<close>

definition sample_request :: "oid \<Rightarrow> rat \<Rightarrow> processed_item" where
  "sample_request i q = \<lparr>po_product_id = i, po_quantity = None, po_applied_fabric_id = None, po_applied_fabric_yards = None,
     po_selections = Some \<lparr>se_color_variant = Some [\<lparr>vd_color_variant_id = 21, vd_size = None, vd_quantity = Some q\<rparr>],
       se_style = None, se_fabric = None, se_accessory = Some [\<lparr>acd_accessory_id = 40, acd_variant_id = None, acd_quantity = Some q\<rparr>],
       se_addon = None\<rparr>\<rparr>"

definition sample_accessory :: accessory where
  "sample_accessory = \<lparr>a_id = 40, a_name = ''beads'', a_description = None, a_price = Some 5, a_variants = [], a_in_stock = None\<rparr>"

text \<open>A garment with an accessory (product 10), a marked-down accessory (11) and a fabric (12).\<close>

definition sample_catalogue :: db where
  "sample_catalogue = empty_db\<lparr>db_products :=
     [sample_product\<lparr>p_clothing := Some (sample_clothing\<lparr>c_accessories := [sample_accessory]\<rparr>)\<rparr>,
      sample_product\<lparr>p_id := 11, p_kind := ACCESSORY, p_clothing := None, p_accessory := Some sample_accessory,
        p_discounted_price := Some 60\<rparr>,
      sample_product\<lparr>p_id := 12, p_kind := FABRIC, p_clothing := None, p_fabric := Some sample_fabric\<rparr>]\<rparr>"

lemmas sample_catalogue_defs = sample_catalogue_def sample_request_def sample_accessory_def sample_product_def
  sample_clothing_def sample_variant_def sample_fabric_def empty_db_def

lemmas run_prices = calculateItemTotal_def calculateClothingTotal_def calculateColorVariantCost_def variant_cost_def
  resolve_variant_def calculateFabricCost_def calculateAccessoryTotal_def accessory_product_cost_def
  garment_accessory_cost_def calculateStyleCost_def calculateAddonCost_def normalizeSelections_def find_product_def
  clothing_colors_def clothing_accessories_def clothing_addons_def is_customize_def effective_price_def discount_of_def
  exists_doc_def Let_def

lemma sample_garment_price: "calculateItemTotal (sample_request 10 2) sample_catalogue = Inr 110"
  using round2_of_int [of 10] round2_of_int [of 0] round2_of_int [of 110]
  by (simp add: run_prices sample_catalogue_defs)

theorem breakdown_final_is_price_witness:
  "\<exists>b. calculateItemBreakdown (sample_request 10 2) sample_catalogue = Inr b \<and> pr_final b = 110"
  using breakdown_final_is_price [of "sample_request 10 2" sample_catalogue] sample_garment_price
  by (auto simp: sample_request_def)

theorem accessory_breakdown_inconsistent_witness:
  "\<exists>b. calculateItemBreakdown (sample_request 11 5) sample_catalogue = Inr b \<and> pr_before_discount b < pr_final b"
proof -
  have "\<exists>b. calculateItemBreakdown (sample_request 11 5) sample_catalogue = Inr b \<and> pr_before_discount b < pr_final b \<and> pr_discount b = 0"
    by (rule accessory_breakdown_inconsistent [of _ _ "sample_product\<lparr>p_id := 11, p_kind := ACCESSORY, p_clothing := None,
        p_accessory := Some sample_accessory, p_discounted_price := Some 60\<rparr>" sample_accessory 60 5])
      (simp_all add: sample_catalogue_defs find_product_def normalizeSelections_def)
  then show ?thesis by blast
qed

theorem fabric_in_stock_iff_min_cut_sells_witness:
  "pa_in_stock (computeAvailability (sample_product\<lparr>p_kind := FABRIC, p_fabric := Some sample_fabric\<rparr>) \<lparr>th_lowStock = 5, th_lowFabricYards = 0\<rparr>)"
  using fabric_in_stock_iff_min_cut_sells [of "sample_product\<lparr>p_kind := FABRIC, p_fabric := Some sample_fabric\<rparr>" sample_fabric
      "\<lparr>th_lowStock = 5, th_lowFabricYards = 0\<rparr>" None]
  by (simp add: sample_product_def sample_fabric_def calculateFabricCost_def fabric_product_cost_def or_truthy_def Let_def)

theorem garment_availability_witness:
  "pa_in_stock (computeAvailability sample_product \<lparr>th_lowStock = 5, th_lowFabricYards = 0\<rparr>)"
  using garment_availability [of sample_product]
  by (simp add: sample_product_def sample_clothing_def sample_variant_def is_customize_def clothing_colors_def)

theorem order_total_ignores_line_order_witness:
  "\<exists>r r'. calculateOrderTotal [sample_request 10 1, sample_request 10 2] sample_catalogue = Inr r \<and>
     calculateOrderTotal [sample_request 10 2, sample_request 10 1] sample_catalogue = Inr r' \<and> ot_total r' = ot_total r"
proof -
  have "calculateItemTotal (sample_request 10 1) sample_catalogue = Inr 105"
    using round2_of_int [of 5] round2_of_int [of 0] round2_of_int [of 105] by (simp add: run_prices sample_catalogue_defs)
  then have "\<exists>r. calculateOrderTotal [sample_request 10 1, sample_request 10 2] sample_catalogue = Inr r"
    by (simp add: calculateOrderTotal_def sample_garment_price Let_def)
  then obtain r where r: "calculateOrderTotal [sample_request 10 1, sample_request 10 2] sample_catalogue = Inr r" by blast
  from order_total_ignores_line_order [OF _ this, of "[sample_request 10 2, sample_request 10 1]"] r
  show ?thesis by (simp add: add_mset_commute)
qed

end
