(* ===== verification/Checkout.thy ===== *)
theory Checkout
  imports Reservations Pricing Payouts
begin

text \<open>
  Placing an order (\<open>src/modules/orders/orders.service.ts\<close>, \<open>orders.validation.ts\<close>): validating the
  request, normalising its selections against the product, pricing each line, looking the shipping fees
  up in the cache of quotes, and paying from the wallet or through Paystack. The customer's addresses
  and the cached quotes are collections the code only reads here; they are arguments. Snapshots of
  products, the body profile and notifications are left out; requests the code runs in parallel are
  run one after the other.
\<close>

section \<open>Normalising selections\<close>

record order_selections =
  os_variants :: "variant_selection list"
  os_styles :: "style_selection list"
  os_fabrics :: "fabric_selection list"
  os_accessories :: "accessory_selection list"
  os_addons :: "addon_selection list"

definition selling_price :: "product \<Rightarrow> rat" where
  "selling_price p = (case p_discounted_price p of Some d \<Rightarrow> if 0 < d then d else p_base_price p | None \<Rightarrow> p_base_price p)"

definition normalize_variant :: "product \<Rightarrow> variant_dto \<Rightarrow> variant_selection option" where
  "normalize_variant p cvs = (case resolve_variant cvs p of
      None \<Rightarrow> None
    | Some (cv, v) \<Rightarrow>
        let quantity = nullish (vd_quantity cvs) 1; unitPrice = selling_price p + or_num (v_price v) 0
        in Some \<lparr>vs_variant_id = v_id v, vs_size = v_size v, vs_color = Some (cv_name cv), vs_hex = Some (cv_hex cv),
                 vs_price = Some unitPrice, vs_quantity = Some quantity, vs_total_amount = Some (unitPrice * quantity)\<rparr>)"

definition normalize_style :: "product \<Rightarrow> style_dto \<Rightarrow> style_selection option" where
  "normalize_style p ss =
     (case Option.bind (p_clothing p) (\<lambda>c. find_one (\<lambda>st. s_id st = sd_style_id ss) (c_styles c)) of
        None \<Rightarrow> None
      | Some st \<Rightarrow> let quantity = nullish (sd_quantity ss) 1
          in Some \<lparr>ss_style_id = s_id st, ss_price = Some (s_price st), ss_quantity = Some quantity,
                   ss_total_amount = Some (s_price st * quantity)\<rparr>)"

text \<open>A fabric that is not one of the garment's is taken to be the product's own, whatever its id.\<close>

definition normalize_fabric :: "product \<Rightarrow> fabric_dto \<Rightarrow> fabric_selection option" where
  "normalize_fabric p fs =
     (case (case find_one (\<lambda>f. f_id f = fd_fabric_id fs) (clothing_fabrics p) of Some f \<Rightarrow> Some f | None \<Rightarrow> p_fabric p) of
        None \<Rightarrow> None
      | Some f \<Rightarrow>
          let yardage = or_num (or_truthy (fd_yardage fs) (variant_yards f (fd_size fs))) 1;
              quantity = nullish (fd_quantity fs) 1
          in Some \<lparr>fs_fabric_id = f_id f, fs_yardage = Some yardage, fs_price = Some (f_price_per_yard f),
                   fs_quantity = Some quantity, fs_total_amount = Some (f_price_per_yard f * yardage * quantity)\<rparr>)"

definition normalize_accessory :: "product \<Rightarrow> accessory_dto \<Rightarrow> accessory_selection option" where
  "normalize_accessory p as =
     (case (case find_one (\<lambda>a. a_id a = acd_accessory_id as) (clothing_accessories p) of Some a \<Rightarrow> Some a | None \<Rightarrow> p_accessory p) of
        None \<Rightarrow> None
      | Some a \<Rightarrow>
          let v = Option.bind (acd_variant_id as) (\<lambda>i. find_av i a); quantity = nullish (acd_quantity as) 1
          in Some \<lparr>as_accessory_id = a_id a, as_variant_id = map_option av_id v, as_name = Some (a_name a),
                   as_color = map_option (\<lambda>v. fst (av_color v)) v, as_hex = map_option (\<lambda>v. snd (av_color v)) v,
                   as_price = a_price a, as_quantity = Some quantity,
                   as_total_amount = map_option (\<lambda>x. x * quantity) (a_price a)\<rparr>)"

definition normalize_addon :: "product \<Rightarrow> addon_dto \<Rightarrow> addon_selection option" where
  "normalize_addon p ads =
     (case Option.bind (find_one (\<lambda>a. ad_id a = add_addon_id ads) (clothing_addons p))
             (\<lambda>a. map_option (\<lambda>v. (a, v)) (find_one (\<lambda>v. adv_id v = add_variant_id ads) (ad_variants a))) of
        None \<Rightarrow> None
      | Some (a, v) \<Rightarrow> let quantity = nullish (add_quantity ads) 1; price = nullish (adv_price v) 0
          in Some \<lparr>ads_addon_id = ad_id a, ads_variant_id = adv_id v, ads_quantity = Some quantity,
                   ads_price = Some price, ads_total_amount = Some (price * quantity)\<rparr>)"

definition normalize_order_selections :: "selections_dto option \<Rightarrow> product \<Rightarrow> order_selections" where
  "normalize_order_selections selections p = (case selections of
      None \<Rightarrow> \<lparr>os_variants = [], os_styles = [], os_fabrics = [], os_accessories = [], os_addons = []\<rparr>
    | Some s \<Rightarrow> \<lparr>os_variants = List.map_filter (normalize_variant p) (nullish (se_color_variant s) []),
        os_styles = List.map_filter (normalize_style p) (nullish (se_style s) []),
        os_fabrics = List.map_filter (normalize_fabric p) (nullish (se_fabric s) []),
        os_accessories = List.map_filter (normalize_accessory p) (nullish (se_accessory s) []),
        os_addons = List.map_filter (normalize_addon p) (nullish (se_addon s) [])\<rparr>)"

text \<open>The keys of the normalised selections that the price calculation reads; the size of a fabric is gone.\<close>

definition priced_selections :: "order_selections \<Rightarrow> selections_dto" where
  "priced_selections os = \<lparr>
     se_color_variant = Some (map (\<lambda>v. \<lparr>vd_color_variant_id = vs_variant_id v, vd_size = vs_size v, vd_quantity = vs_quantity v\<rparr>) (os_variants os)),
     se_style = Some (map (\<lambda>st. \<lparr>sd_style_id = ss_style_id st, sd_quantity = ss_quantity st\<rparr>) (os_styles os)),
     se_fabric = Some (map (\<lambda>f. \<lparr>fd_fabric_id = fs_fabric_id f, fd_yardage = fs_yardage f, fd_size = None, fd_quantity = fs_quantity f\<rparr>) (os_fabrics os)),
     se_accessory = Some (map (\<lambda>a. \<lparr>acd_accessory_id = as_accessory_id a, acd_variant_id = as_variant_id a, acd_quantity = as_quantity a\<rparr>) (os_accessories os)),
     se_addon = Some (map (\<lambda>a. \<lparr>add_addon_id = ads_addon_id a, add_variant_id = ads_variant_id a, add_quantity = ads_quantity a\<rparr>) (os_addons os))\<rparr>"

section \<open>Lines of an order\<close>

record order_item_dto =
  oi_product_id :: oid
  oi_note :: "string option"
  oi_quantity :: "rat option"
  oi_selections :: "selections_dto option"
  oi_applied_fabric_id :: "oid option"
  oi_applied_fabric_yards :: "rat option"

record order_line =
  ol_request :: processed_item
  ol_business :: "oid option"
  ol_note :: "string option"
  ol_selections :: order_selections
  ol_pricing :: item_pricing

definition process_item :: "order_item_dto \<Rightarrow> db \<Rightarrow> error + order_line" where
  "process_item item s = (case find_product (Some (oi_product_id item)) s of
      None \<Rightarrow> Inl (BadRequestException ''Product not found'')
    | Some p \<Rightarrow>
        let os = normalize_order_selections (oi_selections item) p;
            request = \<lparr>po_product_id = oi_product_id item, po_quantity = oi_quantity item,
              po_applied_fabric_id = oi_applied_fabric_id item, po_applied_fabric_yards = oi_applied_fabric_yards item,
              po_selections = Some (priced_selections os)\<rparr>
        in bind_result (calculateItemBreakdown request s) (\<lambda>pricing.
           Inr \<lparr>ol_request = request, ol_business = p_business p, ol_note = oi_note item, ol_selections = os,
                ol_pricing = pricing\<rparr>))"

fun processOrderItems :: "order_item_dto list \<Rightarrow> db \<Rightarrow> error + order_line list" where
  "processOrderItems [] s = Inr []"
| "processOrderItems (i # is) s = bind_result (process_item i s) (\<lambda>l.
     bind_result (processOrderItems is s) (\<lambda>ls. Inr (l # ls)))"

definition stored_item :: "order_line \<Rightarrow> oid \<Rightarrow> order_item" where
  "stored_item l i = (default_item i)\<lparr>i_product := Some (po_product_id (ol_request l)), i_business := ol_business l,
     i_color_variant_selections := os_variants (ol_selections l), i_fabric_selections := os_fabrics (ol_selections l),
     i_style_selections := os_styles (ol_selections l), i_accessory_selections := os_accessories (ol_selections l),
     i_addon_selections := os_addons (ol_selections l), i_applied_fabric := po_applied_fabric_id (ol_request l),
     i_applied_fabric_yards := po_applied_fabric_yards (ol_request l), i_note := ol_note l,
     i_total_price := Some (pr_final (ol_pricing l)), i_pricing := Some (ol_pricing l)\<rparr>"

section \<open>The price shown on the product page\<close>

definition external_price :: "oid option \<Rightarrow> rat option \<Rightarrow> db \<Rightarrow> rat" where
  "external_price fabricId yards s = (case fabricId of
      None \<Rightarrow> 0
    | Some i \<Rightarrow> (if truthy_num yards then (case Option.bind (find_product (Some i) s) p_fabric of
        None \<Rightarrow> 0 | Some f \<Rightarrow> f_price_per_yard f * nullish yards 0) else 0))"

definition priceItem :: "order_item_dto \<Rightarrow> db \<Rightarrow> item_pricing" where
  "priceItem dto s =
     (let request = \<lparr>po_product_id = oi_product_id dto, po_quantity = Some 1, po_applied_fabric_id = None,
            po_applied_fabric_yards = None, po_selections = Some (case oi_selections dto of
              None \<Rightarrow> \<lparr>se_color_variant = Some [], se_style = Some [], se_fabric = Some [], se_accessory = Some [], se_addon = Some []\<rparr>
            | Some sel \<Rightarrow> sel)\<rparr>;
          breakdown = (case calculateItemBreakdown request s of
              Inr b \<Rightarrow> b
            | Inl _ \<Rightarrow> let base = (case find_product (Some (oi_product_id dto)) s of None \<Rightarrow> 0 | Some p \<Rightarrow> effective_price p)
                in flat_breakdown base 0 base);
          ext = external_price (oi_applied_fabric_id dto) (oi_applied_fabric_yards dto) s
      in breakdown\<lparr>pr_external_fabric := Some (round2 ext),
           pr_before_discount := round2 (pr_before_discount breakdown + ext), pr_final := round2 (pr_final breakdown + ext)\<rparr>)"

section \<open>Validating a request\<close>

text \<open>
  \<open>validateOrderItem\<close> adds prices up as well, by rules of its own; the order does not use that sum. The
  size of a colour is compared exactly here.
\<close>

definition validation_variant :: "variant_dto \<Rightarrow> product \<Rightarrow> variant option" where
  "validation_variant s p =
     (case find_size (vd_color_variant_id s) (clothing_colors p) of
        Some (_, v) \<Rightarrow> Some v
      | None \<Rightarrow> (case find_one (\<lambda>cv. cv_id cv = vd_color_variant_id s) (clothing_colors p) of
          None \<Rightarrow> None
        | Some cv \<Rightarrow> (case (if truthy_string (vd_size s) then find_one (\<lambda>v. v_size v = vd_size s) (cv_variants cv) else None) of
            Some v \<Rightarrow> Some v
          | None \<Rightarrow> (case cv_variants cv of [v] \<Rightarrow> Some v | _ \<Rightarrow> None))))"

definition validate_variant :: "product \<Rightarrow> variant_dto \<Rightarrow> error + rat" where
  "validate_variant p s = (case validation_variant s p of
      None \<Rightarrow> Inl (BadRequestException ''Color variant not found'')
    | Some v \<Rightarrow> if nullish (v_stock v) 0 < nullish (vd_quantity s) 0 then Inl (BadRequestException ''Not enough stock for variant'')
        else Inr ((selling_price p + or_num (v_price v) 0) * nullish (vd_quantity s) 1))"

definition validate_fabric :: "product \<Rightarrow> fabric_dto \<Rightarrow> error + rat" where
  "validate_fabric p s = (case find_one (\<lambda>f. f_id f = fd_fabric_id s) (clothing_fabrics p) of
      None \<Rightarrow> Inl (BadRequestException ''Fabric not found'')
    | Some f \<Rightarrow> let resolvedYardage = nullish (or_truthy (fd_yardage s) (variant_yards f (fd_size s))) 0
        in if f_yard_length f < resolvedYardage then Inl (BadRequestException ''Insufficient fabric stock'')
           else Inr (f_price_per_yard f * resolvedYardage * nullish (fd_quantity s) 1))"

definition validate_style :: "product \<Rightarrow> style_dto \<Rightarrow> error + rat" where
  "validate_style p s = (case Option.bind (p_clothing p) (\<lambda>c. find_one (\<lambda>st. s_id st = sd_style_id s) (c_styles c)) of
      None \<Rightarrow> Inl (BadRequestException ''Style not found'')
    | Some st \<Rightarrow> Inr (s_price st))"

text \<open>A chosen variant doubles the price in this sum (\<open>price += price\<close>).\<close>

definition validate_accessory :: "accessory option \<Rightarrow> accessory_dto \<Rightarrow> error + rat" where
  "validate_accessory found s = (case found of
      None \<Rightarrow> Inl (BadRequestException ''Accessory not found'')
    | Some a \<Rightarrow> (case (acd_variant_id s, a_variants a \<noteq> []) of
        (Some i, True) \<Rightarrow> if find_av i a = None then Inl (BadRequestException ''Selected variant not found for accessory'')
            else Inr (2 * nullish (a_price a) 0 * nullish (acd_quantity s) 1)
      | _ \<Rightarrow> Inr (nullish (a_price a) 0 * nullish (acd_quantity s) 1)))"

definition clothing_rules :: "product \<Rightarrow> normalized_selections \<Rightarrow> error option" where
  "clothing_rules p sel =
     (if is_customize p
      then if ns_fabric sel = [] \<and> ns_color_variant sel = []
           then Some (BadRequestException ''Customized clothing must include either fabric or variant selections'')
           else if ns_fabric sel \<noteq> [] \<and> ns_color_variant sel \<noteq> []
           then Some (BadRequestException ''Customized clothing cannot include both fabric and variant selections'')
           else None
      else if ns_color_variant sel = []
           then Some (BadRequestException ''Non-customized clothing must include variant selections'')
           else if ns_fabric sel \<noteq> [] \<or> ns_accessory sel \<noteq> [] \<or> ns_style sel \<noteq> []
           then Some (BadRequestException ''Non-customized clothing cannot include fabrics, styles, or accessories'')
           else None)"

definition validate_clothing :: "product \<Rightarrow> normalized_selections \<Rightarrow> error + rat" where
  "validate_clothing p sel =
     (if p_clothing p = None then Inl (BadRequestException ''Clothing product details missing'')
      else (case clothing_rules p sel of
        Some e \<Rightarrow> Inl e
      | None \<Rightarrow>
          bind_result (sum_costs (validate_variant p) (ns_color_variant sel)) (\<lambda>v.
          bind_result (sum_costs (validate_fabric p) (ns_fabric sel)) (\<lambda>f.
          bind_result (sum_costs (validate_style p) (ns_style sel)) (\<lambda>st.
          bind_result (sum_costs (\<lambda>s. validate_accessory (find_one (\<lambda>a. a_id a = acd_accessory_id s) (clothing_accessories p)) s)
            (ns_accessory sel)) (\<lambda>a. Inr (v + f + st + a)))))))"

definition validateOrderItem :: "order_item_dto \<Rightarrow> db \<Rightarrow> error + rat" where
  "validateOrderItem item s = (case find_product (Some (oi_product_id item)) s of
      None \<Rightarrow> Inl (BadRequestException ''Product not found'')
    | Some p \<Rightarrow> let sel = normalizeSelections (oi_selections item) in (case p_kind p of
        CLOTHING \<Rightarrow> validate_clothing p sel
      | FABRIC \<Rightarrow>
          if ns_fabric sel = [] then Inl (BadRequestException ''Fabric product must include fabric selections'')
          else if ns_color_variant sel \<noteq> [] \<or> ns_style sel \<noteq> [] \<or> ns_accessory sel \<noteq> []
          then Inl (BadRequestException ''Fabric product cannot include styles, color variants, or accessories'')
          else sum_costs (\<lambda>s. case p_fabric p of None \<Rightarrow> Inl (BadRequestException ''Fabric not found'')
                 | Some f \<Rightarrow> Inr (f_price_per_yard f * nullish (fd_yardage s) 0)) (ns_fabric sel)
      | ACCESSORY \<Rightarrow>
          if ns_accessory sel = [] then Inl (BadRequestException ''Accessory product must include accessory selections'')
          else if ns_color_variant sel \<noteq> [] \<or> ns_style sel \<noteq> [] \<or> ns_fabric sel \<noteq> []
          then Inl (BadRequestException ''Accessory product cannot include styles, variants, or fabrics'')
          else sum_costs (validate_accessory (p_accessory p)) (ns_accessory sel)))"

definition validateCompleteOrder :: "order_item_dto list \<Rightarrow> db \<Rightarrow> error + rat" where
  "validateCompleteOrder items s =
     (if items = [] then Inl (BadRequestException ''Order must contain at least one item'')
      else sum_costs (\<lambda>i. validateOrderItem i s) items)"

section \<open>Shipping\<close>

record address =
  adr_id :: oid
  adr_customer :: oid
  adr_is_default :: bool

definition resolveShippingAddress :: "address list \<Rightarrow> oid \<Rightarrow> oid option \<Rightarrow> error + address" where
  "resolveShippingAddress addresses customerId addressId = (case addressId of
      Some i \<Rightarrow> (case find_one (\<lambda>a. adr_id a = i \<and> adr_customer a = customerId) addresses of
          None \<Rightarrow> Inl (BadRequestException ''Specified address not found or does not belong to customer'')
        | Some a \<Rightarrow> Inr a)
    | None \<Rightarrow> (case find_one (\<lambda>a. adr_customer a = customerId \<and> adr_is_default a) addresses of
          Some a \<Rightarrow> Inr a
        | None \<Rightarrow> (case find_one (\<lambda>a. adr_customer a = customerId) addresses of
            Some a \<Rightarrow> Inr a
          | None \<Rightarrow> Inl (BadRequestException ''Please add a shipping address before placing an order''))))"

record courier_rate =
  cr_courier_id :: string
  cr_service_code :: string
  cr_courier_name :: "string option"
  cr_rate_amount :: rat

record rate_cache =
  rc_customer :: oid
  rc_request_token :: string
  rc_business_id :: oid
  rc_rates :: "courier_rate list"
  rc_createdAt :: instant

record selected_shipping =
  sl_business_id :: oid
  sl_request_token :: string
  sl_courier_id :: string
  sl_service_code :: string
  sl_courier_name :: string

record selected_fabric_transfer =
  st_fabric_vendor_id :: oid
  st_tailor_vendor_id :: oid
  st_fabric_product_id :: oid
  st_fabric_yards :: rat
  st_request_token :: string
  st_courier_id :: string
  st_service_code :: string
  st_courier_name :: string

definition default_shipment :: "oid \<Rightarrow> vendor_shipment" where
  "default_shipment business = \<lparr>sh_id = 0, sh_business = business, sh_request_token = None, sh_service_code = None,
     sh_courier_id = None, sh_courier_name = None, sh_shipping_fee = Some 0, sh_shipment_id = None, sh_tracking_number = None,
     sh_label_url = None, sh_status = S_PENDING, sh_shipment_type = VENDOR_TO_CUSTOMER, sh_destination_business = None,
     sh_fabric_product = None, sh_fabric_yards = None, sh_eta_days = None, sh_expected_delivery_at = None,
     sh_confirmed = False, sh_confirmed_at = None, sh_rejected = False, sh_rejected_at = None, sh_rejection_reason = None,
     sh_refunded = False, sh_rate_fetched_at = None, sh_shipped_at = None, sh_delivered_at = None,
     sh_fulfillment_deadline = None, sh_late_penalty_applied = False, sh_late_penalty_amount = 0, sh_late_penalty_days = 0,
     sh_production_steps = [], sh_ready_to_ship_at = None\<rparr>"

definition cached_rate ::
  "rate_cache list \<Rightarrow> oid \<Rightarrow> string \<Rightarrow> oid \<Rightarrow> string \<Rightarrow> string \<Rightarrow> error + (rate_cache \<times> courier_rate)" where
  "cached_rate cache customer token business courier service =
     (case find_one (\<lambda>c. rc_customer c = customer \<and> rc_request_token c = token \<and> rc_business_id c = business) cache of
        None \<Rightarrow> Inl (BadRequestException ''Shipping quote expired for vendor'')
      | Some c \<Rightarrow> (case find_one (\<lambda>r. cr_courier_id r = courier \<and> cr_service_code r = service) (rc_rates c) of
          None \<Rightarrow> Inl (BadRequestException ''Selected courier not found in cached rates'')
        | Some r \<Rightarrow> Inr (c, r)))"

definition ship_selection :: "rate_cache list \<Rightarrow> oid \<Rightarrow> selected_shipping \<Rightarrow> error + vendor_shipment" where
  "ship_selection cache customer sel = bind_result
     (cached_rate cache customer (sl_request_token sel) (sl_business_id sel) (sl_courier_id sel) (sl_service_code sel)) (\<lambda>(c, r).
     Inr ((default_shipment (sl_business_id sel))\<lparr>sh_request_token := Some (sl_request_token sel),
       sh_service_code := Some (sl_service_code sel), sh_courier_id := Some (sl_courier_id sel),
       sh_courier_name := Some (if truthy_string (cr_courier_name r) then nullish (cr_courier_name r) [] else sl_courier_name sel),
       sh_shipping_fee := Some (cr_rate_amount r), sh_rate_fetched_at := Some (rc_createdAt c)\<rparr>))"

text \<open>
  The cached rate's schema has no \<open>delivery_eta\<close> and no \<open>delivery_eta_time\<close>, so the ETA fields read from
  it are always null.
\<close>

definition ship_transfer :: "rate_cache list \<Rightarrow> oid \<Rightarrow> selected_fabric_transfer \<Rightarrow> error + vendor_shipment" where
  "ship_transfer cache customer tr = bind_result
     (cached_rate cache customer (st_request_token tr) (st_fabric_vendor_id tr) (st_courier_id tr) (st_service_code tr)) (\<lambda>(c, r).
     Inr ((default_shipment (st_fabric_vendor_id tr))\<lparr>sh_destination_business := Some (st_tailor_vendor_id tr),
       sh_shipment_type := FABRIC_TRANSFER, sh_fabric_product := Some (st_fabric_product_id tr),
       sh_fabric_yards := Some (st_fabric_yards tr), sh_request_token := Some (st_request_token tr),
       sh_service_code := Some (st_service_code tr), sh_courier_id := Some (st_courier_id tr),
       sh_courier_name := Some (st_courier_name tr), sh_shipping_fee := Some (cr_rate_amount r),
       sh_rate_fetched_at := Some (rc_createdAt c), sh_eta_days := None, sh_expected_delivery_at := None\<rparr>))"

fun map_result :: "('a \<Rightarrow> error + 'b) \<Rightarrow> 'a list \<Rightarrow> error + 'b list" where
  "map_result f [] = Inr []"
| "map_result f (x # xs) = bind_result (f x) (\<lambda>y. bind_result (map_result f xs) (\<lambda>ys. Inr (y # ys)))"

section \<open>Creating the order\<close>

datatype payment_choice = Pay_paystack | Pay_wallet

record create_order_dto =
  co_items :: "order_item_dto list"
  co_selected_shipping :: "selected_shipping list"
  co_selected_fabric_transfers :: "selected_fabric_transfer list"
  co_address_id :: "oid option"
  co_payment_method :: "payment_choice option"

text \<open>Mongoose gives every embedded document of a list an id of its own.\<close>

fun assign_ids :: "(oid \<Rightarrow> 'a \<Rightarrow> 'b) \<Rightarrow> 'a list \<Rightarrow> (db, 'b list) action" where
  "assign_ids f [] = ret []"
| "assign_ids f (x # xs) = andThen fresh (\<lambda>i. andThen (assign_ids f xs) (\<lambda>ys. ret (f i x # ys)))"

definition throw_result :: "error + 'a \<Rightarrow> (db, 'a) action" where
  "throw_result r = (case r of Inl e \<Rightarrow> throw e | Inr x \<Rightarrow> ret x)"

definition shipping_total :: "vendor_shipment list \<Rightarrow> rat" where
  "shipping_total shs = (\<Sum>sh\<leftarrow>shs. nullish (sh_shipping_fee sh) 0)"

definition external_total :: "order_line list \<Rightarrow> rat" where
  "external_total ls = (\<Sum>l\<leftarrow>ls. or_num (pr_external_fabric (ol_pricing l)) 0)"

definition payment_entry :: "order \<Rightarrow> oid option \<Rightarrow> channel \<Rightarrow> create_transaction_dto" where
  "payment_entry ord wallet ch = \<lparr>ct_initiator = Some (o_customer ord), ct_amount = o_total ord, ct_type = DEBIT,
     ct_status = None, ct_wallet = wallet, ct_order = Some (o_id ord), ct_channel = ch,
     ct_description = Some ''Payment for order'', ct_currency = None, ct_payment_method = None,
     ct_metadata = Some (empty_metadata\<lparr>m_order_reference := Some (o_reference ord)\<rparr>)\<rparr>"

definition delete_order :: "oid \<Rightarrow> (db, unit) action" where
  "delete_order i = modify (\<lambda>s. s\<lparr>db_orders := delete_one (\<lambda>od. o_id od = i) (db_orders s)\<rparr>)"

definition set_order :: "oid \<Rightarrow> (order \<Rightarrow> order) \<Rightarrow> (db, unit) action" where
  "set_order i f = modify (\<lambda>s. s\<lparr>db_orders := update_one (\<lambda>od. o_id od = i) f (db_orders s)\<rparr>)"

definition ignore_errors :: "(db, 'a) action \<Rightarrow> (db, unit) action" where
  "ignore_errors m = attempt (andThen m (\<lambda>_. ret ())) (\<lambda>_. ret ())"

definition paid_order :: "order \<Rightarrow> order" where
  "paid_order od = od\<lparr>o_status := O_IN_REVIEW, o_payment_status := Paid\<rparr>"

text \<open>From the debit on, a failure is compensated and passed on.\<close>

definition complete_wallet_payment :: "order \<Rightarrow> wallet \<Rightarrow> (db, transaction) action" where
  "complete_wallet_payment ord w =
     andThen (create_transaction (payment_entry ord (Some (w_id w)) Wallet_checkout)) (\<lambda>tx.
     andThen (save_transaction (tx\<lparr>t_status := T_SUCCESS\<rparr>)) (\<lambda>_.
     andThen (set_order (o_id ord) paid_order) (\<lambda>_.
     andThen (recordBusinessEarnings (o_id ord)) (\<lambda>_.
     ret (tx\<lparr>t_status := T_SUCCESS\<rparr>)))))"

definition undo_wallet_payment :: "instant \<Rightarrow> order \<Rightarrow> wallet \<Rightarrow> error \<Rightarrow> (db, 'a) action" where
  "undo_wallet_payment now ord w err =
     andThen (ignore_errors (creditWallet now (w_id w) (o_total ord))) (\<lambda>_.
     andThen (ignore_errors (restoreInventory (o_id ord) None None)) (\<lambda>_.
     andThen (ignore_errors (delete_order (o_id ord))) (\<lambda>_.
     throw err)))"

definition pay_from_wallet :: "instant \<Rightarrow> order \<Rightarrow> (db, transaction) action" where
  "pay_from_wallet now ord =
     andThen (getOrCreateWallet None (Some (o_customer ord))) (\<lambda>w.
     if w_balance w < o_total ord
     then andThen (delete_order (o_id ord)) (\<lambda>_. throw (BadRequestException ''Insufficient wallet balance''))
     else andThen (attempt (updateInventory (o_id ord)) (\<lambda>err. andThen (delete_order (o_id ord)) (\<lambda>_. throw err))) (\<lambda>_.
     andThen (debitWallet now (w_id w) (o_total ord)) (\<lambda>_.
     attempt (complete_wallet_payment ord w) (undo_wallet_payment now ord w))))"

definition pay_through_paystack :: "(oid \<Rightarrow> error option) \<Rightarrow> order \<Rightarrow> (db, transaction) action" where
  "pay_through_paystack pay_init ord =
     andThen (create_transaction (payment_entry ord None Checkout)) (\<lambda>tx.
     andThen (initialize_payment pay_init (t_reference tx)) (\<lambda>_. ret tx))"

text \<open>The order as saved, before payment.\<close>

definition save_placed ::
  "order_line list \<Rightarrow> order_total \<Rightarrow> vendor_shipment list \<Rightarrow> oid \<Rightarrow> oid \<Rightarrow> instant \<Rightarrow> (db, order) action" where
  "save_placed lines totals ships reference customer now =
     (let goodsSubtotal = ot_subtotal totals + external_total lines; fee = shipping_total ships
      in andThen (assign_ids (\<lambda>i l. stored_item l i) lines) (\<lambda>items.
         andThen (assign_ids (\<lambda>i sh. sh\<lparr>sh_id := i\<rparr>) ships) (\<lambda>shipments.
         andThen fresh (\<lambda>orderId.
         let ord = (default_order orderId reference customer now)\<lparr>o_items := items, o_subtotal := goodsSubtotal,
                     o_shipping_fee := fee, o_total := goodsSubtotal + fee, o_shipments := shipments\<rparr>
         in andThen (insert_order ord) (\<lambda>_. ret ord)))))"

definition place_order ::
  "address list \<Rightarrow> rate_cache list \<Rightarrow> create_order_dto \<Rightarrow> oid \<Rightarrow> instant \<Rightarrow> (db, order) action" where
  "place_order addresses cache dto customer now =
     andThen (\<lambda>s. throw_result (validateCompleteOrder (co_items dto) s) s) (\<lambda>_.
     andThen (throw_result (resolveShippingAddress addresses customer (co_address_id dto))) (\<lambda>_.
     andThen (\<lambda>s. throw_result (processOrderItems (co_items dto) s) s) (\<lambda>lines.
     andThen fresh (\<lambda>reference.
     andThen (\<lambda>s. throw_result (calculateOrderTotal (map ol_request lines) s) s) (\<lambda>totals.
     andThen (throw_result (map_result (ship_selection cache customer) (co_selected_shipping dto))) (\<lambda>shipping.
     andThen (throw_result (map_result (ship_transfer cache customer) (co_selected_fabric_transfers dto))) (\<lambda>transfers.
     if lines \<noteq> [] \<and> shipping @ transfers = []
     then throw (BadRequestException ''Please select a shipping option for each vendor'')
     else save_placed lines totals (shipping @ transfers) reference customer now)))))))"

definition surface_error :: "error \<Rightarrow> error" where
  "surface_error e = (case e of ExternalError m \<Rightarrow> InternalServerErrorException m | _ \<Rightarrow> e)"

definition createOrder ::
  "(oid \<Rightarrow> error option) \<Rightarrow> address list \<Rightarrow> rate_cache list \<Rightarrow> create_order_dto \<Rightarrow> oid \<Rightarrow> instant \<Rightarrow> (db, order \<times> transaction) action" where
  "createOrder pay_init addresses cache dto customer now = attempt
     (andThen (place_order addresses cache dto customer now) (\<lambda>ord.
      case nullish (co_payment_method dto) Pay_paystack of
        Pay_wallet \<Rightarrow> andThen (pay_from_wallet now ord) (\<lambda>tx. ret (paid_order ord, tx))
      | Pay_paystack \<Rightarrow> andThen (pay_through_paystack pay_init ord) (\<lambda>tx. ret (ord, tx))))
     (\<lambda>e. throw (surface_error e))"

section \<open>Prices are whole kobo and never negative\<close>

definition nonneg :: "rat option \<Rightarrow> bool" where
  "nonneg x \<longleftrightarrow> 0 \<le> nullish x 0"

definition sane_fabric :: "fabric \<Rightarrow> bool" where
  "sane_fabric f \<longleftrightarrow> 0 \<le> f_price_per_yard f \<and> 0 \<le> f_min_cut f \<and> list_all (\<lambda>v. nonneg (v_yard_per_order v)) (f_variants f)"

definition sane_clothing :: "clothing \<Rightarrow> bool" where
  "sane_clothing c \<longleftrightarrow> list_all (\<lambda>st. 0 \<le> s_price st) (c_styles c) \<and> list_all (\<lambda>a. nonneg (a_price a)) (c_accessories c) \<and>
     list_all (\<lambda>cv. list_all (\<lambda>v. nonneg (v_price v)) (cv_variants cv)) (c_color_variants c) \<and>
     list_all sane_fabric (c_fabrics c) \<and> list_all (\<lambda>y. nonneg (y_yards y)) (c_yardage_per_size c) \<and>
     list_all (\<lambda>a. list_all (\<lambda>v. nonneg (adv_price v)) (ad_variants a)) (c_addons c)"

definition sane_product :: "product \<Rightarrow> bool" where
  "sane_product p \<longleftrightarrow> 0 \<le> p_base_price p \<and> pred_option sane_clothing (p_clothing p) \<and>
     pred_option sane_fabric (p_fabric p) \<and> pred_option (\<lambda>a. nonneg (a_price a)) (p_accessory p)"

definition sane_selections :: "normalized_selections \<Rightarrow> bool" where
  "sane_selections sel \<longleftrightarrow> list_all (\<lambda>s. nonneg (vd_quantity s)) (ns_color_variant sel) \<and>
     list_all (\<lambda>s. nonneg (sd_quantity s)) (ns_style sel) \<and>
     list_all (\<lambda>s. nonneg (fd_quantity s) \<and> nonneg (fd_yardage s)) (ns_fabric sel) \<and>
     list_all (\<lambda>s. nonneg (acd_quantity s)) (ns_accessory sel) \<and> list_all (\<lambda>s. nonneg (add_quantity s)) (ns_addon sel)"

lemma nonneg_one: "nonneg x \<Longrightarrow> 0 \<le> nullish x 1"
  by (cases x) (simp_all add: nonneg_def)

lemma sum_costs_nonneg:
  assumes "\<And>s x. s \<in> set ss \<Longrightarrow> cost s = Inr x \<Longrightarrow> 0 \<le> x" "sum_costs cost ss = Inr t"
  shows "0 \<le> t"
  using assms
proof (induction ss arbitrary: t)
  case (Cons s ss)
  then obtain x y where "cost s = Inr x" "sum_costs cost ss = Inr y" "t = x + y" by (auto simp: bind_result_Inr)
  with Cons show ?case by (metis add_nonneg_nonneg list.set_intros)
qed simp

lemma found_all: "find_one P xs = Some x \<Longrightarrow> list_all Q xs \<Longrightarrow> Q x"
  by (auto simp: list_all_iff dest: find_one_SomeD)

lemma variant_yards_nonneg: "sane_fabric f \<Longrightarrow> nonneg (variant_yards f sz)"
  by (auto simp: variant_yards_def sane_fabric_def nonneg_def bind_eq_Some_conv dest: found_all
      split: bind_splits)

lemma garment_yards_nonneg: "sane_product p \<Longrightarrow> nonneg (garment_yards p sz)"
  by (cases "p_clothing p") (auto simp: garment_yards_def sane_product_def sane_clothing_def nonneg_def dest: found_all
      split: bind_splits)

lemma or_truthy_nonneg: "nonneg x \<Longrightarrow> nonneg y \<Longrightarrow> nonneg (or_truthy x y)"
  by (simp add: or_truthy_def)

lemma style_cost_nonneg:
  assumes "sane_product p" "nonneg (sd_quantity s)" "style_cost p s = Inr x"
  shows "0 \<le> x"
proof (cases "p_clothing p")
  case (Some c)
  with assms(3) obtain st where st: "find_one (\<lambda>st. s_id st = sd_style_id s) (c_styles c) = Some st"
    "x = s_price st * nullish (sd_quantity s) 1" by (auto simp: style_cost_def split: option.splits)
  have "0 \<le> s_price st" by (rule found_all [OF st(1)]) (use assms(1) Some in \<open>simp add: sane_product_def sane_clothing_def\<close>)
  with st(2) nonneg_one [OF assms(2)] show ?thesis by simp
qed (use assms(3) in \<open>simp add: style_cost_def\<close>)

lemma sane_clothing_lists:
  assumes "sane_product p"
  shows "list_all sane_fabric (clothing_fabrics p)" "list_all (\<lambda>a. nonneg (a_price a)) (clothing_accessories p)"
    "list_all (\<lambda>cv. list_all (\<lambda>v. nonneg (v_price v)) (cv_variants cv)) (clothing_colors p)"
    "list_all (\<lambda>a. list_all (\<lambda>v. nonneg (adv_price v)) (ad_variants a)) (clothing_addons p)"
  using assms by (cases "p_clothing p"; simp add: sane_product_def sane_clothing_def clothing_fabrics_def
      clothing_accessories_def clothing_colors_def clothing_addons_def)+

lemma guard_Inr: "(if c then Inl e else Inr v) = Inr x \<longleftrightarrow> \<not> c \<and> v = x"
  by simp

lemma yards_cost_nonneg:
  assumes "sane_fabric f" "0 \<le> y" "nonneg q"
  shows "0 \<le> y * f_price_per_yard f * nullish q 1"
  using assms nonneg_one [OF assms(3)] by (simp add: sane_fabric_def)

lemma fabric_cost_nonneg:
  assumes "sane_product p" "nonneg (fd_quantity s)" "nonneg (fd_yardage s)"
  shows "fabric_product_cost p s = Inr x \<Longrightarrow> 0 \<le> x" "garment_fabric_cost p s = Inr x \<Longrightarrow> 0 \<le> x"
proof -
  show "0 \<le> x" if r: "fabric_product_cost p s = Inr x"
  proof (cases "p_fabric p")
    case (Some f)
    then have f: "sane_fabric f" using assms(1) by (simp add: sane_product_def)
    have "0 \<le> nullish (or_truthy (fd_yardage s) (variant_yards f (fd_size s))) 0"
      using or_truthy_nonneg [OF assms(3) variant_yards_nonneg [OF f]] by (simp add: nonneg_def)
    with r Some yards_cost_nonneg [OF f _ assms(2)] show ?thesis
      by (auto simp: fabric_product_cost_def Let_def split: if_splits)
  qed (use r in \<open>simp add: fabric_product_cost_def\<close>)
  show "0 \<le> x" if r: "garment_fabric_cost p s = Inr x"
  proof (cases "find_one (\<lambda>f. f_id f = fd_fabric_id s) (clothing_fabrics p)")
    case (Some f)
    then have f: "sane_fabric f" by (rule found_all) (rule sane_clothing_lists [OF assms(1)])
    let ?asked = "nullish (or_truthy (or_truthy (fd_yardage s) (garment_yards p (fd_size s))) (variant_yards f (fd_size s))) 0"
    have "0 \<le> ?asked"
      using or_truthy_nonneg [OF or_truthy_nonneg [OF assms(3) garment_yards_nonneg [OF assms(1)]] variant_yards_nonneg [OF f]]
      by (simp add: nonneg_def)
    moreover have "0 \<le> f_min_cut f" using f by (simp add: sane_fabric_def)
    ultimately have "0 \<le> (if f_min_cut f \<noteq> 0 \<and> 0 < ?asked \<and> ?asked < f_min_cut f then f_min_cut f else ?asked)" by simp
    from yards_cost_nonneg [OF f this assms(2)] show ?thesis
      using r unfolding garment_fabric_cost_def Some option.case Let_def guard_Inr by blast
  qed (use r in \<open>simp add: garment_fabric_cost_def\<close>)
qed

lemma effective_price_nonneg: "sane_product p \<Longrightarrow> 0 \<le> effective_price p"
  by (simp add: effective_price_def sane_product_def split: option.split)

lemma accessory_cost_nonneg:
  assumes "sane_product p" "nonneg (acd_quantity s)"
  shows "accessory_product_cost p s = Inr x \<Longrightarrow> 0 \<le> x" "garment_accessory_cost p s = Inr x \<Longrightarrow> 0 \<le> x"
proof -
  note q = nonneg_one [OF assms(2)]
  show "0 \<le> x" if "accessory_product_cost p s = Inr x"
    using that assms(1) q effective_price_nonneg [OF assms(1)]
    by (auto simp: accessory_product_cost_def Let_def sane_product_def nonneg_def split: option.splits if_splits)
  show "0 \<le> x" if r: "garment_accessory_cost p s = Inr x"
  proof (cases "find_one (\<lambda>a. a_id a = acd_accessory_id s) (clothing_accessories p)")
    case (Some a)
    have "nonneg (a_price a)" by (rule found_all [OF Some sane_clothing_lists(2) [OF assms(1)]])
    then have "0 \<le> nullish (a_price a) 0 * nullish (acd_quantity s) 1" using q by (simp add: nonneg_def)
    with r Some show ?thesis
      by (auto simp: garment_accessory_cost_def split: option.splits if_splits bool.splits)
  qed (use r in \<open>simp add: garment_accessory_cost_def\<close>)
qed

lemma find_size_in: "find_size i cvs = Some (cv, v) \<Longrightarrow> cv \<in> set cvs \<and> v \<in> set (cv_variants cv) \<and> v_id v = i"
  by (induction cvs) (auto split: option.splits dest: find_one_SomeD)

lemma resolve_variant_in:
  assumes "resolve_variant s p = Some (cv, v)"
  shows "cv \<in> set (clothing_colors p)" "v \<in> set (cv_variants cv)"
proof -
  have "cv \<in> set (clothing_colors p) \<and> v \<in> set (cv_variants cv)"
  proof (cases "find_size (vd_color_variant_id s) (clothing_colors p)")
    case None
    with assms obtain c where c: "find_one (\<lambda>cv. cv_id cv = vd_color_variant_id s) (clothing_colors p) = Some c"
      by (auto simp: resolve_variant_def split: option.splits)
    show ?thesis
    proof (cases "if truthy_string (vd_size s)
        then find_one (\<lambda>v. same_size (v_size v) (nullish (vd_size s) [])) (cv_variants c) else None")
      case none: None
      with assms None c have "cv = c \<and> cv_variants c = [v]"
        by (auto simp: resolve_variant_def split: list.splits)
      with find_one_SomeD [OF c] show ?thesis by simp
    next
      case (Some w)
      with assms None c have "cv = c \<and> v = w" by (simp add: resolve_variant_def)
      with find_one_SomeD [OF c] Some show ?thesis by (auto dest: find_one_SomeD split: if_splits)
    qed
  next
    case (Some r)
    with assms have "r = (cv, v)" by (simp add: resolve_variant_def)
    with Some show ?thesis by (auto dest: find_size_in)
  qed
  then show "cv \<in> set (clothing_colors p)" "v \<in> set (cv_variants cv)" by blast+
qed

lemma variant_cost_nonneg:
  assumes "sane_product p" "nonneg (vd_quantity s)" "variant_cost p s = Inr x"
  shows "0 \<le> x"
proof -
  from assms(3) obtain cv v where v: "resolve_variant s p = Some (cv, v)"
    "x = or_num (v_price v) 0 * nullish (vd_quantity s) 1"
    by (auto simp: variant_cost_def split: option.splits if_splits)
  have "nonneg (v_price v)"
    using resolve_variant_in [OF v(1)] sane_clothing_lists(3) [OF assms(1)] by (auto simp: list_all_iff)
  with v(2) nonneg_one [OF assms(2)] show ?thesis by (simp add: nonneg_def)
qed

lemma addon_cost_nonneg:
  assumes "sane_product p" "nonneg (add_quantity s)" "addon_cost p s = Inr x"
  shows "0 \<le> x"
proof -
  from assms(3) obtain a v where a: "find_one (\<lambda>a. ad_id a = add_addon_id s) (clothing_addons p) = Some a"
    "find_one (\<lambda>v. adv_id v = add_variant_id s) (ad_variants a) = Some v" "x = nullish (adv_price v) 0 * nullish (add_quantity s) 1"
    by (auto simp: addon_cost_def split: option.splits)
  have "list_all (\<lambda>v. nonneg (adv_price v)) (ad_variants a)"
    by (rule found_all [OF a(1) sane_clothing_lists(4) [OF assms(1)]])
  then have "nonneg (adv_price v)" by (rule found_all [OF a(2)])
  with a(3) nonneg_one [OF assms(2)] show ?thesis by (simp add: nonneg_def)
qed

lemma costs_nonneg:
  assumes "sane_product p" "sane_selections sel"
  shows "calculateColorVariantCost (ns_color_variant sel) p = Inr v \<Longrightarrow> 0 \<le> v"
    "calculateStyleCost (ns_style sel) p = Inr st \<Longrightarrow> 0 \<le> st"
    "calculateFabricCost (ns_fabric sel) p = Inr f \<Longrightarrow> 0 \<le> f"
    "0 \<le> q \<Longrightarrow> calculateAccessoryTotal (ns_accessory sel) p q = Inr a \<Longrightarrow> 0 \<le> a"
    "calculateAddonCost (ns_addon sel) p = Inr ad \<Longrightarrow> 0 \<le> ad"
proof -
  note sel = assms(2) [unfolded sane_selections_def list_all_iff]
  show "0 \<le> v" if "calculateColorVariantCost (ns_color_variant sel) p = Inr v"
    using that sel variant_cost_nonneg [OF assms(1)]
    by (auto simp: calculateColorVariantCost_def bind_result_Inr intro!: round2_nonneg elim!: sum_costs_nonneg [rotated])
  show "0 \<le> st" if "calculateStyleCost (ns_style sel) p = Inr st"
    using that sel style_cost_nonneg [OF assms(1)]
    by (auto simp: calculateStyleCost_def elim!: sum_costs_nonneg [rotated])
  show "0 \<le> f" if "calculateFabricCost (ns_fabric sel) p = Inr f"
    using that sel fabric_cost_nonneg [OF assms(1)]
    by (auto simp: calculateFabricCost_def bind_result_Inr intro!: round2_nonneg elim!: sum_costs_nonneg [rotated]
        split: product_kind.splits)
  show "0 \<le> a" if q: "0 \<le> q" and a: "calculateAccessoryTotal (ns_accessory sel) p q = Inr a"
  proof (cases "p_kind p = ACCESSORY \<and> ns_accessory sel = []")
    case True
    with a q effective_price_nonneg [OF assms(1)] show ?thesis
      by (auto simp: calculateAccessoryTotal_def intro!: round2_nonneg)
  next
    case False
    with a sel accessory_cost_nonneg [OF assms(1)] show ?thesis
      by (auto simp: calculateAccessoryTotal_def bind_result_Inr intro!: round2_nonneg elim!: sum_costs_nonneg [rotated]
          split: product_kind.splits)
  qed
  show "0 \<le> ad" if "calculateAddonCost (ns_addon sel) p = Inr ad"
    using that sel addon_cost_nonneg [OF assms(1)]
    by (auto simp: calculateAddonCost_def bind_result_Inr intro!: round2_nonneg elim!: sum_costs_nonneg [rotated]
        split: if_splits)
qed

lemma clothing_total_nonneg:
  assumes "sane_product p" "sane_selections sel" "0 \<le> qty" "calculateClothingTotal sel qty p s = Inr t"
  shows "0 \<le> t"
proof -
  from assms(4) obtain v f a st ad where ok: "calculateColorVariantCost (ns_color_variant sel) p = Inr v"
    "calculateFabricCost (ns_fabric sel) p = Inr f" "calculateAccessoryTotal (ns_accessory sel) p 1 = Inr a"
    "calculateStyleCost (ns_style sel) p = Inr st" "calculateAddonCost (ns_addon sel) p = Inr ad"
    by (auto simp: calculateClothingTotal_def bind_result_Inr)
  note pos = costs_nonneg(1) [OF assms(1,2) ok(1)] costs_nonneg(3) [OF assms(1,2) ok(2)]
    costs_nonneg(4) [OF assms(1,2) zero_le_one ok(3)] costs_nonneg(2) [OF assms(1,2) ok(4)]
    costs_nonneg(5) [OF assms(1,2) ok(5)]
  have "0 \<le> p_base_price p" using assms(1) by (simp add: sane_product_def)
  then have "0 \<le> (if is_customize p then p_base_price p * qty else effective_price p * qty)"
    using assms(3) effective_price_nonneg [OF assms(1)] by simp
  with pos show ?thesis using assms(4)
    by (auto simp: calculateClothingTotal_def ok Let_def intro!: round2_nonneg split: option.splits if_splits)
qed

text \<open>C29: Every price is a whole number of kobo, and where the catalogue's prices and the request's quantities are
  not negative, it is not negative.\<close>

theorem price_never_negative:
  assumes "calculateItemTotal item s = Inr t"
  shows "round2 t = t \<and> (list_all sane_product (db_products s) \<and> nonneg (po_quantity item) \<and>
    sane_selections (normalizeSelections (po_selections item)) \<longrightarrow> 0 \<le> t)"
proof -
  let ?sel = "normalizeSelections (po_selections item)" and ?qty = "nullish (po_quantity item) 1"
  obtain p where p: "find_product (Some (po_product_id item)) s = Some p"
    using assms by (auto simp: calculateItemTotal_def split: option.splits)
  have cents: "round2 t = t"
    using assms p by (auto simp: calculateItemTotal_def calculateClothingTotal_def calculateFabricTotal_def
        calculateAccessoryTotal_def bind_result_Inr Let_def split: product_kind.splits if_splits)
  have "0 \<le> t" if sane: "list_all sane_product (db_products s)" "nonneg (po_quantity item)" "sane_selections ?sel"
  proof -
    have sp: "sane_product p" using sane(1) find_product_in [OF p] by (simp add: list_all_iff)
    have q: "0 \<le> ?qty" using sane(2) by (rule nonneg_one)
    have eff: "0 \<le> effective_price p * ?qty" using effective_price_nonneg [OF sp] q by simp
    show ?thesis
    proof (cases "p_kind p")
      case CLOTHING
      with assms p clothing_total_nonneg [OF sp sane(3) q] show ?thesis by (simp add: calculateItemTotal_def Let_def)
    next
      case FABRIC
      with assms p costs_nonneg(3) [OF sp sane(3)] eff show ?thesis
        by (auto simp: calculateItemTotal_def calculateFabricTotal_def bind_result_Inr Let_def
            intro!: round2_nonneg split: if_splits)
    next
      case ACCESSORY
      with assms p costs_nonneg(4) [OF sp sane(3) q] show ?thesis by (simp add: calculateItemTotal_def Let_def)
    qed
  qed
  with cents show ?thesis by blast
qed

section \<open>The sums of an order\<close>

lemma normalized_list:
  "list_all P (List.map_filter f xs) \<longleftrightarrow> list_all (\<lambda>x. pred_option P (f x)) xs"
  by (induction xs) (auto simp: List.map_filter_simps split: option.split)

lemma normalized_sane:
  assumes "sane_product p" "sane_selections (normalizeSelections sel)"
  shows "sane_selections (normalizeSelections (Some (priced_selections (normalize_order_selections sel p))))"
proof (cases sel)
  case None
  then show ?thesis by (simp add: normalize_order_selections_def priced_selections_def normalizeSelections_def sane_selections_def)
next
  case (Some d)
  have yards: "0 \<le> nullish (fs_yardage y) 0" if "normalize_fabric p fs = Some y" "nonneg (fd_yardage fs)" for fs y
  proof -
    from that(1) obtain f where f: "(case find_one (\<lambda>f. f_id f = fd_fabric_id fs) (clothing_fabrics p) of
        Some f \<Rightarrow> Some f | None \<Rightarrow> p_fabric p) = Some f"
      and y: "fs_yardage y = Some (or_num (or_truthy (fd_yardage fs) (variant_yards f (fd_size fs))) 1)"
      by (auto simp: normalize_fabric_def Let_def split: option.splits)
    have "sane_fabric f"
    proof (cases "find_one (\<lambda>f. f_id f = fd_fabric_id fs) (clothing_fabrics p)")
      case None
      with f assms(1) show ?thesis by (auto simp: sane_product_def)
    next
      case (Some g)
      with f found_all [OF Some sane_clothing_lists(1) [OF assms(1)]] show ?thesis by simp
    qed
    then have "nonneg (or_truthy (fd_yardage fs) (variant_yards f (fd_size fs)))"
      using that(2) by (intro or_truthy_nonneg variant_yards_nonneg)
    then show ?thesis unfolding y by (cases "or_truthy (fd_yardage fs) (variant_yards f (fd_size fs))") (simp_all add: nonneg_def)
  qed
  note d = assms(2) [unfolded Some sane_selections_def normalizeSelections_def option.case normalized_selections.simps]
  have "list_all (\<lambda>x. pred_option (\<lambda>v. nonneg (vs_quantity v)) (normalize_variant p x)) (nullish (se_color_variant d) [])"
    using d by (auto simp: list_all_iff normalize_variant_def Let_def nonneg_def dest: nonneg_one [unfolded nonneg_def]
        split: option.splits)
  moreover have "list_all (\<lambda>x. pred_option (\<lambda>v. nonneg (ss_quantity v)) (normalize_style p x)) (nullish (se_style d) [])"
    using d by (auto simp: list_all_iff normalize_style_def Let_def nonneg_def dest: nonneg_one [unfolded nonneg_def]
        split: option.splits)
  moreover have "list_all (\<lambda>x. pred_option (\<lambda>v. nonneg (fs_quantity v) \<and> nonneg (fs_yardage v)) (normalize_fabric p x)) (nullish (se_fabric d) [])"
    unfolding list_all_iff
  proof
    fix x assume "x \<in> set (nullish (se_fabric d) [])"
    with d have x: "nonneg (fd_quantity x)" "nonneg (fd_yardage x)" by (auto simp: list_all_iff)
    have "nonneg (fs_quantity v)" if "normalize_fabric p x = Some v" for v
      using that nonneg_one [OF x(1)] by (auto simp: normalize_fabric_def Let_def nonneg_def split: option.splits)
    with yards [OF _ x(2)] show "pred_option (\<lambda>v. nonneg (fs_quantity v) \<and> nonneg (fs_yardage v)) (normalize_fabric p x)"
      by (cases "normalize_fabric p x") (simp_all add: nonneg_def)
  qed
  moreover have "list_all (\<lambda>x. pred_option (\<lambda>v. nonneg (as_quantity v)) (normalize_accessory p x)) (nullish (se_accessory d) [])"
    using d by (auto simp: list_all_iff normalize_accessory_def Let_def nonneg_def dest: nonneg_one [unfolded nonneg_def]
        split: option.splits)
  moreover have "list_all (\<lambda>x. pred_option (\<lambda>v. nonneg (ads_quantity v)) (normalize_addon p x)) (nullish (se_addon d) [])"
    using d by (auto simp: list_all_iff normalize_addon_def Let_def nonneg_def dest: nonneg_one [unfolded nonneg_def]
        split: option.splits)
  ultimately show ?thesis
    unfolding Some normalize_order_selections_def priced_selections_def normalizeSelections_def sane_selections_def
    by (simp add: list.pred_map comp_def normalized_list)
qed


theorem price_never_negative_witness:
  "round2 (110 :: rat) = 110 \<and> list_all sane_product (db_products sample_catalogue) \<and>
   calculateItemTotal (sample_request 10 2) sample_catalogue = Inr 110 \<and> (0 :: rat) \<le> 110"
proof -
  have sane: "list_all sane_product (db_products sample_catalogue)"
    by (simp add: sample_catalogue_defs sane_product_def sane_clothing_def sane_fabric_def nonneg_def)
  have "sane_selections (normalizeSelections (po_selections (sample_request 10 2)))" "nonneg (po_quantity (sample_request 10 2))"
    by (simp_all add: sample_request_def normalizeSelections_def sane_selections_def nonneg_def)
  with price_never_negative [OF sample_garment_price] sane sample_garment_price show ?thesis by blast
qed

end
