(* ===== verification/Placement.thy ===== *)
theory Placement
  imports Checkout
begin

text \<open>
  What placing an order promises: the stored order's sums add up, and an order paid from the wallet
  takes exactly its total from the customer's wallet or leaves wallet and orders as they were.
\<close>

section \<open>The sums of an order\<close>

lemma fresh_run [simp]: "fresh s = (Inr (db_next s), s\<lparr>db_next := Suc (db_next s)\<rparr>)"
  by (simp add: fresh_def)

lemma assign_ids_run:
  "\<exists>ys n. assign_ids f xs s = (Inr ys, s\<lparr>db_next := n\<rparr>) \<and> db_next s \<le> n \<and> list_all2 (\<lambda>x y. \<exists>i. y = f i x) xs ys"
proof (induction xs arbitrary: s)
  case Nil
  then show ?case by (intro exI [of _ "[]"] exI [of _ "db_next s"]) simp
next
  case (Cons x xs)
  obtain ys n where "assign_ids f xs (s\<lparr>db_next := Suc (db_next s)\<rparr>) = (Inr ys, s\<lparr>db_next := n\<rparr>)"
    "Suc (db_next s) \<le> n" "list_all2 (\<lambda>x y. \<exists>i. y = f i x) xs ys" using Cons [of "s\<lparr>db_next := Suc (db_next s)\<rparr>"] by auto
  then show ?case by (intro exI [of _ "f (db_next s) x # ys"] exI [of _ n]) (auto simp: andThen_app)
qed

lemma throw_result_ok: "throw_result r s = (Inr x, s') \<longleftrightarrow> r = Inr x \<and> s' = s"
  by (auto simp: throw_result_def split: sum.splits)

lemma andThen_Inr: "andThen m f s = (Inr y, t) \<longleftrightarrow> (\<exists>x u. m s = (Inr x, u) \<and> f x u = (Inr y, t))"
  by (auto simp: andThen_app split: prod.splits sum.splits)

definition placed_order :: "order_line list \<Rightarrow> order_total \<Rightarrow> vendor_shipment list \<Rightarrow> order_item list \<Rightarrow> vendor_shipment list \<Rightarrow>
    oid \<Rightarrow> oid \<Rightarrow> oid \<Rightarrow> instant \<Rightarrow> order" where
  "placed_order ls totals ships items shipments i reference customer now =
     (default_order i reference customer now)\<lparr>o_items := items, o_subtotal := ot_subtotal totals + external_total ls,
       o_shipping_fee := shipping_total ships, o_total := ot_subtotal totals + external_total ls + shipping_total ships,
       o_shipments := shipments\<rparr>"

lemma save_placed_ok:
  assumes "save_placed ls totals ships reference customer now s = (Inr ord, s')"
  obtains items shipments i where
    "list_all2 (\<lambda>l y. \<exists>i. y = stored_item l i) ls items" "list_all2 (\<lambda>sh y. \<exists>i. y = sh\<lparr>sh_id := i\<rparr>) ships shipments"
    "db_next s \<le> i" "s' = s\<lparr>db_next := Suc i, db_orders := db_orders s @ [ord]\<rparr>" "list_all valid_item items"
    "ord = placed_order ls totals ships items shipments i reference customer now"
proof -
  obtain items n where items: "assign_ids (\<lambda>i l. stored_item l i) ls s = (Inr items, s\<lparr>db_next := n\<rparr>)" "db_next s \<le> n"
    "list_all2 (\<lambda>l y. \<exists>i. y = stored_item l i) ls items"
    using assign_ids_run [of "\<lambda>i l. stored_item l i" ls s] by auto
  obtain shipments m where sh: "assign_ids (\<lambda>i sh. sh\<lparr>sh_id := i\<rparr>) ships (s\<lparr>db_next := n\<rparr>) = (Inr shipments, s\<lparr>db_next := m\<rparr>)"
    "n \<le> m" "list_all2 (\<lambda>sh y. \<exists>i. y = sh\<lparr>sh_id := i\<rparr>) ships shipments"
    using assign_ids_run [of "\<lambda>i sh. sh\<lparr>sh_id := i\<rparr>" ships "s\<lparr>db_next := n\<rparr>"] by auto
  from assms have "ord = placed_order ls totals ships items shipments m reference customer now"
    "s' = s\<lparr>db_next := Suc m, db_orders := db_orders s @ [ord]\<rparr>" "list_all valid_item items"
    by (auto simp: save_placed_def Let_def placed_order_def andThen_Inr insert_order_Inr default_order_def items(1) sh(1) add.assoc)
  with items(2,3) sh(2,3) show thesis by (intro that [where items = items and shipments = shipments and i = m]) simp_all
qed

text \<open>A placed order: what it was computed from.\<close>

lemma place_order_ok:
  assumes "place_order addresses cache dto customer now s = (Inr ord, s')"
  obtains v ls totals ships where
    "validateCompleteOrder (co_items dto) s = Inr v" "processOrderItems (co_items dto) s = Inr ls"
    "calculateOrderTotal (map ol_request ls) (s\<lparr>db_next := Suc (db_next s)\<rparr>) = Inr totals" "ls = [] \<or> ships \<noteq> []"
    "save_placed ls totals ships (db_next s) customer now (s\<lparr>db_next := Suc (db_next s)\<rparr>) = (Inr ord, s')"
proof -
  let ?s = "s\<lparr>db_next := Suc (db_next s)\<rparr>"
  from assms obtain v ls totals sh tr where ok: "validateCompleteOrder (co_items dto) s = Inr v"
    "processOrderItems (co_items dto) s = Inr ls" "calculateOrderTotal (map ol_request ls) ?s = Inr totals"
    and rest: "(if ls \<noteq> [] \<and> sh @ tr = [] then throw (BadRequestException ''Please select a shipping option for each vendor'')
      else save_placed ls totals (sh @ tr) (db_next s) customer now) ?s = (Inr ord, s')"
    unfolding place_order_def andThen_Inr throw_result_ok fresh_run by blast
  from rest have "ls = [] \<or> sh @ tr \<noteq> []" "save_placed ls totals (sh @ tr) (db_next s) customer now ?s = (Inr ord, s')"
    by (auto simp del: append_is_Nil_conv split: if_splits)
  with ok show thesis by (rule that)
qed


lemma round2_cents: "round2 x = x \<longleftrightarrow> (\<exists>k::int. x = of_int k / 100)"
proof
  assume "round2 x = x"
  then show "\<exists>k::int. x = of_int k / 100" by (metis js_round_def round2_def)
next
  assume "\<exists>k::int. x = of_int k / 100"
  then show "round2 x = x" by (auto simp: round2_def)
qed

lemma round2_sum: "list_all (\<lambda>x. round2 (f x) = f x) xs \<Longrightarrow> round2 (\<Sum>x\<leftarrow>xs. f x) = (\<Sum>x\<leftarrow>xs. f x)"
proof (induction xs)
  case (Cons x xs)
  then obtain j k :: int where "f x = of_int j / 100" "(\<Sum>x\<leftarrow>xs. f x) = of_int k / 100"
    by (auto simp: round2_cents)
  then have "f x + (\<Sum>x\<leftarrow>xs. f x) = of_int (j + k) / 100" by (simp add: add_divide_distrib)
  then have "\<exists>l::int. f x + (\<Sum>x\<leftarrow>xs. f x) = of_int l / 100" by blast
  then show ?case unfolding list.map sum_list.Cons round2_cents .
qed simp

lemma prices_frame [simp]: "calculateItemTotal i (s\<lparr>db_next := n\<rparr>) = calculateItemTotal i s"
  by (auto simp: calculateItemTotal_def calculateClothingTotal_def discount_of_def find_product_def Let_def
      split: option.split product_kind.split)

definition sane_request :: "order_item_dto \<Rightarrow> bool" where
  "sane_request i \<longleftrightarrow> nonneg (oi_quantity i) \<and> sane_selections (normalizeSelections (oi_selections i))"

lemma right_or_ok: "\<not> isl r \<Longrightarrow> r = Inr (right_or d r)"
  by (cases r) simp_all

lemma processOrderItems_ok:
  "processOrderItems is s = Inr ls \<longleftrightarrow> list_all2 (\<lambda>i l. process_item i s = Inr l) is ls"
proof (induction "is" arbitrary: ls)
  case (Cons i "is")
  then show ?case by (cases ls) (auto simp: bind_result_Inr)
qed auto

text \<open>The price stored with a line is the one the order is charged for it.\<close>

lemma line_price:
  assumes "process_item i s = Inr l" "list_all sane_product (db_products s)" "sane_request i"
    "calculateItemTotal (ol_request l) s = Inr t"
  shows "pr_final (ol_pricing l) = t" "round2 t = t"
proof -
  from assms(1) obtain p pricing where p: "find_product (Some (oi_product_id i)) s = Some p"
    and b: "calculateItemBreakdown (ol_request l) s = Inr pricing" and l: "ol_pricing l = pricing"
      "po_quantity (ol_request l) = oi_quantity i"
      "po_selections (ol_request l) = Some (priced_selections (normalize_order_selections (oi_selections i) p))"
    by (auto simp: process_item_def Let_def bind_result_Inr split: option.splits)
  have "sane_product p" using assms(2) find_product_in [OF p] by (simp add: list_all_iff)
  then have "sane_selections (normalizeSelections (po_selections (ol_request l)))"
    using assms(3) unfolding l(3) sane_request_def by (intro normalized_sane) simp_all
  moreover have q: "nonneg (po_quantity (ol_request l))" using assms(3) l(2) by (simp add: sane_request_def)
  ultimately have t: "round2 t = t" "0 \<le> t" using price_never_negative [OF assms(4)] assms(2) by blast+
  with breakdown_final_is_price [of "ol_request l" s] nonneg_one [OF q] b l(1) assms(4)
  show "pr_final (ol_pricing l) = t" "round2 t = t" by auto
qed


text \<open>C12: The sums of a placed order: where the catalogue's prices and the request's quantities are not negative,
  the subtotal is the sum of the stored prices of the items and of the external fabrics, the shipping
  fee that of the shipments' fees, and the total is the sum of both. The order is stored once, and
  nothing else of the database but the counter changes.\<close>

theorem order_totals_add_up:
  assumes "place_order addresses cache dto customer now s = (Inr ord, s')"
    "list_all sane_product (db_products s)" "list_all sane_request (co_items dto)"
  shows "o_subtotal ord = (\<Sum>item\<leftarrow>o_items ord. nullish (i_total_price item) 0 + external_fabric_of item) \<and>
    o_shipping_fee ord = (\<Sum>sh\<leftarrow>o_shipments ord. nullish (sh_shipping_fee sh) 0) \<and>
    o_total ord = o_subtotal ord + o_shipping_fee ord \<and> length (o_items ord) = length (co_items dto) \<and>
    s' = s\<lparr>db_next := db_next s', db_orders := db_orders s @ [ord]\<rparr>"
proof -
  from place_order_ok [OF assms(1)] obtain ls totals ships where lines: "processOrderItems (co_items dto) s = Inr ls"
    and totals: "calculateOrderTotal (map ol_request ls) (s\<lparr>db_next := Suc (db_next s)\<rparr>) = Inr totals"
    and save: "save_placed ls totals ships (db_next s) customer now (s\<lparr>db_next := Suc (db_next s)\<rparr>) = (Inr ord, s')"
    by blast
  let ?s = "s\<lparr>db_next := Suc (db_next s)\<rparr>"
  from save obtain items shipments i where
    items: "list_all2 (\<lambda>l y. \<exists>i. y = stored_item l i) ls items"
    and shipments: "list_all2 (\<lambda>sh y. \<exists>i. y = sh\<lparr>sh_id := i\<rparr>) ships shipments"
    and s': "s' = ?s\<lparr>db_next := Suc i, db_orders := db_orders ?s @ [ord]\<rparr>"
    and ord: "ord = placed_order ls totals ships items shipments i (db_next s) customer now" by (rule save_placed_ok)
  let ?t = "\<lambda>l. right_or 0 (calculateItemTotal (ol_request l) s)"
  have "\<forall>l\<in>set ls. \<not> isl (calculateItemTotal (ol_request l) s)"
    and sub: "ot_subtotal totals = round2 (\<Sum>l\<leftarrow>ls. ?t l)"
    using totals by (auto simp: calculateOrderTotal_def bind_result_Inr Let_def price_items_eq comp_def)
  then have priced: "\<forall>l\<in>set ls. calculateItemTotal (ol_request l) s = Inr (?t l)" by (simp add: right_or_ok)
  have "pr_final (ol_pricing l) = ?t l \<and> round2 (?t l) = ?t l" if l: "l \<in> set ls" for l
  proof -
    from lines l obtain it where it: "it \<in> set (co_items dto)" "process_item it s = Inr l"
      unfolding processOrderItems_ok list_all2_conv_all_nth by (metis in_set_conv_nth)
    with line_price [OF it(2) assms(2) _ priced [rule_format, OF l]] assms(3) show ?thesis by (auto simp: list_all_iff)
  qed
  then have "list_all (\<lambda>l. round2 (?t l) = ?t l) ls" "\<forall>l\<in>set ls. pr_final (ol_pricing l) = ?t l"
    by (simp_all add: list_all_iff)
  then have goods: "ot_subtotal totals = (\<Sum>l\<leftarrow>ls. pr_final (ol_pricing l))"
    unfolding sub by (simp add: round2_sum cong: map_cong)
  have "(\<Sum>item\<leftarrow>items. nullish (i_total_price item) 0 + external_fabric_of item) =
      (\<Sum>l\<leftarrow>ls. pr_final (ol_pricing l)) + external_total ls"
    using items by (induction rule: list_all2_induct) (auto simp: stored_item_def external_fabric_of_def external_total_def)
  moreover have "(\<Sum>sh\<leftarrow>shipments. nullish (sh_shipping_fee sh) 0) = shipping_total ships"
    using shipments by (induction rule: list_all2_induct) (auto simp: shipping_total_def)
  moreover have "length items = length (co_items dto)"
    using list_all2_lengthD [OF items] list_all2_lengthD [OF lines [unfolded processOrderItems_ok]] by simp
  ultimately show ?thesis using goods s' by (simp add: ord placed_order_def default_order_def)
qed


section \<open>Paying from the wallet\<close>

text \<open>The customer's wallet, by its id and balance.\<close>

definition purse :: "oid \<Rightarrow> db \<Rightarrow> (oid \<times> rat) option" where
  "purse c s = map_option (\<lambda>w. (w_id w, w_balance w)) (find_wallet None (Some c) s)"

definition customer_balance :: "oid \<Rightarrow> db \<Rightarrow> rat" where
  "customer_balance c s = (case purse c s of None \<Rightarrow> 0 | Some (_, b) \<Rightarrow> b)"

text \<open>While an order is being paid: the customer's wallet, the other orders and the states of the order last added.\<close>

definition paying :: "oid \<Rightarrow> (oid \<times> rat) option \<Rightarrow> oid \<Rightarrow> order list \<Rightarrow> order_status \<times> payment_status \<Rightarrow> db \<Rightarrow> bool" where
  "paying c x i os q s \<longleftrightarrow> wf_wallets s \<and> purse c s = x \<and> (\<forall>od\<in>set os. o_id od \<noteq> i) \<and>
     (\<exists>od. db_orders s = os @ [od] \<and> o_id od = i \<and> (o_status od, o_payment_status od) = q)"

lemma purse_eq: "purse c s = map_option (\<lambda>w. (w_id w, w_balance w)) (find_one (\<lambda>w. w_customer w = Some c) (db_wallets s))"
  by (simp add: purse_def find_wallet_def)

lemma find_one_map_update:
  assumes "\<And>d. Q (f d) = Q d" "\<And>d. g (f d) = g d"
  shows "map_option g (find_one Q (update_one P f ds)) = map_option g (find_one Q ds)"
  using assms by (induction ds) auto

lemma paying_wallets:
  assumes "paying c x i os q s" "\<And>w. w_id (f w) = w_id w" "\<And>w. w_customer (f w) = w_customer w" "\<And>w. w_balance (f w) = w_balance w"
  shows "paying c x i os q (s\<lparr>db_wallets := update_one P f (db_wallets s)\<rparr>)"
  using assms(1) unfolding paying_def purse_eq wf_wallets_def
  by (auto simp: find_one_map_update map_update_one assms(2-4) dest!: subsetD [OF set_update_one])

lemma paying_orders:
  assumes "paying c x i os q s" "\<And>od. o_id (f od) = o_id od" "\<And>od. (o_status (f od), o_payment_status (f od)) = (o_status od, o_payment_status od)"
    "\<And>od. P od \<Longrightarrow> o_id od = i"
  shows "paying c x i os q (s\<lparr>db_orders := update_one P f (db_orders s)\<rparr>)"
proof -
  have "update_one P f os = os" using assms(1,4) by (intro update_one_id) (auto simp: paying_def)
  moreover have "find_one P os = None" using assms(1,4) by (auto simp: find_one_None_iff paying_def)
  ultimately show ?thesis using assms(1-3) by (auto simp: paying_def purse_eq wf_wallets_def update_one_append)
qed

lemma paying_frame [simp]:
  "paying c x i os q (s\<lparr>db_transactions := ts\<rparr>) = paying c x i os q s"
  "paying c x i os q (s\<lparr>db_earnings := es\<rparr>) = paying c x i os q s"
  by (simp_all add: paying_def purse_eq wf_wallets_def)

lemma preserves_gets:
  assumes "\<And>x s. x = g s \<Longrightarrow> preserves P (f x)"
  shows "preserves P (andThen (gets g) f)"
  using assms by (simp add: preserves_def andThen_app)

lemma paying_fresh: "preserves (paying c x i os q) fresh"
  by (auto simp: preserves_def paying_def purse_eq wf_wallets_def intro: less_SucI)

lemma paying_upsert:
  assumes "\<And>w. w_id (f w) = w_id w" "\<And>w. w_customer (f w) = w_customer w" "\<And>w. w_balance (f w) = w_balance w"
  shows "preserves (paying c x i os q) (upsert_business_wallet b f)"
  unfolding preserves_def
proof (intro allI impI)
  fix s assume s: "paying c x i os q s"
  show "paying c x i os q (snd (upsert_business_wallet b f s))"
  proof (cases "find_one (\<lambda>w. w_business w = b) (db_wallets s)")
    case None
    then have "snd (upsert_business_wallet b f s) =
        s\<lparr>db_next := Suc (db_next s), db_wallets := db_wallets s @ [f (new_wallet b None (db_next s))]\<rparr>"
      by (simp add: upsert_business_wallet_def andThen_app update_wallet_def update_one_None Let_def)
    with s assms show ?thesis
      by (auto simp: paying_def purse_eq wf_wallets_def find_one_append new_wallet_def split: option.splits intro: less_SucI)
  next
    case (Some w)
    with paying_wallets [OF s assms] show ?thesis
      by (simp add: upsert_business_wallet_def andThen_app update_wallet_def)
  qed
qed

lemma paying_earnings: "preserves (paying c x i os q) (recordBusinessEarnings i)"
proof -
  let ?P = "paying c x i os q"
  have create: "preserves ?P (create_earning b j k u v w m)" for b j k u v w m
    unfolding create_earning_def by (intro preserve_intros paying_fresh) simp
  have pending: "preserves ?P (upsert_business_wallet b (add_pending n))" for b n
    by (rule paying_upsert) (simp_all add: add_pending_def)
  have items: "preserves ?P (record_items p ord is tn tc)" for p ord "is" tn tc
  proof (induction "is" arbitrary: tn tc)
    case (Cons item "is")
    have "preserves ?P (record_item_earnings p ord item)" "preserves ?P (record_fabric_earning p ord item)"
      unfolding record_item_earnings_def record_fabric_earning_def Let_def by (intro preserve_intros create pending)+
    with Cons show ?case by (auto intro!: preserve_intros)
  qed (simp add: preserve_intros)
  have claim: "preserves ?P (\<lambda>s. let (won, s') = claim_order_earnings i s in (Inr won, s'))"
    unfolding preserves_def claim_order_earnings_def Let_def by (auto intro!: paying_orders)
  show ?thesis
    unfolding recordBusinessEarnings_def
    by (intro preserves_gets preserve_intros claim items)
      (auto intro!: paying_orders dest!: find_one_keyD [OF sym])
qed

lemma paying_inventory:
  "preserves (paying c x i os q) (updateInventory i)" "preserves (paying c x i os q) (restoreInventory i b j)"
proof -
  have rest: "paying c x i os q s = paying c x i os q t" if "unstocked s = unstocked t" for s t
    using unstocked_eq [OF that] by (simp add: paying_def purse_eq wf_wallets_def)
  have flag: "paying c x i os q (set_deducted i flag s)" if "paying c x i os q s" for flag s
    unfolding set_deducted_def by (rule paying_orders [OF that]) simp_all
  show "preserves (paying c x i os q) (updateInventory i)" "preserves (paying c x i os q) (restoreInventory i b j)"
    by (rule inventory_keeps, erule rest, erule flag)+
qed

lemma paying_transactions:
  "preserves (paying c x i os q) (create_transaction dto)" "preserves (paying c x i os q) (save_transaction t)"
  unfolding create_transaction_def add_transaction_def save_transaction_def
  by (intro preserve_intros paying_fresh, simp)+

lemma paying_paid:
  assumes "paying c x i os q s"
  shows "paying c x i os (O_IN_REVIEW, Paid) (snd (set_order i paid_order s))"
proof -
  have "update_one (\<lambda>od. o_id od = i) paid_order os = os" "find_one (\<lambda>od. o_id od = i) os = None"
    using assms by (auto simp: paying_def query_simps)
  with assms show ?thesis
    by (auto simp: paying_def set_order_def paid_order_def purse_eq wf_wallets_def update_one_append)
qed

text \<open>Money moves in and out of the customer's wallet by its id.\<close>

lemma purse_inc:
  assumes "wf_wallets s" "purse c s = Some (wid, b)"
  shows "wf_wallets (s\<lparr>db_wallets := update_one (\<lambda>w. w_id w = wid) (inc_balance now a) (db_wallets s)\<rparr>)"
    "purse c (s\<lparr>db_wallets := update_one (\<lambda>w. w_id w = wid) (inc_balance now a) (db_wallets s)\<rparr>) = Some (wid, b + a)"
    "\<exists>w. find_one (\<lambda>w. w_id w = wid) (db_wallets s) = Some w \<and> w_balance w = b"
proof -
  have d: "distinct (map w_id (db_wallets s))" using assms(1) by (simp add: wf_wallets_def)
  obtain w where w: "find_one (\<lambda>w. w_customer w = Some c) (db_wallets s) = Some w" "w_id w = wid" "w_balance w = b"
    using assms(2) by (auto simp: purse_eq)
  then have byid: "find_one (\<lambda>w. w_id w = wid) (db_wallets s) = Some w"
    using find_one_key_eq [OF d] find_one_SomeD by metis
  then show "\<exists>w. find_one (\<lambda>w. w_id w = wid) (db_wallets s) = Some w \<and> w_balance w = b" using w(3) by blast
  have "find_one (\<lambda>w. w_customer w = Some c) (map (\<lambda>w. if w_id w = wid then inc_balance now a w else w) ws) =
      map_option (\<lambda>w. if w_id w = wid then inc_balance now a w else w) (find_one (\<lambda>w. w_customer w = Some c) ws)" for ws
    by (induction ws) auto
  then show "purse c (s\<lparr>db_wallets := update_one (\<lambda>w. w_id w = wid) (inc_balance now a) (db_wallets s)\<rparr>) = Some (wid, b + a)"
    unfolding purse_eq using w by (simp add: update_one_key_map [OF d])
  show "wf_wallets (s\<lparr>db_wallets := update_one (\<lambda>w. w_id w = wid) (inc_balance now a) (db_wallets s)\<rparr>)"
    using assms(1) by (rule wf_wallets_inc)
qed

lemma paying_inc:
  assumes "paying c (Some (wid, b)) i os q s"
  shows "paying c (Some (wid, b + a)) i os q (s\<lparr>db_wallets := update_one (\<lambda>w. w_id w = wid) (inc_balance now a) (db_wallets s)\<rparr>)"
    "\<exists>w. find_one (\<lambda>w. w_id w = wid) (db_wallets s) = Some w \<and> w_balance w = b"
  using assms purse_inc [of s c wid b] by (auto simp: paying_def)

lemma delete_last: "\<forall>od\<in>set os. o_id od \<noteq> i \<Longrightarrow> o_id od = i \<Longrightarrow> delete_one (\<lambda>od. o_id od = i) (os @ [od]) = os"
  by (induction os) auto

lemma paying_deleted:
  assumes "paying c x i os q s" "s' = snd (delete_order i s)"
  shows "db_orders s' = os" "purse c s' = x"
  using assms by (auto simp: paying_def delete_order_def purse_eq delete_last)

lemma ignore_errors_run: "\<exists>s'. ignore_errors m s = (Inr (), s') \<and> s' = snd (m s)"
  by (auto simp: ignore_errors_def attempt_app andThen_app split: prod.splits sum.splits)

lemma undo_wallet_payment_effect:
  assumes "paying c (Some (w_id w, b)) (o_id ord) os q s"
  shows "\<exists>s'. undo_wallet_payment now ord w err s = (Inl err, s') \<and> db_orders s' = os \<and> purse c s' = Some (w_id w, b + o_total ord)"
proof -
  let ?P = "paying c (Some (w_id w, b + o_total ord)) (o_id ord) os q"
  obtain s1 where s1: "ignore_errors (creditWallet now (w_id w) (o_total ord)) s = (Inr (), s1)" "?P s1"
    using ignore_errors_run [where m = "creditWallet now (w_id w) (o_total ord)" and s = s]
      paying_inc(1) [OF assms, of "o_total ord" now] paying_inc(2) [OF assms] by (auto simp: creditWallet_run)
  obtain s2 where s2: "ignore_errors (restoreInventory (o_id ord) None None) s1 = (Inr (), s2)" "?P s2"
    using ignore_errors_run [where m = "restoreInventory (o_id ord) None None" and s = s1] preservesD [OF paying_inventory(2) s1(2)] by auto
  obtain s3 where s3: "ignore_errors (delete_order (o_id ord)) s2 = (Inr (), s3)" "s3 = snd (delete_order (o_id ord) s2)"
    using ignore_errors_run [where m = "delete_order (o_id ord)" and s = s2] by auto
  show ?thesis using s1(1) s2(1) s3(1) paying_deleted [OF s2(2) s3(2)]
    by (auto simp: undo_wallet_payment_def)
qed

lemma complete_wallet_payment_effect:
  assumes "paying c x (o_id ord) os q s" "complete_wallet_payment ord w s = (r, s')"
  shows "case r of Inl e \<Rightarrow> \<exists>q. paying c x (o_id ord) os q s' | Inr tx \<Rightarrow> paying c x (o_id ord) os (O_IN_REVIEW, Paid) s'"
proof (cases "create_transaction (payment_entry ord (Some (w_id w)) Wallet_checkout) s")
  case (Pair r1 s1)
  have s1: "paying c x (o_id ord) os q s1"
    using preservesD [OF paying_transactions(1) assms(1), of "payment_entry ord (Some (w_id w)) Wallet_checkout"] Pair by simp
  show ?thesis
  proof (cases r1)
    case (Inl e)
    with Pair assms(2) have "r = Inl e \<and> s' = s1" by (auto simp: complete_wallet_payment_def)
    with s1 show ?thesis by (simp del: split_paired_Ex) blast
  next
    case (Inr tx)
    let ?tx = "tx\<lparr>t_status := T_SUCCESS\<rparr>"
    have "paying c x (o_id ord) os q (snd (save_transaction ?tx s1))" by (rule preservesD [OF paying_transactions(2) s1])
    then have s2: "paying c x (o_id ord) os (O_IN_REVIEW, Paid) (snd (set_order (o_id ord) paid_order (snd (save_transaction ?tx s1))))"
      by (rule paying_paid)
    have "paying c x (o_id ord) os (O_IN_REVIEW, Paid)
        (snd (recordBusinessEarnings (o_id ord) (snd (set_order (o_id ord) paid_order (snd (save_transaction ?tx s1))))))"
      by (rule preservesD [OF paying_earnings s2])
    with Pair Inr assms(2) show ?thesis
      by (auto simp: complete_wallet_payment_def save_transaction_def set_order_def andThen_app split: prod.splits sum.splits)
  qed
qed

text \<open>The wallet that is found or created holds what the customer has.\<close>

lemma purse_found:
  assumes "wf_wallets s"
  obtains w ws n where "getOrCreateWallet None (Some c) s = (Inr w, s\<lparr>db_next := n, db_wallets := ws\<rparr>)"
    "wf_wallets (s\<lparr>db_next := n, db_wallets := ws\<rparr>)" "purse c (s\<lparr>db_next := n, db_wallets := ws\<rparr>) = Some (w_id w, w_balance w)"
    "w_balance w = customer_balance c s"
proof (cases "find_wallet None (Some c) s")
  case None
  let ?w = "new_wallet None (Some c) (db_next s)" and ?ws = "db_wallets s @ [new_wallet None (Some c) (db_next s)]"
  show thesis
  proof (rule that [where w = ?w and n = "Suc (db_next s)" and ws = ?ws])
    show "getOrCreateWallet None (Some c) s = (Inr ?w, s\<lparr>db_next := Suc (db_next s), db_wallets := ?ws\<rparr>)"
      using None by (simp add: getOrCreateWallet_def andThen_app Let_def)
  qed (use assms None in \<open>auto simp: purse_eq wf_wallets_def find_one_append new_wallet_def find_wallet_def
      customer_balance_def intro: less_SucI\<close>)
next
  case (Some w)
  show thesis
    by (rule that [where w = w and n = "db_next s" and ws = "db_wallets s"])
      (use assms Some in \<open>simp_all add: getOrCreateWallet_def andThen_app purse_def customer_balance_def\<close>)
qed

lemma paying_wallet_found:
  assumes "paying c x i os q s"
  obtains w s1 where "getOrCreateWallet None (Some c) s = (Inr w, s1)" "paying c (Some (w_id w, w_balance w)) i os q s1"
    "w_balance w = customer_balance c s"
proof -
  have "wf_wallets s" using assms by (simp add: paying_def)
  then obtain w ws n where w: "getOrCreateWallet None (Some c) s = (Inr w, s\<lparr>db_next := n, db_wallets := ws\<rparr>)"
    "wf_wallets (s\<lparr>db_next := n, db_wallets := ws\<rparr>)" "purse c (s\<lparr>db_next := n, db_wallets := ws\<rparr>) = Some (w_id w, w_balance w)"
    "w_balance w = customer_balance c s" by (rule purse_found)
  show thesis by (rule that [OF w(1) _ w(4)]) (use assms w(2,3) in \<open>simp add: paying_def\<close>)
qed

lemma pay_from_wallet_effect:
  assumes "paying (o_customer ord) x (o_id ord) os q s" "pay_from_wallet now ord s = (r, s')"
  shows "case r of
      Inl e \<Rightarrow> db_orders s' = os \<and> customer_balance (o_customer ord) s' = customer_balance (o_customer ord) s
    | Inr tx \<Rightarrow> \<exists>wid. paying (o_customer ord) (Some (wid, customer_balance (o_customer ord) s - o_total ord)) (o_id ord) os
        (O_IN_REVIEW, Paid) s'"
proof -
  let ?c = "o_customer ord" and ?i = "o_id ord" and ?a = "o_total ord"
  obtain w s1 where w: "getOrCreateWallet None (Some ?c) s = (Inr w, s1)" "w_balance w = customer_balance ?c s"
    and s1: "paying ?c (Some (w_id w, w_balance w)) ?i os q s1" by (rule paying_wallet_found [OF assms(1)])
  show ?thesis
  proof (cases "w_balance w < ?a")
    case True
    with assms(2) w paying_deleted [OF s1, of "snd (delete_order ?i s1)"] show ?thesis
      by (auto simp: pay_from_wallet_def customer_balance_def delete_order_def andThen_app)
  next
    case False
    show ?thesis
    proof (cases "updateInventory ?i s1")
      case (Pair r2 s2)
      have s2: "paying ?c (Some (w_id w, w_balance w)) ?i os q s2" using preservesD [OF paying_inventory(1) s1] Pair by simp
      show ?thesis
      proof (cases r2)
        case (Inl e)
        with Pair assms(2) False w paying_deleted [OF s2, of "snd (delete_order ?i s2)"] show ?thesis
          by (auto simp: pay_from_wallet_def customer_balance_def delete_order_def andThen_app attempt_app)
      next
        case (Inr u)
        let ?s3 = "s2\<lparr>db_wallets := update_one (\<lambda>x. w_id x = w_id w) (inc_balance now (- ?a)) (db_wallets s2)\<rparr>"
        have wf: "wf_wallets s2" using s2 by (simp add: paying_def)
        have s3: "paying ?c (Some (w_id w, w_balance w - ?a)) ?i os q ?s3" using paying_inc(1) [OF s2, of "- ?a" now] by simp
        obtain w' where debit: "debitWallet now (w_id w) ?a s2 = (Inr w', ?s3)"
          using paying_inc(2) [OF s2] False by (auto simp: debitWallet_run [OF wf])
        have run: "attempt (complete_wallet_payment ord w) (undo_wallet_payment now ord w) ?s3 = (r, s')"
          using assms(2) w(1) False Pair Inr debit by (simp add: pay_from_wallet_def andThen_app attempt_app)
        show ?thesis
        proof (cases "complete_wallet_payment ord w ?s3")
          case fin: (Pair r4 s4)
          note effect = complete_wallet_payment_effect [OF s3 fin]
          show ?thesis
          proof (cases r4)
            case (Inl e)
            with effect obtain q' where "paying ?c (Some (w_id w, w_balance w - ?a)) ?i os q' s4" by auto
            then have "\<exists>t. undo_wallet_payment now ord w e s4 = (Inl e :: error + transaction, t) \<and> db_orders t = os \<and>
                purse ?c t = Some (w_id w, w_balance w - ?a + ?a)" by (rule undo_wallet_payment_effect)
            with run fin Inl have "r = Inl e \<and> db_orders s' = os \<and> purse ?c s' = Some (w_id w, w_balance w)" by (auto simp: attempt_app)
            then show ?thesis by (simp add: w(2) customer_balance_def)
          next
            case (Inr tx)
            with effect run fin show ?thesis by (auto simp: attempt_app w(2))
          qed
        qed
      qed
    qed
  qed
qed


lemma andThen_Inl:
  "andThen m f s = (Inl e, t) \<longleftrightarrow> m s = (Inl e, t) \<or> (\<exists>x u. m s = (Inr x, u) \<and> f x u = (Inl e, t))"
  by (auto simp: andThen_app split: prod.splits sum.splits)

lemma throw_result_err: "throw_result r s = (Inl e, s') \<longleftrightarrow> r = Inl e \<and> s' = s"
  by (auto simp: throw_result_def split: sum.splits)

text \<open>An order that cannot be placed leaves nothing but a moved counter.\<close>

lemma save_placed_err:
  assumes "save_placed ls totals ships reference customer now s = (Inl e, s')"
  shows "\<exists>n. s' = s\<lparr>db_next := n\<rparr> \<and> db_next s \<le> n"
proof -
  obtain items n where items: "assign_ids (\<lambda>i l. stored_item l i) ls s = (Inr items, s\<lparr>db_next := n\<rparr>)" "db_next s \<le> n"
    using assign_ids_run [of "\<lambda>i l. stored_item l i" ls s] by auto
  obtain shipments m where sh: "assign_ids (\<lambda>i sh. sh\<lparr>sh_id := i\<rparr>) ships (s\<lparr>db_next := n\<rparr>) = (Inr shipments, s\<lparr>db_next := m\<rparr>)" "n \<le> m"
    using assign_ids_run [of "\<lambda>i sh. sh\<lparr>sh_id := i\<rparr>" ships "s\<lparr>db_next := n\<rparr>"] by auto
  define ord where "ord = (default_order m reference customer now)\<lparr>o_items := items,
    o_subtotal := ot_subtotal totals + external_total ls, o_shipping_fee := shipping_total ships,
    o_total := ot_subtotal totals + external_total ls + shipping_total ships, o_shipments := shipments\<rparr>"
  have "save_placed ls totals ships reference customer now s = andThen (insert_order ord) (\<lambda>_. ret ord) (s\<lparr>db_next := Suc m\<rparr>)"
    unfolding save_placed_def Let_def by (simp add: andThen_ok [where m = "assign_ids f ls" for f, OF items(1)] andThen_ok [where m = "assign_ids f ships" for f, OF sh(1)] ord_def)
  with assms have "andThen (insert_order ord) (\<lambda>_. ret ord) (s\<lparr>db_next := Suc m\<rparr>) = (Inl e, s')" by simp
  then have "insert_order ord (s\<lparr>db_next := Suc m\<rparr>) = (Inl e, s')" unfolding andThen_Inl by simp
  then have "s' = s\<lparr>db_next := Suc m\<rparr>" by (rule insert_order_Inl)
  with items(2) sh(2) show ?thesis by (intro exI [of _ "Suc m"]) simp
qed

lemma place_order_err:
  assumes "place_order addresses cache dto customer now s = (Inl e, s')"
  shows "\<exists>n. s' = s\<lparr>db_next := n\<rparr> \<and> db_next s \<le> n"
proof -
  have same: "\<exists>n. s = s\<lparr>db_next := n\<rparr> \<and> db_next s \<le> n" by (intro exI [of _ "db_next s"]) simp
  have next': "\<exists>n. s\<lparr>db_next := Suc (db_next s)\<rparr> = s\<lparr>db_next := n\<rparr> \<and> db_next s \<le> n" by (intro exI [of _ "Suc (db_next s)"]) simp
  have save: "\<exists>n. t = s\<lparr>db_next := n\<rparr> \<and> db_next s \<le> n"
    if "save_placed ls totals ships r c now' (s\<lparr>db_next := Suc (db_next s)\<rparr>) = (Inl e, t)" for ls totals ships r c now' t
    using save_placed_err [OF that] by auto
  have "s' = s \<or> s' = s\<lparr>db_next := Suc (db_next s)\<rparr> \<or> (\<exists>ls totals ships r.
      save_placed ls totals ships r customer now (s\<lparr>db_next := Suc (db_next s)\<rparr>) = (Inl e, s'))"
    using assms unfolding place_order_def andThen_Inl throw_result_err throw_result_ok fresh_run
    by (elim disjE exE conjE) (simp_all split: if_splits, blast+)
  then show ?thesis using same next' save by blast
qed

text \<open>C2: An order paid from the wallet is all or nothing: when createOrder succeeds, the customer's wallet has lost
  exactly the order's total and the order is stored once, paid and in review; when it fails - at any
  step, also after the debit - the wallet holds what it held before and the orders are the ones from before.\<close>

theorem wallet_checkout_all_or_nothing:
  assumes "co_payment_method dto = Some Pay_wallet" "wf_wallets s" "\<forall>od\<in>set (db_orders s). o_id od < db_next s"
    "createOrder pay_init addresses cache dto customer now s = (r, s')"
  shows "case r of
      Inl e \<Rightarrow> customer_balance customer s' = customer_balance customer s \<and> db_orders s' = db_orders s
    | Inr (ord, tx) \<Rightarrow> customer_balance customer s' = customer_balance customer s - o_total ord \<and>
        (\<exists>od. db_orders s' = db_orders s @ [od] \<and> o_id od = o_id ord \<and> o_status od = O_IN_REVIEW \<and> o_payment_status od = Paid)"
proof (cases "place_order addresses cache dto customer now s")
  case (Pair r1 s1)
  show ?thesis
  proof (cases r1)
    case (Inl e)
    with Pair place_order_err obtain n where "s1 = s\<lparr>db_next := n\<rparr>" by blast
    with Pair Inl assms(4) show ?thesis
      by (auto simp: createOrder_def attempt_app andThen_app customer_balance_def purse_eq)
  next
    case (Inr ord)
    with Pair have ok: "place_order addresses cache dto customer now s = (Inr ord, s1)" by simp
    obtain ls totals ships where save: "save_placed ls totals ships (db_next s) customer now (s\<lparr>db_next := Suc (db_next s)\<rparr>) = (Inr ord, s1)"
      using place_order_ok [OF ok] by blast
    from save obtain items shipments i where "db_next (s\<lparr>db_next := Suc (db_next s)\<rparr>) \<le> i"
      and s1: "s1 = s\<lparr>db_next := Suc (db_next s)\<rparr>\<lparr>db_next := Suc i, db_orders := db_orders (s\<lparr>db_next := Suc (db_next s)\<rparr>) @ [ord]\<rparr>"
      and ord: "ord = placed_order ls totals ships items shipments i (db_next s) customer now" by (rule save_placed_ok)
    then have fields: "o_customer ord = customer" "o_id ord = i" "db_next s < i"
      "(o_status ord, o_payment_status ord) = (O_PENDING, Unpaid)"
      by (simp_all add: placed_order_def default_order_def)
    have start: "paying (o_customer ord) (purse customer s) (o_id ord) (db_orders s) (O_PENDING, Unpaid) s1"
      using assms(2,3) fields by (force simp: paying_def purse_eq wf_wallets_def s1)
    have bal: "customer_balance customer s1 = customer_balance customer s"
      by (simp add: customer_balance_def purse_eq s1)
    show ?thesis
    proof (cases "pay_from_wallet now ord s1")
      case pay: (Pair r2 s2)
      note effect = pay_from_wallet_effect [OF start pay, unfolded fields(1,2) bal]
      show ?thesis
      proof (cases r2)
        case (Inl e)
        with ok pay assms(1,4) have "s' = s2 \<and> isl r" by (auto simp: createOrder_def attempt_app andThen_app)
        with effect Inl show ?thesis by (auto simp: isl_def)
      next
        case (Inr tx)
        with ok pay assms(1,4) have "s' = s2 \<and> r = Inr (paid_order ord, tx)" by (auto simp: createOrder_def attempt_app andThen_app)
        with effect Inr show ?thesis
          by (auto simp: paying_def customer_balance_def paid_order_def fields(2))
      qed
    qed
  qed
qed

section \<open>A sample order\<close>

text \<open>Two pieces of the garment, delivered for 15, by a customer with 500 in the wallet.\<close>

definition sample_cart_item :: order_item_dto where
  "sample_cart_item = \<lparr>oi_product_id = 10, oi_note = None, oi_quantity = Some 1, oi_selections = Some \<lparr>se_color_variant =
       Some [\<lparr>vd_color_variant_id = 21, vd_size = None, vd_quantity = Some 2\<rparr>], se_style = None, se_fabric = None,
       se_accessory = None, se_addon = None\<rparr>,
     oi_applied_fabric_id = None, oi_applied_fabric_yards = None\<rparr>"

definition sample_rate :: rate_cache where
  "sample_rate = \<lparr>rc_customer = 5, rc_request_token = ''t'', rc_business_id = 1, rc_rates = [\<lparr>cr_courier_id = ''c'',
     cr_service_code = ''s'', cr_courier_name = None, cr_rate_amount = 15\<rparr>], rc_createdAt = 0\<rparr>"

definition sample_checkout :: create_order_dto where
  "sample_checkout = \<lparr>co_items = [sample_cart_item], co_selected_shipping = [\<lparr>sl_business_id = 1, sl_request_token = ''t'',
     sl_courier_id = ''c'', sl_service_code = ''s'', sl_courier_name = ''courier''\<rparr>], co_selected_fabric_transfers = [],
     co_address_id = None, co_payment_method = Some Pay_wallet\<rparr>"

definition sample_addresses :: "address list" where
  "sample_addresses = [\<lparr>adr_id = 9, adr_customer = 5, adr_is_default = True\<rparr>]"


definition sample_customer_wallet :: wallet where
  "sample_customer_wallet = (new_wallet None (Some 5) 1)\<lparr>w_balance := 500\<rparr>"
definition sample_market :: db where
  "sample_market = sample_catalogue\<lparr>db_wallets := [sample_customer_wallet], db_next := 50\<rparr>"

lemma sample_market_ok:
  "wf_wallets sample_market" "\<forall>od\<in>set (db_orders sample_market). o_id od < db_next sample_market"
  "list_all sane_product (db_products sample_market)" "list_all sane_request (co_items sample_checkout)"
  "co_payment_method sample_checkout = Some Pay_wallet"
  by (simp_all add: sample_market_def sample_customer_wallet_def new_wallet_def sample_catalogue_defs wf_wallets_def
      sane_product_def sane_clothing_def sane_fabric_def nonneg_def sample_checkout_def sample_cart_item_def
      sane_request_def sane_selections_def normalizeSelections_def)

lemma sample_placed:
  "\<exists>ord s'. place_order sample_addresses [sample_rate] sample_checkout 5 0 sample_market = (Inr ord, s') \<and> o_total ord = 115"
proof -
  have "case place_order sample_addresses [sample_rate] sample_checkout 5 0 sample_market of
      (Inl e, s) \<Rightarrow> False | (Inr ord, s) \<Rightarrow> o_total ord = 115" by code_simp
  then show ?thesis by (auto split: prod.splits sum.splits)
qed

theorem order_totals_add_up_witness:
  "\<exists>ord s'. place_order sample_addresses [sample_rate] sample_checkout 5 0 sample_market = (Inr ord, s') \<and>
     o_total ord = 115 \<and> o_total ord = o_subtotal ord + o_shipping_fee ord \<and> length (o_items ord) = 1"
proof -
  obtain ord s' where run: "place_order sample_addresses [sample_rate] sample_checkout 5 0 sample_market = (Inr ord, s')"
    "o_total ord = 115" using sample_placed by blast
  with order_totals_add_up [OF run(1) sample_market_ok(3,4)] show ?thesis by (simp add: sample_checkout_def)
qed

lemma sample_paid:
  "\<exists>ord tx s'. createOrder (\<lambda>_. None) sample_addresses [sample_rate] sample_checkout 5 0 sample_market = (Inr (ord, tx), s') \<and>
     o_total ord = 115"
proof -
  have "case createOrder (\<lambda>_. None) sample_addresses [sample_rate] sample_checkout 5 0 sample_market of
      (Inl e, s) \<Rightarrow> False | (Inr (ord, tx), s) \<Rightarrow> o_total ord = 115" by code_simp
  then show ?thesis by (auto split: prod.splits sum.splits)
qed

theorem wallet_checkout_all_or_nothing_witness:
  "\<exists>ord tx s'. createOrder (\<lambda>_. None) sample_addresses [sample_rate] sample_checkout 5 0 sample_market = (Inr (ord, tx), s') \<and>
     customer_balance 5 sample_market = 500 \<and> customer_balance 5 s' = 385"
proof -
  obtain ord tx s' where run: "createOrder (\<lambda>_. None) sample_addresses [sample_rate] sample_checkout 5 0 sample_market = (Inr (ord, tx), s')"
    "o_total ord = 115" using sample_paid by blast
  have "customer_balance 5 sample_market = 500" by code_simp
  with run wallet_checkout_all_or_nothing [OF sample_market_ok(5,1,2) run(1)] show ?thesis by auto
qed

section \<open>The price on the product page\<close>

text \<open>The product page prices a fabric chosen by its size with the garment's own yards for that size, but the order
  keeps no size of a fabric: it charges the yards of the fabric's variant, or one yard. A garment whose
  size table asks for more than one yard is therefore sold below the price shown.\<close>

theorem page_price_uses_garment_yards:
  assumes "p_kind p = CLOTHING" "find_one (\<lambda>f. f_id f = fd_fabric_id fs) (clothing_fabrics p) = Some f"
    "se_fabric sel = Some [fs]" "fd_yardage fs = None" "garment_yards p (fd_size fs) = Some y" "1 < y"
    "variant_yards f (fd_size fs) = None" "f_min_cut f \<le> 1" "y \<le> f_yard_length f"
  shows "calculateFabricCost [fs] p = Inr (round2 (y * f_price_per_yard f * nullish (fd_quantity fs) 1)) \<and>
    calculateFabricCost (nullish (se_fabric (priced_selections (normalize_order_selections (Some sel) p))) []) p =
      Inr (round2 (f_price_per_yard f * nullish (fd_quantity fs) 1))"
proof -
  let ?sent = "\<lparr>fd_fabric_id = f_id f, fd_yardage = Some 1, fd_size = None, fd_quantity = Some (nullish (fd_quantity fs) 1)\<rparr>"
  have "garment_fabric_cost p fs = Inr (y * f_price_per_yard f * nullish (fd_quantity fs) 1)"
    using assms by (auto simp: garment_fabric_cost_def or_truthy_def)
  moreover have "se_fabric (priced_selections (normalize_order_selections (Some sel) p)) = Some [?sent]"
    using assms by (simp add: priced_selections_def normalize_order_selections_def List.map_filter_simps
        normalize_fabric_def or_truthy_def Let_def)
  moreover have "f_id f = fd_fabric_id fs" using find_one_SomeD [OF assms(2)] by simp
  then have "garment_fabric_cost p ?sent = Inr (f_price_per_yard f * nullish (fd_quantity fs) 1)"
    using assms by (auto simp: garment_fabric_cost_def or_truthy_def)
  ultimately show ?thesis using assms(1) by (simp add: calculateFabricCost_def)
qed

text \<open>A made-to-measure garment that takes three yards of its fabric in size M.\<close>

definition sample_custom :: product where
  "sample_custom = sample_product\<lparr>p_id := 13, p_clothing := Some (sample_clothing\<lparr>c_type := CUSTOMIZE, c_fabrics := [sample_fabric],
     c_yardage_per_size := [\<lparr>y_size = Some ''M'', y_yards = Some 3\<rparr>]\<rparr>)\<rparr>"

definition sample_sized :: selections_dto where
  "sample_sized = \<lparr>se_color_variant = None, se_style = None, se_fabric = Some [\<lparr>fd_fabric_id = 30, fd_yardage = None,
     fd_size = Some ''M'', fd_quantity = None\<rparr>], se_accessory = None, se_addon = None\<rparr>"

theorem page_price_uses_garment_yards_witness:
  "calculateFabricCost (nullish (se_fabric sample_sized) []) sample_custom = Inr 60 \<and>
   calculateFabricCost (nullish (se_fabric (priced_selections (normalize_order_selections (Some sample_sized) sample_custom))) []) sample_custom =
     Inr 20"
proof -
  have "garment_yards sample_custom (Some ''M'') = Some 3" by code_simp
  with page_price_uses_garment_yards [of sample_custom "hd (nullish (se_fabric sample_sized) [])" sample_fabric sample_sized 3]
  show ?thesis using round2_of_int [of 60] round2_of_int [of 20]
    by (simp add: sample_custom_def sample_sized_def sample_product_def sample_clothing_def clothing_fabrics_def
        sample_fabric_def variant_yards_def)
qed

text \<open>The whole item, on the page and in the order.\<close>

lemma sample_page_and_order:
  "case process_item (sample_cart_item\<lparr>oi_product_id := 13, oi_selections := Some sample_sized\<rparr>) (sample_market\<lparr>db_products := [sample_custom]\<rparr>) of
     Inl e \<Rightarrow> False
   | Inr l \<Rightarrow> pr_final (ol_pricing l) = 120 \<and>
       pr_final (priceItem (sample_cart_item\<lparr>oi_product_id := 13, oi_selections := Some sample_sized\<rparr>) (sample_market\<lparr>db_products := [sample_custom]\<rparr>)) = 160"
  by code_simp

end
