(* ===== verification/Fulfilment.thy ===== *)
theory Fulfilment
  imports Placement
begin

text \<open>
  After payment (\<open>src/modules/orders/orders.service.ts\<close>): vendors confirm or reject their shipment or a
  single item, a declined fabric transfer is unwound, an order is cancelled, stale shipments are
  rejected and late ones penalised by the crons, and the production checklist is kept. An order a method
  has loaded is a value; saving it writes the fields the method has changed. Notifications are left out,
  and what the code starts without waiting for it runs in the order it was started.
\<close>

definition day_ms :: int where
  "day_ms = 24 * 60 * 60 * 1000"

definition find_order :: "oid \<Rightarrow> db \<Rightarrow> order option" where
  "find_order reference s = find_one (\<lambda>od. o_reference od = reference) (db_orders s)"

definition load_order :: "oid \<Rightarrow> (db, order) action" where
  "load_order reference = andThen (gets (find_order reference)) (\<lambda>r. case r of
     None \<Rightarrow> throw (BadRequestException ''Order not found'') | Some ord \<Rightarrow> ret ord)"

section \<open>Refunding the customer\<close>

definition refund_entry :: "order \<Rightarrow> rat \<Rightarrow> transaction_status \<Rightarrow> oid option \<Rightarrow> create_transaction_dto" where
  "refund_entry ord amount status wallet = \<lparr>ct_initiator = Some (o_customer ord), ct_amount = amount, ct_type = REFUND,
     ct_status = Some status, ct_wallet = wallet, ct_order = Some (o_id ord), ct_channel = Refund_channel,
     ct_description = Some ''Refund for order'', ct_currency = None, ct_payment_method = None,
     ct_metadata = Some (empty_metadata\<lparr>m_order_reference := Some (o_reference ord)\<rparr>)\<rparr>"

definition record_refund :: "order \<Rightarrow> rat \<Rightarrow> transaction_status \<Rightarrow> oid option \<Rightarrow> (db, unit) action" where
  "record_refund ord amount status wallet = ignore_errors (create_transaction (refund_entry ord amount status wallet))"

definition mark_partially_refunded :: "oid \<Rightarrow> (db, unit) action" where
  "mark_partially_refunded orderId = modify (\<lambda>s. s\<lparr>db_orders := update_one
     (\<lambda>od. o_id od = orderId \<and> o_refund_status od \<noteq> Refund_refunded) (\<lambda>od. od\<lparr>o_refund_status := Refund_partial\<rparr>) (db_orders s)\<rparr>)"

definition credit_refund :: "instant \<Rightarrow> order \<Rightarrow> rat \<Rightarrow> oid \<Rightarrow> (db, bool) action" where
  "credit_refund now ord amount walletId =
     andThen (creditWallet now walletId amount) (\<lambda>_.
     andThen (record_refund ord amount T_SUCCESS (Some walletId)) (\<lambda>_.
     andThen (mark_partially_refunded (o_id ord)) (\<lambda>_. ret True)))"

definition processPartialRefund :: "instant \<Rightarrow> order \<Rightarrow> rat \<Rightarrow> (db, bool) action" where
  "processPartialRefund now ord refundAmount =
     (if refundAmount \<le> 0 then ret False
      else andThen (findByOrderId (o_id ord)) (\<lambda>original. case original of
        None \<Rightarrow> andThen (record_refund ord refundAmount T_FAILED None) (\<lambda>_. ret False)
      | Some tx \<Rightarrow> (case t_channel tx of
          Wallet_checkout \<Rightarrow> (case t_wallet tx of
              None \<Rightarrow> andThen (record_refund ord refundAmount T_FAILED None) (\<lambda>_. ret False)
            | Some walletId \<Rightarrow> attempt (credit_refund now ord refundAmount walletId)
                (\<lambda>_. andThen (record_refund ord refundAmount T_FAILED (Some walletId)) (\<lambda>_. ret False)))
        | Checkout \<Rightarrow> attempt (andThen (getOrCreateWallet None (Some (o_customer ord))) (\<lambda>w. credit_refund now ord refundAmount (w_id w)))
            (\<lambda>_. andThen (record_refund ord refundAmount T_FAILED None) (\<lambda>_. ret False))
        | _ \<Rightarrow> andThen (record_refund ord refundAmount T_FAILED None) (\<lambda>_. ret False))))"

section \<open>Cancelling an order\<close>

definition refund_whole :: "instant \<Rightarrow> order \<Rightarrow> transaction \<Rightarrow> (db, unit) action" where
  "refund_whole now ord tx = (case t_channel tx of
     Wallet_checkout \<Rightarrow> (case t_wallet tx of
         None \<Rightarrow> ret ()
       | Some walletId \<Rightarrow> andThen (creditWallet now walletId (t_amount tx)) (\<lambda>_.
           andThen (create_transaction (refund_entry ord (t_amount tx) T_SUCCESS (Some walletId))) (\<lambda>_. ret ())))
   | Checkout \<Rightarrow> andThen (getOrCreateWallet None (Some (o_customer ord))) (\<lambda>w.
       andThen (creditWallet now (w_id w) (t_amount tx)) (\<lambda>_.
       andThen (create_transaction (refund_entry ord (t_amount tx) T_SUCCESS (Some (w_id w)))) (\<lambda>_. ret ())))
   | _ \<Rightarrow> ret ())"

definition cancelOrder :: "instant \<Rightarrow> oid \<Rightarrow> (db, unit) action" where
  "cancelOrder now reference = andThen (load_order reference) (\<lambda>ord.
     if o_status ord = O_CANCELLED then throw (BadRequestException ''Order is already cancelled'')
     else andThen (findByOrderId (o_id ord)) (\<lambda>t. case t of
         None \<Rightarrow> throw (BadRequestException ''No payment transaction found for this order. Manual refund required.'')
       | Some tx \<Rightarrow>
           andThen (refund_whole now ord tx) (\<lambda>_.
           andThen (set_order (o_id ord) (\<lambda>od. od\<lparr>o_status := O_CANCELLED, o_refund_status := Refund_refunded\<rparr>)) (\<lambda>_.
           andThen (reverseBusinessEarnings now (o_id ord) None None) (\<lambda>_.
           ignore_errors (restoreInventory (o_id ord) None None))))))"

section \<open>Confirming a shipment\<close>

text \<open>\<open>order.shipments.find((s) => s.business === businessId)\<close>: the vendor's first shipment, of either type.\<close>

definition own_shipment :: "oid \<Rightarrow> order \<Rightarrow> vendor_shipment option" where
  "own_shipment b ord = find_one (\<lambda>sh. sh_business sh = b) (o_shipments ord)"

definition turnaround :: "product \<Rightarrow> rat" where
  "turnaround p = nullish (Option.bind (p_clothing p) c_turnaround_days) 3"

definition max_turnaround :: "oid \<Rightarrow> order \<Rightarrow> db \<Rightarrow> rat" where
  "max_turnaround b ord s =
     (let productIds = map i_product (filter (\<lambda>i. i_business i = Some b) (o_items ord))
      in fold (\<lambda>p m. if m < turnaround p then turnaround p else m)
           (filter (\<lambda>p. Some (p_id p) \<in> set productIds) (db_products s)) 3)"

definition all_confirmed :: "vendor_shipment list \<Rightarrow> bool" where
  "all_confirmed shs = list_all sh_confirmed (filter (\<lambda>sh. \<not> sh_rejected sh) shs)"

definition confirm_shipment :: "instant \<Rightarrow> rat \<Rightarrow> vendor_shipment \<Rightarrow> vendor_shipment" where
  "confirm_shipment now days sh = sh\<lparr>sh_confirmed := True, sh_confirmed_at := Some now,
     sh_fulfillment_deadline := Some (now + \<lfloor>days\<rfloor> * day_ms)\<rparr>"

definition schedule_upfront :: "instant \<Rightarrow> oid \<Rightarrow> oid \<Rightarrow> (db, unit) action" where
  "schedule_upfront now orderId b = modify (\<lambda>s. s\<lparr>db_earnings := update_many
     (\<lambda>e. e_order e = orderId \<and> e_business e = Some b \<and> e_milestone e = Upfront \<and> \<not> e_released e \<and> e_release_date e = None)
     (\<lambda>e. e\<lparr>e_release_date := Some (now + \<lfloor>setting payout_delay_days 3 s * of_int day_ms\<rfloor>)\<rparr>) (db_earnings s)\<rparr>)"

definition confirmVendorShipment :: "instant \<Rightarrow> oid \<Rightarrow> oid \<Rightarrow> (db, bool \<times> order_status) action" where
  "confirmVendorShipment now reference b = andThen (load_order reference) (\<lambda>ord. case own_shipment b ord of
       None \<Rightarrow> throw (BadRequestException ''No shipment found for your business in this order'')
     | Some sh \<Rightarrow>
         if sh_confirmed sh then throw (BadRequestException ''You have already confirmed this shipment'')
         else if sh_rejected sh then throw (BadRequestException ''This shipment has been rejected and cannot be confirmed'')
         else andThen (gets (max_turnaround b ord)) (\<lambda>days.
           let shipments = update_one (\<lambda>sh. sh_business sh = b) (confirm_shipment now days) (o_shipments ord);
               allConfirmed = all_confirmed shipments; status = (if allConfirmed then O_PROCESSING else o_status ord)
           in andThen (set_order (o_id ord) (\<lambda>od. od\<lparr>o_shipments := shipments, o_status := status\<rparr>)) (\<lambda>_.
              andThen (schedule_upfront now (o_id ord) b) (\<lambda>_. ret (allConfirmed, status)))))"

section \<open>Rejecting items and shipments\<close>

definition fail_shipment :: "instant \<Rightarrow> string \<Rightarrow> vendor_shipment \<Rightarrow> vendor_shipment" where
  "fail_shipment now reason sh = sh\<lparr>sh_rejected := True, sh_rejected_at := Some now, sh_rejection_reason := Some reason,
     sh_status := S_FAILED\<rparr>"

definition reject_item :: "instant \<Rightarrow> string \<Rightarrow> order_item \<Rightarrow> order_item" where
  "reject_item now reason i = i\<lparr>i_rejected := True, i_rejected_at := Some now, i_rejection_reason := Some reason\<rparr>"

text \<open>The transfer leg that feeds an item of vendor \<open>b\<close>.\<close>

definition fabric_leg :: "oid \<Rightarrow> oid \<Rightarrow> vendor_shipment \<Rightarrow> bool" where
  "fabric_leg fabricId b sh \<longleftrightarrow> sh_shipment_type sh = FABRIC_TRANSFER \<and> sh_fabric_product sh = Some fabricId \<and>
     sh_destination_business sh = Some b \<and> \<not> sh_rejected sh"

record rejection =
  rj_order :: order
  rj_legs :: rat
  rj_goods :: rat
  rj_refund :: rat

definition reject_leg :: "instant \<Rightarrow> oid \<Rightarrow> order_item \<Rightarrow> rejection \<Rightarrow> rejection" where
  "reject_leg now b item r = (case i_applied_fabric item of
     None \<Rightarrow> r
   | Some fabricId \<Rightarrow> (case find_one (fabric_leg fabricId b) (o_shipments (rj_order r)) of
       None \<Rightarrow> r
     | Some leg \<Rightarrow> r\<lparr>rj_legs := rj_legs r + or_num (sh_shipping_fee leg) 0,
         rj_order := (rj_order r)\<lparr>o_shipments := update_one (fabric_leg fabricId b)
           (fail_shipment now ''Dependent garment item cancelled'') (o_shipments (rj_order r))\<rparr>\<rparr>))"

fun reject_each :: "instant \<Rightarrow> string \<Rightarrow> oid \<Rightarrow> order_item list \<Rightarrow> rejection \<Rightarrow> rejection" where
  "reject_each now reason b [] r = r"
| "reject_each now reason b (item # items) r =
     (let goods = or_num (i_total_price item) 0;
          r1 = r\<lparr>rj_goods := rj_goods r + goods, rj_refund := rj_refund r + (goods + external_fabric_of item),
                 rj_order := (rj_order r)\<lparr>o_items := update_one (\<lambda>i. i_id i = i_id item) (reject_item now reason) (o_items (rj_order r))\<rparr>\<rparr>
      in reject_each now reason b items (reject_leg now b item r1))"

definition garment_shipment :: "oid \<Rightarrow> vendor_shipment \<Rightarrow> bool" where
  "garment_shipment b sh \<longleftrightarrow> sh_shipment_type sh \<noteq> FABRIC_TRANSFER \<and> sh_business sh = b \<and> \<not> sh_rejected sh"

definition vendor_active :: "oid \<Rightarrow> order \<Rightarrow> bool" where
  "vendor_active b ord \<longleftrightarrow> exists_doc (\<lambda>i. i_business i = Some b \<and> \<not> i_rejected i) (o_items ord)"

definition drop_garment_shipment :: "instant \<Rightarrow> oid \<Rightarrow> order \<Rightarrow> order \<times> rat" where
  "drop_garment_shipment now b ord =
     (if vendor_active b ord then (ord, 0)
      else (case find_one (garment_shipment b) (o_shipments ord) of
        None \<Rightarrow> (ord, 0)
      | Some sh \<Rightarrow> (ord\<lparr>o_shipments := update_one (garment_shipment b) (fail_shipment now ''All items rejected by vendor'') (o_shipments ord)\<rparr>,
          or_num (sh_shipping_fee sh) 0)))"

definition adjust_totals :: "rat \<Rightarrow> rat \<Rightarrow> rat \<Rightarrow> order \<Rightarrow> order" where
  "adjust_totals goods shipping refunded ord = ord\<lparr>o_subtotal := max 0 (o_subtotal ord - goods),
     o_shipping_fee := max 0 (o_shipping_fee ord - shipping), o_total := max 0 (o_total ord - refunded)\<rparr>"

text \<open>The order is cancelled when no shipment is left, and moves on when the remaining ones are confirmed.\<close>

definition settle_status :: "bool \<Rightarrow> order \<Rightarrow> order" where
  "settle_status cancelled ord =
     (let active = filter (\<lambda>sh. \<not> sh_rejected sh) (o_shipments ord)
      in if cancelled then ord\<lparr>o_status := O_CANCELLED, o_refund_status := Refund_refunded\<rparr>
         else if active \<noteq> [] \<and> list_all sh_confirmed active then ord\<lparr>o_status := O_PROCESSING\<rparr> else ord)"

definition all_rejected :: "order \<Rightarrow> bool" where
  "all_rejected ord = list_all sh_rejected (o_shipments ord)"

definition save_loaded :: "order \<Rightarrow> (db, unit) action" where
  "save_loaded ord = set_order (o_id ord) (\<lambda>_. ord)"

definition rejected_order :: "instant \<Rightarrow> string \<Rightarrow> oid \<Rightarrow> order_item list \<Rightarrow> order \<Rightarrow> order \<times> rat \<times> bool" where
  "rejected_order now reason b items ord =
     (let r = reject_each now reason b items \<lparr>rj_order = ord, rj_legs = 0, rj_goods = 0, rj_refund = 0\<rparr>;
          (ord1, vendorShipping) = drop_garment_shipment now b (rj_order r);
          refundAmount = rj_refund r + rj_legs r + vendorShipping;
          ord2 = adjust_totals (rj_goods r) (rj_legs r + vendorShipping) refundAmount ord1;
          cancelled = (o_shipments ord2 \<noteq> [] \<and> all_rejected ord2)
      in (settle_status cancelled ord2, refundAmount, cancelled))"

definition rejectItems :: "instant \<Rightarrow> string \<Rightarrow> oid \<Rightarrow> order_item list \<Rightarrow> order \<Rightarrow> (db, order \<times> rat \<times> bool) action" where
  "rejectItems now reason b items ord =
     (let (ord', refundAmount, cancelled) = rejected_order now reason b items ord
      in andThen (save_loaded ord') (\<lambda>_.
         andThen (ignore_errors (processPartialRefund now ord' refundAmount)) (\<lambda>_.
         andThen (for_each items (\<lambda>item.
           andThen (ignore_errors (reverseBusinessEarnings now (o_id ord) None (Some (i_id item)))) (\<lambda>_.
           ignore_errors (restoreInventory (o_id ord) (Some b) (Some (i_id item)))))) (\<lambda>_.
         ret (ord', refundAmount, cancelled)))))"

definition rejectOrderItem :: "instant \<Rightarrow> oid \<Rightarrow> oid \<Rightarrow> oid \<Rightarrow> string \<Rightarrow> (db, rat \<times> bool) action" where
  "rejectOrderItem now reference b itemId reason = andThen (load_order reference) (\<lambda>ord.
     case find_one (\<lambda>i. i_id i = itemId \<and> i_business i = Some b) (o_items ord) of
       None \<Rightarrow> throw (BadRequestException ''No such item in this order for your business'')
     | Some item \<Rightarrow>
         if i_rejected item then throw (BadRequestException ''This item has already been rejected'')
         else if (case find_one (\<lambda>sh. sh_shipment_type sh \<noteq> FABRIC_TRANSFER \<and> sh_business sh = b) (o_shipments ord) of
              None \<Rightarrow> False
            | Some sh \<Rightarrow> sh_rejected sh \<or> sh_status sh \<in> {S_SHIPPED, S_IN_TRANSIT, S_DELIVERED})
         then throw (BadRequestException ''Cannot reject an item once its shipment has been dispatched.'')
         else andThen (rejectItems now reason b [item] ord) (\<lambda>(ord', amount, cancelled). ret (amount, cancelled)))"


text \<open>A declined transfer takes the tailor's garment with it: all of the tailor's items, rejected ones included.\<close>

definition items_of :: "oid \<Rightarrow> order \<Rightarrow> order_item list" where
  "items_of b ord = filter (\<lambda>i. i_business i = Some b) (o_items ord)"

definition unwound_order :: "instant \<Rightarrow> string \<Rightarrow> vendor_shipment \<Rightarrow> order \<Rightarrow> order \<times> rat \<times> bool" where
  "unwound_order now reason leg ord =
     (let ord1 = ord\<lparr>o_shipments := update_one (\<lambda>sh. sh_id sh = sh_id leg) (fail_shipment now reason) (o_shipments ord)\<rparr>;
          tailorShipment = Option.bind (sh_destination_business leg) (\<lambda>t. find_one (garment_shipment t) (o_shipments ord1));
          ord2 = (case sh_destination_business leg of None \<Rightarrow> ord1
            | Some t \<Rightarrow> ord1\<lparr>o_shipments := update_one (garment_shipment t)
                (fail_shipment now ''Cancelled: required fabric transfer was declined'') (o_shipments ord1)\<rparr>);
          tailorItems = (case sh_destination_business leg of None \<Rightarrow> [] | Some t \<Rightarrow> items_of t ord);
          goods = (\<Sum>i\<leftarrow>tailorItems. or_num (i_total_price i) 0);
          external = (\<Sum>i\<leftarrow>tailorItems. external_fabric_of i);
          fabricShippingFee = or_num (sh_shipping_fee leg) 0;
          tailorShippingFee = or_num (Option.bind tailorShipment sh_shipping_fee) 0;
          refundAmount = goods + external + fabricShippingFee + tailorShippingFee;
          ord3 = adjust_totals goods (fabricShippingFee + tailorShippingFee) refundAmount ord2;
          cancelled = all_rejected ord3
      in (settle_status cancelled ord3, refundAmount, cancelled))"

definition unwindRejectedFabricTransfer ::
  "instant \<Rightarrow> string \<Rightarrow> vendor_shipment \<Rightarrow> order \<Rightarrow> (db, order \<times> rat \<times> bool) action" where
  "unwindRejectedFabricTransfer now reason leg ord =
     (let (ord', refundAmount, cancelled) = unwound_order now reason leg ord; tailor = sh_destination_business leg
      in andThen (save_loaded ord') (\<lambda>_.
         andThen (ignore_errors (processPartialRefund now ord' refundAmount)) (\<lambda>_.
         andThen (ignore_errors (reverseBusinessEarnings now (o_id ord) (Some (sh_business leg)) None)) (\<lambda>_.
         andThen (if tailor = None then ret () else ignore_errors (reverseBusinessEarnings now (o_id ord) tailor None)) (\<lambda>_.
         andThen (if tailor = None then ret () else ignore_errors (restoreInventory (o_id ord) tailor None)) (\<lambda>_.
         ret (ord', refundAmount, cancelled)))))))"

definition rejectVendorShipment :: "instant \<Rightarrow> oid \<Rightarrow> oid \<Rightarrow> string \<Rightarrow> (db, rat \<times> bool) action" where
  "rejectVendorShipment now reference b reason = andThen (load_order reference) (\<lambda>ord. case own_shipment b ord of
       None \<Rightarrow> throw (BadRequestException ''No shipment found for your business in this order'')
     | Some sh \<Rightarrow>
         if sh_rejected sh then throw (BadRequestException ''This shipment has already been rejected'')
         else if sh_status sh \<in> {S_SHIPPED, S_IN_TRANSIT}
         then throw (BadRequestException ''Cannot reject a shipment that has already been shipped'')
         else if sh_shipment_type sh = FABRIC_TRANSFER
         then andThen (unwindRejectedFabricTransfer now reason sh ord) (\<lambda>(ord', amount, cancelled). ret (amount, cancelled))
         else andThen (rejectItems now reason b (filter (\<lambda>i. \<not> i_rejected i) (items_of b ord)) ord) (\<lambda>(ord', amount, cancelled).
           if (case find_one (\<lambda>x. sh_id x = sh_id sh) (o_shipments ord') of None \<Rightarrow> False | Some x \<Rightarrow> \<not> sh_rejected x)
           then andThen (set_order (o_id ord) (\<lambda>od. od\<lparr>o_shipments :=
                  update_one (\<lambda>x. sh_id x = sh_id sh) (fail_shipment now reason) (o_shipments ord')\<rparr>)) (\<lambda>_. ret (amount, cancelled))
           else ret (amount, cancelled)))"

section \<open>The cron of stale shipments\<close>

text \<open>\<open>$elemMatch\<close> claims: the first shipment with the id that still meets the condition is written.\<close>

definition claim_shipment ::
  "oid \<Rightarrow> (order \<Rightarrow> bool) \<Rightarrow> (vendor_shipment \<Rightarrow> bool) \<Rightarrow> (vendor_shipment \<Rightarrow> vendor_shipment) \<Rightarrow> (db, bool) action" where
  "claim_shipment orderId P Q f = (\<lambda>s.
     let matching = (\<lambda>od. o_id od = orderId \<and> P od \<and> exists_doc Q (o_shipments od))
     in (Inr (exists_doc matching (db_orders s)), s\<lparr>db_orders := update_one matching
           (\<lambda>od. od\<lparr>o_shipments := update_one Q f (o_shipments od)\<rparr>) (db_orders s)\<rparr>))"

definition claim_refunded :: "order \<Rightarrow> (order \<Rightarrow> bool) \<Rightarrow> vendor_shipment \<Rightarrow> (db, bool) action" where
  "claim_refunded ord P sh = claim_shipment (o_id ord) P (\<lambda>x. sh_id x = sh_id sh \<and> \<not> sh_refunded x)
     (\<lambda>x. x\<lparr>sh_refunded := True\<rparr>)"

definition in_memory :: "oid \<Rightarrow> (vendor_shipment \<Rightarrow> vendor_shipment) \<Rightarrow> order \<Rightarrow> order" where
  "in_memory i f ord = ord\<lparr>o_shipments := update_one (\<lambda>sh. sh_id sh = i) f (o_shipments ord)\<rparr>"

text \<open>
  One unconfirmed shipment. The external fabric of the vendor's items is neither refunded nor taken off
  the totals here, the items are not marked, and only the vendor's own earnings are reversed.
\<close>

definition auto_reject_one :: "instant \<Rightarrow> vendor_shipment \<Rightarrow> order \<Rightarrow> (db, order) action" where
  "auto_reject_one now sh ord =
     (let b = sh_business sh;
          ord1 = in_memory (sh_id sh) (fail_shipment now ''Auto-rejected: vendor did not confirm within 24 hours'') ord;
          goods = (\<Sum>i\<leftarrow>filter (\<lambda>i. \<not> i_rejected i) (items_of b ord1). or_num (i_total_price i) 0);
          fee = or_num (sh_shipping_fee sh) 0; refundAmount = goods + fee;
          ord2 = adjust_totals goods fee refundAmount ord1
      in andThen (claim_refunded ord2 (\<lambda>_. True) sh) (\<lambda>won.
         if \<not> won then ret ord2
         else andThen (ignore_errors (processPartialRefund now ord2 refundAmount)) (\<lambda>_.
              andThen (ignore_errors (reverseBusinessEarnings now (o_id ord) (Some b) None)) (\<lambda>_.
              andThen (ignore_errors (restoreInventory (o_id ord) (Some b) None)) (\<lambda>_.
              ret (in_memory (sh_id sh) (\<lambda>x. x\<lparr>sh_refunded := True\<rparr>) ord2))))))"

text \<open>The loop over the shipments of one order; the flags are \<open>orderChanged\<close> and \<open>fabricHandled\<close>.\<close>

fun auto_reject_shipments ::
  "instant \<Rightarrow> vendor_shipment list \<Rightarrow> order \<Rightarrow> bool \<Rightarrow> (db, order \<times> bool \<times> bool) action" where
  "auto_reject_shipments now [] ord changed = ret (ord, changed, False)"
| "auto_reject_shipments now (sh # shs) ord changed =
     (if sh_confirmed sh \<or> sh_rejected sh then auto_reject_shipments now shs ord changed
      else if sh_shipment_type sh = FABRIC_TRANSFER then
        andThen (claim_refunded ord (\<lambda>od. o_status od \<noteq> O_CANCELLED) sh) (\<lambda>won.
        if \<not> won then auto_reject_shipments now shs ord changed
        else andThen (unwindRejectedFabricTransfer now ''Auto-rejected: fabric vendor did not confirm within 24 hours''
               (sh\<lparr>sh_refunded := True\<rparr>) (in_memory (sh_id sh) (\<lambda>x. x\<lparr>sh_refunded := True\<rparr>) ord)) (\<lambda>(ord', amount, cancelled).
             ret (ord', changed, True)))
      else andThen (auto_reject_one now sh ord) (\<lambda>ord'. auto_reject_shipments now shs ord' True))"

definition save_auto_rejected :: "order \<Rightarrow> (db, unit) action" where
  "save_auto_rejected ord =
     (let status = (if all_rejected ord then O_CANCELLED
                    else if all_confirmed (o_shipments ord) then O_PROCESSING else o_status ord)
      in set_order (o_id ord) (\<lambda>od. od\<lparr>o_shipments := o_shipments ord, o_subtotal := o_subtotal ord,
           o_shipping_fee := o_shipping_fee ord, o_total := o_total ord, o_status := status\<rparr>))"

definition auto_reject_order :: "instant \<Rightarrow> order \<Rightarrow> (db, unit) action" where
  "auto_reject_order now ord = andThen (auto_reject_shipments now (o_shipments ord) ord False) (\<lambda>(ord', changed, fabricHandled).
     if \<not> fabricHandled \<and> changed then save_auto_rejected ord' else ret ())"

definition stale_orders :: "instant \<Rightarrow> db \<Rightarrow> order list" where
  "stale_orders now s = filter (\<lambda>od. o_status od = O_IN_REVIEW \<and>
     o_createdAt od \<le> now - \<lfloor>setting auto_reject_hours 24 s * 3600000\<rfloor>) (db_orders s)"

definition autoRejectStaleShipments :: "instant \<Rightarrow> (db, unit) action" where
  "autoRejectStaleShipments now = ignore_errors (andThen (gets (stale_orders now)) (\<lambda>orders.
     for_each orders (auto_reject_order now)))"

section \<open>The cron of late shipments\<close>

definition days_late :: "instant \<Rightarrow> instant \<Rightarrow> int" where
  "days_late now deadline = \<lceil>of_int (now - deadline) / (of_int day_ms :: rat)\<rceil>"

definition penalty_percent :: "rat \<Rightarrow> rat \<Rightarrow> int \<Rightarrow> rat" where
  "penalty_percent perDay maxPercent days = min (of_int days * perDay) maxPercent"

definition total_penalty :: "rat \<Rightarrow> rat \<Rightarrow> rat \<Rightarrow> int \<Rightarrow> rat" where
  "total_penalty perDay maxPercent itemsTotal days = js_round (itemsTotal * (penalty_percent perDay maxPercent days / 100))"

fun take_from_pending :: "instant \<Rightarrow> oid \<Rightarrow> business_earning list \<Rightarrow> rat \<Rightarrow> (db, rat) action" where
  "take_from_pending now b [] remaining = ret remaining"
| "take_from_pending now b (e # es) remaining =
     (if remaining \<le> 0 then ret remaining
      else let taken = min remaining (e_net_amount e)
      in if taken \<le> 0 then take_from_pending now b es remaining
         else andThen (modify (\<lambda>s. s\<lparr>db_earnings := update_one (\<lambda>x. e_id x = e_id e)
                (\<lambda>x. x\<lparr>e_net_amount := e_net_amount e - taken\<rparr>) (db_earnings s)\<rparr>)) (\<lambda>_.
              andThen (reconcileBusinessWallet now b (Some (- taken)) None) (\<lambda>_.
              take_from_pending now b es (remaining - taken))))"

definition charge_vendor :: "instant \<Rightarrow> oid \<Rightarrow> oid \<Rightarrow> rat \<Rightarrow> (db, unit) action" where
  "charge_vendor now orderId b penalty =
     andThen (gets (\<lambda>s. filter (\<lambda>e. e_order e = orderId \<and> e_business e = Some b \<and> \<not> e_released e) (db_earnings s))) (\<lambda>unreleased.
     andThen (take_from_pending now b unreleased penalty) (\<lambda>remaining.
     if 0 < remaining then andThen (reconcileBusinessWallet now b None (Some (- remaining))) (\<lambda>_. ret ()) else ret ()))"

definition is_late :: "instant \<Rightarrow> vendor_shipment \<Rightarrow> bool" where
  "is_late now sh \<longleftrightarrow> sh_confirmed sh \<and> \<not> sh_rejected sh \<and> sh_status sh \<notin> {S_SHIPPED, S_IN_TRANSIT, S_DELIVERED} \<and>
     (case sh_fulfillment_deadline sh of None \<Rightarrow> False | Some d \<Rightarrow> d < now)"

definition claim_penalty :: "order \<Rightarrow> vendor_shipment \<Rightarrow> int \<Rightarrow> rat \<Rightarrow> (db, bool) action" where
  "claim_penalty ord sh days amount = claim_shipment (o_id ord) (\<lambda>_. True)
     (\<lambda>x. sh_id x = sh_id sh \<and> sh_late_penalty_days x < days)
     (\<lambda>x. x\<lparr>sh_late_penalty_applied := True, sh_late_penalty_amount := amount, sh_late_penalty_days := days\<rparr>)"

text \<open>One shipment of a loaded order; the result is the order as the loop then holds it.\<close>

definition penalise :: "instant \<Rightarrow> rat \<Rightarrow> rat \<Rightarrow> vendor_shipment \<Rightarrow> order \<Rightarrow> (db, order) action" where
  "penalise now perDay maxPercent sh ord =
     (if \<not> is_late now sh then ret ord
      else let daysLate = days_late now (nullish (sh_fulfillment_deadline sh) now);
               itemsTotal = (\<Sum>i\<leftarrow>items_of (sh_business sh) ord. or_num (i_total_price i) 0);
               owing = total_penalty perDay maxPercent itemsTotal daysLate;
               increment = owing - sh_late_penalty_amount sh
      in if daysLate \<le> sh_late_penalty_days sh \<or> itemsTotal \<le> 0 \<or> increment \<le> 0 then ret ord
         else andThen (claim_penalty ord sh daysLate owing) (\<lambda>won.
         if \<not> won then ret ord
         else let ord' = (in_memory (sh_id sh) (\<lambda>x. x\<lparr>sh_late_penalty_applied := True, sh_late_penalty_amount := owing,
                      sh_late_penalty_days := daysLate\<rparr>) ord)\<lparr>o_vendor_earnings := max 0 (o_vendor_earnings ord - increment)\<rparr>
           in andThen (set_order (o_id ord) (\<lambda>od. od\<lparr>o_vendor_earnings := o_vendor_earnings ord'\<rparr>)) (\<lambda>_.
              andThen (ignore_errors (charge_vendor now (o_id ord) (sh_business sh) increment)) (\<lambda>_.
              andThen (ignore_errors (processPartialRefund now ord' increment)) (\<lambda>_. ret ord')))))"

fun penalise_shipments :: "instant \<Rightarrow> rat \<Rightarrow> rat \<Rightarrow> vendor_shipment list \<Rightarrow> order \<Rightarrow> (db, unit) action" where
  "penalise_shipments now perDay maxPercent [] ord = ret ()"
| "penalise_shipments now perDay maxPercent (sh # shs) ord =
     andThen (penalise now perDay maxPercent sh ord) (penalise_shipments now perDay maxPercent shs)"

definition late_orders :: "instant \<Rightarrow> db \<Rightarrow> order list" where
  "late_orders now s = filter (\<lambda>od. o_status od \<in> {O_PROCESSING, O_IN_REVIEW} \<and> exists_doc sh_confirmed (o_shipments od) \<and>
     exists_doc (\<lambda>sh. case sh_fulfillment_deadline sh of None \<Rightarrow> False | Some d \<Rightarrow> d \<le> now) (o_shipments od)) (db_orders s)"

definition checkLateFulfillments :: "instant \<Rightarrow> (db, unit) action" where
  "checkLateFulfillments now = ignore_errors (
     andThen (gets (setting late_penalty_percent_per_day 5)) (\<lambda>perDay.
     andThen (gets (setting late_penalty_max_percent 25)) (\<lambda>maxPercent.
     andThen (gets (late_orders now)) (\<lambda>orders.
     for_each orders (\<lambda>ord. penalise_shipments now perDay maxPercent (o_shipments ord) ord)))))"

section \<open>The production checklist\<close>

definition production_keys :: "string list" where
  "production_keys = [''fabric_cut'', ''sewing'', ''finishing'', ''quality_check'']"

text \<open>\<open>new Map(saved.map(...))\<close> keeps the last entry of a key.\<close>

definition step_done :: "vendor_shipment \<Rightarrow> string \<Rightarrow> bool" where
  "step_done sh key = (case find_one (\<lambda>st. ps_key st = key) (rev (sh_production_steps sh)) of None \<Rightarrow> False | Some st \<Rightarrow> ps_completed st)"

definition completed_count :: "vendor_shipment \<Rightarrow> nat" where
  "completed_count sh = length (filter (step_done sh) production_keys)"

fun find_index :: "('a \<Rightarrow> bool) \<Rightarrow> 'a list \<Rightarrow> nat option" where
  "find_index P [] = None"
| "find_index P (x # xs) = (if P x then Some 0 else map_option Suc (find_index P xs))"

definition resolveProductionShipmentIndex :: "order \<Rightarrow> oid option \<Rightarrow> nat option" where
  "resolveProductionShipmentIndex ord scope = (case scope of
     Some b \<Rightarrow> (case find_index (\<lambda>sh. sh_business sh = b \<and> sh_shipment_type sh = VENDOR_TO_CUSTOMER) (o_shipments ord) of
         Some i \<Rightarrow> Some i
       | None \<Rightarrow> find_index (\<lambda>sh. sh_business sh = b \<and> sh_shipment_type sh \<noteq> FABRIC_TRANSFER) (o_shipments ord))
   | None \<Rightarrow> (case find_index (\<lambda>sh. sh_shipment_type sh = VENDOR_TO_CUSTOMER) (o_shipments ord) of
         Some i \<Rightarrow> Some i
       | None \<Rightarrow> if o_shipments ord = [] then None else Some 0))"

definition set_step :: "instant \<Rightarrow> string \<Rightarrow> bool \<Rightarrow> vendor_shipment \<Rightarrow> vendor_shipment" where
  "set_step now key completed sh =
     (let st = \<lparr>ps_key = key, ps_completed = completed, ps_completed_at = (if completed then Some now else None)\<rparr>
      in sh\<lparr>sh_production_steps :=
           (if exists_doc (\<lambda>x. ps_key x = key) (sh_production_steps sh)
            then update_one (\<lambda>x. ps_key x = key) (\<lambda>_. st) (sh_production_steps sh) else sh_production_steps sh @ [st])\<rparr>)"

definition updateProductionStep :: "instant \<Rightarrow> oid \<Rightarrow> oid \<Rightarrow> string \<Rightarrow> bool \<Rightarrow> (db, nat) action" where
  "updateProductionStep now reference b step completed =
     (if step \<notin> set production_keys then throw (BadRequestException ''Invalid step'')
      else andThen (gets (find_order reference)) (\<lambda>r. case r of
          None \<Rightarrow> throw (NotFoundException ''Order not found'')
        | Some ord \<Rightarrow> (case resolveProductionShipmentIndex ord (Some b) of
            None \<Rightarrow> throw (ForbiddenException ''This order does not belong to your business.'')
          | Some i \<Rightarrow> let sh = set_step now step completed (o_shipments ord ! i)
              in andThen (set_order (o_id ord) (\<lambda>od. od\<lparr>o_shipments := (o_shipments ord)[i := sh]\<rparr>)) (\<lambda>_.
                 ret (completed_count sh)))))"

definition ready_to_ship :: "instant \<Rightarrow> vendor_shipment \<Rightarrow> vendor_shipment" where
  "ready_to_ship now sh = sh\<lparr>sh_ready_to_ship_at := Some (nullish (sh_ready_to_ship_at sh) now),
     sh_status := (if sh_status sh = S_PENDING then S_READY_TO_SHIP else sh_status sh)\<rparr>"

definition markProductionReadyToShip :: "instant \<Rightarrow> oid \<Rightarrow> oid \<Rightarrow> (db, unit) action" where
  "markProductionReadyToShip now reference b = andThen (gets (find_order reference)) (\<lambda>r. case r of
     None \<Rightarrow> throw (NotFoundException ''Order not found'')
   | Some ord \<Rightarrow> (case resolveProductionShipmentIndex ord (Some b) of
       None \<Rightarrow> throw (ForbiddenException ''This order does not belong to your business.'')
     | Some i \<Rightarrow> let sh = o_shipments ord ! i
         in if completed_count sh < length production_keys
            then throw (BadRequestException ''Complete all production steps before marking ready to ship'')
            else set_order (o_id ord) (\<lambda>od. od\<lparr>o_shipments := (o_shipments ord)[i := ready_to_ship now sh]\<rparr>)))"

end
