(* ===== verification/Refunds.thy ===== *)
theory Refunds
  imports Fulfilment
begin

text \<open>
  What refunds promise: a cancelled order gives the customer back exactly what was paid, once; an item
  that was refunded on its own is paid back again when its order is cancelled.
\<close>

section \<open>The customer's money while an order is undone\<close>

text \<open>A wallet belongs to a customer or to a vendor, never to both.\<close>

definition separate_wallets :: "db \<Rightarrow> bool" where
  "separate_wallets s \<longleftrightarrow> (\<forall>w\<in>set (db_wallets s). w_customer w = None \<or> w_business w = None)"

definition refunding :: "oid \<Rightarrow> (oid \<times> rat) option \<Rightarrow> oid \<Rightarrow> transaction \<Rightarrow> db \<Rightarrow> bool" where
  "refunding c x i tx s \<longleftrightarrow> wf_wallets s \<and> separate_wallets s \<and> purse c s = x \<and>
     find_one (is_order_payment i) (db_transactions s) = Some tx"

lemma preserves_run: "preserves P m \<Longrightarrow> m s = (r, t) \<Longrightarrow> P s \<Longrightarrow> P t"
  by (auto dest: preservesD)

lemma refunding_frame [simp]:
  "refunding c x i tx (s\<lparr>db_orders := os\<rparr>) = refunding c x i tx s"
  "refunding c x i tx (s\<lparr>db_earnings := es\<rparr>) = refunding c x i tx s"
  by (simp_all add: refunding_def purse_eq wf_wallets_def separate_wallets_def)

lemma refunding_fresh: "preserves (refunding c x i tx) fresh"
  by (auto simp: preserves_def refunding_def purse_eq wf_wallets_def separate_wallets_def intro: less_SucI)

lemma refunding_transaction: "preserves (refunding c x i tx) (create_transaction dto)"
proof -
  have "preserves (refunding c x i tx) (add_transaction t)" for t
    unfolding add_transaction_def
    by (intro preserve_intros) (simp add: refunding_def purse_eq wf_wallets_def separate_wallets_def find_one_append)
  then show ?thesis unfolding create_transaction_def Let_def by (intro preserve_intros refunding_fresh)
qed

lemma preserves_ignore: "preserves P m \<Longrightarrow> preserves P (ignore_errors m)"
  unfolding ignore_errors_def by (intro preserve_intros)

lemma refunding_reconcile: "preserves (refunding c x i tx) (reconcileBusinessWallet now b p q)"
  unfolding preserves_def
proof (intro allI impI)
  fix s assume s: "refunding c x i tx s"
  show "refunding c x i tx (snd (reconcileBusinessWallet now b p q s))"
  proof (cases "find_one (\<lambda>w. w_business w = Some b) (db_wallets s)")
    case None
    with s show ?thesis by (simp add: reconcileBusinessWallet_def Let_def andThen_app)
  next
    case (Some w)
    let ?w = "reconcile now (nullish p 0) (nullish q 0) w" and ?f = "\<lambda>x. if w_id x = w_id w then reconcile now (nullish p 0) (nullish q 0) w else x"
    from s have d: "distinct (map w_id (db_wallets s))" by (simp add: refunding_def wf_wallets_def)
    have w: "w \<in> set (db_wallets s)" "w_business w = Some b" using find_one_SomeD [OF Some] by simp_all
    with s have c: "w_customer w = None" by (auto simp: refunding_def separate_wallets_def)
    have same: "w_id ?w = w_id w" "w_customer ?w = None" "w_business ?w = Some b" by (simp_all add: reconcile_def c w(2))
    have none: "w_customer x = None" if "x \<in> set (db_wallets s)" "w_id x = w_id w" for x
      using that w(1) d c by (auto simp: distinct_map dest: inj_onD)
    have "find_one (\<lambda>x. w_customer x = Some c') (map ?f ws) = find_one (\<lambda>x. w_customer x = Some c') ws"
      if "set ws \<subseteq> set (db_wallets s)" for ws c'
      using that same none by (induction ws) auto
    then have "purse c (s\<lparr>db_wallets := map ?f (db_wallets s)\<rparr>) = purse c s" by (simp add: purse_eq)
    moreover have "wf_wallets (s\<lparr>db_wallets := map ?f (db_wallets s)\<rparr>)" "separate_wallets (s\<lparr>db_wallets := map ?f (db_wallets s)\<rparr>)"
      using s same w(1) by (auto simp: refunding_def wf_wallets_def separate_wallets_def comp_def if_distrib [of w_id] cong: if_cong)
    ultimately have "refunding c x i tx (s\<lparr>db_wallets := map ?f (db_wallets s)\<rparr>)" using s by (simp add: refunding_def)
    with Some s show ?thesis
      by (simp add: reconcileBusinessWallet_def Let_def andThen_app update_one_key_map [OF d])
  qed
qed

lemma refunding_reversal: "preserves (refunding c x i tx) (reverseBusinessEarnings now j b k)"
proof -
  let ?P = "refunding c x i tx"
  have rec: "preserves ?P (reconcile_earning now b' p q)" for b' p q
    unfolding reconcile_earning_def by (intro preserve_intros refunding_reconcile)
  have "preserves ?P (reverse_unreleased now e)" "preserves ?P (claw_back now e)" for e
    unfolding reverse_unreleased_def claw_back_def by (intro preserve_intros rec refunding_transaction; simp)+
  then show ?thesis unfolding reverseBusinessEarnings_def by (intro preserve_intros) simp_all
qed

lemma refunding_restore: "preserves (refunding c x i tx) (restoreInventory j b k)"
proof -
  have rest: "refunding c x i tx s = refunding c x i tx t" if "unstocked s = unstocked t" for s t
    using unstocked_eq [OF that] arg_cong [OF that, of db_transactions]
    by (simp add: refunding_def purse_eq wf_wallets_def separate_wallets_def unstocked_def)
  show ?thesis by (rule inventory_keeps) (erule rest, simp add: set_deducted_def)
qed

lemma refunding_set_order: "preserves (refunding c x i tx) (set_order j f)"
  by (simp add: set_order_def preserves_def)


text \<open>Crediting the customer's wallet.\<close>

lemma refunding_credit:
  assumes "refunding c (Some (wid, b)) i tx s"
  shows "\<exists>w t. creditWallet now wid a s = (Inr w, t) \<and> refunding c (Some (wid, b + a)) i tx t"
proof -
  let ?t = "s\<lparr>db_wallets := update_one (\<lambda>w. w_id w = wid) (inc_balance now a) (db_wallets s)\<rparr>"
  from assms have s: "wf_wallets s" "purse c s = Some (wid, b)" by (simp_all add: refunding_def)
  have "separate_wallets ?t"
    using assms by (auto simp: refunding_def separate_wallets_def dest!: subsetD [OF set_update_one])
  with assms purse_inc(1,2) [OF s] have "refunding c (Some (wid, b + a)) i tx ?t" by (simp add: refunding_def)
  with purse_inc(3) [OF s] show ?thesis by (auto simp: creditWallet_run)
qed

lemma refunding_found:
  assumes "refunding c x i tx s"
  obtains w t where "getOrCreateWallet None (Some c) s = (Inr w, t)" "refunding c (Some (w_id w, customer_balance c s)) i tx t"
proof -
  have wf: "wf_wallets s" using assms by (simp add: refunding_def)
  obtain w ws n where w: "getOrCreateWallet None (Some c) s = (Inr w, s\<lparr>db_next := n, db_wallets := ws\<rparr>)"
    "wf_wallets (s\<lparr>db_next := n, db_wallets := ws\<rparr>)" "purse c (s\<lparr>db_next := n, db_wallets := ws\<rparr>) = Some (w_id w, w_balance w)"
    "w_balance w = customer_balance c s" by (rule purse_found [OF wf])
  have "separate_wallets (snd (getOrCreateWallet None (Some c) s))"
    using assms by (auto simp: getOrCreateWallet_def andThen_app refunding_def separate_wallets_def new_wallet_def Let_def
        split: option.splits)
  with assms w show thesis by (intro that [OF w(1)]) (simp add: refunding_def)
qed

lemma customer_balance_refunding: "refunding c (Some (wid, b)) i tx s \<Longrightarrow> customer_balance c s = b"
  by (simp add: refunding_def customer_balance_def)

lemma refunding_credit_refund:
  assumes "refunding c (Some (wid, b)) i tx s"
  shows "\<exists>t. credit_refund now ord a wid s = (Inr True, t) \<and> refunding c (Some (wid, b + a)) i tx t"
proof -
  let ?P = "refunding c (Some (wid, b + a)) i tx"
  obtain w s1 where s1: "creditWallet now wid a s = (Inr w, s1)" "?P s1" using refunding_credit [OF assms] by blast
  obtain s2 where s2: "record_refund ord a T_SUCCESS (Some wid) s1 = (Inr (), s2)" "?P s2"
    using ignore_errors_run [where m = "create_transaction (refund_entry ord a T_SUCCESS (Some wid))" and s = s1]
      preservesD [OF refunding_transaction s1(2)] by (auto simp: record_refund_def)
  show ?thesis using s1(1) s2 by (simp add: credit_refund_def mark_partially_refunded_def)
qed

text \<open>A partial refund of an order that was paid reaches the customer in full.\<close>

lemma partial_refund_reaches:
  assumes "refunding c x i tx s" "o_id ord = i" "o_customer ord = c" "t_channel tx = Checkout" "0 < a"
  shows "\<exists>t wid. processPartialRefund now ord a s = (Inr True, t) \<and> refunding c (Some (wid, customer_balance c s + a)) i tx t"
proof -
  obtain w s1 where w: "getOrCreateWallet None (Some c) s = (Inr w, s1)"
    "refunding c (Some (w_id w, customer_balance c s)) i tx s1" by (rule refunding_found [OF assms(1)])
  obtain t where "credit_refund now ord a (w_id w) s1 = (Inr True, t)" "refunding c (Some (w_id w, customer_balance c s + a)) i tx t"
    using refunding_credit_refund [OF w(2)] by blast
  moreover have "findByOrderId i s = (Inr (Some tx), s)" using assms(1) by (simp add: findByOrderId_def refunding_def)
  ultimately show ?thesis using w(1) assms(2-5) by (auto simp: processPartialRefund_def)
qed

lemma refund_whole_reaches:
  assumes "refunding c x i tx s" "o_id ord = i" "o_customer ord = c" "t_channel tx = Checkout"
    "refund_whole now ord tx s = (Inr (), t)"
  shows "\<exists>wid. refunding c (Some (wid, customer_balance c s + t_amount tx)) i tx t"
proof -
  obtain w s1 where w: "getOrCreateWallet None (Some c) s = (Inr w, s1)"
    "refunding c (Some (w_id w, customer_balance c s)) i tx s1" by (rule refunding_found [OF assms(1)])
  let ?P = "refunding c (Some (w_id w, customer_balance c s + t_amount tx)) i tx"
  obtain w' s2 where s2: "creditWallet now (w_id w) (t_amount tx) s1 = (Inr w', s2)" "?P s2"
    using refunding_credit [OF w(2)] by blast
  have "?P (snd (create_transaction (refund_entry ord (t_amount tx) T_SUCCESS (Some (w_id w))) s2))"
    by (rule preservesD [OF refunding_transaction s2(2)])
  moreover have "t = snd (create_transaction (refund_entry ord (t_amount tx) T_SUCCESS (Some (w_id w))) s2)"
    using assms(3-5) w(1) s2(1) by (auto simp: refund_whole_def andThen_app split: prod.splits sum.splits)
  ultimately show ?thesis by blast
qed


section \<open>The order under its reference\<close>

text \<open>
  What is known of the orders, and of the collections that bookkeeping never writes, while money,
  earnings and stock are moved: a predicate that survives every write to an order that keeps the
  fields it reads, and every new number.
\<close>

definition aside :: "db \<Rightarrow> order list \<times> bespoke_design list \<times> bespoke_quote list \<times> dispute list \<times> return_request list \<times> oid list" where
  "aside s = (db_orders s, db_designs s, db_quotes s, db_disputes s, db_returns s, map b_id (db_businesses s))"

locale order_view =
  fixes core :: "order \<Rightarrow> 'c" and P :: "db \<Rightarrow> bool"
  assumes depends: "aside s = aside t \<Longrightarrow> db_next s = db_next t \<Longrightarrow> P s = P t"
    and grows: "P s \<Longrightarrow> P (s\<lparr>db_next := Suc (db_next s)\<rparr>)"
    and stable: "(\<And>od. core (f od) = core od) \<Longrightarrow> P s \<Longrightarrow> P (s\<lparr>db_orders := update_one Q f (db_orders s)\<rparr>)"
    and core_totals: "core (od\<lparr>o_vendor_earnings := x, o_platform_commission := y\<rparr>) = core od"
    and core_flag: "core (od\<lparr>o_inventory_deducted := flag\<rparr>) = core od"
begin

lemma frame [simp]:
  "P (s\<lparr>db_wallets := ws\<rparr>) = P s" "P (s\<lparr>db_transactions := ts\<rparr>) = P s" "P (s\<lparr>db_earnings := es\<rparr>) = P s"
  by (rule depends; simp add: aside_def)+

lemma numbered: "preserves P fresh"
  by (simp add: preserves_def grows)

lemma transaction: "preserves P (create_transaction dto)"
  unfolding create_transaction_def add_transaction_def Let_def by (intro preserve_intros numbered) simp

lemma credit: "preserves P (creditWallet now wid a)"
  unfolding creditWallet_def update_wallet_def by (intro preserve_intros) (simp_all add: preserves_def)

lemma wallet: "preserves P (getOrCreateWallet b c)"
  unfolding getOrCreateWallet_def Let_def by (intro preserve_intros numbered) simp

lemma reconcile: "preserves P (reconcileBusinessWallet now b p q)"
  unfolding reconcileBusinessWallet_def Let_def by (intro preserve_intros) simp_all

lemma charge: "preserves P (charge_vendor now j b a)"
proof -
  have "preserves P (take_from_pending now b es a)" for es a
    by (induction es arbitrary: a) (auto simp: Let_def intro!: preserve_intros reconcile)
  then show ?thesis unfolding charge_vendor_def by (intro preserve_intros reconcile)
qed

lemma reversal: "preserves P (reverseBusinessEarnings now j b i)"
proof -
  have rec: "preserves P (reconcile_earning now b' p q)" for b' p q
    unfolding reconcile_earning_def by (intro preserve_intros reconcile)
  have "preserves P (reverse_unreleased now e)" "preserves P (claw_back now e)" for e
    unfolding reverse_unreleased_def claw_back_def by (intro preserve_intros rec transaction; simp)+
  then show ?thesis
    unfolding reverseBusinessEarnings_def by (intro preserve_intros) (simp_all add: stable core_totals)
qed

lemma restore: "preserves P (restoreInventory j b i)" and deduct: "preserves P (updateInventory j)"
proof -
  have rest: "P s = P t" if "unstocked s = unstocked t" for s t
    using unstocked_eq(3) [OF that] arg_cong [OF that, of aside] by (intro depends) (simp_all add: unstocked_def aside_def)
  have flag: "P (set_deducted j flag s)" if "P s" for flag s
    unfolding set_deducted_def by (rule stable [OF core_flag that])
  show "preserves P (restoreInventory j b i)" "preserves P (updateInventory j)"
    by (rule inventory_keeps, erule rest, erule flag)+
qed

lemma record_items: "preserves P (record_items p ord is tn tc)"
proof (induction "is" arbitrary: tn tc)
  case (Cons item "is")
  have create: "preserves P (create_earning b j k u v w m)" for b j k u v w m
    unfolding create_earning_def by (intro preserve_intros numbered) simp
  have pending: "preserves P (upsert_business_wallet b f)" for b f
    unfolding upsert_business_wallet_def update_wallet_def Let_def by (intro preserve_intros numbered) (simp_all add: preserves_def)
  have "preserves P (record_item_earnings p ord item)" "preserves P (record_fabric_earning p ord item)"
    unfolding record_item_earnings_def record_fabric_earning_def Let_def by (intro preserve_intros create pending)+
  with Cons show ?case by (auto intro!: preserve_intros)
qed (simp add: preserve_intros)

end

text \<open>A view that does not read the refund status survives refunds as well.\<close>

lemma preserves_channel:
  "\<lbrakk>preserves P m; preserves P m'; preserves P m''\<rbrakk> \<Longrightarrow>
   preserves P (case ch of Wallet_checkout \<Rightarrow> m | Checkout \<Rightarrow> m' | _ \<Rightarrow> m'')"
  by (cases ch) simp_all

locale refund_view = order_view core P for core :: "order \<Rightarrow> 'c" and P +
  assumes core_refund: "core (od\<lparr>o_refund_status := x\<rparr>) = core od"
begin

lemma record_kept: "preserves P (record_refund ord a st wid)"
  unfolding record_refund_def by (intro preserves_ignore transaction)

lemma credit_refund: "preserves P (credit_refund now ord a wid)"
  unfolding credit_refund_def mark_partially_refunded_def
  by (intro preserve_intros credit record_kept stable core_refund)

lemma partial_refund: "preserves P (processPartialRefund now ord a)"
  unfolding processPartialRefund_def findByOrderId_def
  by (intro preserve_intros preserves_channel record_kept credit_refund wallet)

lemma whole_refund: "preserves P (refund_whole now ord tx)"
  unfolding refund_whole_def by (intro preserve_intros preserves_channel credit wallet transaction)

end

definition order_key :: "oid \<Rightarrow> db \<Rightarrow> (oid \<times> oid \<times> order_status \<times> refund_status) option" where
  "order_key reference s = map_option (\<lambda>od. (o_id od, o_customer od, o_status od, o_refund_status od)) (find_order reference s)"

definition order_who :: "oid \<Rightarrow> db \<Rightarrow> (oid \<times> oid) option" where
  "order_who reference s = map_option (\<lambda>od. (o_id od, o_customer od)) (find_order reference s)"

definition unique_orders :: "db \<Rightarrow> bool" where
  "unique_orders s \<longleftrightarrow> distinct (map o_id (db_orders s))"

interpretation key_view: order_view "\<lambda>od. (o_reference od, o_id od, o_customer od, o_status od, o_refund_status od)"
  "\<lambda>s. order_key r s = k" for r k
proof
  fix s :: db and f :: "order \<Rightarrow> order" and Q
  assume "\<And>od. (o_reference (f od), o_id (f od), o_customer (f od), o_status (f od), o_refund_status (f od)) =
      (o_reference od, o_id od, o_customer od, o_status od, o_refund_status od)" "order_key r s = k"
  then show "order_key r (s\<lparr>db_orders := update_one Q f (db_orders s)\<rparr>) = k"
    unfolding order_key_def find_order_def by (simp add: find_one_map_update)
qed (simp_all add: order_key_def find_order_def aside_def)

interpretation who_view: refund_view "\<lambda>od. (o_reference od, o_id od, o_customer od)"
  "\<lambda>s. unique_orders s \<and> order_who r s = w" for r w
proof
  fix s :: db and f :: "order \<Rightarrow> order" and Q
  assume "\<And>od. (o_reference (f od), o_id (f od), o_customer (f od)) = (o_reference od, o_id od, o_customer od)"
    "unique_orders s \<and> order_who r s = w"
  then show "unique_orders (s\<lparr>db_orders := update_one Q f (db_orders s)\<rparr>) \<and>
      order_who r (s\<lparr>db_orders := update_one Q f (db_orders s)\<rparr>) = w"
    unfolding order_who_def find_order_def unique_orders_def by (simp add: find_one_map_update map_update_one)
qed (simp_all add: order_who_def find_order_def unique_orders_def aside_def)

text \<open>Writing to the order found under the reference, where identifiers are unique.\<close>

lemma find_order_set:
  assumes "unique_orders s" "find_order reference s = Some ord" "o_reference (f ord) = o_reference ord"
    "s' = s\<lparr>db_orders := update_one (\<lambda>od. o_id od = o_id ord) f (db_orders s)\<rparr>"
  shows "find_order reference s' = Some (f ord)"
proof -
  let ?g = "\<lambda>od. if o_id od = o_id ord then f od else od"
  have d: "distinct (map o_id (db_orders s))" using assms(1) by (simp add: unique_orders_def)
  have ord: "ord \<in> set (db_orders s)" using assms(2) find_one_SomeD by (fastforce simp: find_order_def)
  have only: "od = ord" if "od \<in> set (db_orders s)" "o_id od = o_id ord" for od
    using that ord d by (auto simp: distinct_map dest: inj_onD)
  have "find_one (\<lambda>od. o_reference od = reference) (map ?g ods) = map_option ?g (find_one (\<lambda>od. o_reference od = reference) ods)"
    if "set ods \<subseteq> set (db_orders s)" for ods
    using that assms(3) by (induction ods) (auto dest: only)
  with assms(2,4) show ?thesis by (simp add: find_order_def update_one_key_map [OF d])
qed

lemma cancelOrder_run:
  assumes "find_order reference s = Some ord" "find_one (is_order_payment (o_id ord)) (db_transactions s) = Some tx"
    "cancelOrder now reference s = (Inr (), s')"
  obtains t u where "o_status ord \<noteq> O_CANCELLED" "refund_whole now ord tx s = (Inr (), t)"
    "reverseBusinessEarnings now (o_id ord) None None (snd (set_order (o_id ord)
       (\<lambda>od. od\<lparr>o_status := O_CANCELLED, o_refund_status := Refund_refunded\<rparr>) t)) = (Inr (), u)"
    "s' = snd (restoreInventory (o_id ord) None None u)"
proof -
  let ?c = "\<lambda>od. od\<lparr>o_status := O_CANCELLED, o_refund_status := Refund_refunded\<rparr>"
  have open': "o_status ord \<noteq> O_CANCELLED" using assms(1,3) by (auto simp: cancelOrder_def load_order_def andThen_app)
  with assms have run: "andThen (refund_whole now ord tx) (\<lambda>_. andThen (set_order (o_id ord) ?c) (\<lambda>_.
      andThen (reverseBusinessEarnings now (o_id ord) None None) (\<lambda>_.
      ignore_errors (restoreInventory (o_id ord) None None)))) s = (Inr (), s')"
    by (simp add: cancelOrder_def load_order_def findByOrderId_def andThen_app)
  then obtain t u where t: "refund_whole now ord tx s = (Inr (), t)"
    "reverseBusinessEarnings now (o_id ord) None None (snd (set_order (o_id ord) ?c t)) = (Inr (), u)"
    "ignore_errors (restoreInventory (o_id ord) None None) u = (Inr (), s')"
    unfolding andThen_Inr by (auto simp: set_order_def)
  moreover have "s' = snd (restoreInventory (o_id ord) None None u)"
    using t(3) ignore_errors_run [where m = "restoreInventory (o_id ord) None None" and s = u] by auto
  ultimately show thesis using open' by (intro that)
qed

lemma order_who_SomeD:
  assumes "order_who r s = Some (i, c)"
  obtains ord where "find_order r s = Some ord" "o_id ord = i" "o_customer ord = c" "o_reference ord = r"
  using assms by (auto simp: order_who_def find_order_def dest: find_one_SomeD)

text \<open>C13: Cancelling an order gives the customer exactly what was paid for it, marks it cancelled and refunded, and
  happens once: a second request is refused and changes nothing.\<close>

theorem cancel_refunds_once:
  assumes "cancelOrder now reference s = (Inr (), s')" "find_order reference s = Some ord" "unique_orders s"
    "wf_wallets s" "separate_wallets s" "find_one (is_order_payment (o_id ord)) (db_transactions s) = Some tx"
    "t_channel tx = Checkout"
  shows "customer_balance (o_customer ord) s' = customer_balance (o_customer ord) s + t_amount tx \<and>
    order_key reference s' = Some (o_id ord, o_customer ord, O_CANCELLED, Refund_refunded) \<and>
    cancelOrder later reference s' = (Inl (BadRequestException ''Order is already cancelled''), s')"
proof -
  let ?c = "\<lambda>od. od\<lparr>o_status := O_CANCELLED, o_refund_status := Refund_refunded\<rparr>"
  let ?k = "Some (o_id ord, o_customer ord, O_CANCELLED, Refund_refunded)"
  from cancelOrder_run [OF assms(2,6,1)] obtain t u where t: "refund_whole now ord tx s = (Inr (), t)"
    "reverseBusinessEarnings now (o_id ord) None None (snd (set_order (o_id ord) ?c t)) = (Inr (), u)"
    "s' = snd (restoreInventory (o_id ord) None None u)" by metis
  have start: "refunding (o_customer ord) (purse (o_customer ord) s) (o_id ord) tx s"
    using assms(4-6) by (simp add: refunding_def)
  obtain wid where wid: "refunding (o_customer ord) (Some (wid, customer_balance (o_customer ord) s + t_amount tx)) (o_id ord) tx t"
    using refund_whole_reaches [OF start refl refl assms(7) t(1)] by blast
  have "unique_orders t \<and> order_who reference t = Some (o_id ord, o_customer ord)"
    by (rule preserves_run [OF who_view.whole_refund t(1)]) (use assms(2,3) in \<open>simp add: order_who_def\<close>)
  then obtain ord' where ord': "find_order reference t = Some ord'" "o_id ord' = o_id ord" "o_customer ord' = o_customer ord"
    "unique_orders t" using order_who_SomeD by metis
  have "find_order reference (snd (set_order (o_id ord) ?c t)) = Some (?c ord')"
    by (rule find_order_set [OF ord'(4,1)]) (use ord'(2) in \<open>simp_all add: set_order_def\<close>)
  then have key: "order_key reference (snd (set_order (o_id ord) ?c t)) = ?k" using ord'(2,3) by (simp add: order_key_def)
  have "order_key reference u = ?k" by (rule preserves_run [OF key_view.reversal t(2) key])
  then have k: "order_key reference s' = ?k" unfolding t(3) by (rule preservesD [OF key_view.restore])
  have "refunding (o_customer ord) (Some (wid, customer_balance (o_customer ord) s + t_amount tx)) (o_id ord) tx u"
    by (rule preserves_run [OF refunding_reversal t(2) preservesD [OF refunding_set_order wid]])
  then have "refunding (o_customer ord) (Some (wid, customer_balance (o_customer ord) s + t_amount tx)) (o_id ord) tx s'"
    unfolding t(3) by (rule preservesD [OF refunding_restore])
  moreover have "cancelOrder later reference s' = (Inl (BadRequestException ''Order is already cancelled''), s')"
    using k by (auto simp: order_key_def cancelOrder_def load_order_def andThen_app)
  ultimately show ?thesis using k customer_balance_refunding by blast
qed


section \<open>Rejecting an item, then cancelling\<close>

lemma reject_leg_ids:
  "o_id (rj_order (reject_leg now b item r)) = o_id (rj_order r)"
  "o_customer (rj_order (reject_leg now b item r)) = o_customer (rj_order r)"
  "o_reference (rj_order (reject_leg now b item r)) = o_reference (rj_order r)"
  by (simp_all add: reject_leg_def split: option.split)

lemma reject_each_ids:
  "o_id (rj_order (reject_each now reason b items r)) = o_id (rj_order r) \<and>
   o_customer (rj_order (reject_each now reason b items r)) = o_customer (rj_order r) \<and>
   o_reference (rj_order (reject_each now reason b items r)) = o_reference (rj_order r)"
  by (induction items arbitrary: r) (simp_all add: Let_def reject_leg_ids)

lemma rejected_order_ids:
  assumes "rejected_order now reason b items ord = (ord', amount, cancelled)"
  shows "o_id ord' = o_id ord" "o_customer ord' = o_customer ord" "o_reference ord' = o_reference ord"
proof -
  have drop: "o_id (fst (drop_garment_shipment now b od)) = o_id od \<and>
      o_customer (fst (drop_garment_shipment now b od)) = o_customer od \<and>
      o_reference (fst (drop_garment_shipment now b od)) = o_reference od" for od
    by (simp add: drop_garment_shipment_def split: option.split)
  have settle: "o_id (settle_status k od) = o_id od \<and> o_customer (settle_status k od) = o_customer od \<and>
      o_reference (settle_status k od) = o_reference od" for k od by (simp add: settle_status_def Let_def)
  have adjust: "o_id (adjust_totals x y z od) = o_id od \<and> o_customer (adjust_totals x y z od) = o_customer od \<and>
      o_reference (adjust_totals x y z od) = o_reference od" for x y z od by (simp add: adjust_totals_def)
  show "o_id ord' = o_id ord" "o_customer ord' = o_customer ord" "o_reference ord' = o_reference ord"
    using assms drop [of "rj_order (reject_each now reason b items \<lparr>rj_order = ord, rj_legs = 0, rj_goods = 0, rj_refund = 0\<rparr>)"]
      reject_each_ids [of now reason b items "\<lparr>rj_order = ord, rj_legs = 0, rj_goods = 0, rj_refund = 0\<rparr>"]
    by (auto simp: rejected_order_def Let_def settle adjust split: prod.splits)
qed

lemma who_save_loaded:
  assumes "unique_orders s" "find_order r s = Some ord" "o_id ord' = o_id ord" "o_reference ord' = o_reference ord"
  shows "unique_orders (snd (save_loaded ord' s))" "find_order r (snd (save_loaded ord' s)) = Some ord'"
proof -
  show "unique_orders (snd (save_loaded ord' s))"
    using assms(1) map_update_one [where g = o_id and P = "\<lambda>od. o_id od = o_id ord'" and f = "\<lambda>_. ord'"]
    by (simp add: unique_orders_def save_loaded_def set_order_def)
  show "find_order r (snd (save_loaded ord' s)) = Some ord'"
    by (rule find_order_set [where f = "\<lambda>_. ord'", OF assms(1,2)]) (simp_all add: assms(3,4) save_loaded_def set_order_def)
qed

text \<open>What rejecting items does to the customer's wallet.\<close>

lemma rejectItems_refunds:
  assumes "refunding c x i tx s" "t_channel tx = Checkout" "find_order r s = Some ord" "unique_orders s"
    "o_id ord = i" "o_customer ord = c" "0 < amount"
    "rejectItems now reason b items ord s = (Inr (ord', amount, cancelled), s')"
  shows "\<exists>wid. refunding c (Some (wid, customer_balance c s + amount)) i tx s'"
    "unique_orders s'" "order_who r s' = Some (i, c)"
proof -
  let ?undo = "for_each items (\<lambda>item. andThen (ignore_errors (reverseBusinessEarnings now (o_id ord) None (Some (i_id item)))) (\<lambda>_.
      ignore_errors (restoreInventory (o_id ord) (Some b) (Some (i_id item)))))"
  obtain od a k where rj: "rejected_order now reason b items ord = (od, a, k)" by (cases "rejected_order now reason b items ord")
  let ?s1 = "snd (save_loaded od s)"
  obtain s2 where s2: "ignore_errors (processPartialRefund now od a) ?s1 = (Inr (), s2)" "s2 = snd (processPartialRefund now od a ?s1)"
    using ignore_errors_run [where m = "processPartialRefund now od a" and s = ?s1] by blast
  have "andThen (?undo) (\<lambda>_. ret (od, a, k)) s2 = (Inr (ord', amount, cancelled), s')"
    using assms(8) s2(1) by (simp add: rejectItems_def rj save_loaded_def set_order_def andThen_app)
  then have s': "s' = snd (?undo s2)" "a = amount"
    by (auto simp: andThen_app split: prod.splits sum.splits)
  note ids = rejected_order_ids [OF rj]
  have "refunding c x i tx ?s1" using assms(1) by (simp add: save_loaded_def set_order_def)
  moreover have "customer_balance c ?s1 = customer_balance c s" by (simp add: save_loaded_def set_order_def customer_balance_def purse_eq)
  moreover have "o_id od = i" "o_customer od = c" using ids assms(5,6) by simp_all
  ultimately obtain t wid where "processPartialRefund now od a ?s1 = (Inr True, t)"
    "refunding c (Some (wid, customer_balance c s + amount)) i tx t"
    using partial_refund_reaches [of c x i tx ?s1 od a now] assms(2,7) s'(2) by metis
  then have "refunding c (Some (wid, customer_balance c s + amount)) i tx s2" using s2(2) by simp
  moreover have "preserves (refunding c (Some (wid, customer_balance c s + amount)) i tx) ?undo"
    by (intro preserve_intros preserves_ignore refunding_reversal refunding_restore)
  ultimately have "refunding c (Some (wid, customer_balance c s + amount)) i tx s'" 
    unfolding s'(1) by (rule preservesD [rotated])
  then show "\<exists>wid. refunding c (Some (wid, customer_balance c s + amount)) i tx s'" by blast
  have "unique_orders s2 \<and> order_who r s2 = Some (i, c)"
    unfolding s2(2) by (rule preservesD [OF who_view.partial_refund])
      (use who_save_loaded [OF assms(4,3) ids(1,3)] ids assms(5,6) in \<open>simp add: order_who_def\<close>)
  moreover have "preserves (\<lambda>s. unique_orders s \<and> order_who r s = Some (i, c)) ?undo"
    by (intro preserve_intros preserves_ignore who_view.reversal who_view.restore)
  ultimately have "unique_orders s' \<and> order_who r s' = Some (i, c)"
    unfolding s'(1) by (rule preservesD [rotated])
  then show "unique_orders s'" "order_who r s' = Some (i, c)" by blast+
qed

text \<open>C37: Rejecting an item refunds it, and cancelling the order afterwards pays the whole payment out again: the
  customer ends with more than was ever paid.\<close>

theorem cancel_after_rejection_overrefunds:
  assumes "rejectOrderItem now reference b itemId reason s = (Inr (amount, cancelled), s1)" "0 < amount"
    "cancelOrder later reference s1 = (Inr (), s2)" "find_order reference s = Some ord" "unique_orders s"
    "wf_wallets s" "separate_wallets s" "find_one (is_order_payment (o_id ord)) (db_transactions s) = Some tx"
    "t_channel tx = Checkout"
  shows "customer_balance (o_customer ord) s2 = customer_balance (o_customer ord) s + amount + t_amount tx"
proof -
  let ?c = "o_customer ord" and ?i = "o_id ord"
  have start: "refunding ?c (purse ?c s) ?i tx s" using assms(6-8) by (simp add: refunding_def)
  from assms(1,4) obtain item ord' where "rejectItems now reason b [item] ord s = (Inr (ord', amount, cancelled), s1)"
    by (auto simp: rejectOrderItem_def load_order_def andThen_Inr simp del: not_None_eq split: option.splits if_splits)
  from rejectItems_refunds [OF start assms(9,4,5) refl refl assms(2) this] obtain wid where
    r: "refunding ?c (Some (wid, customer_balance ?c s + amount)) ?i tx s1" and u: "unique_orders s1"
    and w: "order_who reference s1 = Some (?i, ?c)" by blast
  from w obtain ord1 where ord1: "find_order reference s1 = Some ord1" "o_id ord1 = ?i" "o_customer ord1 = ?c"
    by (rule order_who_SomeD)
  have "customer_balance (o_customer ord1) s2 = customer_balance (o_customer ord1) s1 + t_amount tx"
    using cancel_refunds_once [OF assms(3) ord1(1) u] r assms(9) ord1(2) by (auto simp: refunding_def)
  with ord1(3) customer_balance_refunding [OF r] show ?thesis by simp
qed


section \<open>A sample order with two vendors\<close>

text \<open>Vendors 1 and 2 each sell one item of an order that customer 5 paid with 2100.\<close>

definition sample_shipment :: "oid \<Rightarrow> oid \<Rightarrow> vendor_shipment" where
  "sample_shipment i b = (default_shipment b)\<lparr>sh_id := i, sh_shipping_fee := Some 50\<rparr>"

definition sample_two_vendors :: order where
  "sample_two_vendors = (default_order 3 30 5 0)\<lparr>o_items := [(default_item 6)\<lparr>i_business := Some 1, i_total_price := Some 1000\<rparr>,
       (default_item 7)\<lparr>i_business := Some 2, i_total_price := Some 1000\<rparr>],
     o_subtotal := 2000, o_shipping_fee := 100, o_total := 2100, o_status := O_IN_REVIEW, o_payment_status := Paid,
     o_shipments := [sample_shipment 8 1, sample_shipment 9 2]\<rparr>"

definition sample_paid_order :: db where
  "sample_paid_order = empty_db\<lparr>db_orders := [sample_two_vendors], db_transactions := [new_transaction
     ((payment_entry sample_two_vendors None Checkout)\<lparr>ct_status := Some T_SUCCESS\<rparr>) 40 41], db_next := 100\<rparr>"

lemma sample_paid_order_ok:
  "find_order 30 sample_paid_order = Some sample_two_vendors" "unique_orders sample_paid_order"
  "wf_wallets sample_paid_order" "separate_wallets sample_paid_order"
  "find_one (is_order_payment (o_id sample_two_vendors)) (db_transactions sample_paid_order) = Some (hd (db_transactions sample_paid_order))"
  "t_channel (hd (db_transactions sample_paid_order)) = Checkout" "t_amount (hd (db_transactions sample_paid_order)) = 2100"
  "o_customer sample_two_vendors = 5" "customer_balance 5 sample_paid_order = 0"
  by (simp_all add: sample_paid_order_def sample_two_vendors_def default_order_def find_order_def unique_orders_def
      wf_wallets_def separate_wallets_def empty_db_def is_order_payment_def new_transaction_def payment_entry_def
      customer_balance_def purse_eq)

lemma succeeded: "\<not> isl (fst (m s)) \<Longrightarrow> \<exists>x t. m s = (Inr x, t)"
  by (cases "m s"; cases "fst (m s)") auto

theorem cancel_refunds_once_witness:
  "\<exists>s'. cancelOrder 7 30 sample_paid_order = (Inr (), s') \<and> customer_balance 5 s' = 2100 \<and>
     cancelOrder 8 30 s' = (Inl (BadRequestException ''Order is already cancelled''), s')"
proof -
  have "\<not> isl (fst (cancelOrder 7 30 sample_paid_order))" by code_simp
  then obtain s' where run: "cancelOrder 7 30 sample_paid_order = (Inr (), s')" using succeeded by fastforce
  from cancel_refunds_once [OF run sample_paid_order_ok(1-6)] run sample_paid_order_ok(7-9) show ?thesis by auto
qed

theorem cancel_after_rejection_overrefunds_witness:
  "\<exists>s1 s2. rejectOrderItem 7 30 1 6 ''sold out'' sample_paid_order = (Inr (1050, False), s1) \<and>
     cancelOrder 8 30 s1 = (Inr (), s2) \<and> customer_balance 5 s2 = 3150"
proof -
  let ?reject = "rejectOrderItem 7 30 1 6 ''sold out'' sample_paid_order"
  have "fst ?reject = Inr (1050, False)" "\<not> isl (fst (cancelOrder 8 30 (snd ?reject)))" by code_simp+
  then have "?reject = (Inr (1050, False), snd ?reject)" by (simp add: prod_eq_iff)
  moreover obtain s2 where "cancelOrder 8 30 (snd ?reject) = (Inr (), s2)"
    using succeeded [where m = "cancelOrder 8 30" and s = "snd ?reject"] \<open>\<not> isl (fst (cancelOrder 8 30 (snd ?reject)))\<close> by auto
  ultimately obtain s1 where runs: "?reject = (Inr (1050, False), s1)" "cancelOrder 8 30 s1 = (Inr (), s2)" by blast
  with cancel_after_rejection_overrefunds [OF runs(1) _ runs(2) sample_paid_order_ok(1-6)] sample_paid_order_ok(7-9)
  show ?thesis by auto
qed

end
