(* ===== verification/Shipments.thy ===== *)
theory Shipments
  imports Refunds
begin

text \<open>
  The life of an order's shipments: the vendors' confirmations bring it into processing, unless a vendor
  has two shipments in it; a cancelled order can be confirmed back to life; a late shipment is penalised
  in tiers, each once.
\<close>

section \<open>Confirming\<close>

lemma schedule_upfront_run: "\<exists>es. schedule_upfront now i b s = (Inr (), s\<lparr>db_earnings := es\<rparr>)"
  by (simp add: schedule_upfront_def) blast

lemma orders_frame [simp]:
  "find_order r (s\<lparr>db_earnings := es\<rparr>) = find_order r s" "unique_orders (s\<lparr>db_earnings := es\<rparr>) = unique_orders s"
  by (simp_all add: find_order_def unique_orders_def)

text \<open>The order after a vendor's confirmation.\<close>

definition confirmed_order :: "instant \<Rightarrow> rat \<Rightarrow> oid \<Rightarrow> order \<Rightarrow> order" where
  "confirmed_order now days b ord =
     (let shipments = update_one (\<lambda>sh. sh_business sh = b) (confirm_shipment now days) (o_shipments ord)
      in ord\<lparr>o_shipments := shipments, o_status := (if all_confirmed shipments then O_PROCESSING else o_status ord)\<rparr>)"

lemma confirm_cases:
  assumes "find_order r s = Some ord" "unique_orders s"
  obtains (refused) e where "confirmVendorShipment now r b s = (Inl e, s)"
      "\<And>sh. own_shipment b ord = Some sh \<Longrightarrow> sh_confirmed sh \<or> sh_rejected sh"
    | (accepted) days k s' where "confirmVendorShipment now r b s = (Inr k, s')" "find_order r s' = Some (confirmed_order now days b ord)"
      "unique_orders s'" "k = (all_confirmed (o_shipments (confirmed_order now days b ord)), o_status (confirmed_order now days b ord))"
proof (cases "\<exists>sh. own_shipment b ord = Some sh \<and> \<not> sh_confirmed sh \<and> \<not> sh_rejected sh")
  case False
  show thesis
  proof (cases "own_shipment b ord")
    case None
    with assms(1) refused show thesis by (auto simp: confirmVendorShipment_def load_order_def andThen_app)
  next
    case (Some sh)
    with False assms(1) refused show thesis
      by (cases "sh_confirmed sh") (auto simp: confirmVendorShipment_def load_order_def andThen_app)
  qed
next
  case True
  then obtain sh where sh: "own_shipment b ord = Some sh" "\<not> sh_confirmed sh" "\<not> sh_rejected sh" by blast
  let ?days = "max_turnaround b ord s"
  let ?ord = "confirmed_order now ?days b ord"
  let ?f = "\<lambda>od. od\<lparr>o_shipments := o_shipments ?ord, o_status := o_status ?ord\<rparr>"
  let ?t = "snd (set_order (o_id ord) ?f s)"
  have "find_order r ?t = Some (?f ord)"
    by (rule find_order_set [OF assms(2,1)]) (simp_all add: set_order_def)
  moreover have "?f ord = ?ord" by (simp add: confirmed_order_def Let_def)
  moreover have "unique_orders ?t"
    using assms(2) by (simp add: unique_orders_def set_order_def map_update_one)
  moreover obtain es where es: "schedule_upfront now (o_id ord) b ?t = (Inr (), ?t\<lparr>db_earnings := es\<rparr>)"
    using schedule_upfront_run by blast
  have "confirmVendorShipment now r b s = (Inr (all_confirmed (o_shipments ?ord), o_status ?ord), ?t\<lparr>db_earnings := es\<rparr>)"
    using assms(1) sh es
    by (simp add: confirmVendorShipment_def load_order_def andThen_app Let_def confirmed_order_def set_order_def)
  ultimately show thesis
    by (intro accepted [where days = ?days and s' = "?t\<lparr>db_earnings := es\<rparr>"]) (simp_all only: orders_frame)
qed

definition waiting :: "order \<Rightarrow> oid set" where
  "waiting ord = set (map sh_business (filter (\<lambda>sh. \<not> sh_confirmed sh \<and> \<not> sh_rejected sh) (o_shipments ord)))"

lemma confirmed_order_simps [simp]:
  "sh_business (confirm_shipment now days sh) = sh_business sh" "sh_rejected (confirm_shipment now days sh) = sh_rejected sh"
  "sh_confirmed (confirm_shipment now days sh)"
  by (simp_all add: confirm_shipment_def)

lemma confirmed_businesses [simp]:
  "map sh_business (o_shipments (confirmed_order now days b ord)) = map sh_business (o_shipments ord)"
  by (simp add: confirmed_order_def Let_def map_update_one)

lemma waiting_iff: "x \<in> waiting ord \<longleftrightarrow> (\<exists>sh\<in>set (o_shipments ord). \<not> sh_confirmed sh \<and> \<not> sh_rejected sh \<and> sh_business sh = x)"
  by (auto simp: waiting_def)

lemma waiting_confirmed:
  assumes "distinct (map sh_business (o_shipments ord))"
  shows "waiting (confirmed_order now days b ord) = waiting ord - {b}"
proof (rule set_eqI)
  fix x
  let ?g = "\<lambda>sh. if sh_business sh = b then confirm_shipment now days sh else sh"
  have "o_shipments (confirmed_order now days b ord) = map ?g (o_shipments ord)"
    by (simp add: confirmed_order_def Let_def update_one_key_map [OF assms])
  moreover have "(\<not> sh_confirmed (?g sh) \<and> \<not> sh_rejected (?g sh) \<and> sh_business (?g sh) = x) \<longleftrightarrow>
      \<not> sh_confirmed sh \<and> \<not> sh_rejected sh \<and> sh_business sh = x \<and> x \<noteq> b" for sh by auto
  ultimately show "x \<in> waiting (confirmed_order now days b ord) \<longleftrightarrow> x \<in> waiting ord - {b}"
    unfolding Diff_iff waiting_iff by (simp only: set_map bex_simps) blast
qed

lemma waiting_none: "waiting ord = {} \<longleftrightarrow> all_confirmed (o_shipments ord)"
  by (auto simp: waiting_def all_confirmed_def list_all_iff filter_empty_conv)

text \<open>C20: When every vendor has one shipment in the order and each vendor still waited for confirms, in whatever order,
  every confirmation is accepted and the last one brings the order into processing.\<close>

theorem confirmations_start_processing:
  assumes "find_order r s = Some ord" "unique_orders s" "distinct (map sh_business (o_shipments ord))"
    "distinct bs" "set bs = waiting ord" "bs \<noteq> []"
  shows "\<exists>s' ord'. for_each bs (\<lambda>b. andThen (confirmVendorShipment (now b) r b) (\<lambda>_. ret ())) s = (Inr (), s') \<and>
    find_order r s' = Some ord' \<and> o_status ord' = O_PROCESSING \<and> all_confirmed (o_shipments ord')"
  using assms
proof (induction bs arbitrary: s ord)
  case (Cons b bs)
  then have "b \<in> waiting ord" by auto
  then obtain sh where "sh \<in> set (o_shipments ord)" "sh_business sh = b" "\<not> sh_confirmed sh" "\<not> sh_rejected sh"
    by (auto simp: waiting_def)
  then have own: "own_shipment b ord = Some sh"
    using find_one_key_eq [OF Cons.prems(3)] by (auto simp: own_shipment_def)
  from Cons.prems(1,2) show ?case
  proof (cases rule: confirm_cases [where now = "now b" and b = b])
    case (refused e)
    with own \<open>\<not> sh_confirmed sh\<close> \<open>\<not> sh_rejected sh\<close> show ?thesis by blast
  next
    case (accepted days k s')
    let ?ord = "confirmed_order (now b) days b ord"
    have rest: "waiting ?ord = set bs" using waiting_confirmed [OF Cons.prems(3)] Cons.prems(4,5) by auto
    show ?thesis
    proof (cases bs)
      case Nil
      with rest have "all_confirmed (o_shipments ?ord)" using waiting_none by fastforce
      moreover from this have "o_status ?ord = O_PROCESSING" by (simp add: confirmed_order_def Let_def)
      ultimately show ?thesis using accepted(1,2) Nil by (simp add: andThen_app)
    next
      case (Cons b' bs')
      have "\<exists>s'' ord'. for_each bs (\<lambda>b. andThen (confirmVendorShipment (now b) r b) (\<lambda>_. ret ())) s' = (Inr (), s'') \<and>
          find_order r s'' = Some ord' \<and> o_status ord' = O_PROCESSING \<and> all_confirmed (o_shipments ord')"
        by (rule Cons.IH [OF accepted(2,3)]) (use Cons.prems rest Cons in auto)
      moreover have "for_each (b # bs) (\<lambda>b. andThen (confirmVendorShipment (now b) r b) (\<lambda>_. ret ())) s =
          for_each bs (\<lambda>b. andThen (confirmVendorShipment (now b) r b) (\<lambda>_. ret ())) s'"
        using accepted(1) by (simp only: for_each.simps andThen_app prod.case sum.case ret_app)
      ultimately show ?thesis by (simp only:)
    qed
  qed
qed simp

section \<open>A vendor with two shipments\<close>

definition shadowed :: "vendor_shipment list \<Rightarrow> bool" where
  "shadowed shs \<longleftrightarrow> (\<exists>xs x ys y zs. shs = xs @ x # ys @ y # zs \<and> sh_business x = sh_business y \<and>
     \<not> sh_confirmed y \<and> \<not> sh_rejected y)"

lemma shadowed_Cons: "shadowed shs \<Longrightarrow> shadowed (sh # shs)"
  unfolding shadowed_def by (metis append_Cons)

lemma shadowed_confirm:
  assumes "shadowed shs"
  shows "shadowed (update_one (\<lambda>sh. sh_business sh = b) (confirm_shipment now days) shs)"
proof -
  let ?P = "\<lambda>sh. sh_business sh = b" and ?f = "confirm_shipment now days"
  from assms obtain xs x ys y zs where shs: "shs = xs @ x # ys @ y # zs" and y: "sh_business x = sh_business y"
    "\<not> sh_confirmed y" "\<not> sh_rejected y" by (auto simp: shadowed_def)
  consider "find_one ?P xs \<noteq> None" | "find_one ?P xs = None" "sh_business x = b"
    | "find_one ?P xs = None" "sh_business x \<noteq> b" by blast
  then obtain xs' x' ys' zs' where "update_one ?P ?f shs = xs' @ x' # ys' @ y # zs'" "sh_business x' = sh_business y"
  proof cases
    case 1
    with y that [of "update_one ?P ?f xs" x ys zs] shs show thesis by (simp add: update_one_append)
  next
    case 2
    with y that [of xs "?f x" ys zs] shs show thesis by (simp add: update_one_append)
  next
    case 3
    show thesis
    proof (cases "find_one ?P ys")
      case None
      with 3 y that [of xs x ys "update_one ?P ?f zs"] shs show thesis by (simp add: update_one_append)
    next
      case (Some w)
      with 3 y that [of xs x "update_one ?P ?f ys" zs] shs show thesis by (simp add: update_one_append)
    qed
  qed
  with y show ?thesis unfolding shadowed_def by blast
qed

lemma shadowed_unconfirmed: "shadowed shs \<Longrightarrow> \<not> all_confirmed shs"
  by (auto simp: shadowed_def all_confirmed_def list_all_iff)

text \<open>A vendor with two shipments in an order - an item of the order and the fabric of another vendor's garment -
  can never confirm the second: confirming always looks at the vendor's first shipment. Whatever
  the vendors request, and however often, confirmations do not bring such an order into processing.\<close>

theorem second_shipment_blocks_processing:
  assumes "find_order r s = Some ord" "unique_orders s" "shadowed (o_shipments ord)" "o_status ord \<noteq> O_PROCESSING"
  shows "\<exists>ord'. find_order r (snd (for_each requests (\<lambda>(now, b). ignore_errors (confirmVendorShipment now r b)) s)) = Some ord' \<and>
    o_status ord' \<noteq> O_PROCESSING \<and> shadowed (o_shipments ord')"
proof -
  let ?P = "\<lambda>s. unique_orders s \<and> (\<exists>ord. find_order r s = Some ord \<and> o_status ord \<noteq> O_PROCESSING \<and> shadowed (o_shipments ord))"
  have "preserves ?P (confirmVendorShipment now r b)" for now b
    unfolding preserves_def
  proof (intro allI impI)
    fix s assume "?P s"
    then obtain ord where ord: "find_order r s = Some ord" "unique_orders s" "o_status ord \<noteq> O_PROCESSING" "shadowed (o_shipments ord)"
      by blast
    from ord(1,2) show "?P (snd (confirmVendorShipment now r b s))"
    proof (cases rule: confirm_cases [where now = now and b = b])
      case (refused e)
      with ord show ?thesis by auto
    next
      case (accepted days k s')
      have "shadowed (o_shipments (confirmed_order now days b ord))"
        using shadowed_confirm [OF ord(4)] by (simp add: confirmed_order_def Let_def)
      with shadowed_unconfirmed accepted ord(3) show ?thesis by (auto simp: confirmed_order_def Let_def)
    qed
  qed
  then have "preserves ?P (for_each requests (\<lambda>(now, b). ignore_errors (confirmVendorShipment now r b)))"
    by (auto intro!: preserve_intros preserves_ignore)
  from preservesD [OF this] show ?thesis using assms by blast
qed

section \<open>A cancelled order comes back\<close>

text \<open>A cancelled and refunded order can still be confirmed: when the vendor's shipment was the last one waited for,
  the confirmation is accepted and the order is in processing again.\<close>

theorem cancelled_order_confirmed:
  assumes "find_order r s = Some ord" "unique_orders s" "o_status ord = O_CANCELLED" "o_refund_status ord = Refund_refunded"
    "distinct (map sh_business (o_shipments ord))" "waiting ord = {b}"
  shows "\<exists>s' ord'. confirmVendorShipment now r b s = (Inr (True, O_PROCESSING), s') \<and> find_order r s' = Some ord' \<and>
    o_status ord' = O_PROCESSING \<and> o_refund_status ord' = Refund_refunded"
proof -
  have "b \<in> waiting ord" using assms(6) by simp
  then obtain sh where "sh \<in> set (o_shipments ord)" "sh_business sh = b" "\<not> sh_confirmed sh" "\<not> sh_rejected sh"
    by (auto simp: waiting_def)
  then have own: "own_shipment b ord = Some sh" "\<not> sh_confirmed sh" "\<not> sh_rejected sh"
    using find_one_key_eq [OF assms(5)] by (auto simp: own_shipment_def)
  from assms(1,2) show ?thesis
  proof (cases rule: confirm_cases [where now = now and b = b])
    case (refused e)
    with own show ?thesis by blast
  next
    case (accepted days k s')
    have "all_confirmed (o_shipments (confirmed_order now days b ord))"
      using waiting_confirmed [OF assms(5), of now days b] assms(6) waiting_none by blast
    with accepted assms(4) show ?thesis by (auto simp: confirmed_order_def Let_def)
  qed
qed


section \<open>Late shipments\<close>

definition order_shipments :: "oid \<Rightarrow> db \<Rightarrow> (oid \<times> oid \<times> vendor_shipment list) option" where
  "order_shipments r s = map_option (\<lambda>od. (o_id od, o_customer od, o_shipments od)) (find_order r s)"

interpretation ship_view: refund_view "\<lambda>od. (o_reference od, o_id od, o_customer od, o_shipments od)"
  "\<lambda>s. unique_orders s \<and> order_shipments r s = k" for r k
proof
  fix s :: db and f :: "order \<Rightarrow> order" and Q
  assume "\<And>od. (o_reference (f od), o_id (f od), o_customer (f od), o_shipments (f od)) =
      (o_reference od, o_id od, o_customer od, o_shipments od)" "unique_orders s \<and> order_shipments r s = k"
  then show "unique_orders (s\<lparr>db_orders := update_one Q f (db_orders s)\<rparr>) \<and>
      order_shipments r (s\<lparr>db_orders := update_one Q f (db_orders s)\<rparr>) = k"
    unfolding order_shipments_def find_order_def unique_orders_def by (simp add: find_one_map_update map_update_one)
qed (simp_all add: order_shipments_def find_order_def unique_orders_def aside_def)

lemma refunding_charge: "preserves (refunding c x i tx) (charge_vendor now j b a)"
proof -
  have "preserves (refunding c x i tx) (take_from_pending now b es a)" for es a
    by (induction es arbitrary: a) (auto simp: Let_def intro!: preserve_intros refunding_reconcile)
  then show ?thesis unfolding charge_vendor_def by (intro preserve_intros refunding_reconcile)
qed

text \<open>A claim on a shipment of the order that is stored under the reference.\<close>

lemma claim_shipment_run:
  assumes "find_order r s = Some ord" "unique_orders s" "P ord"
  shows "claim_shipment (o_id ord) P Q f s =
    (if exists_doc Q (o_shipments ord)
     then (Inr True, s\<lparr>db_orders := update_one (\<lambda>od. o_id od = o_id ord) (\<lambda>od. od\<lparr>o_shipments := update_one Q f (o_shipments od)\<rparr>) (db_orders s)\<rparr>)
     else (Inr False, s))"
proof -
  have d: "distinct (map o_id (db_orders s))" using assms(2) by (simp add: unique_orders_def)
  have "ord \<in> set (db_orders s)" using assms(1) find_one_SomeD by (fastforce simp: find_order_def)
  then have byid: "find_one (\<lambda>od. o_id od = o_id ord) (db_orders s) = Some ord" by (rule find_one_key_eq [OF d])
  note guarded = find_one_guarded [OF one_match_key [OF d]] update_one_guarded [OF one_match_key [OF d]]
  show ?thesis
    using assms(3) by (simp add: claim_shipment_def Let_def exists_doc_def [where ds = "db_orders s"] guarded byid)
qed

lemma penalty_bounded:
  "0 < itemsTotal \<Longrightarrow> total_penalty perDay maxPercent itemsTotal days \<le> js_round (itemsTotal * (maxPercent / 100))"
  unfolding total_penalty_def penalty_percent_def by (intro js_round_mono mult_left_mono divide_right_mono) simp_all

lemma find_one_id_update:
  "find_one (\<lambda>x. sh_id x = i) xs = Some y \<Longrightarrow> sh_id (f y) = i \<Longrightarrow>
   find_one (\<lambda>x. sh_id x = i) (update_one (\<lambda>x. sh_id x = i) f xs) = Some (f y)"
  by (rule find_one_update_one_same)

text \<open>Either nothing happens, or one tier is claimed, written and paid.\<close>

lemma penalise_cases:
  assumes "find_order r s = Some ord" "unique_orders s" "sh \<in> set (o_shipments ord)" "distinct (map sh_id (o_shipments ord))"
    "refunding (o_customer ord) x (o_id ord) tx s" "t_channel tx = Checkout"
  obtains (none) "penalise now perDay maxPercent sh ord s = (Inr ord, s)"
    | (tier) ord' s' wid owing days where "penalise now perDay maxPercent sh ord s = (Inr ord', s')"
      "owing = total_penalty perDay maxPercent (\<Sum>i\<leftarrow>items_of (sh_business sh) ord. or_num (i_total_price i) 0) days"
      "0 < (\<Sum>i\<leftarrow>items_of (sh_business sh) ord. or_num (i_total_price i) 0)" "sh_late_penalty_amount sh < owing"
      "days = days_late now (nullish (sh_fulfillment_deadline sh) now)" "unique_orders s'"
      "order_shipments r s' = Some (o_id ord, o_customer ord, update_one (\<lambda>x. sh_id x = sh_id sh)
         (\<lambda>x. x\<lparr>sh_late_penalty_applied := True, sh_late_penalty_amount := owing, sh_late_penalty_days := days\<rparr>) (o_shipments ord))"
      "refunding (o_customer ord) (Some (wid, customer_balance (o_customer ord) s + (owing - sh_late_penalty_amount sh))) (o_id ord) tx s'"
proof -
  let ?days = "days_late now (nullish (sh_fulfillment_deadline sh) now)"
  let ?itemsTotal = "\<Sum>i\<leftarrow>items_of (sh_business sh) ord. or_num (i_total_price i) 0"
  let ?owing = "total_penalty perDay maxPercent ?itemsTotal ?days"
  let ?inc = "?owing - sh_late_penalty_amount sh"
  let ?f = "\<lambda>x. x\<lparr>sh_late_penalty_applied := True, sh_late_penalty_amount := ?owing, sh_late_penalty_days := ?days\<rparr>"
  show thesis
  proof (cases "is_late now sh \<and> \<not> (?days \<le> sh_late_penalty_days sh \<or> ?itemsTotal \<le> 0 \<or> ?inc \<le> 0)")
    case False
    then have "penalise now perDay maxPercent sh ord s = (Inr ord, s)" by (auto simp: penalise_def Let_def)
    then show thesis by (rule none)
  next
    case True
    let ?Q = "\<lambda>x. sh_id x = sh_id sh \<and> sh_late_penalty_days x < ?days"
    let ?ships = "update_one (\<lambda>x. sh_id x = sh_id sh) ?f (o_shipments ord)"
    have byid: "find_one (\<lambda>x. sh_id x = sh_id sh) (o_shipments ord) = Some sh" by (rule find_one_key_eq [OF assms(4,3)])
    note guarded = find_one_guarded [OF one_match_key [OF assms(4)]] update_one_guarded [OF one_match_key [OF assms(4)]]
    have Q: "exists_doc ?Q (o_shipments ord)" "update_one ?Q ?f (o_shipments ord) = ?ships"
      using True byid by (simp_all add: exists_doc_def guarded)
    let ?s1 = "s\<lparr>db_orders := update_one (\<lambda>od. o_id od = o_id ord) (\<lambda>od. od\<lparr>o_shipments := update_one ?Q ?f (o_shipments od)\<rparr>) (db_orders s)\<rparr>"
    have claim: "claim_penalty ord sh ?days ?owing s = (Inr True, ?s1)"
      unfolding claim_penalty_def using claim_shipment_run [OF assms(1,2), where P = "\<lambda>_. True" and Q = ?Q and f = ?f] Q(1) by simp
    have "find_order r ?s1 = Some (ord\<lparr>o_shipments := ?ships\<rparr>)"
      using find_order_set [OF assms(2,1), where f = "\<lambda>od. od\<lparr>o_shipments := update_one ?Q ?f (o_shipments od)\<rparr>" and s' = ?s1] Q(2)
      by simp
    moreover have "unique_orders ?s1" using assms(2) by (simp add: unique_orders_def map_update_one)
    ultimately have view: "unique_orders ?s1 \<and> order_shipments r ?s1 = Some (o_id ord, o_customer ord, ?ships)"
      by (simp add: order_shipments_def)
    let ?ord = "(in_memory (sh_id sh) ?f ord)\<lparr>o_vendor_earnings := max 0 (o_vendor_earnings ord - ?inc)\<rparr>"
    let ?s2 = "snd (set_order (o_id ord) (\<lambda>od. od\<lparr>o_vendor_earnings := o_vendor_earnings ?ord\<rparr>) ?s1)"
    let ?s3 = "snd (charge_vendor now (o_id ord) (sh_business sh) ?inc ?s2)"
    let ?s4 = "snd (processPartialRefund now ?ord ?inc ?s3)"
    have run: "penalise now perDay maxPercent sh ord s = (Inr ?ord, ?s4)"
      using True claim ignore_errors_run [where m = "charge_vendor now (o_id ord) (sh_business sh) ?inc" and s = ?s2]
        ignore_errors_run [where m = "processPartialRefund now ?ord ?inc" and s = ?s3]
      by (simp add: penalise_def Let_def set_order_def)
    have "unique_orders ?s2 \<and> order_shipments r ?s2 = Some (o_id ord, o_customer ord, ?ships)"
      unfolding set_order_def modify_app snd_conv by (rule ship_view.stable [OF _ view]) simp
    then have "unique_orders ?s4 \<and> order_shipments r ?s4 = Some (o_id ord, o_customer ord, ?ships)"
      by (intro preservesD [OF ship_view.partial_refund] preservesD [OF ship_view.charge])
    then have stored: "unique_orders ?s4" "order_shipments r ?s4 = Some (o_id ord, o_customer ord, ?ships)" by blast+
    have r3: "refunding (o_customer ord) x (o_id ord) tx ?s3"
      using assms(5) by (intro preservesD [OF refunding_charge]) (simp add: set_order_def)
    then have same: "customer_balance (o_customer ord) ?s3 = customer_balance (o_customer ord) s"
      using assms(5) unfolding refunding_def customer_balance_def by metis
    have more: "0 < ?itemsTotal" "sh_late_penalty_amount sh < ?owing" using True by (simp_all only: not_le diff_gt_0_iff_gt de_Morgan_disj)
    then have inc: "0 < ?inc" by (simp only: diff_gt_0_iff_gt)
    have ids: "o_id ?ord = o_id ord" "o_customer ?ord = o_customer ord" by (simp_all add: in_memory_def)
    obtain t wid where "processPartialRefund now ?ord ?inc ?s3 = (Inr True, t)"
      "refunding (o_customer ord) (Some (wid, customer_balance (o_customer ord) ?s3 + ?inc)) (o_id ord) tx t"
      using partial_refund_reaches [OF r3 ids assms(6) inc] by blast
    then have "refunding (o_customer ord) (Some (wid, customer_balance (o_customer ord) s + ?inc)) (o_id ord) tx ?s4"
      unfolding same by simp
    then show thesis by (rule tier [OF run refl more refl stored])
  qed
qed


text \<open>C21: A late shipment is penalised in tiers: what the customer receives is exactly what the recorded penalty grows
  by, the penalty never shrinks and stays within the maximum percentage of the vendor's items, and a
  second run that loaded the order before the first one - an overlapping cron, another instance -
  finds the tier claimed and changes nothing.\<close>

theorem late_penalty_tiers:
  assumes "penalise now perDay maxPercent sh ord s = (Inr ord', s')" "find_order r s = Some ord" "unique_orders s"
    "sh \<in> set (o_shipments ord)" "distinct (map sh_id (o_shipments ord))" "wf_wallets s" "separate_wallets s"
    "find_one (is_order_payment (o_id ord)) (db_transactions s) = Some tx" "t_channel tx = Checkout"
  shows "\<exists>od' sh'. find_order r s' = Some od' \<and> find_one (\<lambda>x. sh_id x = sh_id sh) (o_shipments od') = Some sh' \<and>
    customer_balance (o_customer ord) s' - customer_balance (o_customer ord) s = sh_late_penalty_amount sh' - sh_late_penalty_amount sh \<and>
    sh_late_penalty_amount sh \<le> sh_late_penalty_amount sh' \<and>
    (s' = s \<or> sh_late_penalty_amount sh' \<le> js_round ((\<Sum>i\<leftarrow>items_of (sh_business sh) ord. or_num (i_total_price i) 0) * (maxPercent / 100))) \<and>
    snd (penalise now perDay maxPercent sh ord s') = s'"
proof -
  have start: "refunding (o_customer ord) (purse (o_customer ord) s) (o_id ord) tx s"
    using assms(6-8) by (simp add: refunding_def)
  have byid: "find_one (\<lambda>x. sh_id x = sh_id sh) (o_shipments ord) = Some sh" by (rule find_one_key_eq [OF assms(5,4)])
  from assms(2-5) start assms(9) show ?thesis
  proof (cases rule: penalise_cases [where now = now and perDay = perDay and maxPercent = maxPercent])
    case none
    with assms(1) have "s' = s" by simp
    with none assms(2) byid show ?thesis by simp
  next
    case (tier ord'' s'' wid owing days)
    let ?f = "\<lambda>x. x\<lparr>sh_late_penalty_applied := True, sh_late_penalty_amount := owing, sh_late_penalty_days := days\<rparr>"
    have s': "s' = s''" using tier(1) assms(1) by simp
    obtain od' where od': "find_order r s' = Some od'" "o_id od' = o_id ord"
      "o_shipments od' = update_one (\<lambda>x. sh_id x = sh_id sh) ?f (o_shipments ord)"
      using tier(7) s' by (auto simp: order_shipments_def)
    have found: "find_one (\<lambda>x. sh_id x = sh_id sh) (o_shipments od') = Some (?f sh)"
      unfolding od'(3) using find_one_id_update [OF byid, of ?f] by simp
    have ids: "distinct (map sh_id (o_shipments od'))" using assms(5) unfolding od'(3) by (simp add: map_update_one)
    have "find_one (\<lambda>x. sh_id x = sh_id sh \<and> sh_late_penalty_days x < days) (o_shipments od') = None"
      using found by (simp add: find_one_guarded [OF one_match_key [OF ids]])
    then have "\<not> exists_doc (\<lambda>x. sh_id x = sh_id sh \<and> sh_late_penalty_days x < days) (o_shipments od')"
      by (simp add: exists_doc_def)
    then have "claim_penalty ord sh days owing s' = (Inr False, s')"
      using claim_shipment_run [OF od'(1), where P = "\<lambda>_. True"] tier(6) s' od'(2) unfolding claim_penalty_def by simp
    then have "snd (penalise now perDay maxPercent sh ord s') = s'"
      using tier(2,5) by (simp add: penalise_def Let_def andThen_app)
    moreover have "customer_balance (o_customer ord) s' = customer_balance (o_customer ord) s + (owing - sh_late_penalty_amount sh)"
      using customer_balance_refunding [OF tier(8)] s' by simp
    ultimately show ?thesis using od'(1) found tier(2-4) penalty_bounded [OF tier(3), of perDay maxPercent days] by auto
  qed
qed

section \<open>Sample orders\<close>

lemma sample_two_vendors_shipments:
  "distinct (map sh_business (o_shipments sample_two_vendors))" "waiting sample_two_vendors = {1, 2}"
  by (auto simp: sample_two_vendors_def sample_shipment_def default_shipment_def waiting_def)

theorem confirmations_start_processing_witness:
  "\<exists>s' ord'. for_each [2, 1] (\<lambda>b. andThen (confirmVendorShipment 7 30 b) (\<lambda>_. ret ())) sample_paid_order = (Inr (), s') \<and>
    find_order 30 s' = Some ord' \<and> o_status ord' = O_PROCESSING"
  using confirmations_start_processing [OF sample_paid_order_ok(1,2) sample_two_vendors_shipments(1), of "[2, 1]" "\<lambda>_. 7"]
    sample_two_vendors_shipments(2) by (auto simp: insert_commute)

definition sample_same_vendor :: db where
  "sample_same_vendor = sample_paid_order\<lparr>db_orders := [sample_two_vendors\<lparr>o_shipments :=
     [sample_shipment 8 1, (sample_shipment 9 1)\<lparr>sh_shipment_type := FABRIC_TRANSFER\<rparr>]\<rparr>]\<rparr>"

theorem second_shipment_blocks_processing_witness:
  "\<exists>ord'. find_order 30 (snd (for_each [(7, 1), (8, 1)] (\<lambda>(now, b). ignore_errors (confirmVendorShipment now 30 b)) sample_same_vendor)) =
     Some ord' \<and> o_status ord' \<noteq> O_PROCESSING \<and> \<not> all_confirmed (o_shipments ord')"
proof -
  let ?ord = "sample_two_vendors\<lparr>o_shipments := [sample_shipment 8 1, (sample_shipment 9 1)\<lparr>sh_shipment_type := FABRIC_TRANSFER\<rparr>]\<rparr>"
  have "find_order 30 sample_same_vendor = Some ?ord" "unique_orders sample_same_vendor" "o_status ?ord \<noteq> O_PROCESSING"
    by (simp_all add: sample_same_vendor_def find_order_def unique_orders_def sample_two_vendors_def default_order_def)
  moreover have "shadowed (o_shipments ?ord)"
    unfolding shadowed_def
    by (rule exI [of _ "[]"], rule exI [of _ "sample_shipment 8 1"], rule exI [of _ "[]"])
      (simp add: sample_shipment_def default_shipment_def)
  ultimately show ?thesis using second_shipment_blocks_processing shadowed_unconfirmed by blast
qed

text \<open>The order is cancelled first; the vendors have not confirmed yet.\<close>

definition sample_one_vendor :: db where
  "sample_one_vendor = sample_paid_order\<lparr>db_orders := [sample_two_vendors\<lparr>o_shipments := [sample_shipment 8 1]\<rparr>]\<rparr>"

theorem cancelled_order_confirmed_witness:
  "\<exists>s s'. cancelOrder 7 30 sample_one_vendor = (Inr (), s) \<and> confirmVendorShipment 8 30 1 s = (Inr (True, O_PROCESSING), s')"
proof -
  let ?s = "snd (cancelOrder 7 30 sample_one_vendor)"
  have "fst (cancelOrder 7 30 sample_one_vendor) = Inr ()" "find_order 30 ?s = Some (the (find_order 30 ?s))"
    "map o_id (db_orders ?s) = [3]" "o_status (the (find_order 30 ?s)) = O_CANCELLED"
    "o_refund_status (the (find_order 30 ?s)) = Refund_refunded" "o_shipments (the (find_order 30 ?s)) = [sample_shipment 8 1]"
    by code_simp+
  then have cancelled: "cancelOrder 7 30 sample_one_vendor = (Inr (), ?s)" "unique_orders ?s"
    and w: "waiting (the (find_order 30 ?s)) = {1}" "distinct (map sh_business (o_shipments (the (find_order 30 ?s))))"
    by (auto simp: prod_eq_iff unique_orders_def waiting_def sample_shipment_def default_shipment_def)
  from cancelled_order_confirmed [OF \<open>find_order 30 ?s = _\<close> cancelled(2) \<open>o_status _ = _\<close> \<open>o_refund_status _ = _\<close> w(2,1)]
  show ?thesis using cancelled(1) by blast
qed

text \<open>Vendor 1 is two days late with an item of 1000.\<close>

definition sample_late :: vendor_shipment where
  "sample_late = (sample_shipment 8 1)\<lparr>sh_confirmed := True, sh_fulfillment_deadline := Some 0\<rparr>"

definition sample_late_order :: order where
  "sample_late_order = sample_two_vendors\<lparr>o_shipments := [sample_late], o_status := O_PROCESSING\<rparr>"

definition sample_late_db :: db where
  "sample_late_db = sample_paid_order\<lparr>db_orders := [sample_late_order]\<rparr>"

theorem late_penalty_tiers_witness:
  "\<exists>ord' s'. penalise (2 * day_ms) 5 25 sample_late sample_late_order sample_late_db = (Inr ord', s') \<and>
     customer_balance 5 s' = 100 \<and> snd (penalise (2 * day_ms) 5 25 sample_late sample_late_order s') = s'"
proof -
  let ?r = "penalise (2 * day_ms) 5 25 sample_late sample_late_order sample_late_db"
  have run: "\<not> isl (fst ?r)" "customer_balance 5 (snd ?r) = 100" by code_simp+
  obtain ord' s' where r: "?r = (Inr ord', s')"
    using run(1) by (cases ?r; cases "fst ?r") auto
  have hyps: "find_order 30 sample_late_db = Some sample_late_order" "unique_orders sample_late_db" "sample_late \<in> set (o_shipments sample_late_order)"
    "distinct (map sh_id (o_shipments sample_late_order))" "wf_wallets sample_late_db" "separate_wallets sample_late_db"
    "find_one (is_order_payment (o_id sample_late_order)) (db_transactions sample_late_db) = Some (hd (db_transactions sample_paid_order))"
    using sample_paid_order_ok(3-5)
    by (simp_all add: sample_late_db_def sample_late_order_def find_order_def unique_orders_def wf_wallets_def separate_wallets_def
        sample_two_vendors_def default_order_def)
  from late_penalty_tiers [OF r hyps sample_paid_order_ok(6)] run(2) r show ?thesis by auto
qed

end
