(* ===== verification/Webhook.thy ===== *)
theory Webhook
  imports Fulfilment
begin

text \<open>
  Events from outside (\<open>src/modules/webhook/webhook.service.ts\<close> and \<open>verifyPaystackPayment\<close> of
  \<open>src/modules/payment/payment.service.ts\<close>): Paystack reports a charge or a transfer, the customer comes back from the
  payment page, the courier reports a shipment. Events are retried and may arrive late and in any order.
  Paystack's verify endpoint is the parameter \<open>verify_api\<close>: a reference to the error raised or the status
  in the answer. Notifications and the copy of the payload kept in the metadata are left out.
\<close>

section \<open>Paid orders\<close>

definition open_quote :: "bespoke_quote \<Rightarrow> bool" where
  "open_quote q \<longleftrightarrow> bq_status q \<in> {BQ_PENDING, BQ_DRAFT, BQ_SUBMITTED, BQ_REVISION_REQUESTED}"

definition accept_bespoke_quote :: "instant \<Rightarrow> bespoke_quote \<Rightarrow> db \<Rightarrow> db" where
  "accept_bespoke_quote now q s = s\<lparr>db_quotes := update_many
       (\<lambda>x. bq_design x = bq_design q \<and> bq_id x \<noteq> bq_id q \<and> open_quote x) (\<lambda>x. x\<lparr>bq_status := BQ_DECLINED\<rparr>)
       (update_one (\<lambda>x. bq_id x = bq_id q) (\<lambda>x. x\<lparr>bq_status := BQ_ACCEPTED, bq_accepted_at := Some now\<rparr>) (db_quotes s))\<rparr>"

definition finalizeBespokeAcceptance :: "instant \<Rightarrow> order \<Rightarrow> (db, unit) action" where
  "finalizeBespokeAcceptance now ord = (case o_bespoke_quote ord of
       None \<Rightarrow> ret ()
     | Some quoteId \<Rightarrow> andThen (gets (\<lambda>s. find_one (\<lambda>q. bq_id q = quoteId) (db_quotes s))) (\<lambda>quote. case quote of
         None \<Rightarrow> ret ()
       | Some q \<Rightarrow> if bq_status q = BQ_ACCEPTED then ret ()
           else andThen (modify (accept_bespoke_quote now q)) (\<lambda>_.
                modify (\<lambda>s. s\<lparr>db_designs := update_one (\<lambda>d. bd_id d = bq_design q)
                  (\<lambda>d. d\<lparr>bd_accepted_quote := Some (bq_id q)\<rparr>) (db_designs s)\<rparr>))))"

definition payout_date :: "instant \<Rightarrow> db \<Rightarrow> instant" where
  "payout_date now s = now + \<lfloor>setting payout_delay_days 3 s * of_int day_ms\<rfloor>"

definition scheduleBespokeUpfront :: "instant \<Rightarrow> order \<Rightarrow> (db, unit) action" where
  "scheduleBespokeUpfront now ord = modify (\<lambda>s. s\<lparr>db_earnings := update_many
     (\<lambda>e. e_order e = o_id ord \<and> e_milestone e = Upfront \<and> \<not> e_released e \<and> e_release_date e = None)
     (\<lambda>e. e\<lparr>e_release_date := Some (payout_date now s)\<rparr>) (db_earnings s)\<rparr>)"

text \<open>\<open>Promise.all\<close> starts both and fails with the first failure; neither is undone by the other's.\<close>

definition record_and_deduct :: "oid \<Rightarrow> (db, unit) action" where
  "record_and_deduct orderId = (\<lambda>s. case recordBusinessEarnings orderId s of
       (Inl e, s') \<Rightarrow> (Inl e, snd (updateInventory orderId s'))
     | (Inr _, s') \<Rightarrow> updateInventory orderId s')"

definition start_production :: "oid option \<Rightarrow> (db, unit) action" where
  "start_production design = (case design of None \<Rightarrow> ret ()
     | Some i \<Rightarrow> modify (\<lambda>s. s\<lparr>db_designs := update_one (\<lambda>d. bd_id d = i) (\<lambda>d. d\<lparr>bd_status := BD_IN_PRODUCTION\<rparr>) (db_designs s)\<rparr>))"

definition finalizeCheckoutOrder :: "instant \<Rightarrow> transaction \<Rightarrow> (db, unit) action" where
  "finalizeCheckoutOrder now tx =
     (if t_channel tx \<noteq> Checkout then ret ()
      else case t_order tx of None \<Rightarrow> ret ()
      | Some orderId \<Rightarrow> andThen (gets (\<lambda>s. find_one (\<lambda>od. o_id od = orderId) (db_orders s))) (\<lambda>found. case found of
          None \<Rightarrow> ret ()
        | Some ord \<Rightarrow>
            let isBespoke = o_type ord = Bespoke; alreadyPaid = o_payment_status ord = Paid
            in andThen (if \<not> alreadyPaid \<and> isBespoke \<and> o_bespoke_quote ord \<noteq> None
                        then ignore_errors (finalizeBespokeAcceptance now ord) else ret ()) (\<lambda>_.
               andThen (set_order orderId (\<lambda>od. od\<lparr>o_status := (if isBespoke then O_PROCESSING else O_IN_REVIEW),
                                                  o_payment_status := Paid\<rparr>)) (\<lambda>_.
               andThen (record_and_deduct orderId) (\<lambda>_.
               if \<not> alreadyPaid \<and> isBespoke
               then andThen (ignore_errors (scheduleBespokeUpfront now ord)) (\<lambda>_.
                    ignore_errors (start_production (o_bespoke_design ord)))
               else ret ())))))"

section \<open>Paystack events\<close>

definition handleChargeSuccess :: "instant \<Rightarrow> transaction \<Rightarrow> (db, transaction \<times> bool) action" where
  "handleChargeSuccess now tx =
     (let isWalletFunding = t_type tx = FUND \<and> t_wallet tx \<noteq> None
      in andThen (case t_wallet tx of
             Some w \<Rightarrow> if isWalletFunding \<and> \<not> m_funding_credited (t_metadata tx)
               then attempt (andThen (creditWallet now w (t_amount tx)) (\<lambda>_.
                      ret (tx\<lparr>t_metadata := (t_metadata tx)\<lparr>m_funding_credited := True\<rparr>\<rparr>))) (\<lambda>_. ret tx)
               else ret tx
           | None \<Rightarrow> ret tx) (\<lambda>tx.
         andThen (if t_channel tx = Checkout \<and> t_order tx \<noteq> None
                  then ignore_errors (finalizeCheckoutOrder now tx) else ret ()) (\<lambda>_.
         ret (tx, isWalletFunding))))"

definition processVendorPayout :: "instant \<Rightarrow> transaction \<Rightarrow> (db, unit) action" where
  "processVendorPayout now tx =
     (let businessId = (case m_business_id (t_metadata tx) of None \<Rightarrow> t_initiator tx | Some b \<Rightarrow> Some b)
      in andThen (gets (\<lambda>s. Option.bind businessId (\<lambda>b. find_business b s))) (\<lambda>found. case found of
          None \<Rightarrow> ret ()
        | Some b \<Rightarrow> andThen (modify (\<lambda>s. s\<lparr>db_businesses := update_one (\<lambda>x. b_id x = b_id b)
              (\<lambda>x. x\<lparr>b_lifetime_paid_out := Some (or_num (b_lifetime_paid_out b) 0 + t_amount tx),
                     b_last_payout_date := Some now, b_payout_history := b_payout_history b @ [t_reference tx]\<rparr>)
              (db_businesses s)\<rparr>)) (\<lambda>_.
            modify (\<lambda>s. s\<lparr>db_orders := update_many
              (\<lambda>od. (\<exists>i\<in>set (o_items od). i_business i = Some (b_id b)) \<and> o_payout_status od = Payout_eligible)
              (\<lambda>od. od\<lparr>o_payout_status := Payout_paid\<rparr>) (db_orders s)\<rparr>))))"

definition handleTransferSuccess :: "instant \<Rightarrow> transaction \<Rightarrow> (db, transaction \<times> bool) action" where
  "handleTransferSuccess now tx = (if t_channel tx = Payout
     then andThen (processVendorPayout now tx) (\<lambda>_. ret (tx, True)) else ret (tx, False))"

definition handleTransferFailed :: "instant \<Rightarrow> transaction \<Rightarrow> (db, transaction) action" where
  "handleTransferFailed now tx = (case t_wallet tx of
       Some w \<Rightarrow> if t_channel tx = Payout \<and> \<not> m_payout_reversed (t_metadata tx)
         then attempt (andThen (creditWallet now w (t_amount tx)) (\<lambda>_.
                ret (tx\<lparr>t_metadata := (t_metadata tx)\<lparr>m_payout_reversed := True\<rparr>\<rparr>))) (\<lambda>_. ret tx)
         else ret tx
     | None \<Rightarrow> ret tx)"

text \<open>The answer: nothing found, or the reference and whether a wallet was updated.\<close>

datatype webhook_answer = Webhook_ignored string | Webhook_done oid bool

definition dispatch_event :: "instant \<Rightarrow> string \<Rightarrow> transaction \<Rightarrow> (db, transaction \<times> bool) action" where
  "dispatch_event now event tx =
     (if event = ''charge.success'' then andThen (handleChargeSuccess now tx) (\<lambda>(tx, updated). ret (tx\<lparr>t_status := T_SUCCESS\<rparr>, updated))
      else if event = ''transfer.success'' then andThen (handleTransferSuccess now tx) (\<lambda>(tx, updated). ret (tx\<lparr>t_status := T_SUCCESS\<rparr>, updated))
      else if event = ''transfer.failed'' then andThen (handleTransferFailed now tx) (\<lambda>tx. ret (tx\<lparr>t_status := T_FAILED\<rparr>, False))
      else if event = ''charge.failed'' then ret (tx\<lparr>t_status := T_FAILED\<rparr>, False)
      else ret (tx, False))"

definition handlePaystackWebhook :: "instant \<Rightarrow> string \<Rightarrow> oid \<Rightarrow> (db, webhook_answer) action" where
  "handlePaystackWebhook now event reference =
     andThen (gets (\<lambda>s. find_one (\<lambda>t. t_reference t = reference) (db_transactions s))) (\<lambda>found. case found of
       None \<Rightarrow> ret (Webhook_ignored ''Transaction not found'')
     | Some tx \<Rightarrow> andThen (dispatch_event now event tx) (\<lambda>(tx, walletUpdated).
         andThen (save_transaction tx) (\<lambda>_. ret (Webhook_done (t_reference tx) walletUpdated))))"

section \<open>The customer's return from the payment page\<close>

definition verifyPaystackPayment :: "(oid \<Rightarrow> error + string) \<Rightarrow> oid \<Rightarrow> (db, transaction_status) action" where
  "verifyPaystackPayment verify_api reference = (case verify_api reference of
       Inl e \<Rightarrow> throw e
     | Inr status \<Rightarrow> andThen (findByReference reference) (\<lambda>tx.
         if t_status tx = T_SUCCESS then ret T_SUCCESS
         else if status = ''success''
         then andThen (modify (\<lambda>s. s\<lparr>db_transactions := update_one (\<lambda>t. t_id t = t_id tx \<and> t_status t \<noteq> T_SUCCESS)
                (\<lambda>t. t\<lparr>t_status := T_SUCCESS\<rparr>) (db_transactions s)\<rparr>)) (\<lambda>_. ret T_SUCCESS)
         else andThen (save_transaction (tx\<lparr>t_status := T_FAILED\<rparr>)) (\<lambda>_. ret T_FAILED)))"

definition verifyAndFinalize :: "(oid \<Rightarrow> error + string) \<Rightarrow> instant \<Rightarrow> oid \<Rightarrow> (db, bool \<times> transaction_status) action" where
  "verifyAndFinalize verify_api now reference = andThen (findByReference reference) (\<lambda>tx.
     if t_channel tx \<noteq> Checkout then ret (t_status tx = T_SUCCESS, t_status tx)
     else andThen (if t_status tx \<noteq> T_SUCCESS then ignore_errors (verifyPaystackPayment verify_api reference) else ret ()) (\<lambda>_.
          andThen (findByReference reference) (\<lambda>fresh.
          if t_status fresh = T_SUCCESS
          then andThen (finalizeCheckoutOrder now fresh) (\<lambda>_. ret (True, T_SUCCESS))
          else ret (False, t_status fresh))))"

section \<open>Courier events\<close>

text \<open>
  The payload's identifiers and statuses, in the order in which the code looks for them (flat, under
  \<open>data\<close>, under \<open>shipment\<close>); what is missing or no string is \<open>None\<close>.
\<close>

record shipbubble_payload =
  sb_identifiers :: "string option list"
  sb_statuses :: "string option list"

definition shipment_candidates :: "shipbubble_payload \<Rightarrow> string list" where
  "shipment_candidates p = [js_trim x. Some x \<leftarrow> sb_identifiers p, js_trim x \<noteq> []]"

definition courier_status :: "string \<Rightarrow> shipment_status option" where
  "courier_status x = map_of [(''picked_up'', S_IN_TRANSIT), (''in_transit'', S_IN_TRANSIT),
     (''out_for_delivery'', S_IN_TRANSIT), (''completed'', S_DELIVERED), (''delivered'', S_DELIVERED),
     (''cancelled'', S_FAILED), (''failed'', S_FAILED)] (map lower_char x)"

definition payload_status :: "shipbubble_payload \<Rightarrow> shipment_status option" where
  "payload_status p = Option.bind (Option.bind (find_one truthy_string (sb_statuses p)) (\<lambda>x. x)) courier_status"

definition known_shipment :: "string list \<Rightarrow> vendor_shipment \<Rightarrow> bool" where
  "known_shipment candidates sh \<longleftrightarrow>
     (case sh_shipment_id sh of None \<Rightarrow> False | Some i \<Rightarrow> i \<in> set candidates) \<or>
     (case sh_tracking_number sh of None \<Rightarrow> False | Some t \<Rightarrow> t \<in> set candidates)"

definition move_shipment :: "instant \<Rightarrow> shipment_status \<Rightarrow> vendor_shipment \<Rightarrow> vendor_shipment" where
  "move_shipment now st sh = sh\<lparr>sh_status := st, sh_delivered_at := (if st = S_DELIVERED then Some now else sh_delivered_at sh)\<rparr>"

definition schedule_order :: "instant \<Rightarrow> oid \<Rightarrow> (db, unit) action" where
  "schedule_order when orderId = modify (\<lambda>s. s\<lparr>db_earnings := update_many
     (\<lambda>e. e_order e = orderId \<and> \<not> e_released e \<and> e_release_date e = None)
     (\<lambda>e. e\<lparr>e_release_date := Some when\<rparr>) (db_earnings s)\<rparr>)"

datatype courier_answer = Courier_ignored string | Courier_done shipment_status order_status

definition move_order_shipment :: "instant \<Rightarrow> shipment_status \<Rightarrow> string list \<Rightarrow> order \<Rightarrow> (db, order_status) action" where
  "move_order_shipment now st candidates ord =
     (let shipments = update_one (known_shipment candidates) (move_shipment now st) (o_shipments ord)
      in if list_all (\<lambda>sh. sh_status sh = S_DELIVERED) shipments
         then andThen (gets (payout_date now)) (\<lambda>releaseDate.
              andThen (schedule_order releaseDate (o_id ord)) (\<lambda>_.
              andThen (set_order (o_id ord) (\<lambda>od. od\<lparr>o_shipments := shipments, o_status := O_COMPLETED,
                  o_payout_eligible_at := Some releaseDate, o_payout_status := Payout_eligible\<rparr>)) (\<lambda>_. ret O_COMPLETED)))
         else let status = (if list_ex (\<lambda>sh. sh_status sh \<in> {S_IN_TRANSIT, S_SHIPPED}) shipments then O_IN_TRANSIT else o_status ord)
              in andThen (set_order (o_id ord) (\<lambda>od. od\<lparr>o_shipments := shipments, o_status := status\<rparr>)) (\<lambda>_. ret status))"

definition handleShipbubbleWebhook :: "instant \<Rightarrow> shipbubble_payload \<Rightarrow> (db, courier_answer) action" where
  "handleShipbubbleWebhook now p =
     (let candidates = shipment_candidates p
      in if candidates = [] then ret (Courier_ignored ''No shipment identifier'')
         else andThen (gets (\<lambda>s. find_one (\<lambda>od. list_ex (known_shipment candidates) (o_shipments od)) (db_orders s))) (\<lambda>found.
           case found of
             None \<Rightarrow> ret (Courier_ignored ''Order not found'')
           | Some ord \<Rightarrow> (case payload_status p of
                 None \<Rightarrow> ret (Courier_ignored ''Unhandled status'')
               | Some st \<Rightarrow> andThen (move_order_shipment now st candidates ord) (\<lambda>status. ret (Courier_done st status)))))"


end
