(* ===== verification/Events.thy ===== *)
theory Events
  imports Webhook Shipments
begin

text \<open>
  What the events from outside do, however often and in whatever order they arrive: a wallet is funded
  once, a failed transfer does not come back to the vendor, a paid order is finalised once, deliveries
  complete an order, and a late event can bring a cancelled or completed order back.
\<close>

section \<open>Paystack events on one transaction\<close>

definition webhook_run :: "oid \<Rightarrow> (instant \<times> string) list \<Rightarrow> (db, unit) action" where
  "webhook_run r events = for_each events (\<lambda>(now, event). andThen (handlePaystackWebhook now event r) (\<lambda>_. ret ()))"

lemma saved_found:
  assumes "find_one (\<lambda>t. t_reference t = r) ts = Some tx" "distinct (map t_id ts)"
    "t_id tx' = t_id tx" "t_reference tx' = t_reference tx"
  shows "find_one (\<lambda>t. t_reference t = r) (update_one (\<lambda>x. t_id x = t_id tx) (\<lambda>_. tx') ts) = Some tx'"
    and "map t_id (update_one (\<lambda>x. t_id x = t_id tx) (\<lambda>_. tx') ts) = map t_id ts"
proof -
  show "find_one (\<lambda>t. t_reference t = r) (update_one (\<lambda>x. t_id x = t_id tx) (\<lambda>_. tx') ts) = Some tx'"
    using assms
  proof (induction ts)
    case (Cons t ts)
    show ?case
    proof (cases "t_reference t = r")
      case True
      with Cons.prems show ?thesis by auto
    next
      case False
      with Cons.prems have "find_one (\<lambda>t. t_reference t = r) ts = Some tx" by simp
      moreover from this have "tx \<in> set ts" by (auto dest: find_one_SomeD)
      with Cons.prems(2) have "t_id t \<noteq> t_id tx" by (auto simp: image_iff)
      ultimately show ?thesis using Cons False by simp
    qed
  qed simp
  show "map t_id (update_one (\<lambda>x. t_id x = t_id tx) (\<lambda>_. tx') ts) = map t_id ts"
    by (rule map_update_one) (simp add: assms(3))
qed

text \<open>The entries of the ledger that belong to no order.\<close>

definition stored_entry :: "oid \<Rightarrow> transaction \<Rightarrow> db \<Rightarrow> bool" where
  "stored_entry r tx s \<longleftrightarrow> find_one (\<lambda>t. t_reference t = r) (db_transactions s) = Some tx \<and>
     distinct (map t_id (db_transactions s)) \<and> t_channel tx = Checkout \<and> t_order tx = None"

definition write_entry :: "transaction \<Rightarrow> db \<Rightarrow> db" where
  "write_entry tx s = s\<lparr>db_transactions := update_one (\<lambda>x. t_id x = t_id tx) (\<lambda>_. tx) (db_transactions s)\<rparr>"

lemma write_entry_simps [simp]:
  "db_wallets (write_entry tx s) = db_wallets s" "db_businesses (write_entry tx s) = db_businesses s"
  "db_earnings (write_entry tx s) = db_earnings s" "db_orders (write_entry tx s) = db_orders s"
  "balance_of (write_entry tx s) = balance_of s" "wf_wallets (write_entry tx s) = wf_wallets s"
  by (simp_all add: write_entry_def wf_wallets_def)

lemma stored_entry_write:
  assumes "stored_entry r tx s" "t_id tx' = t_id tx" "t_reference tx' = t_reference tx"
    "t_channel tx' = Checkout" "t_order tx' = None"
  shows "stored_entry r tx' (write_entry tx' s)"
  using assms saved_found [of r "db_transactions s" tx tx'] by (simp add: stored_entry_def write_entry_def)

lemma stored_entry_wallets [simp]: "stored_entry r tx (s\<lparr>db_wallets := ws\<rparr>) = stored_entry r tx s"
  by (simp add: stored_entry_def)

lemma event_silent:
  assumes "stored_entry r tx s" "t_type tx = FUND \<Longrightarrow> m_funding_credited (t_metadata tx) \<or> event \<noteq> ''charge.success''"
  shows "\<exists>st a. handlePaystackWebhook now event r s = (Inr a, write_entry (tx\<lparr>t_status := st\<rparr>) s) \<and>
    (event = ''transfer.failed'' \<longrightarrow> st = T_FAILED)"
proof -
  have charge: "handleChargeSuccess now tx s = (Inr (tx, t_type tx = FUND \<and> t_wallet tx \<noteq> None), s)"
    if "event = ''charge.success''"
    using assms that by (auto simp: handleChargeSuccess_def Let_def stored_entry_def split: option.splits)
  define st where "st = (if event = ''charge.success'' \<or> event = ''transfer.success'' then T_SUCCESS
       else if event = ''transfer.failed'' \<or> event = ''charge.failed'' then T_FAILED else t_status tx)"
  define updated where "updated \<longleftrightarrow> event = ''charge.success'' \<and> t_type tx = FUND \<and> t_wallet tx \<noteq> None"
  have "dispatch_event now event tx s = (Inr (tx\<lparr>t_status := st\<rparr>, updated), s)"
    using assms(1) charge unfolding st_def updated_def
    by (auto simp: dispatch_event_def handleTransferSuccess_def handleTransferFailed_def stored_entry_def split: option.splits)
  then have "handlePaystackWebhook now event r s = (Inr (Webhook_done (t_reference tx) updated), write_entry (tx\<lparr>t_status := st\<rparr>) s)"
    using assms(1) by (simp add: handlePaystackWebhook_def stored_entry_def andThen_app save_transaction_run write_entry_def)
  moreover have "event = ''transfer.failed'' \<longrightarrow> st = T_FAILED" by (simp add: st_def)
  ultimately show ?thesis by blast
qed

text \<open>Whatever arrives for an entry that credits nobody, the money and the orders stay.\<close>

lemma silent_run:
  assumes "stored_entry r tx s"
    "t_type tx = FUND \<Longrightarrow> m_funding_credited (t_metadata tx) \<or> (\<forall>e\<in>set events. snd e \<noteq> ''charge.success'')"
  shows "\<exists>s' tx'. webhook_run r events s = (Inr (), s') \<and> stored_entry r tx' s' \<and> t_type tx' = t_type tx \<and>
    t_metadata tx' = t_metadata tx \<and> t_amount tx' = t_amount tx \<and> t_wallet tx' = t_wallet tx \<and>
    db_wallets s' = db_wallets s \<and> db_businesses s' = db_businesses s \<and> db_earnings s' = db_earnings s \<and> db_orders s' = db_orders s \<and>
    (events \<noteq> [] \<longrightarrow> snd (last events) = ''transfer.failed'' \<longrightarrow> t_status tx' = T_FAILED)"
  using assms
proof (induction events arbitrary: s tx)
  case Nil
  then show ?case by (auto simp: webhook_run_def)
next
  case (Cons e events)
  obtain now event where e: "e = (now, event)" by force
  obtain st a where st: "handlePaystackWebhook now event r s = (Inr a, write_entry (tx\<lparr>t_status := st\<rparr>) s)"
      "event = ''transfer.failed'' \<longrightarrow> st = T_FAILED"
    using event_silent [OF Cons.prems(1), of event now] Cons.prems(2) e by auto
  let ?t = "write_entry (tx\<lparr>t_status := st\<rparr>) s"
  have stored: "stored_entry r (tx\<lparr>t_status := st\<rparr>) ?t"
    using Cons.prems(1) by (intro stored_entry_write) (auto simp: stored_entry_def)
  obtain s' tx' where rest: "webhook_run r events ?t = (Inr (), s')" "stored_entry r tx' s'" "t_type tx' = t_type tx"
      "t_metadata tx' = t_metadata tx" "t_amount tx' = t_amount tx" "t_wallet tx' = t_wallet tx"
      "db_wallets s' = db_wallets s" "db_businesses s' = db_businesses s" "db_earnings s' = db_earnings s" "db_orders s' = db_orders s"
      "events \<noteq> [] \<longrightarrow> snd (last events) = ''transfer.failed'' \<longrightarrow> t_status tx' = T_FAILED"
    using Cons.IH [OF stored] Cons.prems(2) by auto
  have run: "webhook_run r (e # events) s = (Inr (), s')"
    using rest(1) st(1) e by (simp add: webhook_run_def andThen_app)
  show ?case
  proof (cases "events = []")
    case True
    with stored st(2) e run rest show ?thesis by (auto simp: webhook_run_def)
  next
    case False
    with run rest show ?thesis by auto
  qed
qed

text \<open>C17: A wallet funding is credited exactly once: for any sequence of Paystack events on its transaction, retries
  included, the wallet gains the amount if a success was among them, and no wallet changes otherwise.\<close>

theorem funding_credited_once:
  assumes "wf_wallets s" "stored_entry r tx s" "t_type tx = FUND" "t_wallet tx = Some w"
    "\<not> m_funding_credited (t_metadata tx)" "balance_of s w = Some b"
  shows "\<exists>s'. webhook_run r events s = (Inr (), s') \<and>
    balance_of s' = (balance_of s)(w \<mapsto> (if ''charge.success'' \<in> snd ` set events then b + t_amount tx else b))"
  using assms
proof (induction events arbitrary: s tx)
  case Nil
  then show ?case by (auto simp: webhook_run_def fun_eq_iff)
next
  case (Cons e events)
  obtain now event where e: "e = (now, event)" by force
  show ?case
  proof (cases "event = ''charge.success''")
    case False
    then obtain st a where st: "handlePaystackWebhook now event r s = (Inr a, write_entry (tx\<lparr>t_status := st\<rparr>) s)"
      using event_silent [OF Cons.prems(2), of event now] by auto
    have "stored_entry r (tx\<lparr>t_status := st\<rparr>) (write_entry (tx\<lparr>t_status := st\<rparr>) s)"
      using Cons.prems(2) by (intro stored_entry_write) (auto simp: stored_entry_def)
    with Cons.IH [of "write_entry (tx\<lparr>t_status := st\<rparr>) s" "tx\<lparr>t_status := st\<rparr>"] Cons.prems False st e
    show ?thesis by (simp add: webhook_run_def andThen_app cong: if_cong)
  next
    case True
    let ?tx = "tx\<lparr>t_metadata := (t_metadata tx)\<lparr>m_funding_credited := True\<rparr>, t_status := T_SUCCESS\<rparr>"
    let ?s = "s\<lparr>db_wallets := update_one (\<lambda>x. w_id x = w) (inc_balance now (t_amount tx)) (db_wallets s)\<rparr>"
    from Cons.prems(6) obtain x where x: "find_one (\<lambda>x. w_id x = w) (db_wallets s) = Some x"
      by (auto simp: balance_of_def)
    have charge: "handleChargeSuccess now tx s = (Inr (tx\<lparr>t_metadata := (t_metadata tx)\<lparr>m_funding_credited := True\<rparr>\<rparr>, True), ?s)"
      using Cons.prems(2-5) x by (simp add: handleChargeSuccess_def Let_def stored_entry_def andThen_app attempt_app creditWallet_run)
    then have "dispatch_event now event tx s = (Inr (?tx, True), ?s)"
      using True by (simp add: dispatch_event_def andThen_app)
    then have step: "handlePaystackWebhook now event r s = (Inr (Webhook_done (t_reference tx) True), write_entry ?tx ?s)"
      using Cons.prems(2) by (simp add: handlePaystackWebhook_def stored_entry_def andThen_app save_transaction_run write_entry_def)
    have stored: "stored_entry r ?tx (write_entry ?tx ?s)"
      using Cons.prems(2) by (intro stored_entry_write [where tx = tx]) (auto simp: stored_entry_def)
    obtain s' where "webhook_run r events (write_entry ?tx ?s) = (Inr (), s')" "db_wallets s' = db_wallets (write_entry ?tx ?s)"
      using silent_run [OF stored, of events] by auto
    moreover from this(2) have "balance_of s' = balance_of ?s" by (intro ext) (simp add: balance_of_def)
    moreover have "balance_of ?s = (balance_of s)(w \<mapsto> b + t_amount tx)" using Cons.prems(6) by (simp add: balance_inc)
    ultimately show ?thesis using step e True by (simp add: webhook_run_def andThen_app fun_upd_def)
  qed
qed

text \<open>C39: A withdrawal whose transfer fails at the gateway is not given back: the entry is stored under the channel of a
  checkout, so the handler does not recognise the payout. Whatever events follow, the wallet stays
  debited, while the entry ends as failed after a failed transfer, and a successful payout is not
  booked on the business.\<close>

theorem failed_transfer_not_returned:
  assumes "wf_wallets s" "wf_ledger s" "0 \<le> amount" "find_one (\<lambda>w. w_business w = Some bid) (db_wallets s) = Some w"
    "requestWithdrawal api now bid amount s = (Inr (r, amount), s1)" "events \<noteq> []"
  shows "\<exists>s2 tx. webhook_run r events s1 = (Inr (), s2) \<and> balance_of s2 (w_id w) = Some (w_balance w - amount) \<and>
    find_one (\<lambda>t. t_reference t = r) (db_transactions s2) = Some tx \<and> db_businesses s2 = db_businesses s \<and>
    (snd (last events) = ''transfer.failed'' \<longrightarrow> t_status tx = T_FAILED)"
  using assms(1-3)
proof (cases rule: requestWithdrawal_cases [where api = api and now = now and bid = bid])
  case (refused e)
  with assms(5) show ?thesis by simp
next
  case (started w' b)
  let ?t = "new_transaction (withdrawal_entry b w amount) (db_next s) (Suc (db_next s))"
  have [simp]: "w' = w" using started(1) assms(4) by simp
  have run: "r = db_next s" "s1 = withdrawal_started now b w amount s"
    using started(4) assms(5) by (auto simp: Let_def undo_withdrawal_def andThen_app throw_def split: sum.splits prod.splits)
  have "stored_entry r ?t s1"
    using assms(2) unfolding run stored_entry_def
    by (fastforce simp: withdrawal_started_def find_one_append wf_ledger_def new_transaction_def withdrawal_entry_def
        find_one_None_iff split: option.splits dest: find_one_SomeD)
  from silent_run [OF this, of events] obtain s2 tx where s2: "webhook_run r events s1 = (Inr (), s2)" "stored_entry r tx s2"
      "db_wallets s2 = db_wallets s1" "db_businesses s2 = db_businesses s1"
      "snd (last events) = ''transfer.failed'' \<longrightarrow> t_status tx = T_FAILED"
    using assms(6) by (auto simp: new_transaction_def withdrawal_entry_def)
  have "balance_of s2 (w_id w) = balance_of s1 (w_id w)" using s2(3) by (simp add: balance_of_def)
  also have "\<dots> = Some (w_balance w - amount)"
    using balance_withdrawal_started [of s w "w_balance w"] balance_of_found [OF assms(1,4)] run(2) by simp
  finally show ?thesis using s2 run(2) by (auto simp: stored_entry_def withdrawal_started_def)
qed

section \<open>Finalising a paid order\<close>

interpretation claimed_view: order_view "\<lambda>od. (o_id od, o_earnings_recorded od)" "\<lambda>s. \<not> unclaimed s i" for i
proof
  fix s :: db and f :: "order \<Rightarrow> order" and Q
  assume "\<And>od. (o_id (f od), o_earnings_recorded (f od)) = (o_id od, o_earnings_recorded od)" "\<not> unclaimed s i"
  then show "\<not> unclaimed (s\<lparr>db_orders := update_one Q f (db_orders s)\<rparr>) i"
    unfolding unclaimed_def by (simp add: exists_doc_update_same)
qed (simp_all add: unclaimed_def aside_def)

lemma preserves_after: "\<lbrakk>m s = (Inr x, t); P t; preserves P (f x)\<rbrakk> \<Longrightarrow> P (snd (andThen m f s))"
  by (simp add: preservesD)

lemma recorded_now:
  assumes "distinct (map o_id (db_orders s))"
  shows "\<not> unclaimed (snd (recordBusinessEarnings i s)) i"
  unfolding recordBusinessEarnings_def
proof (rule preserves_after [where P = "\<lambda>s. \<not> unclaimed s i", OF _ unclaimed_after [OF assms]])
  show "(let (won, s') = claim_order_earnings i s in (Inr won, s')) =
      (Inr (fst (claim_order_earnings i s)), snd (claim_order_earnings i s))" by (simp add: Let_def split: prod.splits)
qed (intro preserve_intros claimed_view.record_items claimed_view.stable; simp)

definition settle_key :: "oid \<Rightarrow> db \<Rightarrow> (order_type \<times> order_status \<times> payment_status \<times> refund_status) option" where
  "settle_key i s = map_option (\<lambda>od. (o_type od, o_status od, o_payment_status od, o_refund_status od)) (find_one (\<lambda>od. o_id od = i) (db_orders s))"

interpretation settle_view: order_view "\<lambda>od. (o_id od, o_type od, o_status od, o_payment_status od, o_refund_status od)"
  "\<lambda>s. settle_key i s = k" for i k
proof
  fix s :: db and f :: "order \<Rightarrow> order" and Q
  assume "\<And>od. (o_id (f od), o_type (f od), o_status (f od), o_payment_status (f od), o_refund_status (f od)) =
      (o_id od, o_type od, o_status od, o_payment_status od, o_refund_status od)"
    "settle_key i s = k"
  then show "settle_key i (s\<lparr>db_orders := update_one Q f (db_orders s)\<rparr>) = k"
    unfolding settle_key_def by (simp add: find_one_map_update)
qed (simp_all add: settle_key_def aside_def)

lemma settle_key_record: "preserves (\<lambda>s. settle_key i s = k) (recordBusinessEarnings j)"
  unfolding recordBusinessEarnings_def claim_order_earnings_def Let_def
  by (intro preserve_intros settle_view.record_items settle_view.stable)
    (auto simp: preserves_def intro!: settle_view.stable)

lemma settle_key_both: "preserves (\<lambda>s. settle_key i s = k) (record_and_deduct j)"
  unfolding preserves_def
proof (intro allI impI)
  fix s assume s: "settle_key i s = k"
  obtain x t where x: "recordBusinessEarnings j s = (x, t)" by force
  have "settle_key i t = k" by (rule preserves_run [OF settle_key_record x s])
  then have "settle_key i (snd (updateInventory j t)) = k" by (rule preservesD [OF settle_view.deduct])
  with x show "settle_key i (snd (record_and_deduct j s)) = k" by (cases x) (simp_all add: record_and_deduct_def)
qed

lemma orders_kept:
  assumes "db_orders t = db_orders s"
  shows "settle_key i t = settle_key i s" "unclaimed t i = unclaimed s i" "deducted t i = deducted s i"
  using assms by (simp_all add: settle_key_def unclaimed_def deducted_def)

lemma production_keeps_orders:
  "preserves (\<lambda>s. db_orders s = ods) (scheduleBespokeUpfront now ord)"
  "preserves (\<lambda>s. db_orders s = ods) (start_production d)"
  "preserves (\<lambda>s. db_orders s = ods) (finalizeBespokeAcceptance now ord)"
  unfolding scheduleBespokeUpfront_def start_production_def finalizeBespokeAcceptance_def accept_bespoke_quote_def
  by (intro preserve_intros; simp)+

text \<open>A settled order: paid, recorded and deducted, so that finalising it again changes nothing.\<close>

definition settled_order :: "oid \<Rightarrow> db \<Rightarrow> bool" where
  "settled_order i s \<longleftrightarrow> (case settle_key i s of None \<Rightarrow> True
     | Some (ty, st, pay, _) \<Rightarrow> st = (if ty = Bespoke then O_PROCESSING else O_IN_REVIEW) \<and> pay = Paid \<and>
         \<not> unclaimed s i \<and> deducted s i)"

lemma update_one_same: "find_one P ds = Some d \<Longrightarrow> f d = d \<Longrightarrow> update_one P f ds = ds"
  by (induction ds) (auto split: if_splits)

lemma update_one_first: "\<lbrakk>find_one P ds = Some d; f d = g d\<rbrakk> \<Longrightarrow> update_one P f ds = update_one P g ds"
  by (induction ds) (auto split: if_splits)

lemma settled_again:
  assumes "settled_order i s" "t_order tx = Some i"
  shows "finalizeCheckoutOrder now tx s = (Inr (), s)"
proof (cases "find_one (\<lambda>od. o_id od = i) (db_orders s)")
  case None
  with assms show ?thesis by (simp add: finalizeCheckoutOrder_def andThen_app)
next
  case (Some ord)
  let ?f = "\<lambda>od. od\<lparr>o_status := (if o_type ord = Bespoke then O_PROCESSING else O_IN_REVIEW), o_payment_status := Paid\<rparr>"
  have ord: "?f ord = ord" "o_payment_status ord = Paid" "\<not> unclaimed s i" "deducted s i"
    using assms(1) Some by (auto simp: settled_order_def settle_key_def intro!: order.equality)
  have "set_order i ?f s = (Inr (), s)"
    using update_one_same [OF Some, of ?f] ord(1) by (simp add: set_order_def)
  moreover have "record_and_deduct i s = (Inr (), s)"
    using ord(3,4) by (simp add: record_and_deduct_def recording_skipped deducted_skip)
  ultimately show ?thesis using assms(2) Some ord(2) by (simp add: finalizeCheckoutOrder_def andThen_app)
qed

lemma andThen_unit: "andThen m f s = (Inr y, t) \<longleftrightarrow> (\<exists>u. m s = (Inr (), u) \<and> f () u = (Inr y, t))"
  by (auto simp: andThen_app split: prod.splits sum.splits)

lemma finalize_settles:
  assumes "distinct (map o_id (db_orders s))" "finalizeCheckoutOrder now tx s = (Inr (), s')"
    "t_channel tx = Checkout" "t_order tx = Some i"
  shows "settled_order i s'"
proof (cases "find_one (\<lambda>od. o_id od = i) (db_orders s)")
  case None
  with assms(2-4) have "s' = s" by (simp add: finalizeCheckoutOrder_def andThen_app)
  with None show ?thesis by (simp add: settled_order_def settle_key_def)
next
  case (Some ord)
  let ?f = "\<lambda>od. od\<lparr>o_status := (if o_type ord = Bespoke then O_PROCESSING else O_IN_REVIEW), o_payment_status := Paid\<rparr>"
  let ?accept = "if o_payment_status ord \<noteq> Paid \<and> o_type ord = Bespoke \<and> o_bespoke_quote ord \<noteq> None
      then ignore_errors (finalizeBespokeAcceptance now ord) else ret ()"
  let ?finish = "if o_payment_status ord \<noteq> Paid \<and> o_type ord = Bespoke
      then andThen (ignore_errors (scheduleBespokeUpfront now ord)) (\<lambda>_. ignore_errors (start_production (o_bespoke_design ord)))
      else ret ()"
  have "andThen ?accept (\<lambda>_. andThen (set_order i ?f) (\<lambda>_. andThen (record_and_deduct i) (\<lambda>_. ?finish))) s = (Inr (), s')"
    using assms(2-4) Some by (simp add: finalizeCheckoutOrder_def Let_def)
  then obtain s1 s2 s4 where runs: "?accept s = (Inr (), s1)" "set_order i ?f s1 = (Inr (), s2)"
      "record_and_deduct i s2 = (Inr (), s4)" "?finish s4 = (Inr (), s')"
    unfolding andThen_unit by blast
  have keep: "preserves (\<lambda>t. db_orders t = ods) ?accept" "preserves (\<lambda>t. db_orders t = ods) ?finish" for ods
    by (intro preserve_intros preserves_ignore production_keeps_orders)+
  have same: "db_orders s1 = db_orders s" "db_orders s' = db_orders s4"
    using preservesD [OF keep(1) refl, of s] preservesD [OF keep(2) refl, of s4]
    by (simp_all only: runs(1) runs(4) snd_conv)
  have s2: "db_orders s2 = update_one (\<lambda>od. o_id od = i) ?f (db_orders s)"
    using runs(2) same(1) by (auto simp: set_order_def)
  have key: "settle_key i s2 = Some (o_type ord, if o_type ord = Bespoke then O_PROCESSING else O_IN_REVIEW, Paid, o_refund_status ord)"
    using find_one_update_one_same [OF Some, of ?f] find_one_keyD [OF Some] unfolding settle_key_def s2 by simp
  obtain s3 where s3: "recordBusinessEarnings i s2 = (Inr (), s3)" "updateInventory i s3 = (Inr (), s4)"
    using runs(3) by (auto simp: record_and_deduct_def split: prod.splits sum.splits)
  have "\<not> unclaimed s3 i"
    using recorded_now [of s2 i] s3(1) assms(1) unfolding s2 by (simp add: map_update_one)
  then have "\<not> unclaimed s4 i" by (rule preserves_run [OF claimed_view.deduct s3(2)])
  moreover have "settle_key i s4 = settle_key i s2"
    using preserves_run [OF settle_key_record s3(1) refl] preserves_run [OF settle_view.deduct s3(2) refl] by simp
  ultimately show ?thesis
    using key deducted_after [OF s3(2)] orders_kept [OF same(2)] by (simp add: settled_order_def)
qed

text \<open>The marks of a finished finalisation.\<close>

definition finalised :: "order \<Rightarrow> bool" where
  "finalised od \<longleftrightarrow> o_payment_status od = Paid \<and> o_earnings_recorded od \<and> (o_items od = [] \<or> o_inventory_deducted od)"

definition reviewed_status :: "order \<Rightarrow> order_status" where
  "reviewed_status od = (if o_type od = Bespoke then O_PROCESSING else O_IN_REVIEW)"

lemma finalise_marked:
  assumes "distinct (map o_id (db_orders t))" "find_one (\<lambda>od. o_id od = i) (db_orders t) = Some ord" "finalised ord"
    "t_channel tx = Checkout" "t_order tx = Some i"
  shows "finalizeCheckoutOrder now tx t = (Inr (), t\<lparr>db_orders := update_one (\<lambda>od. o_id od = i)
     (\<lambda>od. od\<lparr>o_status := reviewed_status ord\<rparr>) (db_orders t)\<rparr>)"
proof -
  let ?f = "\<lambda>od. od\<lparr>o_status := reviewed_status ord, o_payment_status := Paid\<rparr>"
  let ?g = "\<lambda>od. od\<lparr>o_status := reviewed_status ord\<rparr>"
  let ?t = "t\<lparr>db_orders := update_one (\<lambda>od. o_id od = i) ?g (db_orders t)\<rparr>"
  have eq: "?f ord = ?g ord" using assms(3) by (simp add: finalised_def)
  have same: "update_one (\<lambda>od. o_id od = i) ?f (db_orders t) = update_one (\<lambda>od. o_id od = i) ?g (db_orders t)"
    using update_one_first [OF assms(2), of ?f ?g] eq by simp
  have only: "od = ord" if "od \<in> set (db_orders t)" "o_id od = i" for od
    using find_one_key_eq [OF assms(1) that(1)] assms(2) that(2) by simp
  have found: "find_one (\<lambda>od. o_id od = i) (db_orders ?t) = Some (?g ord)"
    using find_one_update_one_same [OF assms(2), of ?g] find_one_keyD [OF assms(2)] by simp
  have "distinct (map o_id (db_orders ?t))" using assms(1) by (simp add: map_update_one)
  then have "o_earnings_recorded od" if "od \<in> set (db_orders ?t)" "o_id od = i" for od
    using find_one_key_eq [of o_id "db_orders ?t" od] found that assms(3) by (auto simp: finalised_def)
  then have "\<not> unclaimed ?t i" by (auto simp: unclaimed_def exists_doc_iff)
  moreover have "deducted ?t i" using found assms(3) by (simp add: deducted_def finalised_def)
  ultimately have "record_and_deduct i ?t = (Inr (), ?t)" by (simp add: record_and_deduct_def recording_skipped deducted_skip)
  then show ?thesis
    using assms(2-5) same by (simp add: finalizeCheckoutOrder_def andThen_app Let_def set_order_def finalised_def reviewed_status_def)
qed


section \<open>Late events\<close>

text \<open>C40: A webhook that Paystack retries after the order was cancelled and refunded brings the order back: the handler
  looks at neither the status nor the refund, so the order is in review and paid again, with the
  refund still on it.\<close>

theorem late_charge_revives_cancelled_order:
  assumes "find_one (\<lambda>t. t_reference t = r) (db_transactions s) = Some tx" "t_channel tx = Checkout" "t_order tx = Some i"
    "t_type tx \<noteq> FUND" "find_one (\<lambda>od. o_id od = i) (db_orders s) = Some ord" "o_type ord = Standard"
    "o_status ord = O_CANCELLED" "o_refund_status ord = Refund_refunded"
  shows "\<exists>s' ord'. handlePaystackWebhook now ''charge.success'' r s = (Inr (Webhook_done (t_reference tx) False), s') \<and>
    find_one (\<lambda>od. o_id od = i) (db_orders s') = Some ord' \<and> o_status ord' = O_IN_REVIEW \<and>
    o_payment_status ord' = Paid \<and> o_refund_status ord' = Refund_refunded"
proof -
  let ?f = "\<lambda>od. od\<lparr>o_status := O_IN_REVIEW, o_payment_status := Paid\<rparr>"
  let ?s = "s\<lparr>db_orders := update_one (\<lambda>od. o_id od = i) ?f (db_orders s)\<rparr>"
  let ?t = "snd (record_and_deduct i ?s)"
  have "settle_key i ?s = Some (Standard, O_IN_REVIEW, Paid, Refund_refunded)"
    using find_one_update_one_same [OF assms(5), of ?f] find_one_keyD [OF assms(5)] assms(6,8) by (simp add: settle_key_def)
  then have key: "settle_key i ?t = Some (Standard, O_IN_REVIEW, Paid, Refund_refunded)" by (rule preservesD [OF settle_key_both])
  have "snd (finalizeCheckoutOrder now tx s) = ?t"
    using assms(2,3,5,6) by (simp add: finalizeCheckoutOrder_def andThen_app Let_def set_order_def split: sum.splits prod.splits)
  then have "handlePaystackWebhook now ''charge.success'' r s = (Inr (Webhook_done (t_reference tx) False),
      snd (save_transaction (tx\<lparr>t_status := T_SUCCESS\<rparr>) ?t))"
    using assms(1-4) ignore_errors_run [of "finalizeCheckoutOrder now tx" s]
    by (auto simp: handlePaystackWebhook_def dispatch_event_def handleChargeSuccess_def Let_def andThen_app
        save_transaction_run split: option.splits)
  with key show ?thesis by (auto simp: save_transaction_run settle_key_def)
qed

section \<open>Courier events\<close>

definition courier_event :: "string \<Rightarrow> string \<Rightarrow> shipbubble_payload" where
  "courier_event k status = \<lparr>sb_identifiers = [Some k], sb_statuses = [Some status]\<rparr>"

definition tracks :: "string \<Rightarrow> order \<Rightarrow> bool" where
  "tracks k od \<longleftrightarrow> list_ex (known_shipment [k]) (o_shipments od)"

text \<open>The identifier names one shipment of the order \<open>i\<close> and no shipment of another order.\<close>

definition names_shipment :: "string \<Rightarrow> oid \<Rightarrow> db \<Rightarrow> bool" where
  "names_shipment k i s \<longleftrightarrow> k \<noteq> [] \<and> js_trim k = k \<and> (\<forall>od\<in>set (db_orders s). o_id od \<noteq> i \<longrightarrow> \<not> tracks k od) \<and>
     (\<forall>od\<in>set (db_orders s). o_id od = i \<longrightarrow> length (filter (known_shipment [k]) (o_shipments od)) = 1)"

lemma known_move [simp]: "known_shipment ks (move_shipment now st sh) = known_shipment ks sh"
  by (simp add: known_shipment_def move_shipment_def)

lemma find_one_only: "\<lbrakk>d \<in> set ds; P d; \<And>x. x \<in> set ds \<Longrightarrow> P x \<Longrightarrow> x = d\<rbrakk> \<Longrightarrow> find_one P ds = Some d"
  using find_one_SomeD [of P ds] find_one_None_iff [of P ds] by (cases "find_one P ds") blast+

lemma named_order:
  assumes "unique_orders s" "find_one (\<lambda>od. o_id od = i) (db_orders s) = Some ord" "names_shipment k i s"
  shows "find_one (\<lambda>od. list_ex (known_shipment [k]) (o_shipments od)) (db_orders s) = Some ord"
proof (rule find_one_only)
  have ord: "ord \<in> set (db_orders s)" "o_id ord = i" using find_one_SomeD [OF assms(2)] by auto
  then show "ord \<in> set (db_orders s)" by blast
  have "length (filter (known_shipment [k]) (o_shipments ord)) = 1" using assms(3) ord by (simp add: names_shipment_def)
  then have "filter (known_shipment [k]) (o_shipments ord) \<noteq> []" by auto
  then show "list_ex (known_shipment [k]) (o_shipments ord)" by (auto simp: list_ex_iff filter_empty_conv)
  show "od = ord" if "od \<in> set (db_orders s)" "list_ex (known_shipment [k]) (o_shipments od)" for od
  proof -
    have "o_id od = o_id ord" using that assms(3) ord(2) unfolding names_shipment_def tracks_def by blast
    with that(1) ord(1) assms(1) show ?thesis by (auto simp: unique_orders_def distinct_map dest: inj_onD)
  qed
qed

lemma courier_run:
  assumes "unique_orders s" "find_one (\<lambda>od. o_id od = i) (db_orders s) = Some ord" "names_shipment k i s"
    "courier_status status = Some st" "status \<noteq> []"
    "ships = update_one (known_shipment [k]) (move_shipment now st) (o_shipments ord)"
  shows "handleShipbubbleWebhook now (courier_event k status) s =
    andThen (move_order_shipment now st [k] ord) (\<lambda>x. ret (Courier_done st x)) s"
proof -
  have "shipment_candidates (courier_event k status) = [k]" "payload_status (courier_event k status) = Some st"
    using assms(3-5) by (simp_all add: shipment_candidates_def courier_event_def payload_status_def names_shipment_def truthy_string_def)
  then show ?thesis using named_order [OF assms(1-3)] by (simp add: handleShipbubbleWebhook_def andThen_app Let_def)
qed

text \<open>The order after the event.\<close>

lemma move_order_cases:
  assumes "unique_orders s" "find_one (\<lambda>od. o_id od = i) (db_orders s) = Some ord"
    "ships = update_one (known_shipment ks) (move_shipment now st) (o_shipments ord)"
  obtains f s' status where "move_order_shipment now st ks ord s = (Inr status, s')"
    "db_orders s' = update_one (\<lambda>od. o_id od = i) f (db_orders s)" "find_one (\<lambda>od. o_id od = i) (db_orders s') = Some (f ord)"
    "\<And>od. o_id (f od) = o_id od" "o_shipments (f ord) = ships" "o_status (f ord) = status"
    "list_all (\<lambda>sh. sh_status sh = S_DELIVERED) ships \<Longrightarrow> status = O_COMPLETED \<and> o_payout_status (f ord) = Payout_eligible \<and>
       (\<forall>e\<in>set (db_earnings s'). e_order e = i \<and> \<not> e_released e \<longrightarrow> e_release_date e \<noteq> None)"
    "\<not> list_all (\<lambda>sh. sh_status sh = S_DELIVERED) ships \<Longrightarrow>
       (if list_ex (\<lambda>sh. sh_status sh \<in> {S_IN_TRANSIT, S_SHIPPED}) ships then status = O_IN_TRANSIT else status = o_status ord)"
proof (cases "list_all (\<lambda>sh. sh_status sh = S_DELIVERED) ships")
  case True
  let ?f = "\<lambda>od. od\<lparr>o_shipments := ships, o_status := O_COMPLETED, o_payout_eligible_at := Some (payout_date now s), o_payout_status := Payout_eligible\<rparr>"
  let ?s = "snd (schedule_order (payout_date now s) i s)"
  have ord: "o_id ord = i" by (rule find_one_keyD [OF assms(2)])
  have same: "db_orders ?s = db_orders s" by (simp add: schedule_order_def)
  have dated: "\<forall>e\<in>set (update_many P (\<lambda>e. e\<lparr>e_release_date := Some d\<rparr>) es). Q e \<longrightarrow> e_release_date e \<noteq> None"
    if "\<And>e. Q e \<Longrightarrow> e_release_date e = None \<Longrightarrow> P e" "\<And>e. Q (e\<lparr>e_release_date := Some d\<rparr>) = Q e" for P Q d es
    using that by (induction es) (auto simp: update_many_def)
  have "\<forall>e\<in>set (db_earnings ?s). e_order e = i \<and> \<not> e_released e \<longrightarrow> e_release_date e \<noteq> None"
    by (simp add: schedule_order_def del: not_None_eq) (rule dated, simp_all)
  moreover have "move_order_shipment now st ks ord s = (Inr O_COMPLETED, ?s\<lparr>db_orders := update_one (\<lambda>od. o_id od = i) ?f (db_orders s)\<rparr>)"
    unfolding move_order_shipment_def Let_def assms(3) [symmetric]
    by (simp add: True ord andThen_app set_order_def schedule_order_def)
  moreover have "find_one (\<lambda>od. o_id od = i) (update_one (\<lambda>od. o_id od = i) ?f (db_orders s)) = Some (?f ord)"
    by (rule find_one_update_one_same [OF assms(2)]) (simp add: ord)
  ultimately show thesis using True
    by (intro that [where f = ?f and status = O_COMPLETED and s' = "?s\<lparr>db_orders := update_one (\<lambda>od. o_id od = i) ?f (db_orders s)\<rparr>"])
      (assumption | simp)+
next
  case False
  define status where "status = (if list_ex (\<lambda>sh. sh_status sh \<in> {S_IN_TRANSIT, S_SHIPPED}) ships then O_IN_TRANSIT else o_status ord)"
  let ?f = "\<lambda>od. od\<lparr>o_shipments := ships, o_status := status\<rparr>"
  have ord: "o_id ord = i" by (rule find_one_keyD [OF assms(2)])
  have "move_order_shipment now st ks ord s = (Inr status, s\<lparr>db_orders := update_one (\<lambda>od. o_id od = i) ?f (db_orders s)\<rparr>)"
    unfolding move_order_shipment_def Let_def assms(3) [symmetric] status_def
    by (simp add: False ord andThen_app set_order_def)
  moreover have "find_one (\<lambda>od. o_id od = i) (update_one (\<lambda>od. o_id od = i) ?f (db_orders s)) = Some (?f ord)"
    by (rule find_one_update_one_same [OF assms(2)]) (simp add: ord)
  moreover have "if list_ex (\<lambda>sh. sh_status sh \<in> {S_IN_TRANSIT, S_SHIPPED}) ships then status = O_IN_TRANSIT else status = o_status ord"
    by (simp add: status_def)
  ultimately show thesis using False
    by (intro that [where f = ?f and status = status and s' = "s\<lparr>db_orders := update_one (\<lambda>od. o_id od = i) ?f (db_orders s)\<rparr>"])
      (assumption | simp)+
qed

lemma delivered_one:
  assumes "length (filter P shs) = 1"
  shows "\<forall>sh\<in>set (update_one P (move_shipment now S_DELIVERED) shs). P sh \<longrightarrow> sh_status sh = S_DELIVERED"
    and "set (update_one P (move_shipment now S_DELIVERED) shs) \<subseteq> set shs \<union> {sh. sh_status sh = S_DELIVERED}"
proof -
  show "\<forall>sh\<in>set (update_one P (move_shipment now S_DELIVERED) shs). P sh \<longrightarrow> sh_status sh = S_DELIVERED"
    using assms by (induction shs) (auto simp: move_shipment_def filter_empty_conv)
  show "set (update_one P (move_shipment now S_DELIVERED) shs) \<subseteq> set shs \<union> {sh. sh_status sh = S_DELIVERED}"
    using set_update_one [of P "move_shipment now S_DELIVERED" shs] by (auto simp: move_shipment_def)
qed

lemma names_shipment_after:
  assumes "names_shipment k i s" "unique_orders s" "find_one (\<lambda>od. o_id od = i) (db_orders s) = Some ord"
    "db_orders s' = update_one (\<lambda>od. o_id od = i) f (db_orders s)" "\<And>od. o_id (f od) = o_id od"
    "o_shipments (f ord) = update_one (known_shipment ks) (move_shipment now st) (o_shipments ord)"
  shows "names_shipment k i s'"
proof -
  have d: "distinct (map o_id (db_orders s))" using assms(2) by (simp add: unique_orders_def)
  have ord: "od = ord" if "od \<in> set (db_orders s)" "o_id od = i" for od
    using find_one_key_eq [OF d that(1)] assms(3) that(2) by simp
  have one: "length (filter (known_shipment [k]) (o_shipments (f ord))) = length (filter (known_shipment [k]) (o_shipments ord))"
    unfolding assms(6) by (rule one_match_update) simp
  have "\<exists>d\<in>set (db_orders s). od = d \<and> o_id d \<noteq> i \<or> od = f d \<and> o_id d = i" if "od \<in> set (db_orders s')" for od
    using that unfolding assms(4) update_one_key_map [OF d] by (auto split: if_splits)
  then show ?thesis
    using assms(1,5) ord one unfolding names_shipment_def by metis
qed

text \<open>C19: Deliveries complete an order: when the courier reports every shipment that is not delivered yet, in whatever order,
  the order is completed, eligible for payout, and every earning of it that is not released has a
  release date.\<close>

theorem deliveries_complete_order:
  assumes "unique_orders s" "find_one (\<lambda>od. o_id od = i) (db_orders s) = Some ord" "\<forall>k\<in>set ks. names_shipment k i s" "ks \<noteq> []"
    "\<forall>sh\<in>set (o_shipments ord). sh_status sh = S_DELIVERED \<or> (\<exists>k\<in>set ks. known_shipment [k] sh)"
  shows "\<exists>s' ord'. for_each ks (\<lambda>k. andThen (handleShipbubbleWebhook (now k) (courier_event k ''delivered'')) (\<lambda>_. ret ())) s = (Inr (), s') \<and>
    find_one (\<lambda>od. o_id od = i) (db_orders s') = Some ord' \<and> o_status ord' = O_COMPLETED \<and> o_payout_status ord' = Payout_eligible \<and>
    (\<forall>e\<in>set (db_earnings s'). e_order e = i \<and> \<not> e_released e \<longrightarrow> e_release_date e \<noteq> None)"
  using assms
proof (induction ks arbitrary: s ord)
  case (Cons k ks)
  let ?ships = "update_one (known_shipment [k]) (move_shipment (now k) S_DELIVERED) (o_shipments ord)"
  have k: "names_shipment k i s" using Cons.prems(3) by simp
  have st: "courier_status ''delivered'' = Some S_DELIVERED" by (simp add: courier_status_def lower_char_def)
  obtain f s1 status where move: "move_order_shipment (now k) S_DELIVERED [k] ord s = (Inr status, s1)"
    "db_orders s1 = update_one (\<lambda>od. o_id od = i) f (db_orders s)" "find_one (\<lambda>od. o_id od = i) (db_orders s1) = Some (f ord)"
    "\<And>od. o_id (f od) = o_id od" "o_shipments (f ord) = ?ships" "o_status (f ord) = status"
    "list_all (\<lambda>sh. sh_status sh = S_DELIVERED) ?ships \<Longrightarrow> status = O_COMPLETED \<and> o_payout_status (f ord) = Payout_eligible \<and>
       (\<forall>e\<in>set (db_earnings s1). e_order e = i \<and> \<not> e_released e \<longrightarrow> e_release_date e \<noteq> None)"
    by (rule move_order_cases [OF Cons.prems(1,2) refl, where st = S_DELIVERED and ks = "[k]" and now = "now k"]) blast
  have event: "handleShipbubbleWebhook (now k) (courier_event k ''delivered'') s = (Inr (Courier_done S_DELIVERED status), s1)"
    using courier_run [OF Cons.prems(1,2) k st _ refl] move(1) by (simp add: andThen_app)
  have ord: "ord \<in> set (db_orders s)" "o_id ord = i" using find_one_SomeD [OF Cons.prems(2)] by auto
  have "length (filter (known_shipment [k]) (o_shipments ord)) = 1" using k ord by (simp add: names_shipment_def)
  note here = delivered_one [OF this, of "now k"]
  have left: "\<forall>sh\<in>set ?ships. sh_status sh = S_DELIVERED \<or> (\<exists>k\<in>set ks. known_shipment [k] sh)"
    using here Cons.prems(5) by auto
  show ?case
  proof (cases "ks = []")
    case True
    with left have "list_all (\<lambda>sh. sh_status sh = S_DELIVERED) ?ships" by (simp add: list_all_iff)
    from move(7) [OF this] move(3,6) event True show ?thesis by (simp add: andThen_app)
  next
    case False
    have "unique_orders s1" using Cons.prems(1) move(2,4) by (simp add: unique_orders_def map_update_one)
    moreover have "\<forall>k\<in>set ks. names_shipment k i s1"
      using names_shipment_after [OF _ Cons.prems(1,2) move(2,4,5)] Cons.prems(3) by simp
    ultimately show ?thesis
      using Cons.IH [of s1 "f ord"] move(3,5) left False event by (simp add: andThen_app)
  qed
qed simp

text \<open>A courier event that arrives late takes a completed order back: the handler writes whatever status it is told, so an
  order whose shipments were all delivered is in transit again.\<close>

theorem late_courier_event_reopens_order:
  assumes "unique_orders s" "find_one (\<lambda>od. o_id od = i) (db_orders s) = Some ord" "names_shipment k i s"
    "o_status ord = O_COMPLETED" "status \<in> {''picked_up'', ''in_transit'', ''out_for_delivery''}"
  shows "\<exists>s' ord'. handleShipbubbleWebhook now (courier_event k status) s = (Inr (Courier_done S_IN_TRANSIT O_IN_TRANSIT), s') \<and>
    find_one (\<lambda>od. o_id od = i) (db_orders s') = Some ord' \<and> o_status ord' = O_IN_TRANSIT"
proof -
  let ?ships = "update_one (known_shipment [k]) (move_shipment now S_IN_TRANSIT) (o_shipments ord)"
  have st: "courier_status status = Some S_IN_TRANSIT" "status \<noteq> []" using assms(5) by (auto simp: courier_status_def lower_char_def)
  have ord: "ord \<in> set (db_orders s)" "o_id ord = i" using find_one_SomeD [OF assms(2)] by auto
  have "length (filter (known_shipment [k]) (o_shipments ord)) = 1" using assms(3) ord by (simp add: names_shipment_def)
  then have moved: "\<exists>sh\<in>set ?ships. sh_status sh = S_IN_TRANSIT"
  proof (induction "o_shipments ord" arbitrary: ord)
    case (Cons sh shs)
    show ?case
    proof (cases "known_shipment [k] sh")
      case True
      then show ?thesis by (simp add: Cons.hyps(2) [symmetric] move_shipment_def)
    next
      case False
      with Cons.hyps(1) [of "ord\<lparr>o_shipments := shs\<rparr>"] Cons.prems show ?thesis by (simp add: Cons.hyps(2) [symmetric])
    qed
  qed simp
  obtain f s' status' where move: "move_order_shipment now S_IN_TRANSIT [k] ord s = (Inr status', s')"
    "find_one (\<lambda>od. o_id od = i) (db_orders s') = Some (f ord)" "o_status (f ord) = status'"
    "\<not> list_all (\<lambda>sh. sh_status sh = S_DELIVERED) ?ships \<Longrightarrow>
       (if list_ex (\<lambda>sh. sh_status sh \<in> {S_IN_TRANSIT, S_SHIPPED}) ?ships then status' = O_IN_TRANSIT else status' = o_status ord)"
    by (rule move_order_cases [OF assms(1,2) refl, where st = S_IN_TRANSIT and ks = "[k]" and now = now]) blast
  have "\<not> list_all (\<lambda>sh. sh_status sh = S_DELIVERED) ?ships" "list_ex (\<lambda>sh. sh_status sh \<in> {S_IN_TRANSIT, S_SHIPPED}) ?ships"
    using moved by (auto simp: list_all_iff list_ex_iff intro!: bexI)
  with move(4) have "status' = O_IN_TRANSIT" by simp
  with move(1-3) courier_run [OF assms(1-3) st refl] show ?thesis by (simp add: andThen_app)
qed

section \<open>Witnesses\<close>

definition sample_funding :: transaction where
  "sample_funding = sample_txn\<lparr>t_reference := 40, t_type := FUND, t_wallet := Some 1, t_order := None\<rparr>"

lemma sample_funding_entry: "stored_entry 40 sample_funding (sample_shop\<lparr>db_transactions := [sample_funding]\<rparr>)"
  by (simp add: stored_entry_def sample_funding_def sample_txn_def)

theorem funding_credited_once_witness:
  "\<exists>s'. webhook_run 40 [(1, ''charge.failed''), (2, ''charge.success''), (3, ''charge.success''), (4, ''transfer.failed'')]
     (sample_shop\<lparr>db_transactions := [sample_funding]\<rparr>) = (Inr (), s') \<and> balance_of s' 1 = Some 5100"
proof -
  let ?events = "[(1, ''charge.failed''), (2, ''charge.success''), (3, ''charge.success''), (4, ''transfer.failed'')]"
  have wf: "wf_wallets (sample_shop\<lparr>db_transactions := [sample_funding]\<rparr>)" using sample_shop_wf(1) by (simp add: wf_wallets_def)
  have tx: "t_type sample_funding = FUND" "t_wallet sample_funding = Some 1" "\<not> m_funding_credited (t_metadata sample_funding)"
    "t_amount sample_funding = 100" by (simp_all add: sample_funding_def sample_txn_def empty_metadata_def)
  from funding_credited_once [OF wf sample_funding_entry tx(1-3), of 5000 ?events] show ?thesis
    by (auto simp: sample_shop_balance tx(4))
qed


theorem late_charge_revives_cancelled_order_witness:
  "\<exists>s1 s2 ord. cancelOrder 7 30 sample_paid_order = (Inr (), s1) \<and>
     handlePaystackWebhook 8 ''charge.success'' 40 s1 = (Inr (Webhook_done 40 False), s2) \<and>
     find_one (\<lambda>od. o_id od = 3) (db_orders s2) = Some ord \<and> o_status ord = O_IN_REVIEW \<and> o_refund_status ord = Refund_refunded"
proof -
  let ?s = "snd (cancelOrder 7 30 sample_paid_order)"
  let ?tx = "the (find_one (\<lambda>t. t_reference t = 40) (db_transactions ?s))"
  let ?ord = "the (find_one (\<lambda>od. o_id od = 3) (db_orders ?s))"
  have "fst (cancelOrder 7 30 sample_paid_order) = Inr ()" by code_simp
  then have run: "cancelOrder 7 30 sample_paid_order = (Inr (), ?s)" by (simp add: prod_eq_iff)
  have found: "find_one (\<lambda>t. t_reference t = 40) (db_transactions ?s) = Some ?tx" "find_one (\<lambda>od. o_id od = 3) (db_orders ?s) = Some ?ord"
    by code_simp+
  have tx: "t_channel ?tx = Checkout" "t_order ?tx = Some 3" "t_type ?tx \<noteq> FUND" "t_reference ?tx = 40" by code_simp+
  have ord: "o_type ?ord = Standard" "o_status ?ord = O_CANCELLED" "o_refund_status ?ord = Refund_refunded" by code_simp+
  from late_charge_revives_cancelled_order [OF found(1) tx(1-3) found(2) ord, of 8] run tx(4) show ?thesis by auto
qed

theorem failed_transfer_not_returned_witness:
  "\<exists>r s1 s2 tx. requestWithdrawal (\<lambda>_ _ _. Inr (Some (''success'', 99))) 0 8 3000 sample_shop = (Inr (r, 3000), s1) \<and>
     webhook_run r [(1, ''transfer.failed'')] s1 = (Inr (), s2) \<and> balance_of s2 1 = Some 2000 \<and>
     find_one (\<lambda>t. t_reference t = r) (db_transactions s2) = Some tx \<and> t_status tx = T_FAILED"
proof -
  let ?api = "(\<lambda>_ _ _. Inr (Some (''success'', 99))) :: transfer_api"
  let ?r = "requestWithdrawal ?api 0 8 3000 sample_shop"
  have run: "?r = (Inr (10, 3000), snd ?r)" by (rule prod_eqI) (code_simp, simp)
  have w: "find_one (\<lambda>w. w_business w = Some 8) (db_wallets sample_shop) = Some sample_wallet"
    by (simp add: sample_shop_def sample_wallet_def new_wallet_def)
  from failed_transfer_not_returned [OF sample_shop_wf _ w run, of "[(1, ''transfer.failed'')]"]
  show ?thesis using run by (auto simp: sample_wallet_def new_wallet_def)
qed

definition sample_tracked :: db where
  "sample_tracked = sample_paid_order\<lparr>db_orders := [sample_two_vendors\<lparr>o_shipments :=
     [(sample_shipment 8 1)\<lparr>sh_shipment_id := Some ''SB-1''\<rparr>, (sample_shipment 9 2)\<lparr>sh_shipment_id := Some ''SB-2''\<rparr>]\<rparr>]\<rparr>"

lemma sample_tracked_ok:
  "unique_orders sample_tracked" "find_one (\<lambda>od. o_id od = 3) (db_orders sample_tracked) = Some (hd (db_orders sample_tracked))"
  "names_shipment ''SB-1'' 3 sample_tracked" "names_shipment ''SB-2'' 3 sample_tracked"
  "\<forall>sh\<in>set (o_shipments (hd (db_orders sample_tracked))). \<exists>k\<in>set [''SB-2'', ''SB-1'']. known_shipment [k] sh"
  by (auto simp: sample_tracked_def sample_paid_order_def sample_two_vendors_def sample_shipment_def default_shipment_def
      default_order_def unique_orders_def names_shipment_def js_trim_def js_space_def known_shipment_def)

theorem deliveries_complete_order_witness:
  "\<exists>s' ord. for_each [''SB-2'', ''SB-1''] (\<lambda>k. andThen (handleShipbubbleWebhook 5 (courier_event k ''delivered'')) (\<lambda>_. ret ()))
     sample_tracked = (Inr (), s') \<and> find_one (\<lambda>od. o_id od = 3) (db_orders s') = Some ord \<and> o_status ord = O_COMPLETED"
proof -
  have "\<forall>k\<in>set [''SB-2'', ''SB-1'']. names_shipment k 3 sample_tracked" using sample_tracked_ok(3,4) by simp
  from deliveries_complete_order [OF sample_tracked_ok(1,2) this, of "\<lambda>_. 5"] sample_tracked_ok(5) show ?thesis by auto
qed

theorem late_courier_event_reopens_order_witness:
  "\<exists>s1 s2 ord. for_each [''SB-2'', ''SB-1''] (\<lambda>k. andThen (handleShipbubbleWebhook 5 (courier_event k ''delivered'')) (\<lambda>_. ret ()))
     sample_tracked = (Inr (), s1) \<and>
     handleShipbubbleWebhook 6 (courier_event ''SB-1'' ''in_transit'') s1 = (Inr (Courier_done S_IN_TRANSIT O_IN_TRANSIT), s2) \<and>
     find_one (\<lambda>od. o_id od = 3) (db_orders s2) = Some ord \<and> o_status ord = O_IN_TRANSIT"
proof -
  let ?run = "for_each [''SB-2'', ''SB-1''] (\<lambda>k. andThen (handleShipbubbleWebhook 5 (courier_event k ''delivered'')) (\<lambda>_. ret ())) sample_tracked"
  let ?s = "snd ?run"
  let ?ord = "the (find_one (\<lambda>od. o_id od = 3) (db_orders ?s))"
  have "fst ?run = Inr ()" by code_simp
  then have run: "?run = (Inr (), ?s)" by (simp add: prod_eq_iff)
  have facts: "unique_orders ?s" "find_one (\<lambda>od. o_id od = 3) (db_orders ?s) = Some ?ord" "names_shipment ''SB-1'' 3 ?s"
    "o_status ?ord = O_COMPLETED" by code_simp+
  from late_courier_event_reopens_order [OF facts, of "''in_transit''" 6] run show ?thesis by auto
qed


end
