(* ===== verification/AfterSales.thy ===== *)
theory AfterSales
  imports Fulfilment
begin

text \<open>
  After delivery: disputes (\<open>src/modules/disputes/disputes.service.ts\<close>), among them the flags vendors raise on
  measurements (\<open>flagMeasurement\<close> of \<open>src/modules/orders/orders.service.ts\<close>), and returns
  (\<open>src/modules/returns/returns.service.ts\<close>). A filed dispute and a return freeze the vendor's earnings of the order by taking their
  release date away, and end by releasing, reducing or reversing them. Paystack's refund endpoint is the
  parameter \<open>refund_api\<close>, as for the ledger. Listings and notifications are left out.
\<close>

section \<open>Disputes\<close>

record create_dispute_dto =
  cd_order_reference :: oid
  cd_business_id :: oid
  cd_reason :: dispute_reason
  cd_description :: string
  cd_evidence_urls :: "string list option"

datatype dispute_resolution = FULL_REFUND | PARTIAL_REFUND | RELEASE_TO_VENDOR

record resolve_dispute_dto =
  rd_resolution :: dispute_resolution
  rd_refund_amount :: "rat option"
  rd_admin_notes :: "string option"

definition open_dispute :: "dispute_status \<Rightarrow> bool" where
  "open_dispute st \<longleftrightarrow> st \<in> {DS_OPEN, DS_UNDER_REVIEW}"

definition vendor_unreleased :: "oid \<Rightarrow> oid \<Rightarrow> business_earning \<Rightarrow> bool" where
  "vendor_unreleased orderId b e \<longleftrightarrow> e_order e = orderId \<and> e_business e = Some b \<and> \<not> e_released e"

definition reschedule :: "oid \<Rightarrow> oid \<Rightarrow> instant option \<Rightarrow> (db, unit) action" where
  "reschedule orderId b when = modify (\<lambda>s. s\<lparr>db_earnings := update_many (vendor_unreleased orderId b)
     (\<lambda>e. e\<lparr>e_release_date := when\<rparr>) (db_earnings s)\<rparr>)"

definition new_dispute :: "create_dispute_dto \<Rightarrow> oid \<Rightarrow> order \<Rightarrow> oid \<Rightarrow> dispute" where
  "new_dispute dto customer ord i = \<lparr>ds_id = i, ds_order = o_id ord, ds_order_reference = o_reference ord, ds_customer = customer,
     ds_business = cd_business_id dto, ds_reason = cd_reason dto, ds_description = cd_description dto,
     ds_evidence_urls = nullish (cd_evidence_urls dto) [], ds_initiated_by = Raised_by_customer, ds_body_part = None, ds_status = DS_OPEN, ds_vendor_response = None,
     ds_vendor_evidence_urls = [], ds_admin_notes = None, ds_refund_amount = None, ds_resolved_by = None, ds_resolved_at = None\<rparr>"

definition find_completed :: "oid \<Rightarrow> oid \<Rightarrow> db \<Rightarrow> order option" where
  "find_completed reference customer s = find_one
     (\<lambda>od. o_reference od = reference \<and> o_customer od = customer \<and> o_status od = O_COMPLETED) (db_orders s)"

definition fileDispute :: "oid \<Rightarrow> create_dispute_dto \<Rightarrow> (db, dispute) action" where
  "fileDispute customer dto =
     andThen (gets (find_completed (cd_order_reference dto) customer)) (\<lambda>found. case found of
       None \<Rightarrow> throw (BadRequestException ''Order not found or not eligible for dispute'')
     | Some ord \<Rightarrow> let b = cd_business_id dto in
       andThen (gets (\<lambda>s. exists_doc (\<lambda>e. e_order e = o_id ord \<and> e_business e = Some b \<and> e_released e) (db_earnings s))) (\<lambda>paid.
       if paid then throw (BadRequestException ''Vendor payment has already been released. Please contact support.'')
       else andThen (gets (\<lambda>s. exists_doc (\<lambda>d. ds_order d = o_id ord \<and> ds_business d = b \<and> open_dispute (ds_status d)) (db_disputes s))) (\<lambda>filed.
       if filed then throw (BadRequestException ''You already have an open dispute for this vendor on this order'')
       else andThen (reschedule (o_id ord) b None) (\<lambda>_.
            andThen fresh (\<lambda>i. let d = new_dispute dto customer ord i in
            andThen (modify (\<lambda>s. s\<lparr>db_disputes := db_disputes s @ [d]\<rparr>)) (\<lambda>_. ret d))))))"

text \<open>A vendor's flag is a dispute too. It looks for no open one and freezes nothing. The dash of the text is written in UTF-8.\<close>

definition flag_description :: "string \<Rightarrow> string \<Rightarrow> string" where
  "flag_description bodyPart reason = (if bodyPart \<noteq> []
     then ''Measurement flag '' @ [CHR 0xE2, CHR 0x80, CHR 0x94] @ '' '' @ bodyPart @ '': '' @ reason
     else ''Measurement flag: '' @ reason)"

definition measurement_flag :: "oid \<Rightarrow> string \<Rightarrow> string \<Rightarrow> order \<Rightarrow> oid \<Rightarrow> dispute" where
  "measurement_flag b reason bodyPart ord i = \<lparr>ds_id = i, ds_order = o_id ord, ds_order_reference = o_reference ord, ds_customer = o_customer ord,
     ds_business = b, ds_reason = MEASUREMENT_ISSUE, ds_description = flag_description bodyPart reason,
     ds_evidence_urls = [], ds_initiated_by = Raised_by_vendor, ds_body_part = (if bodyPart = [] then None else Some bodyPart), ds_status = DS_OPEN,
     ds_vendor_response = None, ds_vendor_evidence_urls = [], ds_admin_notes = None, ds_refund_amount = None, ds_resolved_by = None,
     ds_resolved_at = None\<rparr>"

definition flagMeasurement :: "oid \<Rightarrow> oid \<Rightarrow> string option \<Rightarrow> string option \<Rightarrow> (db, dispute) action" where
  "flagMeasurement reference b reason body_part =
     andThen (gets (\<lambda>s. find_one (\<lambda>od. o_reference od = reference) (db_orders s))) (\<lambda>found. case found of
       None \<Rightarrow> throw (NotFoundException ''Order not found'')
     | Some ord \<Rightarrow>
         if \<not> (exists_doc (\<lambda>sh. sh_business sh = b) (o_shipments ord) \<or> exists_doc (\<lambda>i. i_business i = Some b) (o_items ord))
         then throw (ForbiddenException ''This order does not belong to your business.'')
         else let why = js_trim (nullish reason []); bodyPart = js_trim (nullish body_part [])
         in if why = [] then throw (BadRequestException ''A reason is required.'')
            else andThen fresh (\<lambda>i. let d = measurement_flag b why bodyPart ord i in
                 andThen (modify (\<lambda>s. s\<lparr>db_disputes := db_disputes s @ [d]\<rparr>)) (\<lambda>_. ret d)))"

definition find_dispute :: "oid \<Rightarrow> (db, dispute) action" where
  "find_dispute i = andThen (gets (\<lambda>s. find_one (\<lambda>d. ds_id d = i) (db_disputes s))) (\<lambda>found. case found of
     None \<Rightarrow> throw (NotFoundException ''Dispute not found'') | Some d \<Rightarrow> ret d)"

definition save_dispute :: "dispute \<Rightarrow> (db, unit) action" where
  "save_dispute d = modify (\<lambda>s. s\<lparr>db_disputes := update_one (\<lambda>x. ds_id x = ds_id d) (\<lambda>_. d) (db_disputes s)\<rparr>)"

definition respondToDispute :: "oid \<Rightarrow> oid \<Rightarrow> string \<Rightarrow> string list option \<Rightarrow> (db, dispute) action" where
  "respondToDispute disputeId b response evidence = andThen (find_dispute disputeId) (\<lambda>d.
     if ds_business d \<noteq> b then throw (BadRequestException ''This dispute is not for your business'')
     else if \<not> open_dispute (ds_status d) then throw (BadRequestException ''This dispute has already been resolved'')
     else let d' = d\<lparr>ds_vendor_response := Some response, ds_vendor_evidence_urls := nullish evidence [], ds_status := DS_UNDER_REVIEW\<rparr>
          in andThen (save_dispute d') (\<lambda>_. ret d'))"

definition processDisputeRefund :: "(oid \<Rightarrow> rat \<Rightarrow> error + string) \<Rightarrow> instant \<Rightarrow> order \<Rightarrow> rat \<Rightarrow> (db, unit) action" where
  "processDisputeRefund refund_api now ord amount = (if amount \<le> 0 then ret ()
     else andThen (findByOrderId (o_id ord)) (\<lambda>original. case original of
       None \<Rightarrow> ret ()
     | Some tx \<Rightarrow> (case t_wallet tx of
         Some w \<Rightarrow> if t_channel tx = Wallet_checkout then andThen (creditWallet now w amount) (\<lambda>_. ret ())
           else ignore_errors (refundPaystackPayment refund_api (t_reference tx))
       | None \<Rightarrow> ignore_errors (refundPaystackPayment refund_api (t_reference tx)))))"

definition settle_dispute :: "(oid \<Rightarrow> rat \<Rightarrow> error + string) \<Rightarrow> instant \<Rightarrow> dispute \<Rightarrow> order \<Rightarrow> resolve_dispute_dto \<Rightarrow> (db, dispute) action" where
  "settle_dispute refund_api now d ord dto = (case rd_resolution dto of
       FULL_REFUND \<Rightarrow>
         andThen (gets (\<lambda>s. filter (vendor_unreleased (ds_order d) (ds_business d)) (db_earnings s))) (\<lambda>earnings.
         let totalRefund = (\<Sum>e\<leftarrow>earnings. e_net_amount e) in
         andThen (modify (\<lambda>s. s\<lparr>db_earnings := delete_many (vendor_unreleased (ds_order d) (ds_business d)) (db_earnings s)\<rparr>)) (\<lambda>_.
         andThen (processDisputeRefund refund_api now ord totalRefund) (\<lambda>_.
         ret (d\<lparr>ds_status := DS_RESOLVED_REFUND, ds_refund_amount := Some totalRefund\<rparr>))))
     | PARTIAL_REFUND \<Rightarrow>
         if nullish (rd_refund_amount dto) 0 \<le> 0 then throw (BadRequestException ''refund_amount is required for partial refund'')
         else let amount = nullish (rd_refund_amount dto) 0 in
         andThen (modify (\<lambda>s. s\<lparr>db_earnings := update_many (vendor_unreleased (ds_order d) (ds_business d))
           (\<lambda>e. e\<lparr>e_net_amount := e_net_amount e - amount\<rparr>) (db_earnings s)\<rparr>)) (\<lambda>_.
         andThen (reschedule (ds_order d) (ds_business d) (Some now)) (\<lambda>_.
         andThen (processDisputeRefund refund_api now ord amount) (\<lambda>_.
         ret (d\<lparr>ds_status := DS_RESOLVED_PARTIAL_REFUND, ds_refund_amount := Some amount\<rparr>))))
     | RELEASE_TO_VENDOR \<Rightarrow>
         andThen (reschedule (ds_order d) (ds_business d) (Some now)) (\<lambda>_. ret (d\<lparr>ds_status := DS_RESOLVED_RELEASED\<rparr>)))"

definition resolveDispute :: "(oid \<Rightarrow> rat \<Rightarrow> error + string) \<Rightarrow> instant \<Rightarrow> oid \<Rightarrow> oid \<Rightarrow> resolve_dispute_dto \<Rightarrow> (db, dispute) action" where
  "resolveDispute refund_api now disputeId adminId dto = andThen (find_dispute disputeId) (\<lambda>d.
     if \<not> open_dispute (ds_status d) then throw (BadRequestException ''This dispute has already been resolved'')
     else andThen (gets (\<lambda>s. find_one (\<lambda>od. o_id od = ds_order d) (db_orders s))) (\<lambda>found. case found of
       None \<Rightarrow> throw (NotFoundException ''Order not found'')
     | Some ord \<Rightarrow> andThen (settle_dispute refund_api now d ord dto) (\<lambda>d.
         let d' = d\<lparr>ds_resolved_by := Some adminId, ds_resolved_at := Some now, ds_admin_notes := (if truthy_string (rd_admin_notes dto) then rd_admin_notes dto else None)\<rparr>
         in andThen (save_dispute d') (\<lambda>_. ret d'))))"

section \<open>Returns\<close>

record create_return_dto =
  cr_order_reference :: oid
  cr_business_id :: oid
  cr_item_ids :: "oid list"
  cr_reason :: return_reason
  cr_description :: "string option"
  cr_evidence_urls :: "string list option"

definition active_return :: "return_status \<Rightarrow> bool" where
  "active_return st \<longleftrightarrow> st \<in> {RT_REQUESTED, RT_VENDOR_APPROVED, RT_RETURN_SHIPPED}"

definition latest_delivery :: "order \<Rightarrow> instant" where
  "latest_delivery ord = Max (set (map (\<lambda>sh. nullish (sh_delivered_at sh) 0) (o_shipments ord)))"

definition window_error :: "instant \<Rightarrow> rat \<Rightarrow> order \<Rightarrow> error option" where
  "window_error now days ord =
     (if o_shipments ord = [] then Some (BadRequestException ''Return window has expired'')
      else if latest_delivery ord = 0 then Some (BadRequestException ''Order has not been delivered yet'')
      else if of_int now > of_int (latest_delivery ord) + days * 86400000 then Some (BadRequestException ''Return window has expired'')
      else None)"

definition new_return :: "create_return_dto \<Rightarrow> oid \<Rightarrow> order \<Rightarrow> oid \<Rightarrow> return_request" where
  "new_return dto customer ord i = \<lparr>rt_id = i, rt_order = o_id ord, rt_order_reference = o_reference ord, rt_customer = customer,
     rt_business = cr_business_id dto, rt_items = cr_item_ids dto, rt_reason = cr_reason dto,
     rt_description = nullish (cr_description dto) [], rt_evidence_urls = nullish (cr_evidence_urls dto) [],
     rt_status = RT_REQUESTED, rt_refund_amount = 0, rt_vendor_rejection_reason = None, rt_received_at = None, rt_refunded_at = None\<rparr>"

definition requestReturn :: "instant \<Rightarrow> oid \<Rightarrow> create_return_dto \<Rightarrow> (db, return_request) action" where
  "requestReturn now customer dto =
     andThen (gets (find_completed (cr_order_reference dto) customer)) (\<lambda>found. case found of
       None \<Rightarrow> throw (BadRequestException ''Order not found or not eligible for return'')
     | Some ord \<Rightarrow> let b = cr_business_id dto in
       andThen (gets (setting return_window_days 7)) (\<lambda>days. case window_error now days ord of
         Some e \<Rightarrow> throw e
       | None \<Rightarrow>
         andThen (gets (\<lambda>s. exists_doc (\<lambda>q. rt_order q = o_id ord \<and> rt_business q = b \<and> active_return (rt_status q)) (db_returns s))) (\<lambda>active.
         if active then throw (BadRequestException ''You already have an active return request for this vendor'')
         else andThen (reschedule (o_id ord) b None) (\<lambda>_.
              andThen fresh (\<lambda>i. let q = new_return dto customer ord i in
              andThen (modify (\<lambda>s. s\<lparr>db_returns := db_returns s @ [q]\<rparr>)) (\<lambda>_. ret q))))))"

definition find_return :: "oid \<Rightarrow> oid \<Rightarrow> (db, return_request) action" where
  "find_return i b = andThen (gets (\<lambda>s. find_one (\<lambda>q. rt_id q = i) (db_returns s))) (\<lambda>found. case found of
     None \<Rightarrow> throw (NotFoundException ''Return request not found'')
   | Some q \<Rightarrow> if rt_business q \<noteq> b then throw (BadRequestException ''This return is not for your business'') else ret q)"

definition save_return :: "return_request \<Rightarrow> (db, unit) action" where
  "save_return q = modify (\<lambda>s. s\<lparr>db_returns := update_one (\<lambda>x. rt_id x = rt_id q) (\<lambda>_. q) (db_returns s)\<rparr>)"

definition approveReturn :: "oid \<Rightarrow> oid \<Rightarrow> (db, return_request) action" where
  "approveReturn returnId b = andThen (find_return returnId b) (\<lambda>q.
     if rt_status q \<noteq> RT_REQUESTED then throw (BadRequestException ''This return request cannot be approved in its current state'')
     else let q' = q\<lparr>rt_status := RT_VENDOR_APPROVED\<rparr> in andThen (save_return q') (\<lambda>_. ret q'))"

definition rejectReturn :: "instant \<Rightarrow> oid \<Rightarrow> oid \<Rightarrow> string \<Rightarrow> (db, return_request) action" where
  "rejectReturn now returnId b reason = andThen (find_return returnId b) (\<lambda>q.
     if rt_status q \<noteq> RT_REQUESTED then throw (BadRequestException ''This return request cannot be rejected in its current state'')
     else let q' = q\<lparr>rt_status := RT_VENDOR_REJECTED, rt_vendor_rejection_reason := Some reason\<rparr>
          in andThen (save_return q') (\<lambda>_. andThen (reschedule (rt_order q) b (Some now)) (\<lambda>_. ret q')))"

definition return_refund :: "return_request \<Rightarrow> order \<Rightarrow> rat" where
  "return_refund q ord = (\<Sum>i\<leftarrow>filter (\<lambda>i. case i_product i of None \<Rightarrow> False | Some p \<Rightarrow> p \<in> set (rt_items q)) (o_items ord).
     or_num (i_total_price i) 0)"

definition pay_return :: "(oid \<Rightarrow> rat \<Rightarrow> error + string) \<Rightarrow> instant \<Rightarrow> order \<Rightarrow> rat \<Rightarrow> (db, unit) action" where
  "pay_return refund_api now ord amount = (if \<not> 0 < amount then ret ()
     else andThen (findByOrderId (o_id ord)) (\<lambda>original. case original of
       None \<Rightarrow> ret ()
     | Some tx \<Rightarrow> (case t_wallet tx of
         Some w \<Rightarrow> if t_channel tx = Wallet_checkout then andThen (creditWallet now w amount) (\<lambda>_. ret ())
           else ignore_errors (refundPaystackPayment refund_api (t_reference tx))
       | None \<Rightarrow> ignore_errors (refundPaystackPayment refund_api (t_reference tx)))))"

definition reverse_returned :: "instant \<Rightarrow> business_earning \<Rightarrow> (db, unit) action" where
  "reverse_returned now e = (let net = e_net_amount e in
     if net \<le> 0 then ret ()
     else if e_released e
     then andThen (reconcile_earning now (e_business e) None (Some (- net))) (\<lambda>_.
          modify (\<lambda>s. s\<lparr>db_earnings := update_one (\<lambda>x. e_id x = e_id e) (\<lambda>x. x\<lparr>e_net_amount := 0\<rparr>) (db_earnings s)\<rparr>))
     else andThen (reconcile_earning now (e_business e) (Some (- net)) None) (\<lambda>_.
          modify (\<lambda>s. s\<lparr>db_earnings := delete_one (\<lambda>x. e_id x = e_id e) (db_earnings s)\<rparr>)))"

definition markReceived :: "(oid \<Rightarrow> rat \<Rightarrow> error + string) \<Rightarrow> instant \<Rightarrow> oid \<Rightarrow> oid \<Rightarrow> (db, return_request) action" where
  "markReceived refund_api now returnId b = andThen (find_return returnId b) (\<lambda>q.
     if rt_status q \<notin> {RT_VENDOR_APPROVED, RT_RETURN_SHIPPED}
     then throw (BadRequestException ''Return must be approved or shipped before marking as received'')
     else andThen (gets (\<lambda>s. find_one (\<lambda>od. o_id od = rt_order q) (db_orders s))) (\<lambda>found. case found of
       None \<Rightarrow> throw (NotFoundException ''Order not found'')
     | Some ord \<Rightarrow> let refundAmount = return_refund q ord in
         andThen (pay_return refund_api now ord refundAmount) (\<lambda>_.
         andThen (gets (\<lambda>s. filter (\<lambda>e. e_order e = rt_order q \<and> e_business e = Some b) (db_earnings s))) (\<lambda>earnings.
         andThen (for_each earnings (reverse_returned now)) (\<lambda>_.
         andThen (restoreInventory (rt_order q) None None) (\<lambda>_.
         let q' = q\<lparr>rt_status := RT_REFUND_PROCESSED, rt_refund_amount := refundAmount, rt_received_at := Some now, rt_refunded_at := Some now\<rparr>
         in andThen (save_return q') (\<lambda>_. ret q')))))))"

end
