(* ===== verification/Resolutions.thy ===== *)
theory Resolutions
  imports AfterSales Events
begin

text \<open>
  Disputes and returns over time: at most one is open for a vendor and an order, a closed one is never
  touched again, and what the resolutions do to the vendor's earnings and the customer's money.
\<close>

section \<open>What the operations leave alone\<close>

definition after_sales :: "db \<Rightarrow> dispute list \<times> return_request list \<times> oid" where
  "after_sales s = (db_disputes s, db_returns s, db_next s)"

lemma after_sales_frame [simp]:
  "after_sales (s\<lparr>db_earnings := es\<rparr>) = after_sales s" "after_sales (s\<lparr>db_wallets := ws\<rparr>) = after_sales s"
  "after_sales (s\<lparr>db_transactions := ts\<rparr>) = after_sales s" "after_sales (s\<lparr>db_orders := ods\<rparr>) = after_sales s"
  by (simp_all add: after_sales_def)

lemma reschedule_keeps: "preserves (\<lambda>s. after_sales s = k) (reschedule i b d)"
  unfolding reschedule_def by (intro preserve_intros) simp

lemma refund_keeps: "preserves (\<lambda>s. after_sales s = k) (refundPaystackPayment api r)"
  unfolding refundPaystackPayment_def findByReference_def save_transaction_def Let_def
  by (intro preserve_intros; simp)

lemma credit_keeps: "preserves (\<lambda>s. after_sales s = k) (creditWallet now w a)"
  unfolding creditWallet_def update_wallet_def by (intro preserve_intros) (simp_all add: preserves_def)

lemma settle_keeps: "preserves (\<lambda>s. after_sales s = k) (settle_dispute api now d ord dto)"
proof -
  have "preserves (\<lambda>s. after_sales s = k) (processDisputeRefund api now ord a)" for a
    unfolding processDisputeRefund_def findByOrderId_def by (intro preserve_intros preserves_ignore credit_keeps refund_keeps)
  then show ?thesis
    unfolding settle_dispute_def Let_def
    by (cases "rd_resolution dto") (auto intro!: preserve_intros reschedule_keeps)
qed

lemma pay_return_keeps: "preserves (\<lambda>s. after_sales s = k) (pay_return api now ord a)"
  unfolding pay_return_def findByOrderId_def by (intro preserve_intros preserves_ignore credit_keeps refund_keeps)

lemma reverse_returned_keeps: "preserves (\<lambda>s. after_sales s = k) (reverse_returned now e)"
proof -
  have "preserves (\<lambda>s. after_sales s = k) (reconcile_earning now b p q)" for b p q
    unfolding reconcile_earning_def reconcileBusinessWallet_def Let_def by (intro preserve_intros) simp_all
  then show ?thesis unfolding reverse_returned_def Let_def by (intro preserve_intros) simp_all
qed

lemma restore_keeps: "preserves (\<lambda>s. after_sales s = k) (restoreInventory i b j)"
proof (rule inventory_keeps)
  fix s t :: db
  assume "unstocked s = unstocked t"
  from arg_cong [OF this, of after_sales] show "(after_sales s = k) = (after_sales t = k)" by (simp add: unstocked_def after_sales_def)
qed (simp add: set_deducted_def)

section \<open>Books of cases\<close>

text \<open>
  A collection in which every document has a key, at most one document per key is open among those of one sort (\<open>sole\<close>), and a
  closed one is not written again. Disputes and returns are two of them; the sort are the disputes customers file, and all returns.
\<close>

definition case_book :: "('d \<Rightarrow> oid) \<Rightarrow> ('d \<Rightarrow> 'k) \<Rightarrow> ('d \<Rightarrow> bool) \<Rightarrow> ('d \<Rightarrow> bool) \<Rightarrow> oid \<Rightarrow> 'd list \<Rightarrow> bool" where
  "case_book ident key live sole n ds \<longleftrightarrow> distinct (map ident ds) \<and> (\<forall>d\<in>set ds. ident d < n) \<and>
     distinct (map key (filter (\<lambda>d. live d \<and> sole d) ds))"

text \<open>A step of such a collection: nothing, a new open document (under a fresh key, if it is of the sort), or a write to an open one.\<close>

inductive book_step ::
    "('d \<Rightarrow> oid) \<Rightarrow> ('d \<Rightarrow> 'k) \<Rightarrow> ('d \<Rightarrow> bool) \<Rightarrow> ('d \<Rightarrow> bool) \<Rightarrow> oid \<times> 'd list \<Rightarrow> oid \<times> 'd list \<Rightarrow> bool"
  for ident key live sole where
  idle: "n \<le> m \<Longrightarrow> book_step ident key live sole (n, ds) (m, ds)"
| opened: "\<lbrakk>ident d = n; live d; sole d \<Longrightarrow> \<forall>x\<in>set ds. live x \<longrightarrow> key x \<noteq> key d\<rbrakk> \<Longrightarrow> book_step ident key live sole (n, ds) (Suc n, ds @ [d])"
| written: "\<lbrakk>find_one (\<lambda>x. ident x = i) ds = Some d; live d; ident d' = i; key d' = key d; sole d' = sole d\<rbrakk> \<Longrightarrow>
    book_step ident key live sole (n, ds) (n, update_one (\<lambda>x. ident x = i) (\<lambda>_. d') ds)"

lemma written_open:
  assumes "distinct (map key (filter live ds))" "find_one (\<lambda>x. ident x = i) ds = Some d" "live d' \<Longrightarrow> live d" "key d' = key d"
  shows "distinct (map key (filter live (update_one (\<lambda>x. ident x = i) (\<lambda>_. d') ds)))"
  using assms
proof (induction ds)
  case (Cons x ds)
  show ?case
  proof (cases "ident x = i")
    case True
    with Cons.prems show ?thesis by (auto split: if_splits)
  next
    case False
    have d: "d \<in> set ds" using Cons.prems(2) False by (auto dest: find_one_SomeD)
    have "set (update_one (\<lambda>x. ident x = i) (\<lambda>_. d') ds) \<subseteq> insert d' (set ds)"
      using set_update_one [of "\<lambda>x. ident x = i" "\<lambda>_. d'" ds] by auto
    then have "key ` {y \<in> set (update_one (\<lambda>x. ident x = i) (\<lambda>_. d') ds). live y} \<subseteq> key ` {y \<in> set ds. live y}"
      using d Cons.prems(3,4) by auto
    with Cons False show ?thesis by (auto split: if_splits)
  qed
qed simp

lemma book_step_keeps:
  assumes "book_step ident key live sole (n, ds) (m, ds')" "case_book ident key live sole n ds"
  shows "case_book ident key live sole m ds' \<and> n \<le> m \<and> (\<forall>d\<in>set ds. \<not> live d \<longrightarrow> d \<in> set ds')"
  using assms
proof (cases rule: book_step.cases)
  case idle
  with assms(2) show ?thesis by (fastforce simp: case_book_def)
next
  case (opened d)
  with assms(2) show ?thesis by (auto simp: case_book_def intro: less_SucI)
next
  case (written i d d')
  have ids: "map ident ds' = map ident ds" unfolding written(2) by (rule map_update_one) (simp add: written(5))
  then have "ident ` set ds' = ident ` set ds" by (metis set_map)
  moreover have "\<forall>y\<in>ident ` set ds. y < m" using assms(2) written(1) by (simp add: case_book_def)
  ultimately have "\<forall>x\<in>set ds'. ident x < m" by (metis imageI)
  moreover have "distinct (map key (filter (\<lambda>d. live d \<and> sole d) ds'))"
    unfolding written(2) by (rule written_open [where d = d]) (use assms(2) written in \<open>simp_all add: case_book_def\<close>)
  moreover have "x \<in> set ds'" if "x \<in> set ds" "\<not> live x" for x
  proof -
    have "ident x \<noteq> i" using find_one_key_eq [of ident ds x] assms(2) that written(3,4) by (auto simp: case_book_def)
    with that(1) show ?thesis unfolding written(2) by (induction ds) auto
  qed
  ultimately show ?thesis using ids assms(2) written(1) by (simp add: case_book_def)
qed

definition dispute_book :: "db \<Rightarrow> bool" where
  "dispute_book s \<longleftrightarrow> case_book ds_id (\<lambda>d. (ds_order d, ds_business d)) (\<lambda>d. open_dispute (ds_status d)) (\<lambda>d. ds_initiated_by d = Raised_by_customer)
     (db_next s) (db_disputes s)"

definition return_book :: "db \<Rightarrow> bool" where
  "return_book s \<longleftrightarrow> case_book rt_id (\<lambda>q. (rt_order q, rt_business q)) (\<lambda>q. active_return (rt_status q)) (\<lambda>q. True) (db_next s) (db_returns s)"

abbreviation dispute_step :: "db \<Rightarrow> db \<Rightarrow> bool" where
  "dispute_step s s' \<equiv> book_step ds_id (\<lambda>d. (ds_order d, ds_business d)) (\<lambda>d. open_dispute (ds_status d)) (\<lambda>d. ds_initiated_by d = Raised_by_customer)
     (db_next s, db_disputes s) (db_next s', db_disputes s')"

abbreviation return_step :: "db \<Rightarrow> db \<Rightarrow> bool" where
  "return_step s s' \<equiv> book_step rt_id (\<lambda>q. (rt_order q, rt_business q)) (\<lambda>q. active_return (rt_status q)) (\<lambda>q. True)
     (db_next s, db_returns s) (db_next s', db_returns s')"

lemma idle_steps:
  assumes "db_disputes s' = db_disputes s" "db_returns s' = db_returns s" "db_next s \<le> db_next s'"
  shows "dispute_step s s' \<and> return_step s s'"
  using assms by (simp add: book_step.idle)

lemma idle_after_sales: "after_sales s' = after_sales s \<Longrightarrow> dispute_step s s' \<and> return_step s s'"
  by (rule idle_steps) (simp_all add: after_sales_def)

section \<open>The operations are steps of the books\<close>

lemma fileDispute_steps: "dispute_step s (snd (fileDispute c dto s)) \<and> return_step s (snd (fileDispute c dto s))"
proof (cases "find_completed (cd_order_reference dto) c s")
  case None
  then show ?thesis by (simp add: fileDispute_def andThen_app idle_steps)
next
  case (Some ord)
  let ?b = "cd_business_id dto"
  let ?paid = "exists_doc (\<lambda>e. e_order e = o_id ord \<and> e_business e = Some ?b \<and> e_released e) (db_earnings s)"
  let ?filed = "exists_doc (\<lambda>d. ds_order d = o_id ord \<and> ds_business d = ?b \<and> open_dispute (ds_status d)) (db_disputes s)"
  show ?thesis
  proof (cases "?paid \<or> ?filed")
    case True
    with Some have "snd (fileDispute c dto s) = s" by (auto simp: fileDispute_def andThen_app Let_def)
    then show ?thesis by (simp add: idle_steps)
  next
    case False
    let ?d = "new_dispute dto c ord (db_next s)"
    let ?t = "snd (reschedule (o_id ord) ?b None s)"
    have "snd (fileDispute c dto s) = ?t\<lparr>db_next := Suc (db_next s), db_disputes := db_disputes s @ [?d]\<rparr>"
      using Some False by (simp add: fileDispute_def andThen_app Let_def reschedule_def)
    moreover have "db_returns ?t = db_returns s" by (simp add: reschedule_def)
    moreover have "book_step ds_id (\<lambda>d. (ds_order d, ds_business d)) (\<lambda>d. open_dispute (ds_status d)) (\<lambda>d. ds_initiated_by d = Raised_by_customer)
        (db_next s, db_disputes s) (Suc (db_next s), db_disputes s @ [?d])"
      using False by (intro book_step.opened) (auto simp: new_dispute_def open_dispute_def exists_doc_iff)
    ultimately show ?thesis by (simp add: book_step.idle)
  qed
qed

lemma flagMeasurement_steps: "dispute_step s (snd (flagMeasurement r b x y s)) \<and> return_step s (snd (flagMeasurement r b x y s))"
proof (cases "snd (flagMeasurement r b x y s) = s")
  case False
  then obtain ord where "snd (flagMeasurement r b x y s) =
      s\<lparr>db_next := Suc (db_next s), db_disputes := db_disputes s @ [measurement_flag b (js_trim (nullish x [])) (js_trim (nullish y [])) ord (db_next s)]\<rparr>"
    by (auto simp: flagMeasurement_def andThen_app Let_def split: option.splits if_splits)
  moreover have "book_step ds_id (\<lambda>d. (ds_order d, ds_business d)) (\<lambda>d. open_dispute (ds_status d)) (\<lambda>d. ds_initiated_by d = Raised_by_customer)
      (db_next s, db_disputes s) (Suc (db_next s), db_disputes s @ [measurement_flag b w z ord (db_next s)])" for w z
    by (rule book_step.opened) (simp_all add: measurement_flag_def open_dispute_def)
  ultimately show ?thesis by (simp add: book_step.idle)
qed (simp add: idle_steps)

lemma find_dispute_run:
  "find_dispute i s = (case find_one (\<lambda>d. ds_id d = i) (db_disputes s) of
     None \<Rightarrow> (Inl (NotFoundException ''Dispute not found''), s) | Some d \<Rightarrow> (Inr d, s))"
  by (simp add: find_dispute_def andThen_app split: option.splits)

lemma save_dispute_step:
  assumes "find_one (\<lambda>d. ds_id d = i) (db_disputes s) = Some d" "open_dispute (ds_status d)"
    "ds_id d' = i" "ds_order d' = ds_order d" "ds_business d' = ds_business d" "ds_initiated_by d' = ds_initiated_by d" "after_sales t = after_sales s"
  shows "dispute_step s (snd (save_dispute d' t)) \<and> return_step s (snd (save_dispute d' t))"
proof -
  have t: "db_disputes t = db_disputes s" "db_returns t = db_returns s" "db_next t = db_next s"
    using assms(7) by (simp_all add: after_sales_def)
  have "book_step ds_id (\<lambda>d. (ds_order d, ds_business d)) (\<lambda>d. open_dispute (ds_status d)) (\<lambda>d. ds_initiated_by d = Raised_by_customer)
      (db_next s, db_disputes s) (db_next s, update_one (\<lambda>x. ds_id x = i) (\<lambda>_. d') (db_disputes s))"
    using assms by (intro book_step.written [where d = d]) simp_all
  with t assms(3) show ?thesis by (simp add: save_dispute_def book_step.idle)
qed

lemma respondToDispute_steps:
  "dispute_step s (snd (respondToDispute i b x y s)) \<and> return_step s (snd (respondToDispute i b x y s))"
proof (cases "\<exists>d. find_one (\<lambda>d. ds_id d = i) (db_disputes s) = Some d \<and> ds_business d = b \<and> open_dispute (ds_status d)")
  case False
  then have "snd (respondToDispute i b x y s) = s"
    by (auto simp: respondToDispute_def find_dispute_run andThen_app Let_def split: option.splits)
  then show ?thesis by (simp add: idle_steps)
next
  case True
  then obtain d where d: "find_one (\<lambda>d. ds_id d = i) (db_disputes s) = Some d" "ds_business d = b" "open_dispute (ds_status d)" by blast
  let ?d = "d\<lparr>ds_vendor_response := Some x, ds_vendor_evidence_urls := nullish y [], ds_status := DS_UNDER_REVIEW\<rparr>"
  have "snd (respondToDispute i b x y s) = snd (save_dispute ?d s)"
    using d by (simp add: respondToDispute_def find_dispute_run andThen_app Let_def save_dispute_def)
  with save_dispute_step [OF d(1,3), of ?d s] find_one_keyD [OF d(1)] show ?thesis by simp
qed

lemma settle_dispute_core:
  assumes "settle_dispute api now d ord dto s = (Inr d', t)"
  shows "ds_id d' = ds_id d" "ds_order d' = ds_order d" "ds_business d' = ds_business d" "ds_initiated_by d' = ds_initiated_by d"
  using assms unfolding settle_dispute_def Let_def
  by (cases "rd_resolution dto"; auto simp: andThen_Inr split: if_splits)+

lemma resolveDispute_steps:
  "dispute_step s (snd (resolveDispute api now i admin dto s)) \<and> return_step s (snd (resolveDispute api now i admin dto s))"
proof (cases "\<exists>d ord. find_one (\<lambda>d. ds_id d = i) (db_disputes s) = Some d \<and> open_dispute (ds_status d) \<and>
    find_one (\<lambda>od. o_id od = ds_order d) (db_orders s) = Some ord")
  case False
  then have "snd (resolveDispute api now i admin dto s) = s"
    by (auto simp: resolveDispute_def find_dispute_run andThen_app split: option.splits)
  then show ?thesis by (simp add: idle_steps)
next
  case True
  then obtain d ord where d: "find_one (\<lambda>d. ds_id d = i) (db_disputes s) = Some d" "open_dispute (ds_status d)"
    "find_one (\<lambda>od. o_id od = ds_order d) (db_orders s) = Some ord" by blast
  obtain r t where r: "settle_dispute api now d ord dto s = (r, t)" by force
  have kept: "after_sales t = after_sales s" by (rule preserves_run [OF settle_keeps r refl])
  show ?thesis
  proof (cases r)
    case (Inl e)
    with d r have "snd (resolveDispute api now i admin dto s) = t" by (simp add: resolveDispute_def find_dispute_run andThen_app)
    with kept show ?thesis by (simp add: idle_after_sales)
  next
    case (Inr d')
    let ?d = "d'\<lparr>ds_resolved_by := Some admin, ds_resolved_at := Some now,
      ds_admin_notes := (if truthy_string (rd_admin_notes dto) then rd_admin_notes dto else None)\<rparr>"
    have "snd (resolveDispute api now i admin dto s) = snd (save_dispute ?d t)"
      using d r Inr by (simp add: resolveDispute_def find_dispute_run andThen_app Let_def save_dispute_def)
    moreover have "ds_id ?d = i" "ds_order ?d = ds_order d" "ds_business ?d = ds_business d" "ds_initiated_by ?d = ds_initiated_by d"
      using settle_dispute_core [of api now d ord dto s d' t] r Inr find_one_keyD [OF d(1)] by simp_all
    ultimately show ?thesis using save_dispute_step [OF d(1,2) _ _ _ _ kept, of ?d] by simp
  qed
qed

lemma requestReturn_steps: "dispute_step s (snd (requestReturn now c dto s)) \<and> return_step s (snd (requestReturn now c dto s))"
proof (cases "\<exists>ord. find_completed (cr_order_reference dto) c s = Some ord \<and> window_error now (setting return_window_days 7 s) ord = None \<and>
    \<not> exists_doc (\<lambda>q. rt_order q = o_id ord \<and> rt_business q = cr_business_id dto \<and> active_return (rt_status q)) (db_returns s)")
  case False
  then have "snd (requestReturn now c dto s) = s"
    by (auto simp: requestReturn_def andThen_app Let_def split: option.splits)
  then show ?thesis by (simp add: idle_steps)
next
  case True
  then obtain ord where ord: "find_completed (cr_order_reference dto) c s = Some ord"
    "window_error now (setting return_window_days 7 s) ord = None"
    "\<not> exists_doc (\<lambda>q. rt_order q = o_id ord \<and> rt_business q = cr_business_id dto \<and> active_return (rt_status q)) (db_returns s)" by blast
  let ?q = "new_return dto c ord (db_next s)"
  let ?t = "snd (reschedule (o_id ord) (cr_business_id dto) None s)"
  have "snd (requestReturn now c dto s) = ?t\<lparr>db_next := Suc (db_next s), db_returns := db_returns s @ [?q]\<rparr>"
    using ord by (simp add: requestReturn_def andThen_app Let_def reschedule_def)
  moreover have "db_disputes ?t = db_disputes s" by (simp add: reschedule_def)
  moreover have "book_step rt_id (\<lambda>q. (rt_order q, rt_business q)) (\<lambda>q. active_return (rt_status q)) (\<lambda>q. True)
      (db_next s, db_returns s) (Suc (db_next s), db_returns s @ [?q])"
    using ord(3) by (intro book_step.opened) (auto simp: new_return_def active_return_def exists_doc_iff)
  ultimately show ?thesis by (simp add: book_step.idle)
qed

lemma find_return_run:
  "find_return i b s = (case find_one (\<lambda>q. rt_id q = i) (db_returns s) of
     None \<Rightarrow> (Inl (NotFoundException ''Return request not found''), s)
   | Some q \<Rightarrow> if rt_business q \<noteq> b then (Inl (BadRequestException ''This return is not for your business''), s) else (Inr q, s))"
  by (simp add: find_return_def andThen_app split: option.splits)

lemma save_return_step:
  assumes "find_one (\<lambda>q. rt_id q = i) (db_returns s) = Some q" "active_return (rt_status q)"
    "rt_id q' = i" "rt_order q' = rt_order q" "rt_business q' = rt_business q" "after_sales t = after_sales s"
  shows "dispute_step s (snd (save_return q' t)) \<and> return_step s (snd (save_return q' t))"
proof -
  have t: "db_disputes t = db_disputes s" "db_returns t = db_returns s" "db_next t = db_next s"
    using assms(6) by (simp_all add: after_sales_def)
  have "book_step rt_id (\<lambda>q. (rt_order q, rt_business q)) (\<lambda>q. active_return (rt_status q)) (\<lambda>q. True)
      (db_next s, db_returns s) (db_next s, update_one (\<lambda>x. rt_id x = i) (\<lambda>_. q') (db_returns s))"
    using assms by (intro book_step.written [where d = q]) simp_all
  with t assms(3) show ?thesis by (simp add: save_return_def book_step.idle)
qed

lemma decide_return_steps:
  "dispute_step s (snd (approveReturn i b s)) \<and> return_step s (snd (approveReturn i b s))"
  "dispute_step s (snd (rejectReturn now i b x s)) \<and> return_step s (snd (rejectReturn now i b x s))"
proof -
  have "(dispute_step s (snd (approveReturn i b s)) \<and> return_step s (snd (approveReturn i b s))) \<and>
    (dispute_step s (snd (rejectReturn now i b x s)) \<and> return_step s (snd (rejectReturn now i b x s)))"
  proof (cases "\<exists>q. find_one (\<lambda>q. rt_id q = i) (db_returns s) = Some q \<and> rt_business q = b \<and> rt_status q = RT_REQUESTED")
    case False
    then have "snd (approveReturn i b s) = s" "snd (rejectReturn now i b x s) = s"
      by (auto simp: approveReturn_def rejectReturn_def find_return_run andThen_app Let_def split: option.splits)
    then show ?thesis by (simp add: idle_steps)
  next
    case True
    then obtain q where q: "find_one (\<lambda>q. rt_id q = i) (db_returns s) = Some q" "rt_business q = b" "rt_status q = RT_REQUESTED" by blast
    let ?a = "q\<lparr>rt_status := RT_VENDOR_APPROVED\<rparr>"
    let ?r = "q\<lparr>rt_status := RT_VENDOR_REJECTED, rt_vendor_rejection_reason := Some x\<rparr>"
    have "snd (approveReturn i b s) = snd (save_return ?a s)"
      using q by (simp add: approveReturn_def find_return_run andThen_app Let_def save_return_def)
    moreover have "snd (rejectReturn now i b x s) = snd (reschedule (rt_order q) b (Some now) (snd (save_return ?r s)))"
      using q by (simp add: rejectReturn_def find_return_run andThen_app Let_def save_return_def reschedule_def)
    moreover have "active_return (rt_status q)" using q(3) by (simp add: active_return_def)
    note save_return_step [OF q(1) this _ _ _ refl, of ?a] save_return_step [OF q(1) this _ _ _ refl, of ?r]
    ultimately show ?thesis using find_one_keyD [OF q(1)] by (simp add: reschedule_def)
  qed
  then show "dispute_step s (snd (approveReturn i b s)) \<and> return_step s (snd (approveReturn i b s))"
    "dispute_step s (snd (rejectReturn now i b x s)) \<and> return_step s (snd (rejectReturn now i b x s))" by blast+
qed

text \<open>The part of \<open>markReceived\<close> that moves money, earnings and stock.\<close>

definition settle_return :: "(oid \<Rightarrow> rat \<Rightarrow> error + string) \<Rightarrow> instant \<Rightarrow> return_request \<Rightarrow> order \<Rightarrow> oid \<Rightarrow> (db, unit) action" where
  "settle_return api now q ord b =
     andThen (pay_return api now ord (return_refund q ord)) (\<lambda>_.
     andThen (gets (\<lambda>s. filter (\<lambda>e. e_order e = rt_order q \<and> e_business e = Some b) (db_earnings s))) (\<lambda>earnings.
     andThen (for_each earnings (reverse_returned now)) (\<lambda>_. restoreInventory (rt_order q) None None)))"

definition processed_return :: "instant \<Rightarrow> order \<Rightarrow> return_request \<Rightarrow> return_request" where
  "processed_return now ord q = q\<lparr>rt_status := RT_REFUND_PROCESSED, rt_refund_amount := return_refund q ord,
     rt_received_at := Some now, rt_refunded_at := Some now\<rparr>"

lemma markReceived_run:
  assumes "find_one (\<lambda>q. rt_id q = i) (db_returns s) = Some q" "rt_business q = b" "rt_status q \<in> {RT_VENDOR_APPROVED, RT_RETURN_SHIPPED}"
    "find_one (\<lambda>od. o_id od = rt_order q) (db_orders s) = Some ord"
  shows "markReceived api now i b s = andThen (settle_return api now q ord b) (\<lambda>_.
    andThen (save_return (processed_return now ord q)) (\<lambda>_. ret (processed_return now ord q))) s"
proof -
  have found: "find_return i b s = (Inr q, s)" using assms(1,2) by (simp add: find_return_run)
  have "rt_status q = RT_VENDOR_APPROVED \<or> rt_status q = RT_RETURN_SHIPPED" using assms(3) by simp
  then show ?thesis
    by (elim disjE) (simp_all add: markReceived_def andThen_ok [where m = "find_return i b", OF found] assms(4) settle_return_def processed_return_def andThen_assoc Let_def)
qed

lemma settle_return_keeps: "preserves (\<lambda>s. after_sales s = k) (settle_return api now q ord b)"
  unfolding settle_return_def by (intro preserve_intros pay_return_keeps reverse_returned_keeps restore_keeps)

lemma markReceived_steps:
  "dispute_step s (snd (markReceived api now i b s)) \<and> return_step s (snd (markReceived api now i b s))"
proof (cases "\<exists>q ord. find_one (\<lambda>q. rt_id q = i) (db_returns s) = Some q \<and> rt_business q = b \<and>
    rt_status q \<in> {RT_VENDOR_APPROVED, RT_RETURN_SHIPPED} \<and> find_one (\<lambda>od. o_id od = rt_order q) (db_orders s) = Some ord")
  case False
  then have "snd (markReceived api now i b s) = s"
    by (auto simp: markReceived_def find_return_run andThen_app split: option.splits)
  then show ?thesis by (simp add: idle_steps)
next
  case True
  then obtain q ord where q: "find_one (\<lambda>q. rt_id q = i) (db_returns s) = Some q" "rt_business q = b"
    "rt_status q \<in> {RT_VENDOR_APPROVED, RT_RETURN_SHIPPED}" "find_one (\<lambda>od. o_id od = rt_order q) (db_orders s) = Some ord" by blast
  obtain r t where r: "settle_return api now q ord b s = (r, t)" by force
  have kept: "after_sales t = after_sales s" by (rule preserves_run [OF settle_return_keeps r refl])
  show ?thesis
  proof (cases r)
    case (Inl e)
    with markReceived_run [OF q] r kept show ?thesis by (simp add: andThen_app idle_after_sales)
  next
    case (Inr u)
    with markReceived_run [OF q] r have "snd (markReceived api now i b s) = snd (save_return (processed_return now ord q) t)"
      by (simp add: andThen_app save_return_def)
    moreover have "active_return (rt_status q)" using q(3) by (auto simp: active_return_def)
    ultimately show ?thesis
      using save_return_step [OF q(1) _ _ _ _ kept, of "processed_return now ord q"] find_one_keyD [OF q(1)]
      by (simp add: processed_return_def)
  qed
qed

section \<open>The life of the cases\<close>

text \<open>One request on a dispute or a return, with any outcome, or anything else that leaves both collections alone.\<close>

inductive after_sales_step :: "db \<Rightarrow> db \<Rightarrow> bool" where
  filing: "after_sales_step s (snd (fileDispute c fdto s))"
| flag: "after_sales_step s (snd (flagMeasurement ref b why part s))"
| respond: "after_sales_step s (snd (respondToDispute i b x y s))"
| resolve: "after_sales_step s (snd (resolveDispute api now i admin rdto s))"
| ask: "after_sales_step s (snd (requestReturn now c cdto s))"
| approve: "after_sales_step s (snd (approveReturn i b s))"
| reject: "after_sales_step s (snd (rejectReturn now i b x s))"
| receive: "after_sales_step s (snd (markReceived api now i b s))"
| other: "\<lbrakk>db_disputes s' = db_disputes s; db_returns s' = db_returns s; db_next s \<le> db_next s'\<rbrakk> \<Longrightarrow> after_sales_step s s'"

lemma after_sales_step_books: "after_sales_step s s' \<Longrightarrow> dispute_step s s' \<and> return_step s s'"
  by (induction rule: after_sales_step.induct)
    (rule fileDispute_steps flagMeasurement_steps respondToDispute_steps resolveDispute_steps requestReturn_steps decide_return_steps
      markReceived_steps | erule (2) idle_steps)+

text \<open>C18: Disputes are filed, flagged by vendors, answered and resolved, returns requested, approved, rejected and received, in
  whatever order and with any outcome: an order has at most one open dispute filed by the customer and at most one
  active return per vendor, and a dispute that was resolved or a return that was rejected or refunded is never written again.\<close>

theorem closed_cases_stay_closed:
  assumes "after_sales_step\<^sup>*\<^sup>* s s'" "dispute_book s" "return_book s"
  shows "dispute_book s' \<and> return_book s' \<and>
    (\<forall>d\<in>set (db_disputes s). \<not> open_dispute (ds_status d) \<longrightarrow> d \<in> set (db_disputes s')) \<and>
    (\<forall>q\<in>set (db_returns s). \<not> active_return (rt_status q) \<longrightarrow> q \<in> set (db_returns s'))"
  using assms
proof (induction rule: rtranclp_induct)
  case (step t u)
  note books = after_sales_step_books [OF step.hyps(2)] and ih = step.IH [OF step.prems]
  from book_step_keeps [OF conjunct1 [OF books]] book_step_keeps [OF conjunct2 [OF books]] ih
  show ?case unfolding dispute_book_def return_book_def by blast
qed simp

text \<open>What a flag does not ask: it opens a dispute beside any that is open, and leaves the earnings payable.\<close>

theorem flag_ignores_open_dispute:
  assumes "find_one (\<lambda>od. o_reference od = r) (db_orders s) = Some ord" "\<exists>i\<in>set (o_items ord). i_business i = Some b" "js_trim why \<noteq> []"
  shows "\<exists>d s'. flagMeasurement r b (Some why) part s = (Inr d, s') \<and> db_disputes s' = db_disputes s @ [d] \<and> ds_order d = o_id ord \<and>
    ds_business d = b \<and> open_dispute (ds_status d) \<and> db_earnings s' = db_earnings s"
  using assms by (auto simp: flagMeasurement_def andThen_app Let_def exists_doc_iff nullish_def measurement_flag_def open_dispute_def)

section \<open>What a resolution does to the money\<close>

lemma reverse_returned_earnings:
  "db_earnings (snd (reverse_returned now e s)) =
     (if e_net_amount e \<le> 0 then db_earnings s
      else if e_released e then update_one (\<lambda>x. e_id x = e_id e) (\<lambda>x. x\<lparr>e_net_amount := 0\<rparr>) (db_earnings s)
      else delete_one (\<lambda>x. e_id x = e_id e) (db_earnings s)) \<and> fst (reverse_returned now e s) = Inr ()"
proof -
  have same: "\<exists>x s'. reconcile_earning now b p q s = (Inr x, s') \<and> db_earnings s' = db_earnings s" for b p q
    by (auto simp: reconcile_earning_def reconcileBusinessWallet_def Let_def andThen_app split: option.splits)
  obtain x s1 where 1: "reconcile_earning now (e_business e) None (Some (- e_net_amount e)) s = (Inr x, s1)" "db_earnings s1 = db_earnings s"
    using same by blast
  obtain y s2 where 2: "reconcile_earning now (e_business e) (Some (- e_net_amount e)) None s = (Inr y, s2)" "db_earnings s2 = db_earnings s"
    using same by blast
  show ?thesis by (simp add: reverse_returned_def Let_def andThen_app 1 2)
qed

lemma reverse_returned_step:
  assumes "distinct (map e_id (db_earnings s))" "e \<in> set (db_earnings s)" "t = snd (reverse_returned now e s)"
  shows "distinct (map e_id (db_earnings t))" "\<And>x. x \<in> set (db_earnings s) \<Longrightarrow> e_id x \<noteq> e_id e \<Longrightarrow> x \<in> set (db_earnings t)"
    "\<And>x. x \<in> set (db_earnings t) \<Longrightarrow> if e_id x = e_id e then e_net_amount x \<le> 0 \<and> e_order x = e_order e \<and> e_business x = e_business e else x \<in> set (db_earnings s)"
proof -
  let ?f = "\<lambda>x. x\<lparr>e_net_amount := 0\<rparr>"
  have only: "x = e" if "x \<in> set (db_earnings s)" "e_id x = e_id e" for x
    using inj_onD [of e_id "set (db_earnings s)" x e] assms(1,2) that by (simp add: distinct_map)
  consider "e_net_amount e \<le> 0" "db_earnings t = db_earnings s"
    | "db_earnings t = update_one (\<lambda>x. e_id x = e_id e) ?f (db_earnings s)"
    | "db_earnings t = filter (\<lambda>x. e_id x \<noteq> e_id e) (db_earnings s)"
    using reverse_returned_earnings [of now e s] delete_one_key_filter [OF assms(1)] assms(3) by (auto split: if_splits)
  then have "distinct (map e_id (db_earnings t)) \<and> (\<forall>x\<in>set (db_earnings s). e_id x \<noteq> e_id e \<longrightarrow> x \<in> set (db_earnings t)) \<and>
    (\<forall>x\<in>set (db_earnings t). if e_id x = e_id e then e_net_amount x \<le> 0 \<and> e_order x = e_order e \<and> e_business x = e_business e else x \<in> set (db_earnings s))"
  proof cases
    case 1
    with only assms(1) show ?thesis by (metis (no_types))
  next
    case 2
    have "x \<in> set (db_earnings s)" if "x \<in> set (db_earnings t)" "e_id x \<noteq> e_id e" for x
      using subsetD [OF set_update_one that(1) [unfolded 2]] that(2) by auto
    moreover have "e_net_amount x \<le> 0 \<and> e_order x = e_order e \<and> e_business x = e_business e" if "x \<in> set (db_earnings t)" "e_id x = e_id e" for x
      using update_one_key_at [OF assms(1) that(1) [unfolded 2] that(2)] only that(2) by fastforce
    moreover have "x \<in> set (db_earnings t)" if "x \<in> set (db_earnings s)" "e_id x \<noteq> e_id e" for x
      unfolding 2 update_one_key_map [OF assms(1)] set_map by (rule image_eqI [where x = x]) (simp_all add: that)
    ultimately show ?thesis using assms(1) 2 by (simp add: map_update_one)
  next
    case 3
    with assms(1) show ?thesis by (auto simp: distinct_map inj_on_def)
  qed
  then show "distinct (map e_id (db_earnings t))" "\<And>x. x \<in> set (db_earnings s) \<Longrightarrow> e_id x \<noteq> e_id e \<Longrightarrow> x \<in> set (db_earnings t)"
    "\<And>x. x \<in> set (db_earnings t) \<Longrightarrow> if e_id x = e_id e then e_net_amount x \<le> 0 \<and> e_order x = e_order e \<and> e_business x = e_business e else x \<in> set (db_earnings s)" by blast+
qed

text \<open>Reversing a list of earnings leaves none of them with money in it.\<close>

lemma reverse_returned_all:
  assumes "distinct (map e_id (db_earnings s))" "set es \<subseteq> set (db_earnings s)" "distinct (map e_id es)"
  shows "\<exists>s'. for_each es (reverse_returned now) s = (Inr (), s') \<and>
    (\<forall>x\<in>set (db_earnings s'). if e_id x \<in> e_id ` set es then e_net_amount x \<le> 0 \<and> (\<exists>y\<in>set es. e_order x = e_order y \<and> e_business x = e_business y) else x \<in> set (db_earnings s))"
  using assms
proof (induction es arbitrary: s)
  case (Cons e es)
  let ?t = "snd (reverse_returned now e s)"
  have e: "e \<in> set (db_earnings s)" using Cons.prems(2) by simp
  note step = reverse_returned_step [OF Cons.prems(1) e refl, where now = now]
  have "set es \<subseteq> set (db_earnings ?t)"
    using Cons.prems(2,3) by (intro subsetI step(2)) (auto simp: image_iff)
  with Cons.IH [OF step(1)] Cons.prems(3) obtain s' where s': "for_each es (reverse_returned now) ?t = (Inr (), s')"
    "\<forall>x\<in>set (db_earnings s'). if e_id x \<in> e_id ` set es then e_net_amount x \<le> 0 \<and> (\<exists>y\<in>set es. e_order x = e_order y \<and> e_business x = e_business y) else x \<in> set (db_earnings ?t)" by auto
  have "for_each (e # es) (reverse_returned now) s = (Inr (), s')"
    using s'(1) conjunct2 [OF reverse_returned_earnings [of now e s]] by (cases "reverse_returned now e s") (simp add: andThen_app)
  moreover have "if e_id x \<in> e_id ` set (e # es)
      then e_net_amount x \<le> 0 \<and> (\<exists>y\<in>set (e # es). e_order x = e_order y \<and> e_business x = e_business y) else x \<in> set (db_earnings s)" if "x \<in> set (db_earnings s')" for x
    using bspec [OF s'(2) that] step(3) [of x] by (auto split: if_splits)
  ultimately show ?case by blast
qed simp

lemma pay_return_earnings: "preserves (\<lambda>s. db_earnings s = es \<and> db_orders s = ods) (pay_return api now ord a)"
proof -
  have "preserves (\<lambda>s. db_earnings s = es \<and> db_orders s = ods) (creditWallet now w x)" for w x
    unfolding creditWallet_def update_wallet_def by (intro preserve_intros) (simp_all add: preserves_def)
  moreover have "preserves (\<lambda>s. db_earnings s = es \<and> db_orders s = ods) (refundPaystackPayment api r)" for r
    unfolding refundPaystackPayment_def findByReference_def save_transaction_def Let_def by (intro preserve_intros; simp)
  ultimately show ?thesis
    unfolding pay_return_def findByOrderId_def by (intro preserve_intros preserves_ignore)
qed

lemma restore_earnings: "preserves (\<lambda>s. db_earnings s = es) (restoreInventory i b j)"
proof (rule inventory_keeps)
  fix s t :: db
  assume "unstocked s = unstocked t"
  from arg_cong [OF this, of db_earnings] show "(db_earnings s = es) = (db_earnings t = es)" by (simp add: unstocked_def)
qed (simp add: set_deducted_def)

text \<open>The customer's side of the money: the payments and the wallets that belong to no business.\<close>

definition customer_side :: "db \<Rightarrow> transaction list \<times> wallet list" where
  "customer_side s = (db_transactions s, filter (\<lambda>w. w_business w = None) (db_wallets s))"

definition private_balance :: "db \<Rightarrow> oid \<Rightarrow> rat option" where
  "private_balance s i = map_option w_balance (find_one (\<lambda>w. w_id w = i) (filter (\<lambda>w. w_business w = None) (db_wallets s)))"

text \<open>How a return is paid: a wallet payment by a credit of the amount; any other payment through the gateway, which takes back the whole charge
  or refuses, and then nothing is paid.\<close>

definition return_paid :: "(oid \<Rightarrow> rat \<Rightarrow> error + string) \<Rightarrow> order \<Rightarrow> rat \<Rightarrow> db \<Rightarrow> db \<Rightarrow> bool" where
  "return_paid api ord amount s s' \<longleftrightarrow> (case find_one (is_order_payment (o_id ord)) (db_transactions s) of
       None \<Rightarrow> customer_side s' = customer_side s
     | Some tx \<Rightarrow>
         if amount \<le> 0 then customer_side s' = customer_side s
         else if t_channel tx = Wallet_checkout \<and> t_wallet tx \<noteq> None
         then db_transactions s' = db_transactions s \<and> (\<forall>i. private_balance s' i =
           (if t_wallet tx = Some i then map_option (\<lambda>x. x + amount) (private_balance s i) else private_balance s i))
         else if m_refund_status (t_metadata tx) = Some ''success'' \<or> isl (api (t_reference tx) (t_amount tx * 100))
         then customer_side s' = customer_side s
         else snd (customer_side s') = snd (customer_side s) \<and>
           (\<exists>tx'. find_one (\<lambda>t. t_reference t = t_reference tx) (db_transactions s') = Some tx' \<and> t_status tx' = T_REVERSED \<and>
              m_refunded_amount (t_metadata tx') = Some (t_amount tx)))"

lemma reconcile_customer:
  "preserves (\<lambda>s. distinct (map w_id (db_wallets s)) \<and> customer_side s = k) (reconcile_earning now b p q)"
proof -
  have others: "filter (\<lambda>w. w_business w = None) (update_one (\<lambda>x. w_id x = w_id w) (\<lambda>_. w') ws) = filter (\<lambda>w. w_business w = None) ws"
    if "distinct (map w_id ws)" "w \<in> set ws" "w_business w \<noteq> None" "w_business w' = w_business w" for w w' ws
    using that by (induction ws) (auto simp: image_iff)
  have keys: "map w_id (update_one (\<lambda>x. w_id x = w_id w) (\<lambda>_. reconcile now d e w) ws) = map w_id ws" for w d e ws
    by (induction ws) (auto simp: reconcile_def)
  have "w_business (reconcile now d e w) = w_business w" for d e w by (simp add: reconcile_def)
  then show ?thesis
    by (auto simp: preserves_def reconcile_earning_def reconcileBusinessWallet_def Let_def andThen_app customer_side_def keys others
        split: option.splits dest!: find_one_SomeD)
qed

lemma reverse_customer:
  "preserves (\<lambda>s. distinct (map w_id (db_wallets s)) \<and> customer_side s = k) (reverse_returned now e)"
  unfolding reverse_returned_def Let_def by (intro preserve_intros reconcile_customer) (simp_all add: customer_side_def)

lemma restore_customer: "preserves (\<lambda>s. customer_side s = k) (restoreInventory i b j)"
proof (rule inventory_keeps)
  fix s t :: db
  assume "unstocked s = unstocked t"
  from arg_cong [OF this, of customer_side] show "(customer_side s = k) = (customer_side t = k)" by (simp add: unstocked_def customer_side_def)
qed (simp add: set_deducted_def customer_side_def)

lemma credit_customer:
  assumes "creditWallet now w a s = (r, t)" "distinct (map w_id (db_wallets s))"
  shows "db_transactions t = db_transactions s" "distinct (map w_id (db_wallets t))"
    "isl r \<or> (\<forall>i. private_balance t i = (if w = i then map_option (\<lambda>x. x + a) (private_balance s i) else private_balance s i))"
proof -
  have keys: "map w_id (update_one (\<lambda>x. w_id x = w) (inc_balance now a) ws) = map w_id ws" for ws
    by (rule map_update_one) simp
  have comm: "filter (\<lambda>w. w_business w = None) (update_one (\<lambda>x. w_id x = w) (inc_balance now a) ws) =
      update_one (\<lambda>x. w_id x = w) (inc_balance now a) (filter (\<lambda>w. w_business w = None) ws)" if "distinct (map w_id ws)" for ws
    unfolding update_one_key_map [OF that] update_one_key_map [OF distinct_map_filter [OF that]] by (induction ws) auto
  from assms show "db_transactions t = db_transactions s" "distinct (map w_id (db_wallets t))"
    by (auto simp: creditWallet_run keys split: option.splits)
  have "find_one (\<lambda>x. w_id x = i) (update_one (\<lambda>x. w_id x = w) (inc_balance now a) ws) =
      (if w = i then map_option (inc_balance now a) (find_one (\<lambda>x. w_id x = i) ws) else find_one (\<lambda>x. w_id x = i) ws)" for i ws
    by (induction ws) auto
  with assms show "isl r \<or> (\<forall>i. private_balance t i = (if w = i then map_option (\<lambda>x. x + a) (private_balance s i) else private_balance s i))"
    by (auto simp: creditWallet_run private_balance_def comm option.map_comp comp_def split: option.splits)
qed

lemma pay_return_paid:
  assumes "pay_return api now ord a s = (Inr (), t)" "wf_ledger s" "distinct (map w_id (db_wallets s))"
  shows "return_paid api ord a s t \<and> distinct (map w_id (db_wallets t))"
proof (cases "find_one (is_order_payment (o_id ord)) (db_transactions s)")
  case None
  with assms show ?thesis by (auto simp: pay_return_def findByOrderId_def andThen_app return_paid_def split: if_splits)
next
  case (Some tx)
  show ?thesis
  proof (cases "0 < a \<and> \<not> (t_channel tx = Wallet_checkout \<and> t_wallet tx \<noteq> None)")
    case True
    then have t: "t = snd (refundPaystackPayment api (t_reference tx) s)"
      using assms(1) Some ignore_errors_run [of "refundPaystackPayment api (t_reference tx)" s]
      by (auto simp: pay_return_def findByOrderId_def andThen_app split: option.splits if_splits)
    have "tx \<in> set (db_transactions s)" "t_status tx = T_SUCCESS" using Some by (auto simp: is_order_payment_def dest!: find_one_SomeD)
    moreover have "distinct (map t_id (db_transactions s))" "distinct (map t_reference (db_transactions s))"
      using assms(2) by (simp_all add: wf_ledger_def)
    ultimately have found: "find_one (\<lambda>t. t_reference t = t_reference tx) (db_transactions s) = Some tx" "t_status tx = T_SUCCESS"
      "distinct (map t_id (db_transactions s))" using find_one_key_eq [of t_reference] by auto
    show ?thesis
    proof (cases "api (t_reference tx) (t_amount tx * 100)")
      case (Inl e)
      with True Some t found assms(3) show ?thesis by (simp add: return_paid_def refundPaystackPayment_run)
    next
      case (Inr st)
      let ?tx = "tx\<lparr>t_metadata := (t_metadata tx)\<lparr>m_refund_status := Some st, m_refunded_amount := Some (t_amount tx)\<rparr>, t_status := T_REVERSED\<rparr>"
      have "find_one (\<lambda>t. t_reference t = t_reference tx) (update_one (\<lambda>x. t_id x = t_id tx) (\<lambda>_. ?tx) (db_transactions s)) = Some ?tx"
        by (rule saved_found(1) [OF found(1,3)]) simp_all
      with True Some t found Inr assms(3) show ?thesis
        by (auto simp: return_paid_def refundPaystackPayment_run save_transaction_run customer_side_def)
    qed
  next
    case False
    show ?thesis
    proof (cases "0 < a")
      case True
      with False obtain w where w: "t_channel tx = Wallet_checkout" "t_wallet tx = Some w" by auto
      with True Some assms(1) obtain x where "creditWallet now w a s = (Inr x, t)"
        by (auto simp: pay_return_def findByOrderId_def andThen_app split: prod.splits sum.splits)
      from credit_customer [OF this assms(3)] Some w True show ?thesis by (auto simp: return_paid_def)
    next
      case False
      with Some assms(1,3) show ?thesis by (auto simp: pay_return_def return_paid_def)
    qed
  qed
qed

lemma return_paid_side:
  assumes "return_paid api ord a s t" "customer_side u = customer_side t"
  shows "return_paid api ord a s u"
proof -
  from assms(2) have same: "db_transactions u = db_transactions t" "private_balance u = private_balance t"
    by (simp_all add: customer_side_def private_balance_def [abs_def])
  from assms(1) show ?thesis unfolding return_paid_def same assms(2) .
qed


section \<open>Disputes and the money\<close>

lemma vendor_unreleased_update [simp]:
  "vendor_unreleased i b (e\<lparr>e_net_amount := x\<rparr>) = vendor_unreleased i b e"
  "vendor_unreleased i b (e\<lparr>e_release_date := d\<rparr>) = vendor_unreleased i b e"
  by (simp_all add: vendor_unreleased_def)

text \<open>A dispute resolved with a full refund takes the vendor's earnings away whether or not the customer is refunded. An
  order paid from the wallet has a payment that Paystack does not know, stored under the channel of a
  card checkout: the gateway refuses, the refusal is swallowed, no wallet and no transaction changes,
  and the dispute is recorded as refunded with the vendor's share as its amount.\<close>

theorem refused_dispute_refund_is_recorded:
  assumes "find_one (\<lambda>d. ds_id d = i) (db_disputes s) = Some d" "open_dispute (ds_status d)"
    "find_one (\<lambda>od. o_id od = ds_order d) (db_orders s) = Some ord"
    "find_one (is_order_payment (o_id ord)) (db_transactions s) = Some tx" "t_channel tx = Checkout"
    "\<And>amount. api (t_reference tx) amount = Inl refusal" "rd_resolution dto = FULL_REFUND"
  shows "\<exists>d' s'. resolveDispute api now i admin dto s = (Inr d', s') \<and> ds_status d' = DS_RESOLVED_REFUND \<and>
    ds_refund_amount d' = Some (\<Sum>e\<leftarrow>filter (vendor_unreleased (ds_order d) (ds_business d)) (db_earnings s). e_net_amount e) \<and>
    db_wallets s' = db_wallets s \<and> db_transactions s' = db_transactions s \<and>
    (\<forall>e\<in>set (db_earnings s'). \<not> vendor_unreleased (ds_order d) (ds_business d) e)"
proof -
  let ?s = "s\<lparr>db_earnings := delete_many (vendor_unreleased (ds_order d) (ds_business d)) (db_earnings s)\<rparr>"
  have refused: "snd (refundPaystackPayment api (t_reference tx) ?s) = ?s"
    using assms(6) by (auto simp: refundPaystackPayment_def findByReference_run andThen_app Let_def split: option.splits sum.splits)
  have "processDisputeRefund api now ord a ?s = (Inr (), ?s)" for a
    using assms(4,5) refused ignore_errors_run [of "refundPaystackPayment api (t_reference tx)" ?s]
    by (auto simp: processDisputeRefund_def findByOrderId_def andThen_app split: option.splits)
  then have "settle_dispute api now d ord dto s = (Inr (d\<lparr>ds_status := DS_RESOLVED_REFUND, ds_refund_amount :=
      Some (\<Sum>e\<leftarrow>filter (vendor_unreleased (ds_order d) (ds_business d)) (db_earnings s). e_net_amount e)\<rparr>), ?s)"
    using assms(7) by (simp add: settle_dispute_def andThen_app Let_def)
  with assms(1-3) show ?thesis
    by (auto simp: resolveDispute_def find_dispute_run andThen_app Let_def save_dispute_def delete_many_def)
qed

text \<open>A dispute resolved with a partial refund of a card payment refunds the whole payment: the amount decided goes to the
  vendor's earnings and to the dispute, while the gateway is asked for, and the transaction records,
  the full charge.\<close>

theorem partial_dispute_refunds_whole_charge:
  assumes "find_one (\<lambda>d. ds_id d = i) (db_disputes s) = Some d" "open_dispute (ds_status d)"
    "find_one (\<lambda>od. o_id od = ds_order d) (db_orders s) = Some ord"
    "find_one (is_order_payment (o_id ord)) (db_transactions s) = Some tx" "t_channel tx = Checkout"
    "find_one (\<lambda>t. t_reference t = t_reference tx) (db_transactions s) = Some tx" "distinct (map t_id (db_transactions s))"
    "m_refund_status (t_metadata tx) \<noteq> Some ''success''" "api (t_reference tx) (t_amount tx * 100) = Inr ''success''"
    "rd_resolution dto = PARTIAL_REFUND" "rd_refund_amount dto = Some amount" "0 < amount"
  shows "\<exists>d' s' tx'. resolveDispute api now i admin dto s = (Inr d', s') \<and> ds_refund_amount d' = Some amount \<and>
    find_one (\<lambda>t. t_reference t = t_reference tx) (db_transactions s') = Some tx' \<and> t_status tx' = T_REVERSED \<and>
    m_refunded_amount (t_metadata tx') = Some (t_amount tx)"
proof -
  let ?P = "vendor_unreleased (ds_order d) (ds_business d)"
  let ?s = "s\<lparr>db_earnings := update_many ?P (\<lambda>e. e\<lparr>e_release_date := Some now\<rparr>)
     (update_many ?P (\<lambda>e. e\<lparr>e_net_amount := e_net_amount e - amount\<rparr>) (db_earnings s))\<rparr>"
  let ?tx = "tx\<lparr>t_metadata := (t_metadata tx)\<lparr>m_refund_status := Some ''success'', m_refunded_amount := Some (t_amount tx)\<rparr>,
     t_status := T_REVERSED\<rparr>"
  let ?t = "?s\<lparr>db_transactions := update_one (\<lambda>x. t_id x = t_id tx) (\<lambda>_. ?tx) (db_transactions s)\<rparr>"
  have "t_status tx = T_SUCCESS" using find_one_SomeD [OF assms(4)] by (simp add: is_order_payment_def)
  then have "refundPaystackPayment api (t_reference tx) ?s = (Inr (m_order_reference (t_metadata tx)), ?t)"
    using assms(6,8,9) by (simp add: refundPaystackPayment_def findByReference_run andThen_app Let_def save_transaction_run)
  then have "processDisputeRefund api now ord amount ?s = (Inr (), ?t)"
    using assms(4,5,12) ignore_errors_run [of "refundPaystackPayment api (t_reference tx)" ?s]
    by (auto simp: processDisputeRefund_def findByOrderId_def andThen_app split: option.splits)
  then have "settle_dispute api now d ord dto s = (Inr (d\<lparr>ds_status := DS_RESOLVED_PARTIAL_REFUND, ds_refund_amount := Some amount\<rparr>), ?t)"
    using assms(10-12) by (simp add: settle_dispute_def andThen_app Let_def reschedule_def)
  moreover have "find_one (\<lambda>t. t_reference t = t_reference tx) (db_transactions ?t) = Some ?tx"
    using saved_found(1) [OF assms(6,7), of ?tx] by simp
  ultimately show ?thesis using assms(1-3)
    by (auto simp: resolveDispute_def find_dispute_run andThen_app Let_def save_dispute_def)
qed

section \<open>Freezing does not last\<close>

definition due_order :: "instant \<Rightarrow> rat \<Rightarrow> oid \<Rightarrow> db \<Rightarrow> bool" where
  "due_order now days i s \<longleftrightarrow> (case find_one (\<lambda>od. o_id od = i) (db_orders s) of None \<Rightarrow> False | Some ord \<Rightarrow> stuck_and_due days now ord)"

definition release_stuck :: "instant \<Rightarrow> rat \<Rightarrow> business_earning \<Rightarrow> (db, unit) action" where
  "release_stuck now days e = andThen (gets (\<lambda>s. find_one (\<lambda>od. o_id od = e_order e) (db_orders s))) (\<lambda>ord. case ord of
     None \<Rightarrow> ret ()
   | Some ord \<Rightarrow> if \<not> stuck_and_due days now ord then ret ()
       else modify (\<lambda>s. s\<lparr>db_earnings := update_one (\<lambda>x. e_id x = e_id e \<and> \<not> e_released x \<and> e_release_date x = None)
              (\<lambda>x. x\<lparr>e_release_date := Some now\<rparr>) (db_earnings s)\<rparr>))"

lemma date_one:
  assumes "distinct (map e_id es)" "x \<in> set (update_one (\<lambda>x. e_id x = i \<and> \<not> e_released x \<and> e_release_date x = None)
      (\<lambda>x. x\<lparr>e_release_date := Some now\<rparr>) es)" "e_release_date x = None"
  shows "x \<in> set es \<and> (e_released x \<or> e_id x \<noteq> i)"
  using assms by (induction es) (auto simp: image_iff split: if_splits)

lemma release_stuck_run:
  assumes "distinct (map e_id (db_earnings s))"
  shows "\<exists>es'. release_stuck now days e s = (Inr (), s\<lparr>db_earnings := es'\<rparr>) \<and> map e_id es' = map e_id (db_earnings s) \<and>
    (\<forall>x\<in>set es'. e_release_date x = None \<longrightarrow> x \<in> set (db_earnings s) \<and>
       (e_released x \<or> e_id x \<noteq> e_id e \<or> \<not> due_order now days (e_order e) s))"
proof (cases "due_order now days (e_order e) s")
  case False
  then have "release_stuck now days e s = (Inr (), s)"
    by (auto simp: release_stuck_def due_order_def andThen_app split: option.splits)
  with False show ?thesis by (intro exI [of _ "db_earnings s"]) simp
next
  case True
  let ?es = "update_one (\<lambda>x. e_id x = e_id e \<and> \<not> e_released x \<and> e_release_date x = None) (\<lambda>x. x\<lparr>e_release_date := Some now\<rparr>) (db_earnings s)"
  from True have run: "release_stuck now days e s = (Inr (), s\<lparr>db_earnings := ?es\<rparr>)"
    by (auto simp: release_stuck_def due_order_def andThen_app split: option.splits)
  have "x \<in> set (db_earnings s) \<and> (e_released x \<or> e_id x \<noteq> e_id e)" if "x \<in> set ?es" "e_release_date x = None" for x
    by (rule date_one [OF assms that])
  then have "\<forall>x\<in>set ?es. e_release_date x = None \<longrightarrow> x \<in> set (db_earnings s) \<and>
      (e_released x \<or> e_id x \<noteq> e_id e \<or> \<not> due_order now days (e_order e) s)" by blast
  with run show ?thesis by (intro exI [of _ ?es]) (simp add: map_update_one)
qed

lemma release_stuck_all:
  assumes "distinct (map e_id (db_earnings s))"
  shows "\<exists>es'. for_each es (release_stuck now days) s = (Inr (), s\<lparr>db_earnings := es'\<rparr>) \<and> map e_id es' = map e_id (db_earnings s) \<and>
    (\<forall>x\<in>set es'. e_release_date x = None \<longrightarrow> x \<in> set (db_earnings s) \<and>
       (e_released x \<or> (\<forall>e\<in>set es. e_id x \<noteq> e_id e \<or> \<not> due_order now days (e_order e) s)))"
  using assms
proof (induction es arbitrary: s)
  case Nil
  then show ?case by (intro exI [of _ "db_earnings s"]) simp
next
  case (Cons e es)
  from release_stuck_run [OF Cons.prems] obtain es1 where 1: "release_stuck now days e s = (Inr (), s\<lparr>db_earnings := es1\<rparr>)"
    "map e_id es1 = map e_id (db_earnings s)" "\<forall>x\<in>set es1. e_release_date x = None \<longrightarrow> x \<in> set (db_earnings s) \<and>
       (e_released x \<or> e_id x \<noteq> e_id e \<or> \<not> due_order now days (e_order e) s)" by blast
  have d: "distinct (map e_id (db_earnings (s\<lparr>db_earnings := es1\<rparr>)))" using Cons.prems 1(2) by simp
  from Cons.IH [OF d] 1(2) obtain es2 where 2: "for_each es (release_stuck now days) (s\<lparr>db_earnings := es1\<rparr>) = (Inr (), s\<lparr>db_earnings := es2\<rparr>)"
    "map e_id es2 = map e_id (db_earnings s)" "\<forall>x\<in>set es2. e_release_date x = None \<longrightarrow> x \<in> set es1 \<and>
       (e_released x \<or> (\<forall>e\<in>set es. e_id x \<noteq> e_id e \<or> \<not> due_order now days (e_order e) s))"
    by (auto simp: due_order_def)
  from 1 2 show ?case by (intro exI [of _ es2]) (auto simp: andThen_app)
qed

text \<open>Filing a dispute freezes the vendor's earnings only until the order counts as stuck: the cron that schedules
  earnings without a release date does not ask for disputes, so once the order was dispatched long
  enough ago every frozen earning has a release date again, while the dispute is still open.\<close>

theorem dispute_freeze_expires:
  assumes "fileDispute c dto s = (Inr d, s1)" "distinct (map e_id (db_earnings s))" "distinct (map o_id (db_orders s))"
    "find_completed (cd_order_reference dto) c s = Some ord" "stuck_and_due (setting auto_release_days 10 s) now ord"
  shows "(\<forall>e\<in>set (db_earnings s1). vendor_unreleased (o_id ord) (cd_business_id dto) e \<longrightarrow> e_release_date e = None) \<and>
    (\<exists>s2. autoReleaseStuckEarnings now s1 = (Inr (), s2) \<and> db_disputes s2 = db_disputes s1 \<and> d \<in> set (db_disputes s2) \<and> ds_status d = DS_OPEN \<and>
      (\<forall>e\<in>set (db_earnings s2). vendor_unreleased (o_id ord) (cd_business_id dto) e \<longrightarrow> e_release_date e \<noteq> None))"
proof -
  let ?P = "vendor_unreleased (o_id ord) (cd_business_id dto)"
  let ?es = "update_many ?P (\<lambda>e. e\<lparr>e_release_date := None\<rparr>) (db_earnings s)"
  let ?days = "setting auto_release_days 10 s"
  from assms(1,4) have s1: "s1 = s\<lparr>db_earnings := ?es, db_next := Suc (db_next s), db_disputes := db_disputes s @ [d]\<rparr>"
    "d = new_dispute dto c ord (db_next s)"
    by (auto simp: fileDispute_def andThen_app Let_def reschedule_def split: if_splits)
  have frozen: "\<forall>e\<in>set ?es. ?P e \<longrightarrow> e_release_date e = None" by (auto simp: update_many_def)
  have ids: "distinct (map e_id (db_earnings s1))" using assms(2) s1(1) by (simp add: map_update_many)
  let ?stuck = "filter (\<lambda>e. \<not> e_released e \<and> e_release_date e = None) (db_earnings s1)"
  have days: "setting auto_release_days 10 s1 = ?days" using s1(1) by (simp add: setting_def)
  have auto: "autoReleaseStuckEarnings now s1 = for_each ?stuck (release_stuck now ?days) s1"
    by (simp add: autoReleaseStuckEarnings_def andThen_app days release_stuck_def [abs_def])
  obtain es' where run: "for_each ?stuck (release_stuck now ?days) s1 = (Inr (), s1\<lparr>db_earnings := es'\<rparr>)"
    "\<forall>x\<in>set es'. e_release_date x = None \<longrightarrow> x \<in> set (db_earnings s1) \<and>
       (e_released x \<or> (\<forall>e\<in>set ?stuck. e_id x \<noteq> e_id e \<or> \<not> due_order now ?days (e_order e) s1))"
    using release_stuck_all [OF ids, of ?stuck now ?days] by blast
  have "ord \<in> set (db_orders s)" using find_one_SomeD assms(4) by (fastforce simp: find_completed_def)
  then have due: "due_order now ?days (o_id ord) s1"
    using find_one_key_eq [OF assms(3)] assms(5) s1(1) by (simp add: due_order_def)
  have "e_release_date e \<noteq> None" if e: "e \<in> set es'" "?P e" for e
  proof
    assume none: "e_release_date e = None"
    have e': "\<not> e_released e" "e_order e = o_id ord" using e(2) by (simp_all add: vendor_unreleased_def)
    note left = bspec [OF run(2) e(1), THEN mp, OF none]
    with none e'(1) have "e \<in> set ?stuck" by simp
    with left e' due show False by metis
  qed
  then show ?thesis using frozen s1 auto run(1) by (auto simp: new_dispute_def)
qed

section \<open>Sample cases\<close>

definition sample_completed :: order where
  "sample_completed = (default_order 3 30 5 0)\<lparr>o_items := [(default_item 6)\<lparr>i_product := Some 60, i_business := Some 8, i_total_price := Some 1000\<rparr>,
       (default_item 7)\<lparr>i_product := Some 61, i_business := Some 8, i_total_price := Some 500\<rparr>],
     o_total := 1500, o_status := O_COMPLETED, o_payment_status := Paid,
     o_shipments := [(sample_shipment 9 8)\<lparr>sh_status := S_DELIVERED, sh_shipped_at := Some 1000, sh_delivered_at := Some 2000\<rparr>]\<rparr>"

definition sample_delivered :: db where
  "sample_delivered = empty_db\<lparr>db_orders := [sample_completed], db_next := 100,
     db_earnings := [sample_earning\<lparr>e_order := 3, e_item := Some 6, e_release_date := Some 5000\<rparr>],
     db_transactions := [sample_txn\<lparr>t_order := Some 3, t_amount := 1500\<rparr>]\<rparr>"

definition sample_dispute_dto :: create_dispute_dto where
  "sample_dispute_dto = \<lparr>cd_order_reference = 30, cd_business_id = 8, cd_reason = DAMAGED, cd_description = ''torn'', cd_evidence_urls = None\<rparr>"

definition sample_return_dto :: create_return_dto where
  "sample_return_dto = \<lparr>cr_order_reference = 30, cr_business_id = 8, cr_item_ids = [60], cr_reason = RR_DAMAGED,
     cr_description = None, cr_evidence_urls = None\<rparr>"

lemma sample_books_empty: "dispute_book sample_delivered" "return_book sample_delivered"
  by (simp_all add: dispute_book_def return_book_def case_book_def sample_delivered_def empty_db_def)

theorem closed_cases_stay_closed_witness:
  "\<exists>s d. after_sales_step\<^sup>*\<^sup>* sample_delivered s \<and> dispute_book s \<and> d \<in> set (db_disputes s) \<and> ds_status d = DS_RESOLVED_RELEASED"
proof -
  let ?s1 = "snd (fileDispute 5 sample_dispute_dto sample_delivered)"
  let ?s2 = "snd (resolveDispute (\<lambda>_ _. Inr []) 9000 100 1 \<lparr>rd_resolution = RELEASE_TO_VENDOR, rd_refund_amount = None, rd_admin_notes = None\<rparr> ?s1)"
  have "after_sales_step\<^sup>*\<^sup>* sample_delivered ?s2"
    using after_sales_step.filing after_sales_step.resolve by (meson r_into_rtranclp rtranclp_trans)
  moreover from closed_cases_stay_closed [OF this sample_books_empty] have "dispute_book ?s2" by blast
  moreover have "list_ex (\<lambda>d. ds_status d = DS_RESOLVED_RELEASED) (db_disputes ?s2)" by code_simp
  ultimately show ?thesis by (auto simp: list_ex_iff)
qed

theorem dispute_freeze_expires_witness:
  "\<exists>d s1 s2. fileDispute 5 sample_dispute_dto sample_delivered = (Inr d, s1) \<and>
     autoReleaseStuckEarnings 900000000 s1 = (Inr (), s2) \<and> d \<in> set (db_disputes s2) \<and> ds_status d = DS_OPEN"
proof -
  let ?r = "fileDispute 5 sample_dispute_dto sample_delivered"
  have "\<not> isl (fst ?r)" by code_simp
  then obtain d s1 where run: "?r = (Inr d, s1)" using succeeded [where m = "fileDispute 5 sample_dispute_dto" and s = sample_delivered] by blast
  have ids: "distinct (map e_id (db_earnings sample_delivered))" "distinct (map o_id (db_orders sample_delivered))"
    "find_completed (cd_order_reference sample_dispute_dto) 5 sample_delivered = Some sample_completed"
    "stuck_and_due (setting auto_release_days 10 sample_delivered) 900000000 sample_completed"
    by (simp_all add: sample_delivered_def sample_completed_def default_order_def empty_db_def find_completed_def sample_dispute_dto_def
        stuck_and_due_def dispatch_anchors_def dispatched_def sample_shipment_def default_shipment_def setting_def map_filter_simps)
  from dispute_freeze_expires [OF run ids] run show ?thesis by blast
qed


theorem refused_dispute_refund_is_recorded_witness:
  "\<exists>d s2. resolveDispute (\<lambda>_ _. Inl (ExternalError ''Transaction not found'')) 6000 100 1
       \<lparr>rd_resolution = FULL_REFUND, rd_refund_amount = None, rd_admin_notes = None\<rparr>
       (snd (fileDispute 5 sample_dispute_dto sample_delivered)) = (Inr d, s2) \<and>
     ds_status d = DS_RESOLVED_REFUND \<and> db_wallets s2 = [] \<and> db_earnings s2 = []"
proof -
  let ?s = "snd (fileDispute 5 sample_dispute_dto sample_delivered)"
  let ?d = "hd (db_disputes ?s)" and ?tx = "hd (db_transactions ?s)"
  let ?dto = "\<lparr>rd_resolution = FULL_REFUND, rd_refund_amount = None, rd_admin_notes = None\<rparr>"
  let ?api = "(\<lambda>_ _. Inl (ExternalError ''Transaction not found'')) :: oid \<Rightarrow> rat \<Rightarrow> error + string"
  have facts: "find_one (\<lambda>d. ds_id d = 100) (db_disputes ?s) = Some ?d" "open_dispute (ds_status ?d)"
    "find_one (\<lambda>od. o_id od = ds_order ?d) (db_orders ?s) = Some sample_completed"
    "find_one (is_order_payment (o_id sample_completed)) (db_transactions ?s) = Some ?tx" "t_channel ?tx = Checkout" by code_simp+
  obtain d s2 where run: "resolveDispute ?api 6000 100 1 ?dto ?s = (Inr d, s2)" "ds_status d = DS_RESOLVED_REFUND" "db_wallets s2 = db_wallets ?s"
    using refused_dispute_refund_is_recorded [OF facts, of ?api "ExternalError ''Transaction not found''" ?dto 6000 1] by auto
  have "db_earnings (snd (resolveDispute ?api 6000 100 1 ?dto ?s)) = []" "db_wallets ?s = []" by code_simp+
  with run show ?thesis by auto
qed

theorem partial_dispute_refunds_whole_charge_witness:
  "\<exists>d s2 tx. resolveDispute (\<lambda>_ _. Inr ''success'') 6000 100 1
       \<lparr>rd_resolution = PARTIAL_REFUND, rd_refund_amount = Some 100, rd_admin_notes = None\<rparr>
       (snd (fileDispute 5 sample_dispute_dto sample_delivered)) = (Inr d, s2) \<and>
     ds_refund_amount d = Some 100 \<and> find_one (\<lambda>t. t_reference t = 2) (db_transactions s2) = Some tx \<and>
     m_refunded_amount (t_metadata tx) = Some 1500"
proof -
  let ?s = "snd (fileDispute 5 sample_dispute_dto sample_delivered)"
  let ?d = "hd (db_disputes ?s)" and ?tx = "hd (db_transactions ?s)"
  let ?dto = "\<lparr>rd_resolution = PARTIAL_REFUND, rd_refund_amount = Some 100, rd_admin_notes = None\<rparr>"
  let ?api = "(\<lambda>_ _. Inr ''success'') :: oid \<Rightarrow> rat \<Rightarrow> error + string"
  have facts: "find_one (\<lambda>d. ds_id d = 100) (db_disputes ?s) = Some ?d" "open_dispute (ds_status ?d)"
    "find_one (\<lambda>od. o_id od = ds_order ?d) (db_orders ?s) = Some sample_completed"
    "find_one (is_order_payment (o_id sample_completed)) (db_transactions ?s) = Some ?tx" "t_channel ?tx = Checkout"
    "find_one (\<lambda>t. t_reference t = t_reference ?tx) (db_transactions ?s) = Some ?tx" "distinct (map t_id (db_transactions ?s))"
    "m_refund_status (t_metadata ?tx) \<noteq> Some ''success''" by code_simp+
  have "t_amount ?tx = 1500" "t_reference ?tx = 2" by code_simp+
  with partial_dispute_refunds_whole_charge [OF facts, of ?api ?dto 100 6000 1] show ?thesis by auto
qed


end
