(* ===== verification/Bespoke.thy ===== *)
theory Bespoke
  imports Webhook
begin

text \<open>
  Bespoke designs and quotes (\<open>src/modules/bespoke/bespoke.service.ts\<close>): a customer draws a design and
  asks up to five vendors for a quote, the vendors draft, submit and revise, the customer accepts one and
  pays, and quotes expire. A card payment is finalised by the webhook (theory Webhook), a wallet payment
  here. The customer's addresses and Paystack's initialisation are arguments, as in Checkout. Listings,
  mails and notifications are left out.
\<close>

definition MAX_VENDORS_PER_DESIGN :: nat where
  "MAX_VENDORS_PER_DESIGN = 5"

definition QUOTE_EXPIRY_DAYS :: int where
  "QUOTE_EXPIRY_DAYS = 7"

section \<open>Designs\<close>

record create_design_dto =
  dd_name :: string
  dd_category :: string
  dd_gender :: string
  dd_design_images :: "string list"
  dd_reference_images :: "string list option"
  dd_fabric_id :: "oid option"
  dd_description :: "string option"
  dd_measurement_id :: "oid option"

text \<open>\<open>value || null\<close> on a string.\<close>

definition or_null :: "string option \<Rightarrow> string option" where
  "or_null x = (if truthy_string x then x else None)"

definition check_fabric :: "oid option \<Rightarrow> (db, unit) action" where
  "check_fabric fabricId = (case fabricId of None \<Rightarrow> ret ()
     | Some i \<Rightarrow> andThen (gets (find_product (Some i))) (\<lambda>fabric. case fabric of
         None \<Rightarrow> throw (BadRequestException ''Invalid fabric: product not found or not a fabric type'')
       | Some p \<Rightarrow> if p_kind p \<noteq> FABRIC then throw (BadRequestException ''Invalid fabric: product not found or not a fabric type'')
                   else ret ()))"

definition new_design :: "create_design_dto \<Rightarrow> oid \<Rightarrow> oid \<Rightarrow> oid \<Rightarrow> bespoke_design" where
  "new_design dto customer reference i = \<lparr>bd_id = i, bd_reference = reference, bd_customer = customer, bd_name = dd_name dto,
     bd_category = dd_category dto, bd_gender = dd_gender dto, bd_design_images = dd_design_images dto,
     bd_reference_images = nullish (dd_reference_images dto) [], bd_fabric = dd_fabric_id dto,
     bd_description = or_null (dd_description dto), bd_measurement = dd_measurement_id dto,
     bd_status = BD_DRAFT, bd_accepted_quote = None\<rparr>"

definition createDesign :: "create_design_dto \<Rightarrow> oid \<Rightarrow> (db, bespoke_design) action" where
  "createDesign dto customer = andThen (check_fabric (dd_fabric_id dto)) (\<lambda>_.
     andThen fresh (\<lambda>reference. andThen fresh (\<lambda>i. let d = new_design dto customer reference i in
     andThen (modify (\<lambda>s. s\<lparr>db_designs := db_designs s @ [d]\<rparr>)) (\<lambda>_. ret d))))"

definition find_design :: "oid \<Rightarrow> oid \<Rightarrow> (db, bespoke_design) action" where
  "find_design designId customer = andThen (gets (\<lambda>s. find_one (\<lambda>d. bd_id d = designId \<and> bd_customer d = customer) (db_designs s)))
     (\<lambda>found. case found of None \<Rightarrow> throw (NotFoundException ''Design not found'') | Some d \<Rightarrow> ret d)"

definition set_design :: "oid \<Rightarrow> (bespoke_design \<Rightarrow> bespoke_design) \<Rightarrow> (db, unit) action" where
  "set_design i f = modify (\<lambda>s. s\<lparr>db_designs := update_one (\<lambda>d. bd_id d = i) f (db_designs s)\<rparr>)"

definition edit_design :: "create_design_dto \<Rightarrow> bespoke_design \<Rightarrow> bespoke_design" where
  "edit_design dto d = d\<lparr>bd_name := dd_name dto, bd_category := dd_category dto, bd_gender := dd_gender dto,
     bd_design_images := dd_design_images dto, bd_reference_images := nullish (dd_reference_images dto) [],
     bd_description := or_null (dd_description dto),
     bd_fabric := (if dd_fabric_id dto = None then bd_fabric d else dd_fabric_id dto),
     bd_measurement := (if dd_measurement_id dto = None then bd_measurement d else dd_measurement_id dto)\<rparr>"

definition updateDesign :: "oid \<Rightarrow> create_design_dto \<Rightarrow> oid \<Rightarrow> (db, unit) action" where
  "updateDesign designId dto customer = andThen (find_design designId customer) (\<lambda>d.
     if bd_status d \<notin> {BD_DRAFT, BD_REQUESTING_QUOTES} then throw (BadRequestException ''Cannot update a design already in production'')
     else andThen (check_fabric (dd_fabric_id dto)) (\<lambda>_. set_design designId (edit_design dto)))"

definition decline_open :: "(bespoke_quote \<Rightarrow> bool) \<Rightarrow> (db, unit) action" where
  "decline_open P = modify (\<lambda>s. s\<lparr>db_quotes := update_many (\<lambda>q. P q \<and> open_quote q) (\<lambda>q. q\<lparr>bq_status := BQ_DECLINED\<rparr>) (db_quotes s)\<rparr>)"

definition cancelDesign :: "oid \<Rightarrow> oid \<Rightarrow> (db, unit) action" where
  "cancelDesign designId customer = andThen (find_design designId customer) (\<lambda>d.
     if bd_status d \<in> {BD_IN_PRODUCTION, BD_COMPLETED}
     then throw (BadRequestException ''Cannot cancel a design that is already in production or completed'')
     else andThen (decline_open (\<lambda>q. bq_design q = bd_id d)) (\<lambda>_. set_design designId (\<lambda>d. d\<lparr>bd_status := BD_CANCELLED\<rparr>)))"

section \<open>Asking for quotes\<close>

definition new_quote :: "instant \<Rightarrow> oid \<Rightarrow> oid \<Rightarrow> oid \<Rightarrow> oid \<Rightarrow> oid \<Rightarrow> bespoke_quote" where
  "new_quote now designId customer vendor reference i = \<lparr>bq_id = i, bq_reference = reference, bq_design = designId, bq_vendor = vendor,
     bq_customer = customer, bq_status = BQ_PENDING, bq_line_items = [], bq_total = 0, bq_required_fabric_yards = None,
     bq_estimated_completion_days = None, bq_vendor_notes = None, bq_revision_history = [], bq_submitted_at = None,
     bq_accepted_at = None, bq_expires_at = now + QUOTE_EXPIRY_DAYS * day_ms\<rparr>"

definition add_quote :: "instant \<Rightarrow> oid \<Rightarrow> oid \<Rightarrow> oid \<Rightarrow> (db, unit) action" where
  "add_quote now designId customer vendor = andThen fresh (\<lambda>reference. andThen fresh (\<lambda>i.
     modify (\<lambda>s. s\<lparr>db_quotes := db_quotes s @ [new_quote now designId customer vendor reference i]\<rparr>)))"

definition design_quotes :: "oid \<Rightarrow> db \<Rightarrow> bespoke_quote list" where
  "design_quotes designId s = filter (\<lambda>q. bq_design q = designId) (db_quotes s)"

definition requestQuotes :: "instant \<Rightarrow> oid \<Rightarrow> oid list \<Rightarrow> oid \<Rightarrow> (db, unit) action" where
  "requestQuotes now designId vendor_ids customer = andThen (find_design designId customer) (\<lambda>d.
     if bd_status d \<notin> {BD_DRAFT, BD_REQUESTING_QUOTES, BD_QUOTED} then throw (BadRequestException ''Cannot request quotes when design status is'')
     else andThen (gets (design_quotes (bd_id d))) (\<lambda>existing.
       if length existing + length vendor_ids > MAX_VENDORS_PER_DESIGN then throw (BadRequestException ''Maximum 5 vendors per design.'')
       else let newVendorIds = filter (\<lambda>v. v \<notin> set (map bq_vendor existing)) vendor_ids in
       if newVendorIds = [] then throw (BadRequestException ''All selected vendors already have quote requests for this design'')
       else andThen (gets (\<lambda>s. filter (\<lambda>b. b_id b \<in> set newVendorIds) (db_businesses s))) (\<lambda>businesses.
       if length businesses \<noteq> length newVendorIds then throw (BadRequestException ''One or more vendor IDs are invalid'')
       else andThen (for_each newVendorIds (add_quote now (bd_id d) customer)) (\<lambda>_.
            if bd_status d = BD_DRAFT then set_design designId (\<lambda>d. d\<lparr>bd_status := BD_REQUESTING_QUOTES\<rparr>) else ret ()))))"

section \<open>The vendor's side\<close>

definition find_quote :: "(bespoke_quote \<Rightarrow> bool) \<Rightarrow> (db, bespoke_quote) action" where
  "find_quote P = andThen (gets (\<lambda>s. find_one P (db_quotes s)))
     (\<lambda>found. case found of None \<Rightarrow> throw (NotFoundException ''Quote not found'') | Some q \<Rightarrow> ret q)"

definition set_quote :: "oid \<Rightarrow> (bespoke_quote \<Rightarrow> bespoke_quote) \<Rightarrow> (db, unit) action" where
  "set_quote i f = modify (\<lambda>s. s\<lparr>db_quotes := update_one (\<lambda>q. bq_id q = i) f (db_quotes s)\<rparr>)"

definition editable :: "quote_status \<Rightarrow> bool" where
  "editable st \<longleftrightarrow> st \<in> {BQ_PENDING, BQ_DRAFT, BQ_REVISION_REQUESTED}"

record quote_draft_dto =
  qd_line_items :: "line_item list option"
  qd_required_fabric_yards :: "rat option"
  qd_estimated_completion_days :: "rat option"
  qd_vendor_notes :: "string option"

definition items_total :: "line_item list \<Rightarrow> rat" where
  "items_total items = (\<Sum>i\<leftarrow>items. or_num (li_amount i) 0)"

definition draft_quote :: "quote_draft_dto \<Rightarrow> bespoke_quote \<Rightarrow> bespoke_quote" where
  "draft_quote dto q = q\<lparr>bq_line_items := nullish (qd_line_items dto) (bq_line_items q),
     bq_required_fabric_yards := (if qd_required_fabric_yards dto = None then bq_required_fabric_yards q else qd_required_fabric_yards dto),
     bq_estimated_completion_days := (if qd_estimated_completion_days dto = None then bq_estimated_completion_days q else qd_estimated_completion_days dto),
     bq_vendor_notes := (if qd_vendor_notes dto = None then bq_vendor_notes q else qd_vendor_notes dto),
     bq_total := (case qd_line_items dto of None \<Rightarrow> bq_total q | Some items \<Rightarrow> items_total items),
     bq_status := BQ_DRAFT\<rparr>"

definition saveQuoteDraft :: "oid \<Rightarrow> oid \<Rightarrow> quote_draft_dto \<Rightarrow> (db, unit) action" where
  "saveQuoteDraft quoteId vendor dto = andThen (find_quote (\<lambda>q. bq_id q = quoteId \<and> bq_vendor q = vendor)) (\<lambda>q.
     if \<not> editable (bq_status q) then throw (BadRequestException ''Cannot edit a quote with this status'')
     else set_quote quoteId (draft_quote dto))"

record submit_quote_dto =
  sq_line_items :: "line_item list"
  sq_required_fabric_yards :: rat
  sq_estimated_completion_days :: rat
  sq_vendor_notes :: "string option"

definition submitted_quote :: "instant \<Rightarrow> submit_quote_dto \<Rightarrow> bespoke_quote \<Rightarrow> bespoke_quote" where
  "submitted_quote now dto q = q\<lparr>bq_line_items := sq_line_items dto, bq_total := items_total (sq_line_items dto),
     bq_required_fabric_yards := Some (sq_required_fabric_yards dto),
     bq_estimated_completion_days := Some (sq_estimated_completion_days dto),
     bq_vendor_notes := Some (nullish (sq_vendor_notes dto) []), bq_status := BQ_SUBMITTED, bq_submitted_at := Some now,
     bq_revision_history := (if bq_status q = BQ_REVISION_REQUESTED
        then bq_revision_history q @ [\<lparr>re_requested_by = By_vendor, re_message = ''Quote updated and resubmitted'', re_created_at = now\<rparr>]
        else bq_revision_history q)\<rparr>"

definition expire_quote :: "oid \<Rightarrow> (db, 'a) action" where
  "expire_quote i = andThen (set_quote i (\<lambda>q. q\<lparr>bq_status := BQ_EXPIRED\<rparr>)) (\<lambda>_. throw (BadRequestException ''This quote has expired''))"

definition submitQuote :: "instant \<Rightarrow> oid \<Rightarrow> oid \<Rightarrow> submit_quote_dto \<Rightarrow> (db, unit) action" where
  "submitQuote now quoteId vendor dto = andThen (find_quote (\<lambda>q. bq_id q = quoteId \<and> bq_vendor q = vendor)) (\<lambda>q.
     if \<not> editable (bq_status q) then throw (BadRequestException ''Cannot submit a quote with this status'')
     else if now > bq_expires_at q then expire_quote quoteId
     else andThen (set_quote quoteId (submitted_quote now dto)) (\<lambda>_. set_design (bq_design q) (\<lambda>d. d\<lparr>bd_status := BD_QUOTED\<rparr>)))"

definition requestRevision :: "instant \<Rightarrow> oid \<Rightarrow> oid \<Rightarrow> string \<Rightarrow> (db, unit) action" where
  "requestRevision now quoteId customer message = andThen (find_quote (\<lambda>q. bq_id q = quoteId \<and> bq_customer q = customer)) (\<lambda>q.
     if bq_status q \<notin> {BQ_SUBMITTED, BQ_DRAFT} then throw (BadRequestException ''Can only request revision on submitted or draft quotes'')
     else set_quote quoteId (\<lambda>q. q\<lparr>bq_status := BQ_REVISION_REQUESTED, bq_revision_history := bq_revision_history q @
            [\<lparr>re_requested_by = By_customer, re_message = message, re_created_at = now\<rparr>]\<rparr>))"

definition expireQuotes :: "instant \<Rightarrow> (db, unit) action" where
  "expireQuotes now = modify (\<lambda>s. s\<lparr>db_quotes := update_many (\<lambda>q. bq_expires_at q < now \<and> editable (bq_status q))
     (\<lambda>q. q\<lparr>bq_status := BQ_EXPIRED\<rparr>) (db_quotes s)\<rparr>)"

section \<open>Accepting a quote\<close>

definition finalizeBespokeOrder :: "instant \<Rightarrow> order \<Rightarrow> bespoke_quote \<Rightarrow> bespoke_design \<Rightarrow> (db, unit) action" where
  "finalizeBespokeOrder now ord q d =
     andThen (modify (accept_bespoke_quote now q)) (\<lambda>_.
     andThen (set_design (bd_id d) (\<lambda>d. d\<lparr>bd_status := BD_IN_PRODUCTION, bd_accepted_quote := Some (bq_id q)\<rparr>)) (\<lambda>_.
     andThen (set_order (o_id ord) (\<lambda>od. od\<lparr>o_status := O_PROCESSING, o_payment_status := Paid\<rparr>)) (\<lambda>_.
     andThen (recordBusinessEarnings (o_id ord)) (\<lambda>_.
     scheduleBespokeUpfront now ord))))"

text \<open>The customer's chosen address, else the default one, else any.\<close>

definition quote_address :: "address list \<Rightarrow> oid \<Rightarrow> oid option \<Rightarrow> address option" where
  "quote_address addresses customer addressId =
     (let own = filter (\<lambda>a. adr_customer a = customer) addresses
      in case Option.bind addressId (\<lambda>i. find_one (\<lambda>a. adr_id a = i) own) of
           Some a \<Rightarrow> Some a
         | None \<Rightarrow> (case find_one adr_is_default own of Some a \<Rightarrow> Some a | None \<Rightarrow> find_one (\<lambda>_. True) own))"

definition quote_shipment :: "instant \<Rightarrow> bespoke_quote \<Rightarrow> oid \<Rightarrow> vendor_shipment" where
  "quote_shipment now q i = (default_shipment (bq_vendor q))\<lparr>sh_id := i, sh_confirmed := True, sh_confirmed_at := Some now,
     sh_fulfillment_deadline := Some (now + \<lfloor>or_num (bq_estimated_completion_days q) 7\<rfloor> * day_ms)\<rparr>"

definition quote_order :: "instant \<Rightarrow> oid \<Rightarrow> bespoke_quote \<Rightarrow> bespoke_design \<Rightarrow> oid \<Rightarrow> oid \<Rightarrow> oid \<Rightarrow> oid \<Rightarrow> order" where
  "quote_order now customer q d reference itemId shipmentId i = (default_order i reference customer now)\<lparr>
     o_type := Bespoke, o_bespoke_design := Some (bd_id d), o_bespoke_quote := Some (bq_id q),
     o_items := [(default_item itemId)\<lparr>i_product := bd_fabric d, i_business := Some (bq_vendor q),
                   i_total_price := Some (bq_total q), i_note := bq_vendor_notes q\<rparr>],
     o_shipments := [quote_shipment now q shipmentId], o_subtotal := bq_total q, o_total := bq_total q\<rparr>"

definition place_quote_order :: "address list \<Rightarrow> instant \<Rightarrow> oid \<Rightarrow> oid option \<Rightarrow> bespoke_quote \<Rightarrow> bespoke_design \<Rightarrow> (db, order) action" where
  "place_quote_order addresses now customer addressId q d = (case quote_address addresses customer addressId of
       None \<Rightarrow> throw (BadRequestException ''Please add a shipping address before accepting a quote.'')
     | Some _ \<Rightarrow> andThen fresh (\<lambda>reference. andThen fresh (\<lambda>itemId. andThen fresh (\<lambda>shipmentId. andThen fresh (\<lambda>i.
         let ord = quote_order now customer q d reference itemId shipmentId i
         in andThen (insert_order ord) (\<lambda>_. ret ord))))))"

definition bespoke_payment :: "order \<Rightarrow> oid option \<Rightarrow> channel \<Rightarrow> transaction_status option \<Rightarrow> create_transaction_dto" where
  "bespoke_payment ord wallet ch st = \<lparr>ct_initiator = Some (o_customer ord), ct_amount = o_total ord, ct_type = DEBIT,
     ct_status = st, ct_wallet = wallet, ct_order = Some (o_id ord), ct_channel = ch,
     ct_description = Some ''Payment for bespoke order'', ct_currency = None, ct_payment_method = None,
     ct_metadata = Some (empty_metadata\<lparr>m_order_reference := Some (o_reference ord)\<rparr>)\<rparr>"

definition pay_quote_from_wallet :: "instant \<Rightarrow> order \<Rightarrow> bespoke_quote \<Rightarrow> bespoke_design \<Rightarrow> (db, transaction) action" where
  "pay_quote_from_wallet now ord q d =
     andThen (getOrCreateWallet None (Some (o_customer ord))) (\<lambda>w.
     if w_balance w < o_total ord then throw (BadRequestException ''Insufficient wallet balance'')
     else andThen (debitWallet now (w_id w) (o_total ord)) (\<lambda>_.
       attempt (andThen (create_transaction (bespoke_payment ord (Some (w_id w)) Wallet_checkout (Some T_SUCCESS))) (\<lambda>tx.
                andThen (finalizeBespokeOrder now ord q d) (\<lambda>_. ret tx)))
         (\<lambda>err. andThen (ignore_errors (creditWallet now (w_id w) (o_total ord))) (\<lambda>_. throw err))))"

definition pending_order :: "oid \<Rightarrow> db \<Rightarrow> order option" where
  "pending_order quoteId s = find_one (\<lambda>od. o_bespoke_quote od = Some quoteId \<and> o_status od = O_PENDING) (db_orders s)"

definition acceptQuote ::
  "(oid \<Rightarrow> error option) \<Rightarrow> address list \<Rightarrow> instant \<Rightarrow> oid \<Rightarrow> oid \<Rightarrow> payment_choice \<Rightarrow> oid option \<Rightarrow> (db, order \<times> transaction) action" where
  "acceptQuote pay_init addresses now quoteId customer paymentMethod addressId =
     andThen (find_quote (\<lambda>q. bq_id q = quoteId \<and> bq_customer q = customer)) (\<lambda>q.
     if bq_status q \<noteq> BQ_SUBMITTED then throw (BadRequestException ''Only submitted quotes can be accepted.'')
     else if now > bq_expires_at q then expire_quote quoteId
     else andThen (gets (\<lambda>s. find_one (\<lambda>d. bd_id d = bq_design q) (db_designs s))) (\<lambda>design. case design of
         None \<Rightarrow> throw (NotFoundException ''Design not found'')
       | Some d \<Rightarrow> andThen (gets (pending_order quoteId)) (\<lambda>found.
           andThen (case found of Some ord \<Rightarrow> ret ord
                    | None \<Rightarrow> place_quote_order addresses now customer addressId q d) (\<lambda>ord.
           case paymentMethod of
             Pay_wallet \<Rightarrow> andThen (pay_quote_from_wallet now ord q d) (\<lambda>tx. ret (ord, tx))
           | Pay_paystack \<Rightarrow> andThen (create_transaction (bespoke_payment ord None Checkout None)) (\<lambda>tx.
               andThen (initialize_payment pay_init (t_reference tx)) (\<lambda>_. ret (ord, tx)))))))"

end
