(* ===== verification/Quotes.thy ===== *)
theory Quotes
  imports Bespoke Events
begin

text \<open>
  Designs and quotes over time, whatever customers and vendors request, cards pay and crons expire: how
  many quotes a design can have, when one can still be accepted, and what is never written again.
\<close>

section \<open>The state of the quotes\<close>

definition closed_design :: "design_status \<Rightarrow> bool" where
  "closed_design st \<longleftrightarrow> st \<in> {BD_ACCEPTED, BD_IN_PRODUCTION, BD_COMPLETED, BD_CANCELLED}"

text \<open>Whether the design with this id exists, and is closed.\<close>

definition phase :: "bespoke_design list \<Rightarrow> oid \<Rightarrow> bool option" where
  "phase ds i = map_option (\<lambda>d. closed_design (bd_status d)) (find_one (\<lambda>d. bd_id d = i) ds)"

text \<open>An open quote has an open design, an accepted one a closed design.\<close>

fun fits :: "bool option \<Rightarrow> bespoke_quote \<Rightarrow> bool" where
  "fits None q = False"
| "fits (Some shut) q = ((open_quote q \<longrightarrow> \<not> shut) \<and> (bq_status q = BQ_ACCEPTED \<longrightarrow> shut))"

definition desk :: "oid \<Rightarrow> bespoke_design list \<Rightarrow> bespoke_quote list \<Rightarrow> bool" where
  "desk n ds qs \<longleftrightarrow> distinct (map bd_id ds) \<and> (\<forall>d\<in>set ds. bd_id d < n) \<and> distinct (map bq_id qs) \<and> (\<forall>q\<in>set qs. bq_id q < n) \<and>
     (\<forall>i. length (filter (\<lambda>q. bq_design q = i) qs) \<le> MAX_VENDORS_PER_DESIGN \<and>
          distinct (map bq_vendor (filter (\<lambda>q. bq_design q = i) qs))) \<and>
     (\<forall>q\<in>set qs. fits (phase ds (bq_design q)) q)"

definition quote_link :: "order \<Rightarrow> oid option \<times> oid option" where
  "quote_link od = (o_bespoke_quote od, o_bespoke_design od)"

text \<open>An order for a quote names that quote's design.\<close>

definition linked :: "bespoke_quote list \<Rightarrow> oid option \<times> oid option \<Rightarrow> bool" where
  "linked qs l \<longleftrightarrow> (case fst l of None \<Rightarrow> snd l = None | Some i \<Rightarrow> \<exists>q\<in>set qs. bq_id q = i \<and> snd l = Some (bq_design q))"

definition desk_at :: "bespoke_design list \<Rightarrow> bespoke_quote list \<Rightarrow> oid \<Rightarrow> db \<Rightarrow> bool" where
  "desk_at ds qs n s \<longleftrightarrow> db_designs s = ds \<and> db_quotes s = qs \<and> n \<le> db_next s \<and>
     (\<forall>od\<in>set (db_orders s). linked qs (quote_link od)) \<and> distinct (map b_id (db_businesses s))"

definition quote_book :: "db \<Rightarrow> bool" where
  "quote_book s \<longleftrightarrow> desk (db_next s) (db_designs s) (db_quotes s) \<and> desk_at (db_designs s) (db_quotes s) 0 s"

text \<open>What lasts: an accepted quote, and a closed design.\<close>

definition lasts :: "db \<Rightarrow> db \<Rightarrow> bool" where
  "lasts s s' \<longleftrightarrow> (\<forall>q\<in>set (db_quotes s). bq_status q = BQ_ACCEPTED \<longrightarrow> q \<in> set (db_quotes s')) \<and>
     (\<forall>i. phase (db_designs s) i = Some True \<longrightarrow> phase (db_designs s') i = Some True)"

definition goes_on :: "db \<Rightarrow> db \<Rightarrow> bool" where
  "goes_on s s' \<longleftrightarrow> quote_book s' \<and> lasts s s'"

interpretation desk_view: order_view quote_link "desk_at ds qs n" for ds qs n
proof
  fix s :: db and f :: "order \<Rightarrow> order" and Q
  assume f: "\<And>od. quote_link (f od) = quote_link od" and s: "desk_at ds qs n s"
  have "\<forall>od\<in>set (update_one Q f (db_orders s)). linked qs (quote_link od)"
    by (rule update_one_all) (use s f in \<open>auto simp: desk_at_def\<close>)
  with s show "desk_at ds qs n (s\<lparr>db_orders := update_one Q f (db_orders s)\<rparr>)" by (simp add: desk_at_def)
qed (auto simp: desk_at_def aside_def quote_link_def)

lemma desk_later: "desk n ds qs \<Longrightarrow> n \<le> m \<Longrightarrow> desk m ds qs"
  unfolding desk_def by (meson le_trans less_le_trans)

lemma goes_on_same:
  assumes "quote_book s" "desk_at (db_designs s) (db_quotes s) (db_next s) t"
  shows "goes_on s t"
  using assms desk_later [of "db_next s" _ _ "db_next t"]
  by (auto simp: goes_on_def quote_book_def lasts_def desk_at_def)

lemma book_desk_at: "quote_book s \<Longrightarrow> desk_at (db_designs s) (db_quotes s) (db_next s) s"
  by (simp add: quote_book_def desk_at_def)

lemma goes_on_refl: "quote_book s \<Longrightarrow> goes_on s s"
  by (simp add: goes_on_def lasts_def)

lemma goes_on_trans: "goes_on s t \<Longrightarrow> goes_on t u \<Longrightarrow> goes_on s u"
  unfolding goes_on_def lasts_def by blast

lemma bounded_keys: "(\<forall>x\<in>set xs. k x < n) = list_all (\<lambda>y. y < (n::oid)) (map k xs)"
  by (simp add: list_all_iff)

text \<open>Rewriting the quotes in place, and the status of designs.\<close>

definition quote_key :: "bespoke_quote \<Rightarrow> oid \<times> oid \<times> oid" where
  "quote_key q = (bq_id q, bq_design q, bq_vendor q)"

lemma filter_keys:
  "map bq_vendor (filter (\<lambda>q. bq_design q = i) qs) = map (snd \<circ> snd) (filter (\<lambda>k. fst (snd k) = i) (map quote_key qs))"
  by (induction qs) (simp_all add: quote_key_def)

lemma keys_filter:
  assumes "map quote_key qs' = map quote_key qs"
  shows "map bq_vendor (filter (\<lambda>q. bq_design q = i) qs') = map bq_vendor (filter (\<lambda>q. bq_design q = i) qs)"
  unfolding filter_keys assms by (rule refl)

lemma desk_rewrite:
  assumes "desk n ds qs" "map bd_id ds' = map bd_id ds" "map quote_key qs' = map quote_key qs"
    "\<forall>q\<in>set qs'. fits (phase ds' (bq_design q)) q"
  shows "desk n ds' qs'"
proof -
  have ids: "map bq_id qs' = map bq_id qs"
    using arg_cong [OF assms(3), of "map fst"] by (simp add: quote_key_def comp_def)
  have "(\<forall>d\<in>set ds'. bd_id d < n) = (\<forall>d\<in>set ds. bd_id d < n)" "(\<forall>q\<in>set qs'. bq_id q < n) = (\<forall>q\<in>set qs. bq_id q < n)"
    using bounded_keys [of ds' bd_id] bounded_keys [of ds bd_id] bounded_keys [of qs' bq_id] bounded_keys [of qs bq_id] assms(2) ids by (simp_all only:)
  moreover have "length (filter (\<lambda>q. bq_design q = i) qs') = length (filter (\<lambda>q. bq_design q = i) qs)" for i
    using arg_cong [OF keys_filter [OF assms(3)], of length i] by simp
  ultimately show ?thesis using assms ids keys_filter [OF assms(3)] by (simp add: desk_def)
qed

lemma linked_rewrite: "map quote_key qs' = map quote_key qs \<Longrightarrow> linked qs l \<Longrightarrow> linked qs' l"
  unfolding linked_def
proof (cases "fst l")
  case (Some i)
  assume keys: "map quote_key qs' = map quote_key qs"
    and l: "case fst l of None \<Rightarrow> snd l = None | Some i \<Rightarrow> \<exists>q\<in>set qs. bq_id q = i \<and> snd l = Some (bq_design q)"
  from l Some obtain q where q: "q \<in> set qs" "bq_id q = i" "snd l = Some (bq_design q)" by auto
  have "quote_key q \<in> quote_key ` set qs'" using arg_cong [OF keys, of set] q(1) by simp
  with q Some show "case fst l of None \<Rightarrow> snd l = None | Some i \<Rightarrow> \<exists>q\<in>set qs'. bq_id q = i \<and> snd l = Some (bq_design q)"
    by (auto simp: quote_key_def)
qed simp

lemma find_set_design:
  assumes "\<And>d. bd_id (f d) = bd_id d"
  shows "find_one (\<lambda>d. bd_id d = j) (update_one (\<lambda>d. bd_id d = i) f ds) =
    (if j = i then map_option f (find_one (\<lambda>d. bd_id d = i) ds) else find_one (\<lambda>d. bd_id d = j) ds)"
  using assms by (induction ds) auto

lemma phase_set_design:
  assumes "\<And>d. bd_id (f d) = bd_id d"
  shows "phase (update_one (\<lambda>d. bd_id d = i) f ds) j =
    (if j = i then map_option (\<lambda>d. closed_design (bd_status (f d))) (find_one (\<lambda>d. bd_id d = i) ds) else phase ds j)"
  unfolding phase_def by (simp add: find_set_design [OF assms] option.map_comp comp_def)

lemma goes_on_rewrite:
  assumes "quote_book s" "desk_at ds' qs' (db_next s) t" "map bd_id ds' = map bd_id (db_designs s)"
    "map quote_key qs' = map quote_key (db_quotes s)" "\<forall>q\<in>set qs'. fits (phase ds' (bq_design q)) q"
    "\<forall>q\<in>set (db_quotes s). bq_status q = BQ_ACCEPTED \<longrightarrow> q \<in> set qs'"
    "\<forall>i. phase (db_designs s) i = Some True \<longrightarrow> phase ds' i = Some True"
  shows "goes_on s t"
proof -
  have "desk (db_next s) ds' qs'" using assms(1) desk_rewrite [OF _ assms(3-5)] by (simp add: quote_book_def)
  with assms show ?thesis using desk_later [of "db_next s" ds' qs' "db_next t"]
    by (auto simp: goes_on_def quote_book_def desk_at_def lasts_def)
qed

lemma desk_at_rewrite:
  assumes "quote_book s" "map quote_key qs' = map quote_key (db_quotes s)"
  shows "desk_at ds' qs' (db_next s) (s\<lparr>db_designs := ds', db_quotes := qs'\<rparr>)"
  using assms linked_rewrite [OF assms(2)] by (simp add: quote_book_def desk_at_def)

lemma book_found:
  assumes "quote_book s"
  shows "find_one (\<lambda>q. bq_id q = i \<and> P q) (db_quotes s) = Some q \<Longrightarrow>
      q \<in> set (db_quotes s) \<and> bq_id q = i \<and> P q \<and> find_one (\<lambda>q. bq_id q = i) (db_quotes s) = Some q"
    and "d \<in> set (db_designs s) \<Longrightarrow> find_one (\<lambda>x. bd_id x = bd_id d) (db_designs s) = Some d \<and> phase (db_designs s) (bd_id d) = Some (closed_design (bd_status d))"
    and "q \<in> set (db_quotes s) \<Longrightarrow> fits (phase (db_designs s) (bq_design q)) q"
  using assms find_one_key_eq [of bq_id "db_quotes s" q] find_one_key_eq [of bd_id "db_designs s" d]
    find_one_SomeD [of "\<lambda>q. bq_id q = i \<and> P q" "db_quotes s" q]
  by (auto simp: quote_book_def desk_def phase_def)

section \<open>Every request keeps the book\<close>

lemma set_design_goes:
  assumes "quote_book s" "\<And>d. bd_id (f d) = bd_id d"
    "\<And>d. find_one (\<lambda>d. bd_id d = i) (db_designs s) = Some d \<Longrightarrow> closed_design (bd_status (f d)) = closed_design (bd_status d)"
  shows "goes_on s (snd (set_design i f s))"
proof -
  have same: "phase (update_one (\<lambda>d. bd_id d = i) f (db_designs s)) j = phase (db_designs s) j" for j
    unfolding phase_set_design [where f = f, OF assms(2)] using assms(3)
    by (cases "find_one (\<lambda>d. bd_id d = i) (db_designs s)") (simp_all add: phase_def)
  have "desk_at (update_one (\<lambda>d. bd_id d = i) f (db_designs s)) (db_quotes s) (db_next s) (snd (set_design i f s))"
    using assms(1) by (simp add: set_design_def quote_book_def desk_at_def)
  then show ?thesis
    by (rule goes_on_rewrite [OF assms(1)]) (use assms(1,2) same in \<open>auto simp: map_update_one quote_book_def desk_def\<close>)
qed

text \<open>Writing to a quote that is not accepted.\<close>

lemma set_quote_goes:
  assumes "quote_book s" "find_one (\<lambda>q. bq_id q = i) (db_quotes s) = Some q" "\<And>q. quote_key (f q) = quote_key q"
    "bq_status q \<noteq> BQ_ACCEPTED" "fits (phase (db_designs s) (bq_design q)) (f q)"
  shows "goes_on s (snd (set_quote i f s))"
proof -
  let ?qs = "update_one (\<lambda>q. bq_id q = i) f (db_quotes s)"
  have keys: "map quote_key ?qs = map quote_key (db_quotes s)" by (rule map_update_one) (rule assms(3))
  have at: "desk_at (db_designs s) ?qs (db_next s) (snd (set_quote i f s))"
    using desk_at_rewrite [OF assms(1) keys, of "db_designs s"] by (simp add: set_quote_def)
  have d: "distinct (map bq_id (db_quotes s))" using assms(1) by (simp add: quote_book_def desk_def)
  have only: "x = q" if "x \<in> set (db_quotes s)" "bq_id x = i" for x
    using find_one_key_eq [OF d that(1)] that(2) assms(2) by simp
  have fit: "\<forall>x\<in>set ?qs. fits (phase (db_designs s) (bq_design x)) x"
  proof
    fix x assume "x \<in> set ?qs"
    then consider "x \<in> set (db_quotes s)" | "x = f q" using set_update_one only by fastforce
    then show "fits (phase (db_designs s) (bq_design x)) x"
    proof cases
      case 2
      with assms(3) [of q] assms(5) show ?thesis by (simp add: quote_key_def)
    qed (rule book_found(3) [OF assms(1)])
  qed
  have kept: "\<forall>x\<in>set (db_quotes s). bq_status x = BQ_ACCEPTED \<longrightarrow> x \<in> set ?qs"
    using only assms(4) by (force simp: update_one_key_map [OF d] image_iff)
  show ?thesis by (rule goes_on_rewrite [OF assms(1) at _ keys fit kept]) simp_all
qed

text \<open>Taking open quotes off the table.\<close>

lemma drop_open_goes:
  assumes "quote_book s" "\<And>q. P q \<Longrightarrow> open_quote q" "\<And>q. \<not> open_quote (f q) \<and> bq_status (f q) \<noteq> BQ_ACCEPTED" "\<And>q. quote_key (f q) = quote_key q"
  shows "goes_on s (s\<lparr>db_quotes := update_many P f (db_quotes s)\<rparr>)"
proof -
  let ?qs = "update_many P f (db_quotes s)"
  have keys: "map quote_key ?qs = map quote_key (db_quotes s)" by (rule map_update_many) (rule assms(4))
  have at: "desk_at (db_designs s) ?qs (db_next s) (s\<lparr>db_quotes := ?qs\<rparr>)"
    using desk_at_rewrite [OF assms(1) keys, of "db_designs s"] by simp
  have "fits (phase (db_designs s) (bq_design (f q))) (f q)" if "fits (phase (db_designs s) (bq_design q)) q" for q
    using that assms(3,4) [of q] by (cases "phase (db_designs s) (bq_design q)") (auto simp: quote_key_def)
  then have fit: "\<forall>q\<in>set ?qs. fits (phase (db_designs s) (bq_design q)) q"
    using book_found(3) [OF assms(1)] by (auto simp: update_many_def)
  have kept: "\<forall>q\<in>set (db_quotes s). bq_status q = BQ_ACCEPTED \<longrightarrow> q \<in> set ?qs"
    using assms(2) by (force simp: update_many_def open_quote_def)
  show ?thesis by (rule goes_on_rewrite [OF assms(1) at _ keys fit kept]) simp_all
qed

text \<open>Closing a design that has no open quote left.\<close>

lemma close_design_goes:
  assumes "quote_book s" "\<And>d. bd_id (f d) = bd_id d" "\<And>d. closed_design (bd_status (f d))"
    "\<forall>q\<in>set (db_quotes s). bq_design q = i \<longrightarrow> \<not> open_quote q"
  shows "goes_on s (snd (set_design i f s))"
proof -
  let ?ds = "update_one (\<lambda>d. bd_id d = i) f (db_designs s)"
  have ph: "phase ?ds j = (if j = i then map_option (\<lambda>_. True) (phase (db_designs s) i) else phase (db_designs s) j)" for j
    unfolding phase_set_design [where f = f, OF assms(2)] by (simp add: phase_def assms(3) option.map_comp comp_def)
  have at: "desk_at ?ds (db_quotes s) (db_next s) (snd (set_design i f s))"
    using assms(1) by (simp add: set_design_def quote_book_def desk_at_def)
  have fit: "\<forall>q\<in>set (db_quotes s). fits (phase ?ds (bq_design q)) q"
  proof
    fix q assume q: "q \<in> set (db_quotes s)"
    with book_found(3) [OF assms(1) q] assms(4) show "fits (phase ?ds (bq_design q)) q"
      unfolding ph by (cases "phase (db_designs s) (bq_design q)") auto
  qed
  show ?thesis by (rule goes_on_rewrite [OF assms(1) at _ refl fit]) (auto simp: ph map_update_one assms(2))
qed

lemma check_fabric_state [simp]: "snd (check_fabric f s) = s"
  by (auto simp: check_fabric_def andThen_app split: option.splits)

lemma after_check:
  assumes "quote_book s" "goes_on s (snd (m s))"
  shows "goes_on s (snd (andThen (check_fabric f) (\<lambda>_. m) s))"
proof -
  obtain r where r: "check_fabric f s = (r, s)" using check_fabric_state [of f s] by (metis prod.collapse)
  then show ?thesis using assms by (cases r) (simp_all add: andThen_app goes_on_refl)
qed

lemma createDesign_goes:
  assumes "quote_book s"
  shows "goes_on s (snd (createDesign dto c s))"
  unfolding createDesign_def
proof (rule after_check [OF assms])
  let ?n = "db_next s" and ?d = "new_design dto c (db_next s) (Suc (db_next s))"
  let ?t = "s\<lparr>db_next := Suc (Suc ?n), db_designs := db_designs s @ [?d]\<rparr>"
  have d: "bd_id ?d = Suc ?n" "\<not> closed_design (bd_status ?d)" by (simp_all add: new_design_def closed_design_def)
  have old: "\<forall>d\<in>set (db_designs s). bd_id d < ?n" using assms by (simp add: quote_book_def desk_def)
  have ph: "phase (db_designs s @ [?d]) j = (if phase (db_designs s) j = None \<and> j = Suc ?n then Some False else phase (db_designs s) j)" for j
    using d by (auto simp: phase_def find_one_append split: option.splits)
  have "fits (phase (db_designs s @ [?d]) (bq_design q)) q" if "q \<in> set (db_quotes s)" for q
    using book_found(3) [OF assms that] unfolding ph by (cases "phase (db_designs s) (bq_design q)") auto
  then have "desk (Suc (Suc ?n)) (db_designs s @ [?d]) (db_quotes s)"
    using assms d(1) old by (auto simp: quote_book_def desk_def)
  then have "goes_on s ?t" using assms by (auto simp: goes_on_def quote_book_def desk_at_def lasts_def ph)
  then show "goes_on s (snd (andThen fresh (\<lambda>reference. andThen fresh (\<lambda>i. let d = new_design dto c reference i in
      andThen (modify (\<lambda>s. s\<lparr>db_designs := db_designs s @ [d]\<rparr>)) (\<lambda>_. ret d))) s))"
    by (simp add: andThen_app Let_def)
qed

lemma find_design_run: "find_design i c s = (case find_one (\<lambda>d. bd_id d = i \<and> bd_customer d = c) (db_designs s) of
    None \<Rightarrow> (Inl (NotFoundException ''Design not found''), s) | Some d \<Rightarrow> (Inr d, s))"
  by (simp add: find_design_def andThen_app split: option.splits)

lemma find_quote_run: "find_quote P s = (case find_one P (db_quotes s) of
    None \<Rightarrow> (Inl (NotFoundException ''Quote not found''), s) | Some q \<Rightarrow> (Inr q, s))"
  by (simp add: find_quote_def andThen_app split: option.splits)

text \<open>A request that first loads a design or a quote: what is left to show for the one it found.\<close>

lemma on_design:
  assumes "quote_book s" "\<And>d. \<lbrakk>d \<in> set (db_designs s); bd_id d = i\<rbrakk> \<Longrightarrow> goes_on s (snd (f d s))"
  shows "goes_on s (snd (andThen (find_design i c) f s))"
  using assms by (auto simp: find_design_run andThen_app goes_on_refl dest: find_one_SomeD split: option.splits)

lemma on_quote:
  assumes "quote_book s" "\<And>q. \<lbrakk>find_one (\<lambda>q. bq_id q = i) (db_quotes s) = Some q; q \<in> set (db_quotes s); bq_id q = i\<rbrakk> \<Longrightarrow> goes_on s (snd (f q s))"
  shows "goes_on s (snd (andThen (find_quote (\<lambda>q. bq_id q = i \<and> P q)) f s))"
proof (cases "find_one (\<lambda>q. bq_id q = i \<and> P q) (db_quotes s)")
  case None
  then show ?thesis by (simp add: find_quote_run andThen_app goes_on_refl [OF assms(1)])
next
  case (Some q)
  from book_found(1) [OF assms(1) this] assms(2) [of q] Some show ?thesis by (simp add: find_quote_run andThen_app)
qed

lemma updateDesign_goes:
  assumes "quote_book s"
  shows "goes_on s (snd (updateDesign i dto c s))"
  unfolding updateDesign_def
proof (rule on_design [OF assms])
  fix d assume "d \<in> set (db_designs s)" "bd_id d = i"
  have "goes_on s (snd (set_design i (edit_design dto) s))"
    by (rule set_design_goes [OF assms]) (simp_all add: edit_design_def)
  then show "goes_on s (snd ((if bd_status d \<notin> {BD_DRAFT, BD_REQUESTING_QUOTES} then throw (BadRequestException ''Cannot update a design already in production'')
     else andThen (check_fabric (dd_fabric_id dto)) (\<lambda>_. set_design i (edit_design dto))) s))"
    using after_check [OF assms, of "set_design i (edit_design dto)" "dd_fabric_id dto"] by (simp add: goes_on_refl [OF assms])
qed

lemma goes_after:
  assumes "goes_on s (snd (m s))" "\<And>x t. m s = (Inr x, t) \<Longrightarrow> quote_book t \<Longrightarrow> goes_on t (snd (f x t))"
  shows "goes_on s (snd (andThen m f s))"
proof (cases "m s")
  case (Pair r t)
  then have t: "goes_on s t" "quote_book t" using assms(1) by (simp_all add: goes_on_def)
  with Pair show ?thesis using assms(2) goes_on_trans by (cases r) (auto simp: andThen_app)
qed

lemma cancelDesign_goes:
  assumes "quote_book s"
  shows "goes_on s (snd (cancelDesign i c s))"
  unfolding cancelDesign_def
proof (rule on_design [OF assms])
  fix d assume d: "d \<in> set (db_designs s)" "bd_id d = i"
  let ?m = "decline_open (\<lambda>q. bq_design q = bd_id d)" and ?f = "\<lambda>d. d\<lparr>bd_status := BD_CANCELLED\<rparr>"
  have "goes_on s (snd (?m s))" unfolding decline_open_def modify_app snd_conv
    by (rule drop_open_goes [OF assms]) (simp_all add: open_quote_def quote_key_def)
  then have "goes_on s (snd (andThen ?m (\<lambda>_. set_design i ?f) s))"
  proof (rule goes_after)
    fix x t assume t: "?m s = (Inr x, t)" "quote_book t"
    have "\<forall>q\<in>set (db_quotes t). bq_design q = i \<longrightarrow> \<not> open_quote q"
      using t(1) d(2) by (auto simp: decline_open_def update_many_def open_quote_def)
    then show "goes_on t (snd (set_design i ?f t))"
      by (intro close_design_goes [OF t(2)]) (simp_all add: closed_design_def)
  qed
  then show "goes_on s (snd ((if bd_status d \<in> {BD_IN_PRODUCTION, BD_COMPLETED}
     then throw (BadRequestException ''Cannot cancel a design that is already in production or completed'')
     else andThen ?m (\<lambda>_. set_design i ?f)) s))"
    by (simp add: goes_on_refl [OF assms])
qed

section \<open>Asking vendors\<close>

fun asked :: "instant \<Rightarrow> oid \<Rightarrow> oid \<Rightarrow> oid \<Rightarrow> oid list \<Rightarrow> bespoke_quote list" where
  "asked now i c n [] = []"
| "asked now i c n (v # vs) = new_quote now i c v n (Suc n) # asked now i c (n + 2) vs"

lemma add_quotes_run: "for_each vs (add_quote now i c) s =
    (Inr (), s\<lparr>db_quotes := db_quotes s @ asked now i c (db_next s) vs, db_next := db_next s + 2 * length vs\<rparr>)"
  by (induction vs arbitrary: s) (simp_all add: add_quote_def andThen_app)

lemma asked_simps:
  "map bq_vendor (asked now i c n vs) = vs" "length (asked now i c n vs) = length vs"
  "filter (\<lambda>q. bq_design q = j) (asked now i c n vs) = (if j = i then asked now i c n vs else [])"
proof -
  show "map bq_vendor (asked now i c n vs) = vs" "length (asked now i c n vs) = length vs"
    by (induction vs arbitrary: n) (simp_all add: new_quote_def)
  show "filter (\<lambda>q. bq_design q = j) (asked now i c n vs) = (if j = i then asked now i c n vs else [])"
    by (induction vs arbitrary: n) (auto simp: new_quote_def split: if_splits)
qed

lemma asked_all: "\<forall>q\<in>set (asked now i c n vs). n < bq_id q \<and> bq_id q < n + 2 * length vs \<and> bq_design q = i \<and> bq_status q = BQ_PENDING"
  by (induction vs arbitrary: n) (force simp: new_quote_def)+

lemma asked_distinct: "distinct (map bq_id (asked now i c n vs))"
proof (induction vs arbitrary: n)
  case (Cons v vs)
  have "bq_id (new_quote now i c v n (Suc n)) \<notin> bq_id ` set (asked now i c (n + 2) vs)"
    using asked_all [of now i c "n + 2" vs] by (auto simp: new_quote_def)
  with Cons show ?case by simp
qed simp

lemma ask_goes:
  assumes "quote_book s" "phase (db_designs s) i = Some False" "distinct vs" "set vs \<inter> set (map bq_vendor (design_quotes i s)) = {}"
    "length (design_quotes i s) + length vs \<le> MAX_VENDORS_PER_DESIGN"
  shows "goes_on s (snd (for_each vs (add_quote now i c) s))"
proof -
  let ?new = "asked now i c (db_next s) vs"
  have book: "desk (db_next s) (db_designs s) (db_quotes s)" using assms(1) by (simp add: quote_book_def)
  note new = asked_all [of now i c "db_next s" vs]
  have ids: "distinct (map bq_id (db_quotes s @ ?new))"
    using book new asked_distinct [of now i c "db_next s" vs] by (fastforce simp: desk_def)
  have fit: "\<forall>q\<in>set (db_quotes s @ ?new). fits (phase (db_designs s) (bq_design q)) q"
    using new assms(2) book by (auto simp: desk_def)
  have per: "length (filter (\<lambda>q. bq_design q = j) (db_quotes s @ ?new)) \<le> MAX_VENDORS_PER_DESIGN \<and>
      distinct (map bq_vendor (filter (\<lambda>q. bq_design q = j) (db_quotes s @ ?new)))" for j
  proof (cases "j = i")
    case True
    let ?old = "filter (\<lambda>q. bq_design q = i) (db_quotes s)"
    have "distinct (map bq_vendor ?old)" using book by (simp add: desk_def)
    moreover have "set (map bq_vendor ?old) \<inter> set (map bq_vendor ?new) = {}" using assms(4) unfolding design_quotes_def asked_simps by blast
    ultimately have "distinct (map bq_vendor (?old @ ?new))" unfolding map_append distinct_append using assms(3) asked_simps(1) by metis
    with True assms(5) show ?thesis by (simp add: asked_simps design_quotes_def)
  qed (use book in \<open>simp add: desk_def asked_simps\<close>)
  have bounds: "\<forall>d\<in>set (db_designs s). bd_id d < db_next s + 2 * length vs" "\<forall>q\<in>set (db_quotes s @ ?new). bq_id q < db_next s + 2 * length vs"
    using book new by (force simp: desk_def)+
  have "desk (db_next s + 2 * length vs) (db_designs s) (db_quotes s @ ?new)"
    unfolding desk_def using book bounds ids fit per by (simp add: desk_def)
  moreover have "linked (db_quotes s @ ?new) l" if "linked (db_quotes s) l" for l
    using that by (auto simp: linked_def split: option.splits)
  ultimately show ?thesis using assms(1) by (simp add: goes_on_def lasts_def quote_book_def desk_at_def add_quotes_run)
qed

lemma all_found_distinct:
  assumes "distinct (map b_id bs)" "length (filter (\<lambda>b. b_id b \<in> set vs) bs) = length vs"
  shows "distinct vs"
proof -
  let ?found = "map b_id (filter (\<lambda>b. b_id b \<in> set vs) bs)"
  have "distinct ?found" by (rule distinct_map_filter [OF assms(1)])
  then have "length vs = card (set ?found)" using assms(2) distinct_card by fastforce
  also have "\<dots> \<le> card (set vs)" by (rule card_mono) auto
  finally have "card (set vs) = length vs" using card_length [of vs] by simp
  then show ?thesis by (rule card_distinct)
qed

lemma requestQuotes_goes:
  assumes "quote_book s"
  shows "goes_on s (snd (requestQuotes now i vendors c s))"
  unfolding requestQuotes_def
proof (rule on_design [OF assms], goal_cases)
  case (1 d)
  define vs where "vs = filter (\<lambda>v. v \<notin> set (map bq_vendor (design_quotes (bd_id d) s))) vendors"
  define bs where "bs = filter (\<lambda>b. b_id b \<in> set vs) (db_businesses s)"
  show ?case
  proof (cases "bd_status d \<in> {BD_DRAFT, BD_REQUESTING_QUOTES, BD_QUOTED} \<and> length (design_quotes (bd_id d) s) + length vendors \<le> MAX_VENDORS_PER_DESIGN
      \<and> vs \<noteq> [] \<and> length bs = length vs")
    case False
    then show ?thesis unfolding Let_def vs_def bs_def by (auto simp: andThen_app goes_on_refl [OF assms])
  next
    case True
    have open': "phase (db_designs s) i = Some False" using book_found(2) [OF assms 1(1)] True 1(2) by (auto simp: closed_design_def)
    have "distinct (map b_id (db_businesses s))" using assms by (simp add: quote_book_def desk_at_def)
    then have "distinct vs" using all_found_distinct [of "db_businesses s" vs] True by (simp add: bs_def)
    moreover have "length vs \<le> length vendors" by (simp add: vs_def)
    moreover have "set vs \<inter> set (map bq_vendor (design_quotes i s)) = {}" using 1(2) by (auto simp: vs_def)
    ultimately have "goes_on s (snd (for_each vs (add_quote now (bd_id d) c) s))"
      using ask_goes [OF assms open'] True 1(2) by simp
    then have "goes_on s (snd (andThen (for_each vs (add_quote now (bd_id d) c)) (\<lambda>_.
        if bd_status d = BD_DRAFT then set_design i (\<lambda>d. d\<lparr>bd_status := BD_REQUESTING_QUOTES\<rparr>) else ret ()) s))"
    proof (rule goes_after)
      fix x t assume t: "for_each vs (add_quote now (bd_id d) c) s = (Inr x, t)" "quote_book t"
      have same: "db_designs t = db_designs s" using t(1) by (auto simp: add_quotes_run)
      have "goes_on t (snd (set_design i (\<lambda>d. d\<lparr>bd_status := BD_REQUESTING_QUOTES\<rparr>) t))"
        by (rule set_design_goes [OF t(2)]) (use open' same in \<open>auto simp: phase_def closed_design_def\<close>)
      then show "goes_on t (snd ((if bd_status d = BD_DRAFT then set_design i (\<lambda>d. d\<lparr>bd_status := BD_REQUESTING_QUOTES\<rparr>) else ret ()) t))"
        using goes_on_refl [OF t(2)] by simp
    qed
    moreover have "bd_status d = BD_DRAFT \<or> bd_status d = BD_REQUESTING_QUOTES \<or> bd_status d = BD_QUOTED" using True by simp
    ultimately show ?thesis using True unfolding Let_def vs_def bs_def by (auto simp: andThen_app)
  qed
qed

section \<open>Writing, submitting, revising, expiring\<close>

lemma open_fits: "open_quote q \<Longrightarrow> fits p q \<Longrightarrow> p = Some False"
  by (cases p) auto

lemma reopen_goes:
  assumes "quote_book s" "find_one (\<lambda>q. bq_id q = i) (db_quotes s) = Some q" "open_quote q" "\<And>q. quote_key (f q) = quote_key q"
    "bq_status (f q) \<noteq> BQ_ACCEPTED"
  shows "goes_on s (snd (set_quote i f s))"
proof -
  have "q \<in> set (db_quotes s)" using find_one_SomeD [OF assms(2)] by simp
  then have "phase (db_designs s) (bq_design q) = Some False" using open_fits [OF assms(3) book_found(3) [OF assms(1)]] by simp
  with assms(3,5) show ?thesis by (intro set_quote_goes [OF assms(1,2,4)]) (auto simp: open_quote_def)
qed

lemma saveQuoteDraft_goes:
  assumes "quote_book s"
  shows "goes_on s (snd (saveQuoteDraft i v dto s))"
  unfolding saveQuoteDraft_def
proof (rule on_quote [OF assms])
  fix q assume q: "find_one (\<lambda>q. bq_id q = i) (db_quotes s) = Some q"
  have "goes_on s (snd (set_quote i (draft_quote dto) s))" if "editable (bq_status q)"
    by (rule reopen_goes [OF assms q]) (use that in \<open>auto simp: editable_def open_quote_def draft_quote_def quote_key_def\<close>)
  then show "goes_on s (snd ((if \<not> editable (bq_status q) then throw (BadRequestException ''Cannot edit a quote with this status'')
      else set_quote i (draft_quote dto)) s))" by (simp add: goes_on_refl [OF assms])
qed

lemma expire_goes:
  assumes "quote_book s" "find_one (\<lambda>q. bq_id q = i) (db_quotes s) = Some q" "open_quote q"
  shows "goes_on s (snd (expire_quote i s))"
proof -
  have "goes_on s (snd (set_quote i (\<lambda>q. q\<lparr>bq_status := BQ_EXPIRED\<rparr>) s))"
    by (rule reopen_goes [OF assms]) (simp_all add: quote_key_def)
  then show ?thesis by (simp add: expire_quote_def andThen_app set_quote_def)
qed

lemma submitQuote_goes:
  assumes "quote_book s"
  shows "goes_on s (snd (submitQuote now i v dto s))"
  unfolding submitQuote_def
proof (rule on_quote [OF assms])
  fix q assume q: "find_one (\<lambda>q. bq_id q = i) (db_quotes s) = Some q" "q \<in> set (db_quotes s)"
  let ?m = "set_quote i (submitted_quote now dto)" and ?f = "\<lambda>d. d\<lparr>bd_status := BD_QUOTED\<rparr>"
  have "goes_on s (snd (andThen ?m (\<lambda>_. set_design (bq_design q) ?f) s))" if "open_quote q"
  proof (rule goes_after)
    show "goes_on s (snd (?m s))"
      by (rule reopen_goes [OF assms q(1) that]) (simp_all add: submitted_quote_def quote_key_def)
    fix x t assume t: "?m s = (Inr x, t)" "quote_book t"
    have "phase (db_designs s) (bq_design q) = Some False" using open_fits [OF that book_found(3) [OF assms q(2)]] .
    moreover have "db_designs t = db_designs s" using t(1) by (auto simp: set_quote_def)
    ultimately show "goes_on t (snd (set_design (bq_design q) ?f t))"
      by (intro set_design_goes [OF t(2)]) (auto simp: phase_def closed_design_def)
  qed
  moreover have "open_quote q" if "editable (bq_status q)" using that by (auto simp: editable_def open_quote_def)
  ultimately show "goes_on s (snd ((if \<not> editable (bq_status q) then throw (BadRequestException ''Cannot submit a quote with this status'')
     else if now > bq_expires_at q then expire_quote i else andThen ?m (\<lambda>_. set_design (bq_design q) ?f)) s))"
    by (simp add: goes_on_refl [OF assms] expire_goes [OF assms q(1)])
qed

lemma requestRevision_goes:
  assumes "quote_book s"
  shows "goes_on s (snd (requestRevision now i c msg s))"
  unfolding requestRevision_def
proof (rule on_quote [OF assms])
  fix q assume q: "find_one (\<lambda>q. bq_id q = i) (db_quotes s) = Some q"
  let ?f = "\<lambda>q. q\<lparr>bq_status := BQ_REVISION_REQUESTED, bq_revision_history := bq_revision_history q @
            [\<lparr>re_requested_by = By_customer, re_message = msg, re_created_at = now\<rparr>]\<rparr>"
  have "goes_on s (snd (set_quote i ?f s))" if "bq_status q \<in> {BQ_SUBMITTED, BQ_DRAFT}"
    by (rule reopen_goes [OF assms q]) (use that in \<open>auto simp: open_quote_def quote_key_def\<close>)
  then show "goes_on s (snd ((if bq_status q \<notin> {BQ_SUBMITTED, BQ_DRAFT}
      then throw (BadRequestException ''Can only request revision on submitted or draft quotes'') else set_quote i ?f) s))"
    by (simp add: goes_on_refl [OF assms])
qed

lemma expireQuotes_goes: "quote_book s \<Longrightarrow> goes_on s (snd (expireQuotes now s))"
  unfolding expireQuotes_def modify_app snd_conv
  by (rule drop_open_goes) (auto simp: editable_def open_quote_def quote_key_def)

section \<open>Acceptance\<close>

text \<open>The quotes after one of them is accepted, and any state in which its design is closed as well.\<close>

definition settled_quotes :: "instant \<Rightarrow> bespoke_quote \<Rightarrow> db \<Rightarrow> bespoke_quote list" where
  "settled_quotes now q s = db_quotes (accept_bespoke_quote now q s)"

lemma settled_keys: "map quote_key (settled_quotes now q s) = map quote_key (db_quotes s)"
  unfolding settled_quotes_def accept_bespoke_quote_def
  by (simp add: map_update_many map_update_one quote_key_def)

lemma settle_goes:
  assumes "quote_book s" "q \<in> set (db_quotes s)" "bq_status q \<noteq> BQ_ACCEPTED"
    "\<And>d. bd_id (f d) = bd_id d" "\<And>d. closed_design (bd_status (f d))"
    "desk_at (update_one (\<lambda>d. bd_id d = bq_design q) f (db_designs s)) (settled_quotes now q s) (db_next s) t"
  shows "goes_on s t"
proof -
  let ?ds = "update_one (\<lambda>d. bd_id d = bq_design q) f (db_designs s)" and ?qs = "settled_quotes now q s"
  have ph: "phase ?ds j = (if j = bq_design q then map_option (\<lambda>_. True) (phase (db_designs s) j) else phase (db_designs s) j)" for j
    unfolding phase_set_design [where f = f, OF assms(4)] by (simp add: phase_def assms(5) option.map_comp comp_def)
  have d: "distinct (map bq_id (db_quotes s))" using assms(1) by (simp add: quote_book_def desk_def)
  have qs: "?qs = map (\<lambda>x. if bq_id x = bq_id q then x\<lparr>bq_status := BQ_ACCEPTED, bq_accepted_at := Some now\<rparr>
      else if bq_design x = bq_design q \<and> open_quote x then x\<lparr>bq_status := BQ_DECLINED\<rparr> else x) (db_quotes s)"
    by (auto simp: settled_quotes_def accept_bespoke_quote_def update_one_key_map [OF d] update_many_def)
  have only: "x = q" if "x \<in> set (db_quotes s)" "bq_id x = bq_id q" for x
    using inj_onD [of bq_id "set (db_quotes s)" x q] d that assms(2) by (simp add: distinct_map)
  have fit: "\<forall>x\<in>set ?qs. fits (phase ?ds (bq_design x)) x"
  proof
    fix y assume "y \<in> set ?qs"
    then obtain x where x: "x \<in> set (db_quotes s)" "y = (if bq_id x = bq_id q then x\<lparr>bq_status := BQ_ACCEPTED, bq_accepted_at := Some now\<rparr>
      else if bq_design x = bq_design q \<and> open_quote x then x\<lparr>bq_status := BQ_DECLINED\<rparr> else x)" by (auto simp: qs)
    from book_found(3) [OF assms(1) x(1)] obtain c where c: "phase (db_designs s) (bq_design x) = Some c" "fits (Some c) x"
      by (cases "phase (db_designs s) (bq_design x)") auto
    consider "x = q" | "x \<noteq> q" "bq_design x = bq_design q" | "bq_design x \<noteq> bq_design q" "x \<noteq> q" by blast
    then show "fits (phase ?ds (bq_design y)) y"
    proof cases
      case 1
      with c x(2) show ?thesis unfolding ph by (simp add: open_quote_def)
    next
      case 2
      then have "bq_id x \<noteq> bq_id q" using only [OF x(1)] by blast
      with 2 c x(2) show ?thesis unfolding ph by (simp add: open_quote_def)
    next
      case 3
      then have "bq_id x \<noteq> bq_id q" using only [OF x(1)] by blast
      with 3 c x(2) show ?thesis unfolding ph by simp
    qed
  qed
  have kept: "\<forall>x\<in>set (db_quotes s). bq_status x = BQ_ACCEPTED \<longrightarrow> x \<in> set ?qs"
  proof (intro ballI impI)
    fix x assume x: "x \<in> set (db_quotes s)" "bq_status x = BQ_ACCEPTED"
    with only assms(3) have "bq_id x \<noteq> bq_id q" by auto
    then show "x \<in> set ?qs" unfolding qs set_map by (intro image_eqI [OF _ x(1)]) (simp add: x(2) open_quote_def)
  qed
  show ?thesis by (rule goes_on_rewrite [OF assms(1,6) _ settled_keys fit kept]) (auto simp: ph map_update_one assms(4))
qed

text \<open>Bookkeeping leaves designs, quotes and the orders' links alone.\<close>

lemma desk_record: "preserves (desk_at ds qs n) (recordBusinessEarnings i)"
  unfolding recordBusinessEarnings_def claim_order_earnings_def Let_def
  by (intro preserve_intros desk_view.record_items desk_view.stable)
    (auto simp: preserves_def quote_link_def intro!: desk_view.stable)

lemma desk_both: "preserves (desk_at ds qs n) (record_and_deduct i)"
  unfolding preserves_def
proof (intro allI impI)
  fix s assume s: "desk_at ds qs n s"
  obtain x t where x: "recordBusinessEarnings i s = (x, t)" by force
  have "desk_at ds qs n t" by (rule preserves_run [OF desk_record x s])
  then have "desk_at ds qs n (snd (updateInventory i t))" by (rule preservesD [OF desk_view.deduct])
  with x show "desk_at ds qs n (snd (record_and_deduct i s))" by (cases x) (simp_all add: record_and_deduct_def)
qed

lemma desk_money:
  "preserves (desk_at ds qs n) (debitWallet now w a)" "preserves (desk_at ds qs n) (scheduleBespokeUpfront now ord)"
  "preserves (desk_at ds qs n) (initialize_payment pay r)"
  unfolding debitWallet_def update_wallet_def scheduleBespokeUpfront_def initialize_payment_def
  by (intro preserve_intros; auto simp: preserves_def split: option.splits)+

lemma desk_set_order: "(\<And>od. quote_link (f od) = quote_link od) \<Longrightarrow> preserves (desk_at ds qs n) (set_order i f)"
  unfolding set_order_def by (intro preserve_intros desk_view.stable)

lemma leads_andThen:
  "\<lbrakk>preserves A m; \<And>x t. A t \<Longrightarrow> B (snd (f x t)); \<And>t. A t \<Longrightarrow> B t; A s\<rbrakk> \<Longrightarrow> B (snd (andThen m f s))"
  using preservesD [of A m s] by (cases "m s"; cases "fst (m s)") (auto simp: andThen_app)

lemma leads_attempt: "\<lbrakk>B (snd (m s)); \<And>e. preserves B (h e)\<rbrakk> \<Longrightarrow> B (snd (attempt m h s))"
  by (cases "m s"; cases "fst (m s)") (auto simp: attempt_app preserves_def)

lemma preserves_or: "\<lbrakk>preserves A m; preserves B m\<rbrakk> \<Longrightarrow> preserves (\<lambda>s. A s \<or> B s) m"
  by (auto simp: preserves_def)

text \<open>A wallet payment: the desk is as it was, or the quote is settled.\<close>

definition produced :: "bespoke_quote \<Rightarrow> bespoke_design \<Rightarrow> bespoke_design" where
  "produced q d = d\<lparr>bd_status := BD_IN_PRODUCTION, bd_accepted_quote := Some (bq_id q)\<rparr>"

lemma finalize_desk:
  assumes "desk_at ds qs n t" "db_quotes s = qs" "bd_id d = bq_design q"
  shows "desk_at (update_one (\<lambda>d. bd_id d = bq_design q) (produced q) ds) (settled_quotes now q s) n
    (snd (finalizeBespokeOrder now ord q d t))"
proof -
  let ?ds = "update_one (\<lambda>d. bd_id d = bq_design q) (produced q) ds" and ?qs = "settled_quotes now q s"
  let ?rest = "andThen (set_order (o_id ord) (\<lambda>od. od\<lparr>o_status := O_PROCESSING, o_payment_status := Paid\<rparr>)) (\<lambda>_.
     andThen (recordBusinessEarnings (o_id ord)) (\<lambda>_. scheduleBespokeUpfront now ord))"
  have keys: "map quote_key ?qs = map quote_key qs" using settled_keys [of now q s] assms(2) by simp
  have "desk_at ?ds ?qs n (t\<lparr>db_quotes := ?qs, db_designs := ?ds\<rparr>)"
    using assms(1) linked_rewrite [OF keys] by (simp add: desk_at_def)
  moreover have "preserves (desk_at ?ds ?qs n) ?rest"
    by (intro preserve_intros desk_set_order desk_record desk_money) (simp add: quote_link_def)
  ultimately have "desk_at ?ds ?qs n (snd (?rest (t\<lparr>db_quotes := ?qs, db_designs := ?ds\<rparr>)))" by (rule preservesD [rotated])
  moreover have "db_quotes t = db_quotes s" "db_designs t = ds" using assms(1,2) by (simp_all add: desk_at_def)
  then have "finalizeBespokeOrder now ord q d t = ?rest (t\<lparr>db_quotes := ?qs, db_designs := ?ds\<rparr>)"
    by (simp add: finalizeBespokeOrder_def andThen_app set_design_def settled_quotes_def accept_bespoke_quote_def assms(3) produced_def [abs_def])
  ultimately show ?thesis by simp
qed

lemma pay_quote_desk:
  assumes "desk_at ds qs n t" "db_quotes s = qs" "bd_id d = bq_design q"
  shows "desk_at ds qs n (snd (pay_quote_from_wallet now ord q d t)) \<or>
    desk_at (update_one (\<lambda>d. bd_id d = bq_design q) (produced q) ds) (settled_quotes now q s) n (snd (pay_quote_from_wallet now ord q d t))"
proof -
  define A where "A = desk_at ds qs n"
  define B where "B = (\<lambda>u. A u \<or> desk_at (update_one (\<lambda>d. bd_id d = bq_design q) (produced q) ds) (settled_quotes now q s) n u)"
  let ?pay = "\<lambda>w. andThen (create_transaction (bespoke_payment ord (Some (w_id w)) Wallet_checkout (Some T_SUCCESS))) (\<lambda>tx.
                andThen (finalizeBespokeOrder now ord q d) (\<lambda>_. ret tx))"
  let ?repay = "\<lambda>w err. andThen (ignore_errors (creditWallet now (w_id w) (o_total ord))) (\<lambda>_. throw err)"
  have AB: "B u" if "A u" for u using that by (simp add: B_def)
  have fin: "B (snd (andThen (finalizeBespokeOrder now ord q d) (\<lambda>_. ret tx) u))" if "A u" for u tx
    using finalize_desk [OF that [unfolded A_def] assms(2,3), of now ord] by (auto simp: B_def andThen_app split: prod.splits sum.splits)
  have undo: "preserves B (?repay w e)" for w e
    unfolding A_def B_def by (intro preserves_or preserve_intros preserves_ignore desk_view.credit)
  have "B (snd (?pay w u))" if "A u" for u w
    by (rule leads_andThen [where A = A and B = B, OF _ fin AB that]) (unfold A_def, rule desk_view.transaction)
  then have tried: "B (snd (attempt (?pay w) (?repay w) u))" if "A u" for u w
    using that by (intro leads_attempt [where B = B] undo)
  have "B (snd (andThen (debitWallet now (w_id w) (o_total ord)) (\<lambda>_. attempt (?pay w) (?repay w)) u))" if "A u" for u w
    by (rule leads_andThen [where A = A and B = B, OF _ tried AB that]) (unfold A_def, rule desk_money(1))
  then have "B (snd (pay_quote_from_wallet now ord q d t))"
    unfolding pay_quote_from_wallet_def
    by (intro leads_andThen [where A = A and B = B]) (auto simp: A_def AB [unfolded A_def] desk_view.wallet assms(1))
  then show ?thesis by (simp add: A_def B_def)
qed

lemma place_quote_desk:
  assumes "q \<in> set qs" "bd_id d = bq_design q"
  shows "preserves (desk_at ds qs n) (place_quote_order addresses now c a q d)"
proof -
  have "linked qs (quote_link (quote_order now c q d r x y i))" for r x y i
    using assms by (auto simp: linked_def quote_link_def quote_order_def)
  then have "preserves (desk_at ds qs n) (insert_order (quote_order now c q d r x y i))" for r x y i
    unfolding insert_order_def by (intro preserve_intros) (auto simp: desk_at_def)
  then show ?thesis
    unfolding place_quote_order_def Let_def by (intro preserve_intros desk_view.numbered)
qed

lemma acceptQuote_goes:
  assumes "quote_book s"
  shows "goes_on s (snd (acceptQuote pay addresses now i c how a s))"
  unfolding acceptQuote_def
proof (rule on_quote [OF assms], goal_cases)
  case (1 q)
  let ?ds = "db_designs s" and ?qs = "db_quotes s" and ?n = "db_next s"
  define A where "A = desk_at ?ds ?qs ?n"
  define B where "B = (\<lambda>t. A t \<or> desk_at (update_one (\<lambda>d. bd_id d = bq_design q) (produced q) ?ds) (settled_quotes now q s) ?n t)"
  show ?case
  proof (cases "bq_status q = BQ_SUBMITTED \<and> \<not> now > bq_expires_at q \<and> find_one (\<lambda>d. bd_id d = bq_design q) ?ds \<noteq> None")
    case False
    have "open_quote q" if "bq_status q = BQ_SUBMITTED" using that by (simp add: open_quote_def)
    with False show ?thesis
      by (auto simp: andThen_app goes_on_refl [OF assms] expire_goes [OF assms 1(1)])
  next
    case True
    then obtain d where d: "find_one (\<lambda>d. bd_id d = bq_design q) ?ds = Some d" by blast
    have id: "bd_id d = bq_design q" using find_one_keyD [OF d] .
    have sub: "bq_status q \<noteq> BQ_ACCEPTED" using True by simp
    have done': "goes_on s t" if "B t" for t
      using that goes_on_same [OF assms] settle_goes [OF assms 1(2) sub, of "produced q" now t]
      by (auto simp: A_def B_def produced_def closed_design_def)
    have AB: "B t" if "A t" for t using that by (simp add: B_def)
    let ?ord = "case pending_order i s of Some ord \<Rightarrow> ret ord | None \<Rightarrow> place_quote_order addresses now c a q d"
    let ?pay = "\<lambda>ord. case how of Pay_wallet \<Rightarrow> andThen (pay_quote_from_wallet now ord q d) (\<lambda>tx. ret (ord, tx))
           | Pay_paystack \<Rightarrow> andThen (create_transaction (bespoke_payment ord None Checkout None)) (\<lambda>tx.
               andThen (initialize_payment pay (t_reference tx)) (\<lambda>_. ret (ord, tx)))"
    have ord: "preserves A ?ord" unfolding A_def by (intro preserve_intros place_quote_desk [OF 1(2) id])
    have card: "preserves A (andThen (create_transaction (bespoke_payment ord None Checkout None)) (\<lambda>tx.
               andThen (initialize_payment pay (t_reference tx)) (\<lambda>_. ret (ord, tx))))" for ord
      unfolding A_def by (intro preserve_intros desk_view.transaction desk_money)
    have wallet: "B (snd (andThen (pay_quote_from_wallet now ord q d) (\<lambda>tx. ret (ord, tx)) t))" if "A t" for ord t
      using pay_quote_desk [OF that [unfolded A_def] refl id, of now ord] by (auto simp: A_def B_def andThen_app split: prod.splits sum.splits)
    have "B (snd (?pay ord t))" if "A t" for ord t
      using AB [OF preservesD [OF card that]] wallet [OF that] by (cases how) simp_all
    then have "B (snd (andThen ?ord ?pay s))"
      by (intro leads_andThen [where A = A and B = B, OF ord _ AB]) (simp_all add: A_def book_desk_at [OF assms])
    then have "goes_on s (snd (andThen ?ord ?pay s))" by (rule done')
    with True d show ?thesis by (simp add: andThen_app)
  qed
qed

text \<open>A card payment that is finalised.\<close>

abbreviation "settled_status ord \<equiv> (\<lambda>od. od\<lparr>o_status := (if o_type ord = Bespoke then O_PROCESSING else O_IN_REVIEW), o_payment_status := Paid\<rparr>)"

abbreviation "accept_part now ord \<equiv> (if o_payment_status ord \<noteq> Paid \<and> o_type ord = Bespoke \<and> o_bespoke_quote ord \<noteq> None
  then ignore_errors (finalizeBespokeAcceptance now ord) else ret ())"

abbreviation "production_part now ord \<equiv> (if o_payment_status ord \<noteq> Paid \<and> o_type ord = Bespoke
  then andThen (ignore_errors (scheduleBespokeUpfront now ord)) (\<lambda>_. ignore_errors (start_production (o_bespoke_design ord))) else ret ())"

lemma charge_parts:
  assumes "finalizeCheckoutOrder now tx s = (Inr (), s')" "t_channel tx = Checkout" "t_order tx = Some i"
    "find_one (\<lambda>od. o_id od = i) (db_orders s) = Some ord"
  obtains s1 s3 where "accept_part now ord s = (Inr (), s1)" "production_part now ord s3 = (Inr (), s')"
    "\<And>ds qs n. desk_at ds qs n s1 \<Longrightarrow> desk_at ds qs n s3"
proof -
  have "andThen (accept_part now ord) (\<lambda>_. andThen (set_order i (settled_status ord)) (\<lambda>_.
      andThen (record_and_deduct i) (\<lambda>_. production_part now ord))) s = (Inr (), s')"
    using assms by (simp add: finalizeCheckoutOrder_def Let_def)
  then obtain s1 s2 s3 where runs: "accept_part now ord s = (Inr (), s1)" "set_order i (settled_status ord) s1 = (Inr (), s2)"
      "record_and_deduct i s2 = (Inr (), s3)" "production_part now ord s3 = (Inr (), s')"
    unfolding andThen_unit by blast
  have "desk_at ds qs n s3" if "desk_at ds qs n s1" for ds qs n
    using preserves_run [OF desk_both runs(3) preserves_run [OF desk_set_order runs(2) that]] by (simp add: quote_link_def)
  with runs(1,4) show thesis by (rule that)
qed

text \<open>The payment of an order for a quote: accepted, unless it is already, and then into production.\<close>

lemma charge_quote_parts:
  assumes "finalizeCheckoutOrder now tx s = (Inr (), s')" "t_channel tx = Checkout" "t_order tx = Some i"
    "find_one (\<lambda>od. o_id od = i) (db_orders s) = Some ord" "o_payment_status ord \<noteq> Paid" "o_type ord = Bespoke"
    "o_bespoke_quote ord = Some k" "o_bespoke_design ord = Some j"
  obtains u where "\<And>ds qs n. desk_at ds qs n (snd (finalizeBespokeAcceptance now ord s)) \<Longrightarrow> desk_at ds qs n u"
    "s' = snd (set_design j (\<lambda>d. d\<lparr>bd_status := BD_IN_PRODUCTION\<rparr>) u)"
proof -
  obtain s1 s3 where runs: "accept_part now ord s = (Inr (), s1)" "production_part now ord s3 = (Inr (), s')"
    and keep: "\<And>ds qs n. desk_at ds qs n s1 \<Longrightarrow> desk_at ds qs n s3" by (rule charge_parts [OF assms(1-4)]) (rule that)
  have s1: "s1 = snd (finalizeBespokeAcceptance now ord s)"
    using runs(1) assms(5-7) ignore_errors_run [of "finalizeBespokeAcceptance now ord" s] by auto
  obtain u where u: "ignore_errors (scheduleBespokeUpfront now ord) s3 = (Inr (), u)"
      "s' = snd (set_design j (\<lambda>d. d\<lparr>bd_status := BD_IN_PRODUCTION\<rparr>) u)"
    using runs(2) assms(5-8) ignore_errors_run [of "start_production (Some j)"]
    by (auto simp: andThen_unit start_production_def set_design_def)
  have "desk_at ds qs n u" if "desk_at ds qs n s1" for ds qs n
    by (rule preserves_run [where P = "desk_at ds qs n", OF preserves_ignore [OF desk_money(2)] u(1) keep [OF that]])
  with u(2) show thesis unfolding s1 by (intro that)
qed

lemma charge_settles:
  assumes "quote_book s" "q \<in> set (db_quotes s)" "bq_status q \<noteq> BQ_ACCEPTED"
    "finalizeCheckoutOrder now tx s = (Inr (), s')" "t_channel tx = Checkout" "t_order tx = Some i"
    "find_one (\<lambda>od. o_id od = i) (db_orders s) = Some ord" "o_payment_status ord \<noteq> Paid" "o_type ord = Bespoke"
    "o_bespoke_quote ord = Some (bq_id q)" "o_bespoke_design ord = Some (bq_design q)"
  shows "desk_at (update_one (\<lambda>d. bd_id d = bq_design q) (produced q) (db_designs s)) (settled_quotes now q s) (db_next s) s'"
proof -
  let ?h = "\<lambda>d. d\<lparr>bd_accepted_quote := Some (bq_id q)\<rparr>" and ?g = "\<lambda>d. d\<lparr>bd_status := BD_IN_PRODUCTION\<rparr>"
  obtain u where u: "\<And>ds qs n. desk_at ds qs n (snd (finalizeBespokeAcceptance now ord s)) \<Longrightarrow> desk_at ds qs n u"
    "s' = snd (set_design (bq_design q) ?g u)" by (rule charge_quote_parts [OF assms(4-11)]) blast
  have "find_one (\<lambda>x. bq_id x = bq_id q) (db_quotes s) = Some q"
    using assms(1,2) by (intro find_one_key_eq) (simp_all add: quote_book_def desk_def)
  then have "snd (finalizeBespokeAcceptance now ord s) =
      s\<lparr>db_designs := update_one (\<lambda>d. bd_id d = bq_design q) ?h (db_designs s), db_quotes := settled_quotes now q s\<rparr>"
    using assms(3,10) by (simp add: finalizeBespokeAcceptance_def andThen_app settled_quotes_def accept_bespoke_quote_def)
  then have "desk_at (update_one (\<lambda>d. bd_id d = bq_design q) ?h (db_designs s)) (settled_quotes now q s) (db_next s) u"
    using desk_at_rewrite [OF assms(1) settled_keys] by (intro u(1)) simp
  moreover have "update_one (\<lambda>d. bd_id d = bq_design q) ?g (update_one (\<lambda>d. bd_id d = bq_design q) ?h ds) =
      update_one (\<lambda>d. bd_id d = bq_design q) (produced q) ds" for ds by (induction ds) (auto simp: produced_def)
  ultimately show ?thesis unfolding u(2) by (simp add: desk_at_def set_design_def)
qed

lemma charge_goes:
  assumes "quote_book s" "finalizeCheckoutOrder now tx s = (Inr (), s')"
  shows "goes_on s s'"
proof (cases "t_channel tx = Checkout \<and> (\<exists>i ord. t_order tx = Some i \<and> find_one (\<lambda>od. o_id od = i) (db_orders s) = Some ord)")
  case False
  with assms(2) have "s' = s" by (auto simp: finalizeCheckoutOrder_def andThen_app split: if_splits option.splits)
  with goes_on_refl [OF assms(1)] show ?thesis by simp
next
  case True
  then obtain i ord where i: "t_channel tx = Checkout" "t_order tx = Some i" "find_one (\<lambda>od. o_id od = i) (db_orders s) = Some ord" by blast
  let ?ds = "db_designs s" and ?qs = "db_quotes s" and ?n = "db_next s"
  have at: "desk_at ?ds ?qs ?n s" by (rule book_desk_at [OF assms(1)])
  have "linked ?qs (quote_link ord)" using at find_one_SomeD [OF i(3)] by (simp add: desk_at_def)
  note link = this [unfolded linked_def quote_link_def fst_conv snd_conv]
  show ?thesis
  proof (cases "o_payment_status ord \<noteq> Paid \<and> o_type ord = Bespoke \<and> o_bespoke_quote ord \<noteq> None")
    case False
    obtain s1 s3 where runs: "accept_part now ord s = (Inr (), s1)" "production_part now ord s3 = (Inr (), s')"
      and keep: "\<And>ds qs n. desk_at ds qs n s1 \<Longrightarrow> desk_at ds qs n s3" by (rule charge_parts [OF assms(2) i]) (rule that)
    have "s1 = s" using False runs(1) by (auto split: if_splits)
    moreover have "preserves (desk_at ?ds ?qs ?n) (production_part now ord)"
      using False link by (auto simp: start_production_def intro!: preserve_intros preserves_ignore desk_money)
    ultimately have "desk_at ?ds ?qs ?n s'"
      using preserves_run [where P = "desk_at ?ds ?qs ?n" and m = "production_part now ord", OF _ runs(2)] keep at by blast
    then show ?thesis by (rule goes_on_same [OF assms(1)])
  next
    case True
    then obtain q where q: "q \<in> set ?qs" "o_bespoke_quote ord = Some (bq_id q)" "o_bespoke_design ord = Some (bq_design q)"
      using link by auto
    show ?thesis
    proof (cases "bq_status q = BQ_ACCEPTED")
      case accepted: True
      have "find_one (\<lambda>x. bq_id x = bq_id q) ?qs = Some q"
        using assms(1) q(1) by (intro find_one_key_eq) (simp_all add: quote_book_def desk_def)
      with accepted q(2) have same: "snd (finalizeBespokeAcceptance now ord s) = s"
        by (simp add: finalizeBespokeAcceptance_def andThen_app)
      obtain u where u: "\<And>ds qs n. desk_at ds qs n (snd (finalizeBespokeAcceptance now ord s)) \<Longrightarrow> desk_at ds qs n u"
        "s' = snd (set_design (bq_design q) (\<lambda>d. d\<lparr>bd_status := BD_IN_PRODUCTION\<rparr>) u)"
        by (rule charge_quote_parts [OF assms(2) i _ _ q(2,3)]) (use True in blast)+
      have u_at: "desk_at ?ds ?qs ?n u" using u(1) same at by simp
      then have su: "goes_on s u" by (rule goes_on_same [OF assms(1)])
      have "phase ?ds (bq_design q) = Some True"
        using book_found(3) [OF assms(1) q(1)] accepted by (cases "phase ?ds (bq_design q)") auto
      with u_at su have "goes_on u s'" unfolding u(2)
        by (intro set_design_goes) (auto simp: goes_on_def desk_at_def phase_def closed_design_def)
      with su show ?thesis by (rule goes_on_trans)
    next
      case False
      have "desk_at (update_one (\<lambda>d. bd_id d = bq_design q) (produced q) ?ds) (settled_quotes now q s) ?n s'"
        by (rule charge_settles [OF assms(1) q(1) False assms(2) i _ _ q(2,3)]) (use True in blast)+
      then show ?thesis by (rule settle_goes [OF assms(1) q(1) False, rotated 2]) (simp_all add: produced_def closed_design_def)
    qed
  qed
qed

section \<open>The life of a design\<close>

text \<open>One request of a customer or a vendor with any outcome, an expiry run, a card payment that was finalised, or
  anything else that leaves designs, quotes and the orders' links alone. A finalisation that fails half-way is no step: the webhook
  swallows its exception, and what it leaves behind is not covered.\<close>

inductive bespoke_step :: "db \<Rightarrow> db \<Rightarrow> bool" where
  create: "bespoke_step s (snd (createDesign dto c s))"
| update: "bespoke_step s (snd (updateDesign i dto c s))"
| cancel: "bespoke_step s (snd (cancelDesign i c s))"
| ask: "bespoke_step s (snd (requestQuotes now i vendors c s))"
| draft: "bespoke_step s (snd (saveQuoteDraft i v ddto s))"
| submit: "bespoke_step s (snd (submitQuote now i v sdto s))"
| revise: "bespoke_step s (snd (requestRevision now i c msg s))"
| expire: "bespoke_step s (snd (expireQuotes now s))"
| accept: "bespoke_step s (snd (acceptQuote pay addresses now i c how a s))"
| charge: "finalizeCheckoutOrder now tx s = (Inr (), s') \<Longrightarrow> bespoke_step s s'"
| other: "desk_at (db_designs s) (db_quotes s) (db_next s) s' \<Longrightarrow> bespoke_step s s'"

lemmas bespoke_goes = createDesign_goes updateDesign_goes cancelDesign_goes requestQuotes_goes saveQuoteDraft_goes
  submitQuote_goes requestRevision_goes expireQuotes_goes acceptQuote_goes charge_goes goes_on_same

lemma bespoke_step_goes: "bespoke_step s s' \<Longrightarrow> quote_book s \<Longrightarrow> goes_on s s'"
  by (induction rule: bespoke_step.induct) (blast intro: bespoke_goes)+

lemma bespoke_run_goes:
  assumes "bespoke_step\<^sup>*\<^sup>* s s'" "quote_book s"
  shows "goes_on s s'"
  using assms
proof (induction rule: rtranclp_induct)
  case (step t u)
  then have "goes_on s t" "goes_on t u" using bespoke_step_goes by (auto simp: goes_on_def)
  then show ?case by (rule goes_on_trans)
qed (rule goes_on_refl)

text \<open>C7: Whatever customers and vendors request, and in whatever order: a design never has more than five quotes, all of
  different vendors; once a design is in production, completed or cancelled none of its quotes can be
  drafted, submitted or accepted any more, and it stays so; every accepted quote belongs to such a
  design, and is never written again.\<close>

theorem designs_settle_once:
  assumes "bespoke_step\<^sup>*\<^sup>* s s'" "quote_book s"
  shows "quote_book s' \<and> lasts s s'"
  using bespoke_run_goes [OF assms] by (simp add: goes_on_def)

text \<open>C38: A card payment that arrives after another quote of the design was accepted is finalised all the same: the handler
  tests only that this quote is not accepted yet, so the declined quote is accepted as well, and
  the design's accepted quote is replaced.\<close>

theorem late_card_accepts_second_quote:
  assumes "quote_book s" "p \<in> set (db_quotes s)" "bq_status p = BQ_ACCEPTED" "q \<in> set (db_quotes s)" "bq_status q = BQ_DECLINED"
    "bq_design q = bq_design p" "finalizeCheckoutOrder now tx s = (Inr (), s')" "t_channel tx = Checkout" "t_order tx = Some i"
    "find_one (\<lambda>od. o_id od = i) (db_orders s) = Some ord" "o_payment_status ord \<noteq> Paid" "o_type ord = Bespoke"
    "o_bespoke_quote ord = Some (bq_id q)"
  shows "p \<in> set (db_quotes s') \<and> q\<lparr>bq_status := BQ_ACCEPTED, bq_accepted_at := Some now\<rparr> \<in> set (db_quotes s') \<and>
    (\<exists>d\<in>set (db_designs s'). bd_id d = bq_design p \<and> bd_accepted_quote d = Some (bq_id q))"
proof -
  let ?ds = "update_one (\<lambda>d. bd_id d = bq_design q) (produced q) (db_designs s)"
  have ids: "distinct (map bq_id (db_quotes s))" using assms(1) by (simp add: quote_book_def desk_def)
  have "linked (db_quotes s) (quote_link ord)"
    using assms(1) find_one_SomeD [OF assms(10)] by (simp add: quote_book_def desk_at_def)
  then obtain x where "x \<in> set (db_quotes s)" "bq_id x = bq_id q" "o_bespoke_design ord = Some (bq_design x)"
    using assms(13) by (auto simp: linked_def quote_link_def)
  then have design: "o_bespoke_design ord = Some (bq_design q)"
    using inj_onD [of bq_id "set (db_quotes s)" x q] ids assms(4) by (auto simp: distinct_map)
  have at: "desk_at ?ds (settled_quotes now q s) (db_next s) s'"
    by (rule charge_settles [OF assms(1,4) _ assms(7-13) design]) (simp add: assms(5))
  have "p \<in> set (db_quotes s')"
    using charge_goes [OF assms(1,7)] assms(2,3) by (simp add: goes_on_def lasts_def)
  moreover have "q\<lparr>bq_status := BQ_ACCEPTED, bq_accepted_at := Some now\<rparr> \<in> set (settled_quotes now q s)"
    unfolding settled_quotes_def accept_bespoke_quote_def using assms(4)
    by (auto simp: update_one_key_map [OF ids] update_many_def image_iff intro!: bexI [of _ q])
  moreover have "phase (db_designs s) (bq_design q) \<noteq> None"
    using book_found(3) [OF assms(1,4)] by (cases "phase (db_designs s) (bq_design q)") auto
  then obtain d where "find_one (\<lambda>d. bd_id d = bq_design q) (db_designs s) = Some d" by (auto simp: phase_def)
  then have "find_one (\<lambda>d. bd_id d = bq_design q) ?ds = Some (produced q d)"
    using find_one_keyD by (intro find_one_update_one_same) (fastforce simp: produced_def)+
  then have "produced q d \<in> set ?ds" "bd_id (produced q d) = bq_design q" by (auto dest: find_one_SomeD)
  moreover have "db_designs s' = ?ds" "db_quotes s' = settled_quotes now q s" using at by (simp_all add: desk_at_def)
  moreover have "bd_accepted_quote (produced q d) = Some (bq_id q)" by (simp add: produced_def)
  ultimately show ?thesis using assms(6) by metis
qed

section \<open>Concrete runs\<close>

definition sample_design_dto :: create_design_dto where
  "sample_design_dto = \<lparr>dd_name = ''gown'', dd_category = ''dress'', dd_gender = ''female'', dd_design_images = [],
     dd_reference_images = None, dd_fabric_id = None, dd_description = None, dd_measurement_id = None\<rparr>"

definition sample_submission :: "rat \<Rightarrow> submit_quote_dto" where
  "sample_submission x = \<lparr>sq_line_items = [\<lparr>li_label = Some ''labour'', li_amount = Some x\<rparr>], sq_required_fabric_yards = 3,
     sq_estimated_completion_days = 14, sq_vendor_notes = None\<rparr>"

definition sample_tailors :: db where
  "sample_tailors = empty_db\<lparr>db_businesses := [sample_business\<lparr>b_id := 8\<rparr>, sample_business\<lparr>b_id := 9\<rparr>],
     db_wallets := [(new_wallet None (Some 5) 2)\<lparr>w_balance := 100000\<rparr>], db_next := 10\<rparr>"

text \<open>A design with two submitted quotes, 13 of vendor 8 and 15 of vendor 9.\<close>

definition sample_quoted :: db where
  "sample_quoted = snd (submitQuote 1 15 9 (sample_submission 50000) (snd (submitQuote 1 13 8 (sample_submission 60000)
     (snd (requestQuotes 0 11 [8, 9] 5 (snd (createDesign sample_design_dto 5 sample_tailors)))))))"

definition sample_addressed :: "address list" where
  "sample_addressed = [\<lparr>adr_id = 1, adr_customer = 5, adr_is_default = True\<rparr>]"

text \<open>The customer starts a card payment for the second quote, then pays the first one from the wallet.\<close>

definition sample_chosen :: db where
  "sample_chosen = snd (acceptQuote (\<lambda>_. None) sample_addressed 3 13 5 Pay_wallet None
     (snd (acceptQuote (\<lambda>_. None) sample_addressed 2 15 5 Pay_paystack None sample_quoted)))"

lemma sample_tailors_book: "quote_book sample_tailors"
  by (simp add: quote_book_def desk_def desk_at_def sample_tailors_def empty_db_def sample_business_def)

lemma sample_chosen_run: "bespoke_step\<^sup>*\<^sup>* sample_tailors sample_chosen"
  unfolding sample_chosen_def sample_quoted_def
  by (rule rtranclp.rtrancl_into_rtrancl [rotated], rule bespoke_step.accept bespoke_step.submit bespoke_step.ask bespoke_step.create)+
    (rule rtranclp.rtrancl_refl)

lemma sample_chosen_book: "quote_book sample_chosen"
  using bespoke_run_goes [OF sample_chosen_run sample_tailors_book] by (simp add: goes_on_def)

theorem designs_settle_once_witness:
  "quote_book sample_chosen \<and> map bq_status (db_quotes sample_chosen) = [BQ_ACCEPTED, BQ_DECLINED] \<and>
     map bd_status (db_designs sample_chosen) = [BD_IN_PRODUCTION]"
proof -
  have "map bq_status (db_quotes sample_chosen) = [BQ_ACCEPTED, BQ_DECLINED] \<and> map bd_status (db_designs sample_chosen) = [BD_IN_PRODUCTION]"
    by code_simp
  with designs_settle_once [OF sample_chosen_run sample_tailors_book] show ?thesis by simp
qed

theorem late_card_accepts_second_quote_witness:
  "\<exists>tx s' p q. t_reference tx = 20 \<and> tx \<in> set (db_transactions sample_chosen) \<and>
     finalizeCheckoutOrder 4 tx sample_chosen = (Inr (), s') \<and> {p, q} \<subseteq> set (db_quotes s') \<and>
     bq_id p = 13 \<and> bq_status p = BQ_ACCEPTED \<and> bq_id q = 15 \<and> bq_status q = BQ_ACCEPTED \<and> bq_design p = bq_design q"
proof -
  define p where "p = db_quotes sample_chosen ! 0"
  define q where "q = db_quotes sample_chosen ! 1"
  define tx where "tx = hd (db_transactions sample_chosen)"
  define ord where "ord = hd (db_orders sample_chosen)"
  define s' where "s' = snd (finalizeCheckoutOrder 4 tx sample_chosen)"
  have p: "bq_id p = 13" "bq_status p = BQ_ACCEPTED" and q: "bq_id q = 15" "bq_status q = BQ_DECLINED" and d: "bq_design q = bq_design p"
    and mem: "p \<in> set (db_quotes sample_chosen)" "q \<in> set (db_quotes sample_chosen)"
    unfolding p_def q_def by code_simp+
  have tx: "t_reference tx = 20" "t_channel tx = Checkout" "t_order tx = Some 19" "tx \<in> set (db_transactions sample_chosen)"
    unfolding tx_def by code_simp+
  have ord: "find_one (\<lambda>od. o_id od = 19) (db_orders sample_chosen) = Some ord" "o_payment_status ord \<noteq> Paid" "o_type ord = Bespoke"
    "o_bespoke_quote ord = Some 15" unfolding ord_def by code_simp+
  have "fst (finalizeCheckoutOrder 4 tx sample_chosen) = Inr ()" unfolding tx_def by code_simp
  then have run: "finalizeCheckoutOrder 4 tx sample_chosen = (Inr (), s')" by (simp add: prod_eq_iff s'_def)
  have "p \<in> set (db_quotes s') \<and> q\<lparr>bq_status := BQ_ACCEPTED, bq_accepted_at := Some 4\<rparr> \<in> set (db_quotes s')"
    using late_card_accepts_second_quote [OF sample_chosen_book mem(1) p(2) mem(2) q(2) d run tx(2,3) ord(1-3)] ord(4) q(1) by simp
  then show ?thesis using p q d tx run
    by (intro exI [of _ tx] exI [of _ s'] exI [of _ p] exI [of _ "q\<lparr>bq_status := BQ_ACCEPTED, bq_accepted_at := Some 4\<rparr>"]) simp
qed

end
