(* ===== verification/References.thy ===== *)
theory References
  imports Prelude "HOL-Library.Word"
begin

text \<open>
  Shared utilities (\<open>src/common/utils\<close>): the generator of the references that orders, transactions, designs
  and quotes carry (\<open>generateString.ts\<close>), and the pagination behind every listing (\<open>pagination.ts\<close>). The
  clock and the random source are parameters: the date and the four random bytes of every try.
\<close>

section \<open>References\<close>

text \<open>\<open>toString('hex').toUpperCase()\<close>.\<close>

definition hex_digit :: "nat \<Rightarrow> char" where
  "hex_digit n = ''0123456789ABCDEF'' ! (n mod 16)"

definition hex_byte :: "8 word \<Rightarrow> string" where
  "hex_byte b = [hex_digit (unat b div 16), hex_digit (unat b)]"

definition hex :: "8 word list \<Rightarrow> string" where
  "hex bs = concat (map hex_byte bs)"

definition qlozet_reference :: "string \<Rightarrow> string \<Rightarrow> 8 word list \<Rightarrow> string" where
  "qlozet_reference prefix datePart bytes = ''QLOZ-'' @ map upper_char prefix @ ''-'' @ datePart @ ''-'' @ hex bytes"

text \<open>
  The loop tries until the reference is in no document. \<open>taken\<close> are the references of the collection,
  \<open>date k\<close> and \<open>random k\<close> the date and the bytes of the try \<open>k\<close>; \<open>None\<close> is a loop that does not end.
\<close>

partial_function (option) generate_from ::
  "string \<Rightarrow> string list \<Rightarrow> (nat \<Rightarrow> string) \<Rightarrow> (nat \<Rightarrow> 8 word list) \<Rightarrow> nat \<Rightarrow> string option" where
  "generate_from prefix taken date random k =
     (let reference = qlozet_reference prefix (date k) (random k)
      in if reference \<in> set taken then generate_from prefix taken date random (Suc k) else Some reference)"

definition generateUniqueQlozetReference ::
  "string \<Rightarrow> string list \<Rightarrow> (nat \<Rightarrow> string) \<Rightarrow> (nat \<Rightarrow> 8 word list) \<Rightarrow> string option" where
  "generateUniqueQlozetReference prefix taken date random = generate_from prefix taken date random 0"

lemma hex_digit_inj: "\<lbrakk>m < 16; n < 16; hex_digit m = hex_digit n\<rbrakk> \<Longrightarrow> m = n"
proof -
  have d: "distinct ''0123456789ABCDEF''" "length ''0123456789ABCDEF'' = 16" by simp_all
  assume "m < 16" "n < 16" "hex_digit m = hex_digit n"
  then show "m = n" unfolding hex_digit_def by (metis d mod_less nth_eq_iff_index_eq)
qed

lemma hex_byte_inj: "hex_byte a = hex_byte b \<Longrightarrow> a = b"
proof -
  assume "hex_byte a = hex_byte b"
  then have "hex_digit (unat a div 16) = hex_digit (unat b div 16)" "hex_digit (unat a mod 16) = hex_digit (unat b mod 16)"
    by (simp_all add: hex_byte_def hex_digit_def)
  moreover have "unat a < 256" "unat b < 256" using unsigned_less [of a] unsigned_less [of b] by simp_all
  ultimately have "unat a div 16 = unat b div 16" "unat a mod 16 = unat b mod 16"
    by (auto intro: hex_digit_inj)
  then have "unat a = unat b" by (metis div_mult_mod_eq)
  then show ?thesis by (simp only: word_unat_eq_iff)
qed

lemma hex_inj: "\<lbrakk>length as = length bs; hex as = hex bs\<rbrakk> \<Longrightarrow> as = bs"
proof (induction as bs rule: list_induct2)
  case (Cons a as b bs)
  then have "hex_byte a = hex_byte b" "hex as = hex bs" by (simp_all add: hex_def hex_byte_def)
  with Cons.IH hex_byte_inj show ?case by simp
qed simp

lemma length_hex [simp]: "length (hex bs) = 2 * length bs"
  by (induction bs) (simp_all add: hex_def hex_byte_def)

lemma reference_inj: "\<lbrakk>length as = length bs; qlozet_reference p d as = qlozet_reference p d bs\<rbrakk> \<Longrightarrow> as = bs"
  by (auto simp: qlozet_reference_def intro: hex_inj)

lemma generate_stops:
  "qlozet_reference p (date (k + n)) (random (k + n)) \<notin> set taken \<Longrightarrow>
     \<exists>j\<in>{k..k + n}. generate_from p taken date random k = Some (qlozet_reference p (date j) (random j)) \<and>
       qlozet_reference p (date j) (random j) \<notin> set taken"
proof (induction n arbitrary: k)
  case 0
  then show ?case by (simp add: generate_from.simps Let_def)
next
  case (Suc n)
  show ?case
  proof (cases "qlozet_reference p (date k) (random k) \<in> set taken")
    case True
    from Suc.IH [of "Suc k"] Suc.prems obtain j where "j \<in> {Suc k..Suc k + n}"
        "generate_from p taken date random (Suc k) = Some (qlozet_reference p (date j) (random j))"
        "qlozet_reference p (date j) (random j) \<notin> set taken" by auto
    with True show ?thesis by (intro bexI [of _ j]) (auto simp: generate_from.simps [of p taken date random k])
  next
    case False
    then show ?thesis by (intro bexI [of _ k]) (simp_all add: generate_from.simps [of p taken date random k])
  qed
qed

text \<open>C32: The generator ends: when the date does not change meanwhile and the random source gives four different bytes at
  every try, then at most one more try than there are documents is needed, and the reference it returns is
  in no document; it is the first of the tried ones that is free.\<close>

theorem reference_generator_terminates:
  assumes "\<forall>k. length (random k) = 4" "\<forall>k. date k = d" "inj_on random {..length taken}"
  shows "\<exists>k\<le>length taken. generateUniqueQlozetReference prefix taken date random = Some (qlozet_reference prefix d (random k)) \<and>
    qlozet_reference prefix d (random k) \<notin> set taken"
proof -
  let ?r = "\<lambda>k. qlozet_reference prefix d (random k)"
  have "inj_on ?r {..length taken}"
    using assms(1,3) reference_inj [of "random _" "random _"] by (simp add: inj_on_def)
  then have "card (?r ` {..length taken}) = Suc (length taken)" by (simp add: card_image)
  then have "\<not> ?r ` {..length taken} \<subseteq> set taken"
    using card_mono [of "set taken" "?r ` {..length taken}"] card_length [of taken] by fastforce
  then obtain n where "n \<le> length taken" "?r n \<notin> set taken" by auto
  with generate_stops [of prefix date 0 n random taken] assms(2) obtain j where "j \<le> n"
    "generate_from prefix taken date random 0 = Some (?r j)" "?r j \<notin> set taken" by auto
  with \<open>n \<le> length taken\<close> show ?thesis unfolding generateUniqueQlozetReference_def by (intro exI [of _ j]) simp
qed

theorem reference_generator_terminates_witness:
  "\<exists>k\<le>1. generateUniqueQlozetReference ''ord'' [''QLOZ-ORD-20250101-00000000''] (\<lambda>_. ''20250101'') (\<lambda>k. [0, 0, 0, word_of_nat (k mod 256)])
     = Some (qlozet_reference ''ord'' ''20250101'' [0, 0, 0, word_of_nat (k mod 256)])"
proof -
  have "inj_on (\<lambda>k. [0, 0, 0, word_of_nat (k mod 256)] :: 8 word list) {..length [''QLOZ-ORD-20250101-00000000'']}"
    by (auto simp: inj_on_def le_Suc_eq)
  from reference_generator_terminates [OF _ _ this, of "\<lambda>_. ''20250101''" "''20250101''" "''ord''"] show ?thesis by auto
qed

section \<open>One-time codes\<close>

text \<open>\<open>Math.floor(100000 + Math.random() * 900000).toString()\<close>, for a random number in \<open>[0, 1)\<close>.\<close>

fun digits :: "nat \<Rightarrow> string" where
  "digits n = (if n < 10 then [char_of (48 + n)] else digits (n div 10) @ [char_of (48 + n mod 10)])"

declare digits.simps [simp del]

definition generateOtp :: "rat \<Rightarrow> string" where
  "generateOtp x = digits (nat \<lfloor>100000 + x * 900000\<rfloor>)"

lemma length_digits: "\<lbrakk>10 ^ k \<le> n; n < 10 ^ Suc k\<rbrakk> \<Longrightarrow> length (digits n) = Suc k"
proof (induction k arbitrary: n)
  case 0
  then show ?case by (simp add: digits.simps)
next
  case (Suc k)
  then have "10 ^ k \<le> n div 10" "n div 10 < 10 ^ Suc k" by auto
  moreover have "10 \<le> n" using Suc.prems(1) le_trans [of 10 "10 ^ Suc k" n] by simp
  ultimately show ?case using Suc.IH [of "n div 10"] by (simp add: digits.simps [of n])
qed

lemma otp_length:
  assumes "0 \<le> x" "x < 1"
  shows "length (generateOtp x) = 6"
proof -
  let ?n = "nat \<lfloor>100000 + x * 900000\<rfloor>"
  have "100000 \<le> \<lfloor>100000 + x * 900000\<rfloor>" using assms(1) by (simp add: le_floor_iff)
  moreover have "\<lfloor>100000 + x * 900000\<rfloor> < 1000000" using assms(2) by (simp add: floor_less_iff)
  ultimately have "10 ^ 5 \<le> ?n" "?n < 10 ^ Suc 5" by (simp_all add: nat_less_iff le_nat_iff)
  from length_digits [OF this] show ?thesis by (simp add: generateOtp_def)
qed

section \<open>Pagination\<close>

text \<open>\<open>Number.isInteger(x) && x > 0\<close>; an argument that is not given takes its default.\<close>

definition positive_integer :: "rat \<Rightarrow> bool" where
  "positive_integer x \<longleftrightarrow> of_int \<lfloor>x\<rfloor> = x \<and> 0 < x"

definition validated :: "rat option \<Rightarrow> rat \<Rightarrow> nat" where
  "validated x dflt = (let v = nullish x dflt in nat \<lfloor>if positive_integer v then v else dflt\<rfloor>)"

definition getPagination :: "rat option \<Rightarrow> rat option \<Rightarrow> nat \<times> nat" where
  "getPagination page siz =
     (let validatedPage = validated page 1; validatedSize = validated siz 10
      in (validatedSize, (validatedPage - 1) * validatedSize))"

record 'a paging_data =
  pg_total_items :: nat
  pg_data :: "'a list"
  pg_total_pages :: nat
  pg_current_page :: nat
  pg_has_next_page :: bool
  pg_has_previous_page :: bool
  pg_page_size :: nat

definition getPagingData :: "nat \<Rightarrow> 'a list \<Rightarrow> rat option \<Rightarrow> rat option \<Rightarrow> 'a paging_data" where
  "getPagingData items rows page limit =
     (let current_page = validated page 1; page_size = validated limit 10;
          total_pages = nat \<lceil>of_nat items / of_nat page_size :: rat\<rceil>
      in \<lparr>pg_total_items = items, pg_data = rows, pg_total_pages = total_pages, pg_current_page = current_page,
          pg_has_next_page = current_page < total_pages, pg_has_previous_page = current_page > 1, pg_page_size = page_size\<rparr>)"

text \<open>A listing: \<open>find(...).skip(skip).limit(take)\<close> beside \<open>countDocuments(...)\<close>.\<close>

definition list_page :: "rat option \<Rightarrow> rat option \<Rightarrow> 'a list \<Rightarrow> 'a paging_data" where
  "list_page page siz docs = (let (tk, skip) = getPagination page siz
     in getPagingData (length docs) (take tk (drop skip docs)) page siz)"

lemma validated_pos: "0 < d \<Longrightarrow> positive_integer d \<Longrightarrow> 0 < validated x d"
  by (auto simp: validated_def Let_def positive_integer_def zero_less_nat_eq)

lemma validated_nat [simp]: "validated (Some (of_nat (Suc n))) d = Suc n"
proof -
  have "rat_of_int \<lfloor>rat_of_nat (Suc n)\<rfloor> = rat_of_nat (Suc n)" by (simp only: floor_of_nat of_int_of_nat_eq)
  then show ?thesis by (simp only: validated_def positive_integer_def nullish_simps Let_def floor_of_nat if_True of_nat_0_less_iff zero_less_Suc simp_thms nat_int)
qed

lemma chunks_all: "0 < k \<Longrightarrow> length docs \<le> n * k \<Longrightarrow> concat (map (\<lambda>p. take k (drop (p * k) docs)) [0..<n]) = docs"
proof (induction n arbitrary: docs)
  case (Suc n)
  have "map (\<lambda>p. take k (drop (p * k) docs)) [0..<Suc n] = take k docs # map (\<lambda>p. take k (drop (p * k) (drop k docs))) [0..<n]"
    by (simp add: map_upt_Suc add.commute del: upt_Suc)
  moreover have "length (drop k docs) \<le> n * k" using Suc.prems by simp
  ultimately show ?case using Suc.IH [of "drop k docs"] Suc.prems(1) by simp
qed simp

text \<open>C33: Walking through the pages of a listing from the first to the last shows every document exactly once and in order,
  whatever the page size. Every page carries its own number and the size of the listing, there is a previous page exactly
  after the first one, and a next page exactly before the last one.\<close>

theorem pages_cover_listing:
  "concat (map (\<lambda>p. pg_data (list_page (Some (of_nat (Suc p))) siz docs)) [0..<pg_total_pages (list_page None siz docs)]) = docs \<and>
   (let pg = list_page (Some (of_nat (Suc p))) siz docs; n = pg_total_pages (list_page None siz docs) in
     pg_total_items pg = length docs \<and> pg_total_pages pg = n \<and> pg_current_page pg = Suc p \<and>
     (pg_has_previous_page pg \<longleftrightarrow> p \<noteq> 0) \<and> (pg_has_next_page pg \<longleftrightarrow> Suc p < n) \<and>
     (pg_data pg \<noteq> [] \<longleftrightarrow> p < n) \<and> length (pg_data pg) \<le> pg_page_size pg)"
proof -
  let ?k = "validated siz 10" and ?n = "pg_total_pages (list_page None siz docs)"
  let ?pg = "list_page (Some (of_nat (Suc p))) siz docs"
  have k: "0 < ?k" by (rule validated_pos) (simp_all add: positive_integer_def)
  have n: "?n = nat \<lceil>of_nat (length docs) / of_nat ?k :: rat\<rceil>"
    by (simp add: list_page_def getPagination_def getPagingData_def Let_def)
  have "(of_nat (length docs) / of_nat ?k :: rat) \<le> of_nat ?n" unfolding n by (rule of_nat_ceiling)
  then have "of_nat (length docs) \<le> (of_nat (?n * ?k) :: rat)" using k by (simp add: field_simps)
  then have len: "length docs \<le> ?n * ?k" by (simp only: of_nat_le_iff)
  have data: "pg_data (list_page (Some (of_nat (Suc p))) siz docs) = take ?k (drop (p * ?k) docs)" for p
    using validated_nat [of p 1] by (simp add: list_page_def getPagination_def getPagingData_def Let_def del: of_nat_Suc)
  then have "concat (map (\<lambda>p. pg_data (list_page (Some (of_nat (Suc p))) siz docs)) [0..<?n]) = docs"
    using chunks_all [OF k len] by simp
  moreover have "pg_total_items ?pg = length docs" "pg_total_pages ?pg = ?n" "pg_current_page ?pg = Suc p"
    "pg_has_previous_page ?pg \<longleftrightarrow> p \<noteq> 0" "pg_has_next_page ?pg \<longleftrightarrow> Suc p < ?n" "pg_page_size ?pg = ?k"
    using validated_nat [of p 1] n by (simp_all add: list_page_def getPagination_def getPagingData_def Let_def del: of_nat_Suc)
  moreover have "pg_data ?pg \<noteq> [] \<longleftrightarrow> p < ?n"
  proof -
    have "p < ?n \<longleftrightarrow> (of_nat p :: rat) < of_nat (length docs) / of_nat ?k"
      unfolding n by (simp add: zless_nat_eq_int_zless less_ceiling_iff)
    also have "\<dots> \<longleftrightarrow> (of_nat (p * ?k) :: rat) < of_nat (length docs)" using k by (simp add: field_simps)
    also have "\<dots> \<longleftrightarrow> p * ?k < length docs" by (rule of_nat_less_iff)
    finally show ?thesis unfolding data using k by (simp add: not_le)
  qed
  moreover have "length (pg_data ?pg) \<le> ?k" unfolding data by simp
  ultimately show ?thesis by (simp add: Let_def)
qed

theorem pages_cover_listing_witness:
  "pg_total_pages (list_page None (Some 2) [10, 20, 30, 40, 50 :: nat]) = 3 \<and>
   (let pg = list_page (Some (of_nat (Suc 2))) (Some 2) [10, 20, 30, 40, 50 :: nat] in
     pg_current_page pg = 3 \<and> pg_has_previous_page pg \<and> \<not> pg_has_next_page pg \<and> pg_data pg \<noteq> [])"
proof -
  have "pg_total_pages (list_page None (Some 2) [10, 20, 30, 40, 50 :: nat]) = 3" by code_simp
  with pages_cover_listing [of "Some 2" "[10, 20, 30, 40, 50 :: nat]" 2] show ?thesis by (simp add: Let_def)
qed

end
