(* ===== verification/Accounts.thy ===== *)
theory Accounts
  imports Wallets
begin

text \<open>
  Accounts: users, roles, businesses and their teams (\<open>src/modules/ums/schemas\<close>), registration, e-mail
  verification, sign-in and passwords (\<open>src/modules/auth/auth.service.ts\<close>) and team management
  (\<open>src/modules/ums/services/team.service.ts\<close>). They have a state of their own beside \<open>db\<close>.

  \<^item> bcrypt, SHA-256 and the JWT library are parameters, bundled in the record \<open>crypto\<close>.
  \<^item> An e-mail address stands for its trimmed lower-case form, the one the DTOs and the schema store and query.
  \<^item> A field with \<open>select: false\<close> that a query does not ask for reads as undefined; a write to a key that
    is not in the schema is dropped. Both are written out where the code runs into them.
  \<^item> Names, pictures, preferences, mails and notifications are left out.
  \<^item> The global \<open>ValidationPipe\<close> (\<open>bootstrap.ts\<close>) has no \<open>whitelist\<close>: a body keeps the fields its DTO does not declare. Where
    a service spreads a body into a document, the fields that name a key of the schema are part of the model, with values the schema can cast; an \<open>_id\<close>
    and dotted paths are left out.
\<close>

section \<open>Documents\<close>

datatype user_type = PLATFORM | VENDOR | CUSTOMER

datatype user_status = U_active | U_inactive | U_suspended

record reset_code =
  rs_pin :: string
  rs_expire_at :: instant
  rs_attempts :: nat
  rs_last_sent_at :: "instant option"

record user =
  u_id :: oid
  u_email :: string
  u_phone_number :: "string option"
  u_hashed_password :: string
  u_type :: user_type
  u_email_verified :: bool
  u_role :: "oid option"
  u_verification_token :: "string option"
  u_verification_expires :: "instant option"
  u_reset_code :: "reset_code option"
  u_status :: user_status
  u_must_change_password :: bool
  u_refresh_token :: "string option"
  u_email_verified_at :: "instant option"
  u_business :: "oid option"

record role =
  ro_id :: oid
  ro_name :: string
  ro_permissions :: "oid list"

record permission =
  pm_id :: oid
  pm_name :: string

record team_member =
  tm_id :: oid
  tm_business :: oid
  tm_user :: "oid option"
  tm_role :: oid
  tm_email :: string
  tm_accepted :: bool
  tm_is_active :: bool
  tm_is_owner :: bool

record vendor_business =
  vb_id :: oid
  vb_business_email :: "string option"
  vb_business_phone_number :: "string option"
  vb_created_by :: oid
  vb_team_members :: "oid list"

record accounts =
  ac_users :: "user list"
  ac_roles :: "role list"
  ac_permissions :: "permission list"
  ac_members :: "team_member list"
  ac_businesses :: "vendor_business list"
  ac_wallets :: "wallet list"
  ac_tokens :: "token list"
  ac_next :: oid

definition number :: "(accounts, oid) action" where
  "number = (\<lambda>s. (Inr (ac_next s), s\<lparr>ac_next := Suc (ac_next s)\<rparr>))"

lemma number_app [simp, effect_simps]: "number s = (Inr (ac_next s), s\<lparr>ac_next := Suc (ac_next s)\<rparr>)"
  by (simp add: number_def)

text \<open>\<open>cy_verify\<close> gives the payload's user id of a valid access token.\<close>

record crypto =
  cy_hash :: "string \<Rightarrow> string"
  cy_compare :: "string \<Rightarrow> string \<Rightarrow> bool"
  cy_sha256 :: "string \<Rightarrow> string"
  cy_access :: "oid \<Rightarrow> string"
  cy_refresh :: "oid \<Rightarrow> string"
  cy_verify :: "string \<Rightarrow> oid option"

type_synonym tokens = "string \<times> string"

definition generateToken :: "crypto \<Rightarrow> oid \<Rightarrow> tokens" where
  "generateToken cy i = (cy_access cy i, cy_refresh cy i)"

definition find_user :: "oid \<Rightarrow> accounts \<Rightarrow> user option" where
  "find_user i s = find_one (\<lambda>u. u_id u = i) (ac_users s)"

definition set_user :: "oid \<Rightarrow> (user \<Rightarrow> user) \<Rightarrow> (accounts, unit) action" where
  "set_user i f = modify (\<lambda>s. s\<lparr>ac_users := update_one (\<lambda>u. u_id u = i) f (ac_users s)\<rparr>)"

definition load_user :: "(user \<Rightarrow> bool) \<Rightarrow> error \<Rightarrow> (accounts, user) action" where
  "load_user P e = andThen (gets (\<lambda>s. find_one P (ac_users s))) (\<lambda>found. case found of None \<Rightarrow> throw e | Some u \<Rightarrow> ret u)"

section \<open>Undeclared fields\<close>

text \<open>A key of the user's schema in a body, and a document with the body spread into it: the last value of a key wins.\<close>

datatype user_key =
    K_hashed_password string
  | K_type user_type
  | K_email_verified bool
  | K_role "oid option"
  | K_verification_token "string option"
  | K_verification_expires "instant option"
  | K_reset_code "reset_code option"
  | K_status user_status
  | K_must_change_password bool
  | K_refresh_token "string option"
  | K_email_verified_at "instant option"
  | K_business "oid option"

fun assign_key :: "user_key \<Rightarrow> user \<Rightarrow> user" where
  "assign_key (K_hashed_password x) u = u\<lparr>u_hashed_password := x\<rparr>"
| "assign_key (K_type x) u = u\<lparr>u_type := x\<rparr>"
| "assign_key (K_email_verified x) u = u\<lparr>u_email_verified := x\<rparr>"
| "assign_key (K_role x) u = u\<lparr>u_role := x\<rparr>"
| "assign_key (K_verification_token x) u = u\<lparr>u_verification_token := x\<rparr>"
| "assign_key (K_verification_expires x) u = u\<lparr>u_verification_expires := x\<rparr>"
| "assign_key (K_reset_code x) u = u\<lparr>u_reset_code := x\<rparr>"
| "assign_key (K_status x) u = u\<lparr>u_status := x\<rparr>"
| "assign_key (K_must_change_password x) u = u\<lparr>u_must_change_password := x\<rparr>"
| "assign_key (K_refresh_token x) u = u\<lparr>u_refresh_token := x\<rparr>"
| "assign_key (K_email_verified_at x) u = u\<lparr>u_email_verified_at := x\<rparr>"
| "assign_key (K_business x) u = u\<lparr>u_business := x\<rparr>"

definition assign_keys :: "user_key list \<Rightarrow> user \<Rightarrow> user" where
  "assign_keys ks u = fold assign_key ks u"

lemma assign_keys_simps [simp]: "assign_keys [] u = u" "assign_keys (k # ks) u = assign_keys ks (assign_key k u)"
  by (simp_all add: assign_keys_def)

lemma assign_keys_ident [simp]:
  "u_id (assign_keys ks u) = u_id u" "u_email (assign_keys ks u) = u_email u" "u_phone_number (assign_keys ks u) = u_phone_number u"
proof -
  have "u_id (assign_key k v) = u_id v \<and> u_email (assign_key k v) = u_email v \<and> u_phone_number (assign_key k v) = u_phone_number v" for k v
    by (cases k) simp_all
  then show "u_id (assign_keys ks u) = u_id u" "u_email (assign_keys ks u) = u_email u" "u_phone_number (assign_keys ks u) = u_phone_number u"
    by (induction ks arbitrary: u) simp_all
qed

section \<open>Registration\<close>

text \<open>\<open>vr_created_by\<close> is an undeclared field: the body is spread after \<open>created_by\<close>.\<close>

record vendor_register_dto =
  vr_business_email :: "string option"
  vr_business_phone_number :: "string option"
  vr_personal_phone_number :: string
  vr_personal_email :: string
  vr_password :: string
  vr_created_by :: "oid option"

definition same_contact :: "string option \<Rightarrow> string option \<Rightarrow> vendor_business \<Rightarrow> bool" where
  "same_contact email phone b \<longleftrightarrow> truthy_string email \<and> vb_business_email b = email \<or>
     truthy_string phone \<and> vb_business_phone_number b = phone"

definition taken_by :: "string \<Rightarrow> string \<Rightarrow> user \<Rightarrow> bool" where
  "taken_by email phone u \<longleftrightarrow> u_email u = email \<or> u_phone_number u = Some phone"

definition new_user :: "crypto \<Rightarrow> instant \<Rightarrow> string \<Rightarrow> string \<Rightarrow> string \<Rightarrow> string \<Rightarrow> user_type \<Rightarrow> oid \<Rightarrow> oid \<Rightarrow> user" where
  "new_user cy now otp email phone password ty roleId i = \<lparr>u_id = i, u_email = email, u_phone_number = Some phone,
     u_hashed_password = cy_hash cy password, u_type = ty, u_email_verified = False, u_role = Some roleId,
     u_verification_token = Some (cy_sha256 cy otp), u_verification_expires = Some (now + 24 * 60 * 60 * 1000),
     u_reset_code = None, u_status = U_active, u_must_change_password = False, u_refresh_token = None,
     u_email_verified_at = None, u_business = None\<rparr>"

definition welcome_tokens :: "oid option \<Rightarrow> rat \<Rightarrow> oid \<Rightarrow> token" where
  "welcome_tokens business amount i = \<lparr>k_id = i, k_customer = None, k_business = business, k_tokens = amount,
     k_lifetimeEarned = 0, k_lifetimeSpent = 0, k_expiresAt = None\<rparr>"

definition insert_user :: "user \<Rightarrow> (accounts, unit) action" where
  "insert_user u = modify (\<lambda>s. s\<lparr>ac_users := ac_users s @ [u]\<rparr>)"

definition insert_member :: "team_member \<Rightarrow> (accounts, unit) action" where
  "insert_member m = modify (\<lambda>s. s\<lparr>ac_members := ac_members s @ [m],
     ac_businesses := update_one (\<lambda>b. vb_id b = tm_business m)
       (\<lambda>b. b\<lparr>vb_team_members := (if tm_id m \<in> set (vb_team_members b) then vb_team_members b else vb_team_members b @ [tm_id m])\<rparr>) (ac_businesses s)\<rparr>)"

definition open_purse :: "oid option \<Rightarrow> oid option \<Rightarrow> rat \<Rightarrow> (accounts, unit) action" where
  "open_purse business customer amount = andThen number (\<lambda>w. andThen number (\<lambda>k. modify (\<lambda>s. s\<lparr>
     ac_wallets := ac_wallets s @ [new_wallet business customer w],
     ac_tokens := ac_tokens s @ [welcome_tokens business amount k]\<rparr>)))"

definition set_up_vendor :: "crypto \<Rightarrow> instant \<Rightarrow> string \<Rightarrow> vendor_register_dto \<Rightarrow> oid \<Rightarrow> (accounts, user \<times> oid) action" where
  "set_up_vendor cy now otp dto ownerRole =
     andThen number (\<lambda>i. let u = new_user cy now otp (vr_personal_email dto) (vr_personal_phone_number dto) (vr_password dto) VENDOR ownerRole i in
     andThen (insert_user u) (\<lambda>_.
     andThen number (\<lambda>b.
     andThen (modify (\<lambda>s. s\<lparr>ac_businesses := ac_businesses s @ [\<lparr>vb_id = b, vb_business_email = vr_business_email dto,
        vb_business_phone_number = vr_business_phone_number dto, vb_created_by = nullish (vr_created_by dto) i, vb_team_members = []\<rparr>]\<rparr>)) (\<lambda>_.
     andThen number (\<lambda>m.
     andThen (insert_member \<lparr>tm_id = m, tm_business = b, tm_user = Some i, tm_role = ownerRole, tm_email = vr_personal_email dto,
        tm_accepted = True, tm_is_active = True, tm_is_owner = True\<rparr>) (\<lambda>_.
     andThen (open_purse (Some b) None 250) (\<lambda>_. ret (u, b))))))))"

definition registerVendor :: "crypto \<Rightarrow> instant \<Rightarrow> string \<Rightarrow> vendor_register_dto \<Rightarrow> (accounts, user \<times> oid) action" where
  "registerVendor cy now otp dto =
     andThen (gets (\<lambda>s. find_one (same_contact (vr_business_email dto) (vr_business_phone_number dto)) (ac_businesses s))) (\<lambda>existingBusiness.
     if existingBusiness \<noteq> None then throw (ConflictException ''A business with this email or phone number already exists.'')
     else andThen (gets (\<lambda>s. find_one (taken_by (vr_personal_email dto) (vr_personal_phone_number dto)) (ac_users s))) (\<lambda>existingUser.
     if existingUser \<noteq> None then throw (ConflictException ''A user with this email or phone number already exists.'')
     else andThen (gets (\<lambda>s. find_one (\<lambda>r. ro_name r = ''owner'') (ac_roles s))) (\<lambda>ownerRole. case ownerRole of
         None \<Rightarrow> throw (BadRequestException ''Vendor role not found.'')
       | Some r \<Rightarrow> andThen (with_transaction (set_up_vendor cy now otp dto (ro_id r))) (\<lambda>(u, b).
           andThen (set_user (u_id u) (\<lambda>u. u\<lparr>u_business := Some b\<rparr>)) (\<lambda>_. ret (u, b))))))"

record customer_register_dto =
  cu_email :: string
  cu_phone_number :: string
  cu_password :: string
  cu_rest :: "user_key list"

text \<open>\<open>cu_rest\<close> is the rest of the body, spread over the fixed fields. The welcome tokens are created with a \<open>user\<close>, a key the schema does not have.\<close>

definition set_up_customer :: "crypto \<Rightarrow> instant \<Rightarrow> string \<Rightarrow> customer_register_dto \<Rightarrow> oid \<Rightarrow> (accounts, user) action" where
  "set_up_customer cy now otp dto roleId =
     andThen number (\<lambda>i. let u = assign_keys (cu_rest dto) (new_user cy now otp (cu_email dto) (cu_phone_number dto) (cu_password dto) CUSTOMER roleId i) in
     andThen (insert_user u) (\<lambda>_. andThen (open_purse None (Some i) 100) (\<lambda>_. ret u)))"

definition registerCustomer :: "crypto \<Rightarrow> instant \<Rightarrow> string \<Rightarrow> customer_register_dto \<Rightarrow> (accounts, user) action" where
  "registerCustomer cy now otp dto =
     andThen (gets (\<lambda>s. find_one (taken_by (cu_email dto) (cu_phone_number dto)) (ac_users s))) (\<lambda>existingUser.
     if existingUser \<noteq> None then throw (ConflictException ''Email or phone number already in use'')
     else andThen (gets (\<lambda>s. find_one (\<lambda>r. ro_name r = ''customer'') (ac_roles s))) (\<lambda>role. case role of
         None \<Rightarrow> throw (BadRequestException ''Customer role not found'')
       | Some r \<Rightarrow> with_transaction (set_up_customer cy now otp dto (ro_id r))))"

section \<open>E-mail verification\<close>

definition expires_after :: "instant \<Rightarrow> instant option \<Rightarrow> bool" where
  "expires_after now t = (case t of None \<Rightarrow> False | Some e \<Rightarrow> e > now)"

definition verified_user :: "instant \<Rightarrow> user \<Rightarrow> user" where
  "verified_user now u = u\<lparr>u_email_verified := True, u_verification_token := None, u_verification_expires := None,
     u_status := U_active, u_email_verified_at := Some now\<rparr>"

text \<open>The new refresh token is written to \<open>refreshToken\<close>, a key the schema does not have.\<close>

definition verifyEmail :: "crypto \<Rightarrow> instant \<Rightarrow> string \<Rightarrow> (accounts, user \<times> tokens) action" where
  "verifyEmail cy now code =
     (let submittedHashed = (if length code = 6 then cy_sha256 cy code else code)
      in andThen (load_user (\<lambda>u. u_verification_token u = Some submittedHashed \<and> expires_after now (u_verification_expires u))
           (BadRequestException ''Invalid or expired verification token'')) (\<lambda>u.
         andThen (set_user (u_id u) (verified_user now)) (\<lambda>_. ret (verified_user now u, generateToken cy (u_id u)))))"

text \<open>The query does not select the expiry, which therefore reads as missing: the wait between two mails is never
  tested, and every request stores a new code.\<close>

definition resendVerificationEmail :: "crypto \<Rightarrow> instant \<Rightarrow> string \<Rightarrow> string \<Rightarrow> (accounts, unit) action" where
  "resendVerificationEmail cy now otp email =
     andThen (load_user (\<lambda>u. u_email u = email) (NotFoundException ''User not found with this email address.'')) (\<lambda>u.
     if u_email_verified u then throw (BadRequestException ''Email is already verified.'')
     else set_user (u_id u) (\<lambda>u. u\<lparr>u_verification_token := Some (cy_sha256 cy otp),
            u_verification_expires := Some (now + 24 * 60 * 60 * 1000)\<rparr>))"

section \<open>Signing in\<close>

text \<open>What every sign-in asks of the account. The expiry of the verification code is not selected here either, so an
  unverified account is always refused.\<close>

definition check_account :: "crypto \<Rightarrow> string \<Rightarrow> user \<Rightarrow> (accounts, unit) action" where
  "check_account cy password u =
     (if u_status u \<noteq> U_active then throw (UnauthorizedException ''Your account is not active. Please contact support.'')
      else if \<not> cy_compare cy password (u_hashed_password u) then throw (UnauthorizedException ''Invalid credentials'')
      else ret ())"

definition check_verified :: "user \<Rightarrow> (accounts, unit) action" where
  "check_verified u = (if \<not> u_email_verified u
     then throw (UnauthorizedException ''Please verify your email address before logging in.'') else ret ())"

definition loginCustomer :: "crypto \<Rightarrow> string \<Rightarrow> string \<Rightarrow> (accounts, user \<times> tokens) action" where
  "loginCustomer cy email password =
     andThen (load_user (\<lambda>u. u_email u = email \<and> u_type u = CUSTOMER) (UnauthorizedException ''Invalid credentials'')) (\<lambda>u.
     andThen (check_verified u) (\<lambda>_. andThen (check_account cy password u) (\<lambda>_. ret (u, generateToken cy (u_id u)))))"

definition memberships :: "oid \<Rightarrow> accounts \<Rightarrow> team_member list" where
  "memberships i s = filter (\<lambda>m. tm_user m = Some i) (ac_members s)"

definition member_businesses :: "oid \<Rightarrow> accounts \<Rightarrow> oid list" where
  "member_businesses i s = filter (\<lambda>b. exists_doc (\<lambda>x. vb_id x = b) (ac_businesses s)) (map tm_business (memberships i s))"

definition active_business :: "user \<Rightarrow> oid list \<Rightarrow> oid" where
  "active_business u bs = (case u_business u of Some b \<Rightarrow> if b \<in> set bs then b else hd bs | None \<Rightarrow> hd bs)"

definition loginVendor :: "crypto \<Rightarrow> string \<Rightarrow> string \<Rightarrow> (accounts, user \<times> oid \<times> tokens) action" where
  "loginVendor cy email password =
     andThen (load_user (\<lambda>u. u_email u = email \<and> u_type u = VENDOR) (UnauthorizedException ''Invalid credentials'')) (\<lambda>u.
     andThen (check_verified u) (\<lambda>_. andThen (check_account cy password u) (\<lambda>_.
     andThen (gets (memberships (u_id u))) (\<lambda>teamMemberships.
     if teamMemberships = [] then throw (UnauthorizedException ''You are not a member of any business.'')
     else andThen (gets (member_businesses (u_id u))) (\<lambda>businesses.
       if businesses = [] then throw (UnauthorizedException ''You are not a member of any active business.'')
       else let b = active_business u businesses; token = generateToken cy (u_id u)
         in andThen (set_user (u_id u) (\<lambda>u. u\<lparr>u_business := Some b, u_refresh_token := Some (cy_hash cy (snd token))\<rparr>)) (\<lambda>_.
            ret (u, b, token)))))))"

text \<open>The refresh token is written to \<open>refreshToken\<close> once more.\<close>

definition loginPlatform :: "crypto \<Rightarrow> string \<Rightarrow> string \<Rightarrow> (accounts, user \<times> tokens) action" where
  "loginPlatform cy email password =
     andThen (load_user (\<lambda>u. u_email u = email \<and> u_type u = PLATFORM) (UnauthorizedException ''Invalid credentials'')) (\<lambda>u.
     andThen (check_account cy password u) (\<lambda>_. ret (u, generateToken cy (u_id u))))"

text \<open>The answer reads the business: if it is gone, a TypeError follows the writes.\<close>

definition switchBusiness :: "crypto \<Rightarrow> oid \<Rightarrow> oid \<Rightarrow> (accounts, tokens) action" where
  "switchBusiness cy userId businessId =
     andThen (load_user (\<lambda>u. u_id u = userId) (NotFoundException ''User not found'')) (\<lambda>u.
     andThen (gets (\<lambda>s. exists_doc (\<lambda>m. tm_user m = Some userId \<and> tm_business m = businessId) (ac_members s))) (\<lambda>membership.
     if \<not> membership then throw (UnauthorizedException ''You are not a member of this business.'')
     else let token = generateToken cy (u_id u)
       in andThen (set_user userId (\<lambda>u. u\<lparr>u_business := Some businessId, u_refresh_token := Some (cy_hash cy (snd token))\<rparr>)) (\<lambda>_.
          andThen (gets (\<lambda>s. exists_doc (\<lambda>b. vb_id b = businessId) (ac_businesses s))) (\<lambda>business.
          if business then ret token else throw (InternalServerErrorException ''TypeError'')))))"

text \<open>Here the hash of the new token is dropped, the stored one stays.\<close>

definition refreshTokens :: "crypto \<Rightarrow> oid \<Rightarrow> string \<Rightarrow> (accounts, tokens) action" where
  "refreshTokens cy userId refreshToken =
     andThen (gets (find_user userId)) (\<lambda>found. case found of
         None \<Rightarrow> throw (UnauthorizedException ''Access denied'')
       | Some u \<Rightarrow> (case u_refresh_token u of
           None \<Rightarrow> throw (UnauthorizedException ''Access denied'')
         | Some h \<Rightarrow> if \<not> cy_compare cy refreshToken h then throw (UnauthorizedException ''Invalid refresh token'')
             else ret (generateToken cy (u_id u))))"

definition validateUser :: "crypto \<Rightarrow> string \<Rightarrow> string \<Rightarrow> accounts \<Rightarrow> user option" where
  "validateUser cy email password s = (case find_one (\<lambda>u. u_email u = email \<and> u_status u = U_active) (ac_users s) of
       None \<Rightarrow> None | Some u \<Rightarrow> if cy_compare cy password (u_hashed_password u) then Some u else None)"

section \<open>Passwords\<close>

definition changePassword :: "crypto \<Rightarrow> oid \<Rightarrow> string \<Rightarrow> string \<Rightarrow> (accounts, unit) action" where
  "changePassword cy userId current_password new_password =
     andThen (load_user (\<lambda>u. u_id u = userId) (BadRequestException ''User not found'')) (\<lambda>u.
     if \<not> cy_compare cy current_password (u_hashed_password u) then throw (BadRequestException ''Current password is incorrect'')
     else set_user userId (\<lambda>u. u\<lparr>u_hashed_password := cy_hash cy new_password, u_must_change_password := False\<rparr>))"

definition RESET_CODE_TTL_MS :: int where
  "RESET_CODE_TTL_MS = 15 * 60 * 1000"

definition RESET_MAX_ATTEMPTS :: nat where
  "RESET_MAX_ATTEMPTS = 5"

definition RESET_RESEND_COOLDOWN_MS :: int where
  "RESET_RESEND_COOLDOWN_MS = 60 * 1000"

definition just_sent :: "instant \<Rightarrow> user \<Rightarrow> bool" where
  "just_sent now u = (case Option.bind (u_reset_code u) rs_last_sent_at of None \<Rightarrow> False | Some t \<Rightarrow> now - t < RESET_RESEND_COOLDOWN_MS)"

text \<open>The answer is the same whether or not there is an account.\<close>

definition requestPasswordReset :: "crypto \<Rightarrow> instant \<Rightarrow> string \<Rightarrow> string \<Rightarrow> (accounts, unit) action" where
  "requestPasswordReset cy now otp email =
     andThen (gets (\<lambda>s. find_one (\<lambda>u. u_email u = email) (ac_users s))) (\<lambda>found. case found of
         None \<Rightarrow> ret ()
       | Some u \<Rightarrow> if just_sent now u then ret ()
           else set_user (u_id u) (\<lambda>u. u\<lparr>u_reset_code := Some \<lparr>rs_pin = cy_sha256 cy otp, rs_expire_at = now + RESET_CODE_TTL_MS,
                  rs_attempts = 0, rs_last_sent_at = Some now\<rparr>\<rparr>))"

definition invalid_code :: error where
  "invalid_code = BadRequestException ''Invalid or expired reset code''"

definition assertResetCode :: "crypto \<Rightarrow> instant \<Rightarrow> string \<Rightarrow> string \<Rightarrow> (accounts, user) action" where
  "assertResetCode cy now email code =
     andThen (load_user (\<lambda>u. u_email u = email) invalid_code) (\<lambda>u. case u_reset_code u of
         None \<Rightarrow> throw invalid_code
       | Some rc \<Rightarrow>
           if rs_pin rc = [] then throw invalid_code
           else if rs_expire_at rc \<le> now then andThen (set_user (u_id u) (\<lambda>u. u\<lparr>u_reset_code := None\<rparr>)) (\<lambda>_. throw invalid_code)
           else if rs_attempts rc \<ge> RESET_MAX_ATTEMPTS
           then andThen (set_user (u_id u) (\<lambda>u. u\<lparr>u_reset_code := None\<rparr>)) (\<lambda>_.
                throw (BadRequestException ''Too many incorrect attempts. Please request a new reset code.''))
           else if cy_sha256 cy code \<noteq> rs_pin rc
           then andThen (set_user (u_id u) (\<lambda>u. u\<lparr>u_reset_code := Some (rc\<lparr>rs_attempts := Suc (rs_attempts rc)\<rparr>)\<rparr>)) (\<lambda>_. throw invalid_code)
           else ret u)"

definition verifyResetCode :: "crypto \<Rightarrow> instant \<Rightarrow> string \<Rightarrow> string \<Rightarrow> (accounts, unit) action" where
  "verifyResetCode cy now email code = andThen (assertResetCode cy now email code) (\<lambda>_. ret ())"

definition resetPassword :: "crypto \<Rightarrow> instant \<Rightarrow> string \<Rightarrow> string \<Rightarrow> string \<Rightarrow> (accounts, unit) action" where
  "resetPassword cy now email code newPassword = andThen (assertResetCode cy now email code) (\<lambda>u.
     set_user (u_id u) (\<lambda>u. u\<lparr>u_hashed_password := cy_hash cy newPassword, u_reset_code := None\<rparr>))"

section \<open>Profiles\<close>

text \<open>\<open>$set: dto\<close> with the whole body. Of the declared fields the model has the phone number; \<open>up_email\<close> and \<open>up_rest\<close> are undeclared.
  Addresses and numbers have a unique index, whose refusal is passed on.\<close>

record profile_dto =
  up_phone_number :: "string option"
  up_email :: "string option"
  up_rest :: "user_key list"

definition profile_user :: "profile_dto \<Rightarrow> user \<Rightarrow> user" where
  "profile_user dto u = assign_keys (up_rest dto) (u\<lparr>u_email := nullish (up_email dto) (u_email u),
     u_phone_number := (if up_phone_number dto = None then u_phone_number u else up_phone_number dto)\<rparr>)"

definition updateProfile :: "oid \<Rightarrow> profile_dto \<Rightarrow> (accounts, user option) action" where
  "updateProfile userId dto = andThen (gets (find_user userId)) (\<lambda>found. case found of
       None \<Rightarrow> ret None
     | Some u \<Rightarrow> andThen (gets (\<lambda>s. exists_doc (\<lambda>x. u_id x \<noteq> userId \<and> (up_email dto = Some (u_email x) \<or>
           up_phone_number dto \<noteq> None \<and> u_phone_number x = up_phone_number dto)) (ac_users s))) (\<lambda>duplicate.
         if duplicate then throw (ExternalError ''E11000'')
         else andThen (set_user userId (profile_user dto)) (\<lambda>_. ret (Some (profile_user dto u)))))"

definition deleteUser :: "oid \<Rightarrow> (accounts, user option) action" where
  "deleteUser userId = andThen (gets (find_user userId)) (\<lambda>found.
     andThen (modify (\<lambda>s. s\<lparr>ac_users := delete_one (\<lambda>u. u_id u = userId) (ac_users s)\<rparr>)) (\<lambda>_. ret found))"

text \<open>The body of a business: contact data are declared for the profile, the two last fields nowhere.\<close>

record business_dto =
  bp_business_email :: "string option"
  bp_business_phone_number :: "string option"
  bp_created_by :: "oid option"
  bp_team_members :: "oid list option"

definition profile_business :: "business_dto \<Rightarrow> vendor_business \<Rightarrow> vendor_business" where
  "profile_business dto b = b\<lparr>vb_business_email := (if bp_business_email dto = None then vb_business_email b else bp_business_email dto),
     vb_business_phone_number := (if bp_business_phone_number dto = None then vb_business_phone_number b else bp_business_phone_number dto),
     vb_created_by := nullish (bp_created_by dto) (vb_created_by b), vb_team_members := nullish (bp_team_members dto) (vb_team_members b)\<rparr>"

definition set_business :: "oid \<Rightarrow> business_dto \<Rightarrow> (accounts, vendor_business option) action" where
  "set_business businessId dto = andThen (gets (\<lambda>s. find_one (\<lambda>b. vb_id b = businessId) (ac_businesses s))) (\<lambda>found. case found of
       None \<Rightarrow> ret None
     | Some b \<Rightarrow> andThen (gets (\<lambda>s. exists_doc (\<lambda>x. vb_id x \<noteq> businessId \<and> bp_business_email dto \<noteq> None \<and>
           vb_business_email x = bp_business_email dto) (ac_businesses s))) (\<lambda>duplicate.
         if duplicate then throw (ExternalError ''E11000'')
         else andThen (modify (\<lambda>s. s\<lparr>ac_businesses := update_one (\<lambda>b. vb_id b = businessId) (profile_business dto) (ac_businesses s)\<rparr>)) (\<lambda>_.
           ret (Some (profile_business dto b)))))"

definition updateBusinessProfile :: "oid \<Rightarrow> business_dto \<Rightarrow> (accounts, vendor_business) action" where
  "updateBusinessProfile businessId dto = andThen (set_business businessId dto) (\<lambda>business. case business of
       None \<Rightarrow> throw (NotFoundException ''Business not found'') | Some b \<Rightarrow> ret b)"

text \<open>The address itself is left out: what remains is the country, the courier's answer and the spread body. The promise
  of the update is returned, not awaited, so its refusal passes the handler of the errors.\<close>

definition updateBusinessAddress :: "(error + unit) \<Rightarrow> string \<Rightarrow> oid \<Rightarrow> business_dto \<Rightarrow> (accounts, vendor_business option) action" where
  "updateBusinessAddress validateAddress country businessId dto = (let country = map lower_char (js_trim country) in
     if country \<noteq> [] \<and> country \<noteq> ''nigeria'' \<and> country \<noteq> ''ng''
     then throw (BadRequestException ''Vendor warehouse addresses are currently limited to Nigeria. Please provide a Nigerian address.'')
     else (case validateAddress of Inl e \<Rightarrow> throw (ExternalError ''Unable to update address'') | Inr _ \<Rightarrow> set_business businessId dto))"

section \<open>Teams\<close>

record invite_dto =
  iv_role :: oid
  iv_email :: string
  iv_phone_number :: "string option"

definition invited :: "invite_dto \<Rightarrow> user \<Rightarrow> bool" where
  "invited dto u \<longleftrightarrow> u_email u = iv_email dto \<or> truthy_string (iv_phone_number dto) \<and> u_phone_number u = iv_phone_number dto"

definition staff_user :: "crypto \<Rightarrow> string \<Rightarrow> invite_dto \<Rightarrow> oid \<Rightarrow> oid \<Rightarrow> user" where
  "staff_user cy tempPassword dto businessId i = \<lparr>u_id = i, u_email = iv_email dto,
     u_phone_number = (if truthy_string (iv_phone_number dto) then iv_phone_number dto else None),
     u_hashed_password = cy_hash cy tempPassword, u_type = VENDOR, u_email_verified = True, u_role = Some (iv_role dto),
     u_verification_token = None, u_verification_expires = None, u_reset_code = None, u_status = U_active,
     u_must_change_password = True, u_refresh_token = None, u_email_verified_at = None, u_business = Some businessId\<rparr>"

text \<open>An existing user keeps type, role and password, only the active business moves.\<close>

definition find_or_add_user :: "crypto \<Rightarrow> string \<Rightarrow> invite_dto \<Rightarrow> oid \<Rightarrow> (accounts, oid) action" where
  "find_or_add_user cy tempPassword dto businessId =
     andThen (gets (\<lambda>s. find_one (invited dto) (ac_users s))) (\<lambda>found. case found of
         None \<Rightarrow> andThen number (\<lambda>i. andThen (insert_user (staff_user cy tempPassword dto businessId i)) (\<lambda>_. ret i))
       | Some u \<Rightarrow> andThen (if u_business u \<noteq> Some businessId then set_user (u_id u) (\<lambda>u. u\<lparr>u_business := Some businessId\<rparr>) else ret ())
           (\<lambda>_. ret (u_id u)))"

definition inviteTeamMember :: "crypto \<Rightarrow> string \<Rightarrow> invite_dto \<Rightarrow> oid \<Rightarrow> (accounts, oid) action" where
  "inviteTeamMember cy tempPassword dto businessId = with_transaction
     (andThen (gets (\<lambda>s. exists_doc (\<lambda>r. ro_id r = iv_role dto) (ac_roles s))) (\<lambda>role.
      if \<not> role then throw (BadRequestException ''Role not found.'')
      else andThen (find_or_add_user cy tempPassword dto businessId) (\<lambda>i.
      andThen (gets (\<lambda>s. exists_doc (\<lambda>m. tm_business m = businessId \<and> tm_user m = Some i) (ac_members s))) (\<lambda>already.
      if already then throw (BadRequestException ''already a member of this team.'')
      else andThen number (\<lambda>m.
        andThen (insert_member \<lparr>tm_id = m, tm_business = businessId, tm_user = Some i, tm_role = iv_role dto, tm_email = iv_email dto,
          tm_accepted = True, tm_is_active = True, tm_is_owner = False\<rparr>) (\<lambda>_. ret m))))))"

definition find_member :: "oid \<Rightarrow> oid option \<Rightarrow> (accounts, team_member) action" where
  "find_member teamId businessId = andThen (gets (\<lambda>s. find_one (\<lambda>m. tm_id m = teamId \<and>
       (case businessId of None \<Rightarrow> True | Some b \<Rightarrow> tm_business m = b)) (ac_members s)))
     (\<lambda>found. case found of None \<Rightarrow> throw (NotFoundException ''Team member not found'') | Some m \<Rightarrow> ret m)"

definition updateMember :: "oid \<Rightarrow> oid \<Rightarrow> oid option \<Rightarrow> bool option \<Rightarrow> (accounts, unit) action" where
  "updateMember teamId businessId role is_active = andThen (find_member teamId (Some businessId)) (\<lambda>m.
     if tm_is_owner m then throw (BadRequestException ''The business owner cannot be edited here.'')
     else modify (\<lambda>s. s\<lparr>ac_members := update_one (\<lambda>x. tm_id x = tm_id m)
       (\<lambda>x. x\<lparr>tm_role := nullish role (tm_role x), tm_is_active := nullish is_active (tm_is_active x)\<rparr>) (ac_members s)\<rparr>))"

definition leave_business :: "oid \<Rightarrow> oid \<Rightarrow> (accounts, unit) action" where
  "leave_business userId businessId = andThen (gets (find_user userId)) (\<lambda>found. case found of
       None \<Rightarrow> ret ()
     | Some u \<Rightarrow> if u_business u \<noteq> Some businessId then ret ()
         else andThen (gets (\<lambda>s. find_one (\<lambda>m. tm_user m = Some userId \<and> tm_business m \<noteq> businessId) (ac_members s))) (\<lambda>nextMembership.
              set_user userId (\<lambda>u. u\<lparr>u_business := map_option tm_business nextMembership\<rparr>)))"

definition removeMember :: "oid \<Rightarrow> oid option \<Rightarrow> (accounts, unit) action" where
  "removeMember teamId scopeBusinessId = andThen (find_member teamId scopeBusinessId) (\<lambda>m.
     if tm_is_owner m then throw (BadRequestException ''The business owner cannot be removed.'')
     else andThen (modify (\<lambda>s. s\<lparr>ac_members := delete_one (\<lambda>x. tm_id x = tm_id m) (ac_members s),
          ac_businesses := update_one (\<lambda>b. vb_id b = tm_business m)
            (\<lambda>b. b\<lparr>vb_team_members := filter (\<lambda>x. x \<noteq> tm_id m) (vb_team_members b)\<rparr>) (ac_businesses s)\<rparr>)) (\<lambda>_.
       case tm_user m of None \<Rightarrow> ret () | Some i \<Rightarrow> leave_business i (tm_business m)))"

end
