(* ===== verification/Access.thy ===== *)
theory Access
  imports Accounts
begin

text \<open>
  Who may call what (\<open>src/common/guards\<close>): the guard of the bearer token, the guard of the roles a handler asks
  for, and the guard of the permissions. The handler's metadata and the request's headers are arguments;
  the guards read the accounts and change nothing.
\<close>

section \<open>The bearer token\<close>

text \<open>\<open>headers.authorization\<close> and the alternative headers, in the order of the code.\<close>

record headers =
  hd_authorization :: "string option"
  hd_alternatives :: "string option list"

fun split_at :: "char \<Rightarrow> string \<Rightarrow> string list" where
  "split_at c [] = [[]]"
| "split_at c (x # xs) = (if x = c then [] # split_at c xs
     else (case split_at c xs of [] \<Rightarrow> [[x]] | y # ys \<Rightarrow> (x # y) # ys))"

definition bearer :: "string \<Rightarrow> string option" where
  "bearer h = (if take 7 h = ''Bearer '' then Some (split_at CHR '' '' h ! 1) else None)"

definition extractTokenFromHeader :: "headers \<Rightarrow> string option" where
  "extractTokenFromHeader h = (case Option.bind (hd_authorization h) bearer of
       Some t \<Rightarrow> Some t
     | None \<Rightarrow> Option.bind (find_one truthy_string (hd_alternatives h)) (\<lambda>x. x))"

text \<open>The request's user, if the guard lets it through. An empty token counts as missing.\<close>

definition jwt_guard :: "crypto \<Rightarrow> bool \<Rightarrow> headers \<Rightarrow> error + oid option" where
  "jwt_guard cy isPublic h = (let token = extractTokenFromHeader h in
     if isPublic then Inr (if truthy_string token then Option.bind token (cy_verify cy) else None)
     else if \<not> truthy_string token then Inl (UnauthorizedException ''Authentication token missing'')
     else (case Option.bind token (cy_verify cy) of
         None \<Rightarrow> Inl (UnauthorizedException ''Authentication failed'')
       | Some i \<Rightarrow> Inr (Some i)))"

section \<open>Roles\<close>

definition find_role :: "oid option \<Rightarrow> accounts \<Rightarrow> role option" where
  "find_role i s = Option.bind i (\<lambda>i. find_one (\<lambda>r. ro_id r = i) (ac_roles s))"

definition lower :: "string \<Rightarrow> string" where
  "lower x = map lower_char x"

fun user_type_name :: "user_type \<Rightarrow> string" where
  "user_type_name PLATFORM = ''platform''"
| "user_type_name VENDOR = ''vendor''"
| "user_type_name CUSTOMER = ''customer''"

text \<open>What a request carries on: nothing attached, the user, or the user and the role in the team.\<close>

datatype pass = Pass_anonymous | Pass_user oid | Pass_member oid oid string

definition platform_guard :: "string list \<Rightarrow> user \<Rightarrow> accounts \<Rightarrow> error + pass" where
  "platform_guard required u s = (case find_role (u_role u) s of
       None \<Rightarrow> Inl (ForbiddenException ''No role assigned to platform user'')
     | Some r \<Rightarrow> if lower (ro_name r) \<in> {''admin'', ''super_admin''} then Inr (Pass_user (u_id u))
         else if lower (ro_name r) \<notin> set required then Inl (ForbiddenException ''Access denied'')
         else Inr Pass_anonymous)"

definition find_vendor_business :: "oid option \<Rightarrow> accounts \<Rightarrow> vendor_business option" where
  "find_vendor_business i s = Option.bind i (\<lambda>i. find_one (\<lambda>b. vb_id b = i) (ac_businesses s))"

text \<open>\<open>populate('team_members')\<close>: the members that exist, in the order of the ids.\<close>

definition team_of :: "vendor_business option \<Rightarrow> accounts \<Rightarrow> team_member list" where
  "team_of b s = (case b of None \<Rightarrow> []
     | Some b \<Rightarrow> List.map_filter (\<lambda>i. find_one (\<lambda>m. tm_id m = i) (ac_members s)) (vb_team_members b))"

definition vendor_guard :: "string list \<Rightarrow> string list \<Rightarrow> user \<Rightarrow> accounts \<Rightarrow> error + pass" where
  "vendor_guard required vendorRoles u s =
     (let members = team_of (find_vendor_business (u_business u) s) s
      in if members = [] then Inl (ForbiddenException ''No active team members found for vendor'')
         else if ''vendor'' \<notin> set required then Inl (ForbiddenException ''Access denied'')
         else (case find_one (\<lambda>m. tm_user m = Some (u_id u)) members of
             None \<Rightarrow> Inl (ForbiddenException ''You are not a member of this business team'')
           | Some m \<Rightarrow>
               let memberRoleName = (case find_role (Some (tm_role m)) s of None \<Rightarrow> [] | Some r \<Rightarrow> lower (ro_name r));
                   isOwner = memberRoleName = ''owner''
               in if vendorRoles \<noteq> [] \<and> \<not> isOwner \<and> memberRoleName \<notin> set (map lower vendorRoles)
                  then Inl (ForbiddenException ''Access denied, your role is not authorized'')
                  else Inr (Pass_member (u_id u) (tm_id m) memberRoleName)))"

text \<open>This guard reads the authorization header only.\<close>

definition roles_guard :: "crypto \<Rightarrow> string list \<Rightarrow> string list \<Rightarrow> headers \<Rightarrow> accounts \<Rightarrow> error + pass" where
  "roles_guard cy requiredRoles vendorRoles h s =
     (if requiredRoles = [] then Inr Pass_anonymous
      else let token = Option.bind (hd_authorization h) bearer
      in if \<not> truthy_string token then Inl (UnauthorizedException ''Authentication token missing'')
      else (case Option.bind token (cy_verify cy) of
          None \<Rightarrow> Inl (UnauthorizedException ''Invalid or expired token'')
        | Some i \<Rightarrow> (case find_user i s of
            None \<Rightarrow> Inl (UnauthorizedException ''User not found'')
          | Some u \<Rightarrow>
              let required = map lower requiredRoles
              in case u_type u of
                  PLATFORM \<Rightarrow> platform_guard required u s
                | VENDOR \<Rightarrow> vendor_guard required vendorRoles u s
                | CUSTOMER \<Rightarrow> if ''customer'' \<in> set required then Inr (Pass_user (u_id u))
                    else Inl (ForbiddenException ''Customer access denied for this route''))))"

section \<open>Permissions\<close>

text \<open>The header is split at blanks and its first part must be \<open>Bearer\<close>; without metadata everyone passes.\<close>

definition permission_token :: "headers \<Rightarrow> string option" where
  "permission_token h = (case hd_authorization h of None \<Rightarrow> None
     | Some x \<Rightarrow> (case split_at CHR '' '' x of ty # t # _ \<Rightarrow> if ty = ''Bearer'' then Some t else None | _ \<Rightarrow> None))"

definition role_permissions :: "role \<Rightarrow> accounts \<Rightarrow> string list" where
  "role_permissions r s = map pm_name (List.map_filter (\<lambda>i. find_one (\<lambda>p. pm_id p = i) (ac_permissions s)) (ro_permissions r))"

definition permissions_guard :: "crypto \<Rightarrow> string list option \<Rightarrow> headers \<Rightarrow> accounts \<Rightarrow> error + pass" where
  "permissions_guard cy requiredPermissions h s = (case requiredPermissions of
       None \<Rightarrow> Inr Pass_anonymous
     | Some required \<Rightarrow> (let token = permission_token h in
         if \<not> truthy_string token then Inl (ForbiddenException ''No token provided'')
         else (case Option.bind token (cy_verify cy) of
             None \<Rightarrow> Inl (ForbiddenException ''Invalid token or insufficient permissions'')
           | Some i \<Rightarrow> (case Option.bind (find_user i s) (\<lambda>u. find_role (u_role u) s) of
               None \<Rightarrow> Inl (ForbiddenException ''User or role not found'')
             | Some r \<Rightarrow> if list_all (\<lambda>p. p \<in> set (role_permissions r s)) required then Inr (Pass_user i)
                 else Inl (ForbiddenException ''Insufficient permissions'')))))"

section \<open>The routes of a team\<close>

text \<open>The team routes ask for a vendor in the role of an owner and work on the business the guard attached. A platform
  administrator passes the guard without one, and reading its id is a TypeError.\<close>

definition with_business :: "crypto \<Rightarrow> headers \<Rightarrow> (oid \<Rightarrow> (accounts, 'a) action) \<Rightarrow> (accounts, 'a) action" where
  "with_business cy h f = andThen (gets (roles_guard cy [''vendor''] [''owner''] h)) (\<lambda>pass. case pass of
       Inl e \<Rightarrow> throw e
     | Inr (Pass_member i _ _) \<Rightarrow>
         andThen (gets (\<lambda>s. Option.bind (find_user i s) (\<lambda>u. find_vendor_business (u_business u) s))) (\<lambda>business. case business of
           None \<Rightarrow> throw (InternalServerErrorException ''TypeError'')
         | Some b \<Rightarrow> f (vb_id b))
     | Inr _ \<Rightarrow> throw (InternalServerErrorException ''TypeError''))"

definition inviteTeamMember_route :: "crypto \<Rightarrow> string \<Rightarrow> headers \<Rightarrow> invite_dto \<Rightarrow> (accounts, oid) action" where
  "inviteTeamMember_route cy tempPassword h dto = with_business cy h (inviteTeamMember cy tempPassword dto)"

definition updateTeamMember_route :: "crypto \<Rightarrow> headers \<Rightarrow> oid \<Rightarrow> oid option \<Rightarrow> bool option \<Rightarrow> (accounts, unit) action" where
  "updateTeamMember_route cy h teamId role is_active = with_business cy h (\<lambda>b. updateMember teamId b role is_active)"

definition removeTeamMember_route :: "crypto \<Rightarrow> headers \<Rightarrow> oid \<Rightarrow> (accounts, unit) action" where
  "removeTeamMember_route cy h teamId = with_business cy h (\<lambda>b. removeMember teamId (Some b))"

section \<open>The routes of a profile\<close>

text \<open>The business's profile and address are routes of an owner too; a user's own profile asks for a valid token only,
  the deletion for a customer.\<close>

definition updateBusinessProfile_route :: "crypto \<Rightarrow> headers \<Rightarrow> business_dto \<Rightarrow> (accounts, vendor_business) action" where
  "updateBusinessProfile_route cy h dto = with_business cy h (\<lambda>b. updateBusinessProfile b dto)"

definition updateBusinessAddress_route ::
    "crypto \<Rightarrow> (error + unit) \<Rightarrow> headers \<Rightarrow> string \<Rightarrow> business_dto \<Rightarrow> (accounts, vendor_business option) action" where
  "updateBusinessAddress_route cy validateAddress h country dto =
     with_business cy h (\<lambda>b. updateBusinessAddress validateAddress country b dto)"

definition updateMyProfile :: "crypto \<Rightarrow> headers \<Rightarrow> profile_dto \<Rightarrow> (accounts, user option) action" where
  "updateMyProfile cy h profileData = (case jwt_guard cy False h of
       Inl e \<Rightarrow> throw e
     | Inr None \<Rightarrow> throw (InternalServerErrorException ''TypeError'')
     | Inr (Some userId) \<Rightarrow> updateProfile userId profileData)"

definition deleteUser_route :: "crypto \<Rightarrow> headers \<Rightarrow> (accounts, user option) action" where
  "deleteUser_route cy h = (case jwt_guard cy False h of
       Inl e \<Rightarrow> throw e
     | Inr None \<Rightarrow> throw (InternalServerErrorException ''TypeError'')
     | Inr (Some userId) \<Rightarrow> andThen (gets (roles_guard cy [''customer''] [] h)) (\<lambda>pass. case pass of
           Inl e \<Rightarrow> throw e | Inr _ \<Rightarrow> deleteUser userId))"

end
