(* ===== verification/Teams.thy ===== *)
theory Teams
  imports Access
begin

text \<open>
  Teams over time, and what the guards make of them: whatever is registered, invited, edited and removed,
  accounts and teams stay consistent, and the guard of the roles admits exactly whom its policy names.
\<close>

section \<open>Consistent accounts\<close>

definition users_ok :: "oid \<Rightarrow> user list \<Rightarrow> bool" where
  "users_ok n us \<longleftrightarrow> distinct (map u_id us) \<and> list_all (\<lambda>k. k < n) (map u_id us) \<and> distinct (map u_email us)"

definition seat :: "team_member \<Rightarrow> oid \<times> oid option" where
  "seat m = (tm_business m, tm_user m)"

definition team_ids :: "oid \<Rightarrow> team_member list \<Rightarrow> oid list" where
  "team_ids b ms = map tm_id (filter (\<lambda>m. tm_business m = b) ms)"

definition owned :: "team_member list \<Rightarrow> vendor_business \<Rightarrow> bool" where
  "owned ms b \<longleftrightarrow> (\<exists>m\<in>set ms. tm_business m = vb_id b \<and> tm_user m = Some (vb_created_by b) \<and> tm_is_owner m)"

definition teams_ok :: "oid \<Rightarrow> team_member list \<Rightarrow> vendor_business list \<Rightarrow> bool" where
  "teams_ok n ms bs \<longleftrightarrow> distinct (map tm_id ms) \<and> list_all (\<lambda>k. k < n) (map tm_id ms) \<and> distinct (map seat ms) \<and>
     distinct (map vb_id bs) \<and> list_all (\<lambda>k. k < n) (map vb_id bs) \<and> list_all (\<lambda>k. fst k \<in> vb_id ` set bs) (map seat ms) \<and>
     (\<forall>b\<in>set bs. vb_team_members b = team_ids (vb_id b) ms \<and> owned ms b)"

definition accounts_ok :: "accounts \<Rightarrow> bool" where
  "accounts_ok s \<longleftrightarrow> users_ok (ac_next s) (ac_users s) \<and> teams_ok (ac_next s) (ac_members s) (ac_businesses s)"

lemma users_ok_later: "users_ok n us \<Longrightarrow> n \<le> m \<Longrightarrow> users_ok m us"
  by (auto simp: users_ok_def list_all_iff)

lemma teams_ok_later: "teams_ok n ms bs \<Longrightarrow> n \<le> m \<Longrightarrow> teams_ok m ms bs"
  by (auto simp: teams_ok_def list_all_iff)

lemma accounts_number [preserve_intros]: "preserves accounts_ok number"
  by (auto simp: preserves_def accounts_ok_def elim: users_ok_later teams_ok_later)

lemma accounts_set_user:
  assumes "\<And>u. u_id (f u) = u_id u \<and> u_email (f u) = u_email u"
  shows "preserves accounts_ok (set_user i f)"
proof -
  have "users_ok n (update_one (\<lambda>u. u_id u = i) f us) = users_ok n us" for n us
  proof -
    have keys: "map u_id (update_one (\<lambda>u. u_id u = i) f us) = map u_id us" "map u_email (update_one (\<lambda>u. u_id u = i) f us) = map u_email us"
      by (rule map_update_one, simp add: assms)+
    then show ?thesis unfolding users_ok_def by (simp only:)
  qed
  then show ?thesis by (simp add: preserves_def set_user_def accounts_ok_def)
qed

lemma accounts_purse: "preserves accounts_ok (open_purse b c a)"
  unfolding open_purse_def by (intro preserve_intros) (simp add: accounts_ok_def)

text \<open>A new user under a new number and a new address.\<close>

lemma users_ok_insert:
  "\<lbrakk>users_ok n us; u_id u = n; \<forall>x\<in>set us. u_email x \<noteq> u_email u\<rbrakk> \<Longrightarrow> users_ok (Suc n) (us @ [u])"
  by (auto simp: users_ok_def list_all_iff less_SucI image_iff)

lemma update_key_image: "(\<And>b. vb_id (f b) = vb_id b) \<Longrightarrow> vb_id ` set (update_one P f bs) = vb_id ` set bs"
  using arg_cong [OF map_update_one [of P vb_id f bs], of set] by simp

text \<open>A new member of an existing business, on a free seat.\<close>

lemma teams_ok_insert:
  assumes "teams_ok n ms bs" "tm_id m = n" "tm_business m \<in> vb_id ` set bs" "seat m \<notin> seat ` set ms"
  shows "teams_ok (Suc n) (ms @ [m]) (update_one (\<lambda>b. vb_id b = tm_business m)
    (\<lambda>b. b\<lparr>vb_team_members := (if tm_id m \<in> set (vb_team_members b) then vb_team_members b else vb_team_members b @ [tm_id m])\<rparr>) bs)"
    (is "teams_ok _ ?ms (update_one ?P ?f bs)")
proof -
  have ids: "map vb_id (update_one ?P ?f bs) = map vb_id bs" by (rule map_update_one) simp
  have old: "\<forall>x\<in>set ms. tm_id x < n" "\<forall>b\<in>set bs. vb_team_members b = team_ids (vb_id b) ms \<and> owned ms b" "distinct (map vb_id bs)"
    using assms(1) by (simp_all add: teams_ok_def list_all_iff)
  have own: "owned ?ms b" if "owned ms b" for b using that by (auto simp: owned_def)
  have new: "vb_team_members b' = team_ids (vb_id b') ?ms \<and> owned ?ms b'" if "b' \<in> set (update_one ?P ?f bs)" for b'
  proof -
    from that obtain b where b: "b \<in> set bs" "b' = (if ?P b then ?f b else b)" unfolding update_one_key_map [OF old(3)] by auto
    have "tm_id m \<notin> set (vb_team_members b)" using old(1,2) b(1) assms(2) by (auto simp: team_ids_def)
    with b old(2) own show ?thesis by (auto simp: team_ids_def owned_def)
  qed
  have "list_all (\<lambda>k. k < Suc n) (map vb_id bs)" using assms(1) by (auto simp: teams_ok_def list_all_iff less_SucI)
  moreover have "distinct (map tm_id ?ms)" "list_all (\<lambda>k. k < Suc n) (map tm_id ?ms)" "distinct (map seat ?ms)"
    "list_all (\<lambda>k. fst k \<in> vb_id ` set bs) (map seat ?ms)"
    using assms by (auto simp: teams_ok_def list_all_iff less_SucI seat_def)
  ultimately show ?thesis unfolding teams_ok_def ids using new old(3) update_key_image [of ?f ?P bs] by simp
qed

lemma teams_ok_found:
  assumes "teams_ok n ms bs"
  shows "teams_ok (Suc (Suc n)) (ms @ [\<lparr>tm_id = Suc n, tm_business = n, tm_user = Some i, tm_role = r, tm_email = e,
      tm_accepted = x, tm_is_active = y, tm_is_owner = True\<rparr>])
    (bs @ [\<lparr>vb_id = n, vb_business_email = be, vb_business_phone_number = bp, vb_created_by = i, vb_team_members = [Suc n]\<rparr>])"
proof -
  have "\<forall>m\<in>set ms. tm_business m < n" using assms by (auto simp: teams_ok_def list_all_iff seat_def)
  then have none: "filter (\<lambda>m. tm_business m = n) ms = []" "\<forall>m\<in>set ms. tm_business m \<noteq> n" by (auto simp: filter_empty_conv)
  have ids: "\<forall>m\<in>set ms. tm_id m < n" "\<forall>b\<in>set bs. vb_id b < n" using assms by (auto simp: teams_ok_def list_all_iff)
  then have fresh: "n \<notin> vb_id ` set bs" "Suc n \<notin> tm_id ` set ms" by force+
  have "owned (ms @ [m]) b" if "owned ms b" for m b using that by (auto simp: owned_def)
  with assms none ids fresh show ?thesis
    by (auto simp: teams_ok_def list_all_iff less_SucI team_ids_def seat_def) (auto simp: owned_def)
qed

lemma teams_ok_edit:
  assumes "teams_ok n ms bs" "\<And>m. tm_id (f m) = tm_id m \<and> seat (f m) = seat m \<and> tm_is_owner (f m) = tm_is_owner m"
  shows "teams_ok n (update_one P f ms) bs"
proof -
  have keys: "map tm_id (update_one P f ms) = map tm_id ms" "map seat (update_one P f ms) = map seat ms"
    by (rule map_update_one, simp add: assms(2))+
  have "map tm_id (filter (\<lambda>m. tm_business m = b) (update_one P f ms)) = map tm_id (filter (\<lambda>m. tm_business m = b) ms)" for b
    using assms(2) by (induction ms) (auto simp: seat_def)
  moreover have "owned (update_one P f ms) b = owned ms b" for b
    using assms(2) unfolding owned_def by (induction ms) (auto simp: seat_def)
  ultimately show ?thesis using assms(1) unfolding teams_ok_def team_ids_def keys by simp
qed

lemma list_all_sub: "list_all P (map g ms) \<Longrightarrow> set xs \<subseteq> set ms \<Longrightarrow> list_all P (map g xs)"
  by (auto simp: list_all_iff)

lemma teams_ok_remove:
  assumes "teams_ok n ms bs" "m \<in> set ms" "\<not> tm_is_owner m"
  shows "teams_ok n (delete_one (\<lambda>x. tm_id x = tm_id m) ms) (update_one (\<lambda>b. vb_id b = tm_business m)
    (\<lambda>b. b\<lparr>vb_team_members := filter (\<lambda>x. x \<noteq> tm_id m) (vb_team_members b)\<rparr>) bs)"
    (is "teams_ok _ ?ms (update_one ?P ?f bs)")
proof -
  have d: "distinct (map tm_id ms)" "distinct (map vb_id bs)" using assms(1) by (simp_all add: teams_ok_def)
  have ms: "delete_one (\<lambda>x. tm_id x = tm_id m) xs = filter (\<lambda>x. tm_id x \<noteq> tm_id m) xs" if "distinct (map tm_id xs)" for xs
    using that by (induction xs) (auto simp: image_iff filter_id_conv intro!: filter_True [symmetric])
  have only: "x = m" if "x \<in> set ms" "tm_id x = tm_id m" for x
    using inj_onD [of tm_id "set ms" x m] d(1) assms(2) that by (simp add: distinct_map)
  have ids: "map vb_id (update_one ?P ?f bs) = map vb_id bs" by (rule map_update_one) simp
  have new: "vb_team_members b' = team_ids (vb_id b') ?ms \<and> owned ?ms b'" if "b' \<in> set (update_one ?P ?f bs)" for b'
  proof -
    from that obtain b where b: "b \<in> set bs" "b' = (if ?P b then ?f b else b)" unfolding update_one_key_map [OF d(2)] by auto
    have old: "vb_team_members b = team_ids (vb_id b) ms" "owned ms b" using assms(1) b(1) by (simp_all add: teams_ok_def)
    have "filter (\<lambda>x. x \<noteq> tm_id m) (team_ids k ms) = team_ids k ?ms" for k
      unfolding ms [OF d(1)] team_ids_def by (simp add: filter_map comp_def conj_commute)
    moreover have "filter (\<lambda>x. x \<noteq> tm_id m) (team_ids k ms) = team_ids k ms" if "k \<noteq> tm_business m" for k
      unfolding team_ids_def using that only by (auto simp: filter_id_conv)
    moreover have "owned ?ms b"
      using old(2) only assms(3) unfolding owned_def ms [OF d(1)] by auto
    ultimately show ?thesis using b(2) old(1) by (auto simp: owned_def)
  qed
  have sub: "set ?ms \<subseteq> set ms" by (rule set_delete_one)
  have "distinct (map tm_id ?ms)" "list_all (\<lambda>k. k < n) (map tm_id ?ms)" "distinct (map seat ?ms)"
    "list_all (\<lambda>k. fst k \<in> vb_id ` set bs) (map seat ?ms)" "list_all (\<lambda>k. k < n) (map vb_id bs)"
    using assms(1) list_all_sub [OF _ sub] distinct_delete_one unfolding teams_ok_def by blast+
  moreover have image: "vb_id ` set (update_one ?P ?f bs) = vb_id ` set bs" by (rule update_key_image) simp
  ultimately show ?thesis unfolding teams_ok_def ids image using new d(2) by blast
qed

section \<open>One request keeps the accounts consistent\<close>

lemma find_none: "find_one P xs = None \<Longrightarrow> x \<in> set xs \<Longrightarrow> \<not> P x"
  by (simp add: find_one_None_iff)

lemma registerCustomer_ok: "preserves accounts_ok (registerCustomer cy now otp dto)"
proof -
  have "accounts_ok (snd (set_up_customer cy now otp dto r s))"
    if "accounts_ok s" "find_one (taken_by (cu_email dto) (cu_phone_number dto)) (ac_users s) = None" for r s
  proof -
    let ?u = "assign_keys (cu_rest dto) (new_user cy now otp (cu_email dto) (cu_phone_number dto) (cu_password dto) CUSTOMER r (ac_next s))"
    have "users_ok (Suc (ac_next s)) (ac_users s @ [?u])"
      using that find_none [OF that(2)] by (intro users_ok_insert) (auto simp: accounts_ok_def new_user_def taken_by_def)
    then have "users_ok (Suc (Suc (Suc (ac_next s)))) (ac_users s @ [?u])" by (rule users_ok_later) simp
    moreover have "teams_ok (Suc (Suc (Suc (ac_next s)))) (ac_members s) (ac_businesses s)"
      using that(1) teams_ok_later [of "ac_next s"] by (simp add: accounts_ok_def)
    ultimately show ?thesis by (simp add: set_up_customer_def open_purse_def insert_user_def andThen_app Let_def accounts_ok_def)
  qed
  then show ?thesis
    by (auto simp: registerCustomer_def preserves_def andThen_app with_transaction_def split: option.splits prod.splits sum.splits)
      (metis snd_conv)
qed

lemma registerVendor_ok:
  assumes "vr_created_by dto = None"
  shows "preserves accounts_ok (registerVendor cy now otp dto)"
proof -
  have step: "\<exists>u b t. set_up_vendor cy now otp dto r s = (Inr (u, b), t) \<and> accounts_ok t"
    if s: "accounts_ok s" "find_one (taken_by (vr_personal_email dto) (vr_personal_phone_number dto)) (ac_users s) = None" for r s
  proof -
    let ?n = "ac_next s"
    let ?u = "new_user cy now otp (vr_personal_email dto) (vr_personal_phone_number dto) (vr_password dto) VENDOR r ?n"
    let ?m = "\<lparr>tm_id = Suc (Suc ?n), tm_business = Suc ?n, tm_user = Some ?n, tm_role = r, tm_email = vr_personal_email dto,
        tm_accepted = True, tm_is_active = True, tm_is_owner = True\<rparr>"
    let ?b = "\<lparr>vb_id = Suc ?n, vb_business_email = vr_business_email dto,
        vb_business_phone_number = vr_business_phone_number dto, vb_created_by = ?n, vb_team_members = [Suc (Suc ?n)]\<rparr>"
    have "users_ok (Suc ?n) (ac_users s @ [?u])"
      using s find_none [OF s(2)] by (intro users_ok_insert) (auto simp: accounts_ok_def new_user_def taken_by_def)
    then have users: "users_ok (?n + 5) (ac_users s @ [?u])" by (rule users_ok_later) simp
    have "teams_ok (Suc ?n) (ac_members s) (ac_businesses s)" using s(1) teams_ok_later [of ?n] by (simp add: accounts_ok_def)
    then have "teams_ok (Suc (Suc (Suc ?n))) (ac_members s @ [?m]) (ac_businesses s @ [?b])" by (rule teams_ok_found)
    then have teams: "teams_ok (?n + 5) (ac_members s @ [?m]) (ac_businesses s @ [?b])" by (rule teams_ok_later) simp
    have "\<forall>b\<in>set (ac_businesses s). vb_id b < ?n" using s(1) by (simp add: accounts_ok_def teams_ok_def list_all_iff)
    then have "find_one (\<lambda>b. vb_id b = Suc ?n) (ac_businesses s) = None" by (auto simp: find_one_None_iff)
    with users teams show ?thesis
      by (simp add: set_up_vendor_def open_purse_def insert_user_def insert_member_def andThen_app Let_def accounts_ok_def
          update_one_append new_user_def numeral_eq_Suc assms nullish_def)
  qed
  have set_business: "preserves accounts_ok (set_user i (\<lambda>u. u\<lparr>u_business := Some b\<rparr>))" for i b
    by (rule accounts_set_user) simp
  show ?thesis
    unfolding preserves_def
  proof (intro allI impI)
    fix s assume s: "accounts_ok s"
    show "accounts_ok (snd (registerVendor cy now otp dto s))"
    proof (cases "find_one (same_contact (vr_business_email dto) (vr_business_phone_number dto)) (ac_businesses s) = None \<and>
        find_one (taken_by (vr_personal_email dto) (vr_personal_phone_number dto)) (ac_users s) = None \<and>
        find_one (\<lambda>r. ro_name r = ''owner'') (ac_roles s) \<noteq> None")
      case False
      with s show ?thesis by (auto simp: registerVendor_def andThen_app split: option.splits)
    next
      case True
      then obtain r where r: "find_one (\<lambda>r. ro_name r = ''owner'') (ac_roles s) = Some r" by blast
      from True have "find_one (taken_by (vr_personal_email dto) (vr_personal_phone_number dto)) (ac_users s) = None" by blast
      from step [OF s this, of "ro_id r"] obtain u b t
        where t: "set_up_vendor cy now otp dto (ro_id r) s = (Inr (u, b), t)" "accounts_ok t" by blast
      have "accounts_ok (snd (set_user (u_id u) (\<lambda>u. u\<lparr>u_business := Some b\<rparr>) t))" by (rule preservesD [OF set_business t(2)])
      with True r t(1) show ?thesis
        by (simp add: registerVendor_def andThen_app with_transaction_def set_user_def)
    qed
  qed
qed

lemma inviteTeamMember_ok:
  assumes "accounts_ok s" "b \<in> vb_id ` set (ac_businesses s)"
  shows "accounts_ok (snd (inviteTeamMember cy pw dto b s))"
proof -
  let ?join = "\<lambda>i. andThen (gets (\<lambda>s. exists_doc (\<lambda>m. tm_business m = b \<and> tm_user m = Some i) (ac_members s))) (\<lambda>already.
      if already then throw (BadRequestException ''already a member of this team.'')
      else andThen number (\<lambda>m.
        andThen (insert_member \<lparr>tm_id = m, tm_business = b, tm_user = Some i, tm_role = iv_role dto, tm_email = iv_email dto,
          tm_accepted = True, tm_is_active = True, tm_is_owner = False\<rparr>) (\<lambda>_. ret m)))"
  have join: "accounts_ok (snd (?join i t))" if t: "accounts_ok t" "ac_businesses t = ac_businesses s" for i t
  proof (cases "exists_doc (\<lambda>m. tm_business m = b \<and> tm_user m = Some i) (ac_members t)")
    case False
    let ?m = "\<lparr>tm_id = ac_next t, tm_business = b, tm_user = Some i, tm_role = iv_role dto, tm_email = iv_email dto,
          tm_accepted = True, tm_is_active = True, tm_is_owner = False\<rparr>"
    have free: "seat ?m \<notin> seat ` set (ac_members t)" using False by (auto simp: exists_doc_iff seat_def)
    have "teams_ok (ac_next t) (ac_members t) (ac_businesses t)" using t(1) by (simp add: accounts_ok_def)
    from teams_ok_insert [OF this _ _ free] assms(2) t(2) False
    have "teams_ok (Suc (ac_next t)) (ac_members (snd (?join i t))) (ac_businesses (snd (?join i t)))"
      by (simp add: andThen_app insert_member_def)
    moreover have "users_ok (Suc (ac_next t)) (ac_users t)" using t(1) users_ok_later [of "ac_next t"] by (simp add: accounts_ok_def)
    ultimately show ?thesis using False by (simp add: andThen_app insert_member_def accounts_ok_def)
  qed (use t in \<open>simp add: andThen_app\<close>)
  have found: "accounts_ok (snd (find_or_add_user cy pw dto b s)) \<and> ac_businesses (snd (find_or_add_user cy pw dto b s)) = ac_businesses s \<and>
      \<not> isl (fst (find_or_add_user cy pw dto b s))"
  proof (cases "find_one (invited dto) (ac_users s)")
    case None
    let ?u = "staff_user cy pw dto b (ac_next s)"
    have "users_ok (Suc (ac_next s)) (ac_users s @ [?u])"
      using assms(1) find_none [OF None] by (intro users_ok_insert) (auto simp: accounts_ok_def staff_user_def invited_def)
    moreover have "teams_ok (Suc (ac_next s)) (ac_members s) (ac_businesses s)"
      using assms(1) teams_ok_later [of "ac_next s"] by (simp add: accounts_ok_def)
    ultimately show ?thesis using None by (simp add: find_or_add_user_def andThen_app insert_user_def accounts_ok_def)
  next
    case (Some u)
    have "accounts_ok (snd (set_user (u_id u) (\<lambda>u. u\<lparr>u_business := Some b\<rparr>) s))"
      by (rule preservesD [OF accounts_set_user assms(1)]) simp
    with Some assms(1) show ?thesis by (simp add: find_or_add_user_def andThen_app set_user_def)
  qed
  obtain i t where t: "find_or_add_user cy pw dto b s = (Inr i, t)" "accounts_ok t" "ac_businesses t = ac_businesses s"
    using found by (cases "find_or_add_user cy pw dto b s"; cases "fst (find_or_add_user cy pw dto b s)") auto
  show ?thesis
  proof (cases "exists_doc (\<lambda>r. ro_id r = iv_role dto) (ac_roles s)")
    case True
    obtain r u where "?join i t = (r, u)" by force
    with join [OF t(2,3), of i] True t(1) assms(1) show ?thesis
      unfolding inviteTeamMember_def with_transaction_def by (cases r) (simp_all add: andThen_app)
  qed (use assms(1) in \<open>simp add: inviteTeamMember_def with_transaction_def andThen_app\<close>)
qed

lemma load_user_ok: "(\<And>u. preserves accounts_ok (f u)) \<Longrightarrow> preserves accounts_ok (andThen (load_user P e) f)"
  unfolding load_user_def by (intro preserve_intros)

lemma sign_in_ok:
  "preserves accounts_ok (verifyEmail cy now code)" "preserves accounts_ok (resendVerificationEmail cy now otp email)"
  "preserves accounts_ok (loginCustomer cy email pw)" "preserves accounts_ok (loginVendor cy email pw)"
  "preserves accounts_ok (loginPlatform cy email pw)" "preserves accounts_ok (switchBusiness cy i b)"
  "preserves accounts_ok (refreshTokens cy i tok)" "preserves accounts_ok (changePassword cy i pw pw')"
  "preserves accounts_ok (requestPasswordReset cy now otp email)"
  unfolding verifyEmail_def resendVerificationEmail_def loginCustomer_def loginVendor_def loginPlatform_def switchBusiness_def
    refreshTokens_def changePassword_def requestPasswordReset_def check_verified_def check_account_def Let_def
  by (intro preserve_intros load_user_ok accounts_set_user; simp add: verified_user_def)+

lemma reset_ok: "preserves accounts_ok (assertResetCode cy now email code)" "preserves accounts_ok (resetPassword cy now email code pw)"
proof -
  show 1: "preserves accounts_ok (assertResetCode cy now email code)"
    unfolding assertResetCode_def by (intro preserve_intros load_user_ok accounts_set_user; simp)
  show "preserves accounts_ok (resetPassword cy now email code pw)"
    unfolding resetPassword_def by (intro preserve_intros 1 accounts_set_user) simp
qed

lemma updateMember_ok: "preserves accounts_ok (updateMember i b r x)"
  unfolding updateMember_def find_member_def
  by (intro preserve_intros) (simp add: accounts_ok_def teams_ok_edit seat_def)

lemma removeMember_ok: "preserves accounts_ok (removeMember i b)"
  unfolding preserves_def
proof (intro allI impI)
  fix s assume s: "accounts_ok s"
  let ?gone = "\<lambda>m. s\<lparr>ac_members := delete_one (\<lambda>x. tm_id x = tm_id m) (ac_members s),
          ac_businesses := update_one (\<lambda>b. vb_id b = tm_business m)
            (\<lambda>b. b\<lparr>vb_team_members := filter (\<lambda>x. x \<noteq> tm_id m) (vb_team_members b)\<rparr>) (ac_businesses s)\<rparr>"
  have leave: "preserves accounts_ok (case x of None \<Rightarrow> ret () | Some i \<Rightarrow> leave_business i k)" for x k
    unfolding leave_business_def by (cases x) (auto intro!: preserve_intros accounts_set_user)
  have gone: "accounts_ok (?gone m)" if "m \<in> set (ac_members s)" "\<not> tm_is_owner m" for m
    using s teams_ok_remove [OF _ that, of "ac_next s" "ac_businesses s"] by (simp add: accounts_ok_def)
  show "accounts_ok (snd (removeMember i b s))"
  proof (cases "find_one (\<lambda>m. tm_id m = i \<and> (case b of None \<Rightarrow> True | Some b \<Rightarrow> tm_business m = b)) (ac_members s)")
    case None
    with s show ?thesis by (simp add: removeMember_def find_member_def andThen_app)
  next
    case (Some m)
    then have "m \<in> set (ac_members s)" by (auto dest: find_one_SomeD)
    then have "accounts_ok (snd ((case tm_user m of None \<Rightarrow> ret () | Some i \<Rightarrow> leave_business i (tm_business m)) (?gone m)))" if "\<not> tm_is_owner m"
      using preservesD [OF leave gone] that by blast
    with Some s show ?thesis
      by (simp add: removeMember_def find_member_def andThen_app)
  qed
qed

lemma with_business_keeps:
  assumes "P s" "\<And>b. b \<in> vb_id ` set (ac_businesses s) \<Longrightarrow> P (snd (f b s))"
  shows "P (snd (with_business cy h f s))"
  using assms by (auto simp: with_business_def andThen_app find_vendor_business_def bind_eq_Some_conv
      split: sum.splits pass.splits option.splits dest!: find_one_SomeD)

text \<open>Profiles: a new address is free, and the body of a business leaves owner and team alone.\<close>

lemma updateProfile_ok: "preserves accounts_ok (updateProfile i dto)"
  unfolding preserves_def
proof (intro allI impI)
  fix s assume s: "accounts_ok s"
  let ?taken = "exists_doc (\<lambda>x. u_id x \<noteq> i \<and> (up_email dto = Some (u_email x) \<or> up_phone_number dto \<noteq> None \<and>
    u_phone_number x = up_phone_number dto)) (ac_users s)"
  show "accounts_ok (snd (updateProfile i dto s))"
  proof (cases "find_user i s = None \<or> ?taken")
    case True
    with s show ?thesis by (auto simp: updateProfile_def andThen_app split: option.splits)
  next
    case False
    let ?f = "profile_user dto"
    let ?us = "update_one (\<lambda>u. u_id u = i) ?f (ac_users s)"
    have ok: "users_ok (ac_next s) (ac_users s)" using s by (simp add: accounts_ok_def)
    then have d: "distinct (map u_id (ac_users s))" by (simp add: users_ok_def)
    have ids: "map u_id ?us = map u_id (ac_users s)" by (rule map_update_one) (simp add: profile_user_def)
    have free: "u_email x \<noteq> u_email (?f u)" if "x \<in> set (ac_users s)" "u \<in> set (ac_users s)" "u_id u = i" "x \<noteq> u" for x u
    proof -
      have "u_id x \<noteq> i" using d that by (auto simp: distinct_map dest: inj_onD)
      moreover have "u_email x \<noteq> u_email u" using ok that by (auto simp: users_ok_def distinct_map dest: inj_onD)
      ultimately show ?thesis using False that(1) by (auto simp: exists_doc_iff profile_user_def nullish_def split: option.splits)
    qed
    have "u = v" if "u \<in> set (ac_users s)" "v \<in> set (ac_users s)"
      "u_email (if u_id u = i then ?f u else u) = u_email (if u_id v = i then ?f v else v)" for u v
    proof -
      have "u = v" if "u_id u = u_id v" using d that \<open>u \<in> set (ac_users s)\<close> \<open>v \<in> set (ac_users s)\<close> by (auto simp: distinct_map dest: inj_onD)
      moreover have "u = v" if "u_email u = u_email v"
        using ok that \<open>u \<in> set (ac_users s)\<close> \<open>v \<in> set (ac_users s)\<close> by (auto simp: users_ok_def distinct_map dest: inj_onD)
      ultimately show ?thesis using that free [of u v] free [of v u] by (metis (full_types))
    qed
    then have "distinct (map u_email ?us)"
      unfolding update_one_key_map [OF d] using d by (auto simp: distinct_map comp_def intro!: inj_onI)
    then have "users_ok (ac_next s) ?us" using ok unfolding users_ok_def ids by simp
    with False s show ?thesis by (auto simp: updateProfile_def andThen_app set_user_def accounts_ok_def)
  qed
qed

lemma deleteUser_ok: "preserves accounts_ok (deleteUser i)"
proof -
  have "users_ok n (delete_one P us)" if "users_ok n us" for n P us
    using that set_delete_one [of P us] by (auto simp: users_ok_def distinct_delete_one list_all_iff)
  then show ?thesis by (auto simp: preserves_def deleteUser_def andThen_app accounts_ok_def)
qed

lemma set_business_ok:
  assumes "bp_created_by dto = None" "bp_team_members dto = None"
  shows "preserves accounts_ok (set_business b dto)"
proof -
  have "teams_ok n ms (update_one (\<lambda>x. vb_id x = b) (profile_business dto) bs)" if "teams_ok n ms bs" for n ms bs
  proof -
    have ids: "map vb_id (update_one (\<lambda>x. vb_id x = b) (profile_business dto) bs) = map vb_id bs"
      by (rule map_update_one) (simp add: profile_business_def)
    have "vb_team_members x = team_ids (vb_id x) ms \<and> owned ms x" if "x \<in> set (update_one (\<lambda>x. vb_id x = b) (profile_business dto) bs)" for x
      using that set_update_one [of "\<lambda>x. vb_id x = b" "profile_business dto" bs] \<open>teams_ok n ms bs\<close> assms
      by (auto simp: teams_ok_def profile_business_def nullish_def owned_def)
    moreover have "vb_id ` set (update_one (\<lambda>x. vb_id x = b) (profile_business dto) bs) = vb_id ` set bs"
      using arg_cong [OF ids, of set] by simp
    ultimately show ?thesis using that unfolding teams_ok_def ids by simp
  qed
  then show ?thesis
    by (auto simp: preserves_def set_business_def andThen_app accounts_ok_def split: option.splits)
qed

section \<open>The active business\<close>

text \<open>Whoever has an active business sits in its team.\<close>

definition seats :: "accounts \<Rightarrow> (oid \<times> oid option) set" where
  "seats s = seat ` set (ac_members s)"

definition seated :: "accounts \<Rightarrow> bool" where
  "seated s \<longleftrightarrow> (\<forall>u\<in>set (ac_users s). \<forall>b. u_business u = Some b \<longrightarrow> (b, Some (u_id u)) \<in> seats s)"

lemma seated_number [preserve_intros]: "preserves seated number"
  by (simp add: preserves_def seated_def seats_def)

lemma seated_purse: "preserves seated (open_purse b c a)"
  unfolding open_purse_def by (intro preserve_intros) (simp add: seated_def seats_def)

lemma seated_set_user:
  assumes "seated s" "\<And>u. u_id (f u) = u_id u"
    "\<And>u b. u \<in> set (ac_users s) \<Longrightarrow> u_id u = i \<Longrightarrow> u_business (f u) = Some b \<Longrightarrow> (b, Some i) \<in> seats s"
  shows "seated (snd (set_user i f s))"
proof -
  have "\<exists>x\<in>set (ac_users s). u = x \<or> u = f x \<and> u_id x = i" if "u \<in> set (update_one (\<lambda>u. u_id u = i) f (ac_users s))" for u
    using that set_update_one [of "\<lambda>u. u_id u = i" f "ac_users s"] by blast
  with assms show ?thesis by (force simp: set_user_def seated_def seats_def)
qed

lemma seated_set_other:
  assumes "\<And>u. u_id (f u) = u_id u \<and> u_business (f u) = u_business u"
  shows "preserves seated (set_user i f)"
proof -
  have "seated (snd (set_user i f s))" if "seated s" for s
    by (rule seated_set_user [OF that]) (use that assms in \<open>auto simp: seated_def\<close>)
  then show ?thesis by (simp add: preserves_def)
qed

lemma seated_load_user: "(\<And>u. preserves seated (f u)) \<Longrightarrow> preserves seated (andThen (load_user P e) f)"
  unfolding load_user_def by (intro preserve_intros)

lemma seated_sign_in:
  "preserves seated (verifyEmail cy now code)" "preserves seated (resendVerificationEmail cy now otp email)"
  "preserves seated (loginCustomer cy email pw)" "preserves seated (loginPlatform cy email pw)"
  "preserves seated (refreshTokens cy i tok)" "preserves seated (changePassword cy i pw pw')"
  "preserves seated (requestPasswordReset cy now otp email)" "preserves seated (assertResetCode cy now email code)"
  unfolding verifyEmail_def resendVerificationEmail_def loginCustomer_def loginPlatform_def
    refreshTokens_def changePassword_def requestPasswordReset_def check_verified_def check_account_def assertResetCode_def Let_def
  by (intro preserve_intros seated_load_user seated_set_other; simp add: verified_user_def)+

lemma seated_reset: "preserves seated (resetPassword cy now email code pw)"
  unfolding resetPassword_def by (intro preserve_intros seated_sign_in seated_set_other) simp

lemma member_seat: "tm_user m = Some i \<Longrightarrow> m \<in> set (ac_members s) \<Longrightarrow> (tm_business m, Some i) \<in> seats s"
  by (force simp: seats_def seat_def image_iff)

lemma active_business_seat: "active_business u bs = b \<Longrightarrow> bs = member_businesses i s \<Longrightarrow> bs \<noteq> [] \<Longrightarrow> (b, Some i) \<in> seats s"
proof -
  assume b: "active_business u bs = b" "bs = member_businesses i s" "bs \<noteq> []"
  then have "b \<in> set bs" by (auto simp: active_business_def split: option.splits)
  then show ?thesis unfolding b(2) member_businesses_def memberships_def by (auto intro: member_seat)
qed

lemma set_user_then: "snd (case set_user i f s of (Inl e, t) \<Rightarrow> (Inl e, t) | (Inr x, t) \<Rightarrow> ret y t) = snd (set_user i f s)"
  by (simp add: set_user_def)

lemma set_user_check:
  "snd (case set_user i f s of (Inl e, t) \<Rightarrow> (Inl e, t) | (Inr x, t) \<Rightarrow> andThen (gets p) (\<lambda>y. if y then ret a else throw e') t) = snd (set_user i f s)"
  by (simp add: set_user_def andThen_app)

lemma seated_login: "preserves seated (loginVendor cy email pw)"
  unfolding preserves_def
  by (auto simp: loginVendor_def load_user_def check_verified_def check_account_def andThen_app Let_def set_user_then
      split: option.splits intro!: seated_set_user intro: active_business_seat)

lemma seated_switch: "preserves seated (switchBusiness cy i b)"
  unfolding preserves_def
  by (auto simp: switchBusiness_def load_user_def andThen_app Let_def exists_doc_iff set_user_check split: option.splits
      intro!: seated_set_user intro: member_seat)

text \<open>The keys of a body that leave the active business alone.\<close>

fun spares_business :: "user_key \<Rightarrow> bool" where
  "spares_business (K_business b) = False"
| "spares_business k = True"

lemma assign_spared [simp]: "list_all spares_business ks \<Longrightarrow> u_business (assign_keys ks u) = u_business u"
proof (induction ks arbitrary: u)
  case (Cons k ks)
  then show ?case by (cases k) auto
qed simp

lemma seated_registerCustomer:
  assumes "list_all spares_business (cu_rest dto)"
  shows "preserves seated (registerCustomer cy now otp dto)"
  unfolding preserves_def
proof (intro allI impI)
  fix s assume s: "seated s"
  have "seated (snd (set_up_customer cy now otp dto r s))" for r
    using s assms by (auto simp: set_up_customer_def insert_user_def open_purse_def andThen_app Let_def seated_def seats_def new_user_def)
  with s show "seated (snd (registerCustomer cy now otp dto s))"
    by (auto simp: registerCustomer_def andThen_app with_transaction_def split: option.splits prod.splits sum.splits)
      (metis snd_conv)
qed

lemma seated_grows:
  "seated s \<Longrightarrow> set (ac_users t) \<subseteq> insert u (set (ac_users s)) \<Longrightarrow> seats s \<subseteq> seats t \<Longrightarrow>
   (\<And>b. u_business u = Some b \<Longrightarrow> (b, Some (u_id u)) \<in> seats t) \<Longrightarrow> seated t"
  unfolding seated_def by blast

lemma seated_registerVendor: "preserves seated (registerVendor cy now otp dto)"
  unfolding preserves_def
proof (intro allI impI)
  fix s assume s: "seated s"
  have step: "\<exists>u b t. set_up_vendor cy now otp dto r s = (Inr (u, b), t) \<and> seated t \<and> (b, Some (u_id u)) \<in> seats t" for r
    using s by (auto simp: set_up_vendor_def open_purse_def insert_user_def insert_member_def andThen_app Let_def seated_def seats_def
        new_user_def seat_def)
  have "seated (snd (set_user (u_id u) (\<lambda>u. u\<lparr>u_business := Some b\<rparr>) t))" if "seated t" "(b, Some (u_id u)) \<in> seats t" for u b t
    by (rule seated_set_user) (use that in auto)
  then have move: "seated (snd (andThen (set_user (u_id u) (\<lambda>u. u\<lparr>u_business := Some b\<rparr>)) (\<lambda>_. ret (u, b)) t))"
    if "seated t" "(b, Some (u_id u)) \<in> seats t" for u b t
    using that by (simp add: andThen_app set_user_then)
  show "seated (snd (registerVendor cy now otp dto s))"
    unfolding registerVendor_def
  proof (simp add: andThen_app s split: option.splits, intro impI allI)
    fix r
    obtain u b t where t: "set_up_vendor cy now otp dto (ro_id r) s = (Inr (u, b), t)" "seated t" "(b, Some (u_id u)) \<in> seats t"
      using step by blast
    with move [OF t(2,3)] show "seated (snd (case with_transaction (set_up_vendor cy now otp dto (ro_id r)) s of
        (Inl e, t) \<Rightarrow> (Inl e, t) | (Inr x, t) \<Rightarrow> (case x of (u, b) \<Rightarrow> andThen (set_user (u_id u) (\<lambda>u. u\<lparr>u_business := Some b\<rparr>)) (\<lambda>_. ret (u, b))) t))"
      by (simp add: with_transaction_def)
  qed
qed

lemma seated_invite: "preserves seated (inviteTeamMember cy pw dto b)"
  unfolding preserves_def
proof (intro allI impI)
  fix s assume s: "seated s"
  have found: "\<exists>i t. find_or_add_user cy pw dto b s = (Inr i, t) \<and> ac_members t = ac_members s \<and>
      (\<forall>u\<in>set (ac_users t). \<forall>c. u_business u = Some c \<longrightarrow> (c, Some (u_id u)) \<in> seats s \<or> (c = b \<and> u_id u = i))"
  proof (cases "find_one (invited dto) (ac_users s)")
    case None
    with s show ?thesis by (auto simp: find_or_add_user_def andThen_app insert_user_def staff_user_def seated_def)
  next
    case (Some x)
    have "u \<in> set (ac_users s) \<or> (\<exists>y\<in>set (ac_users s). u_id y = u_id x \<and> u = y\<lparr>u_business := Some b\<rparr>)"
      if "u \<in> set (update_one (\<lambda>u. u_id u = u_id x) (\<lambda>u. u\<lparr>u_business := Some b\<rparr>) (ac_users s))" for u
      using that set_update_one [of "\<lambda>u. u_id u = u_id x" "\<lambda>u. u\<lparr>u_business := Some b\<rparr>" "ac_users s"] by blast
    with Some s show ?thesis by (force simp: find_or_add_user_def andThen_app set_user_def seated_def)
  qed
  then obtain i t where t: "find_or_add_user cy pw dto b s = (Inr i, t)" "ac_members t = ac_members s"
    "\<forall>u\<in>set (ac_users t). \<forall>c. u_business u = Some c \<longrightarrow> (c, Some (u_id u)) \<in> seats s \<or> (c = b \<and> u_id u = i)" by blast
  show "seated (snd (inviteTeamMember cy pw dto b s))"
  proof (cases "exists_doc (\<lambda>r. ro_id r = iv_role dto) (ac_roles s) \<and> \<not> exists_doc (\<lambda>m. tm_business m = b \<and> tm_user m = Some i) (ac_members t)")
    case True
    with t show ?thesis
      by (auto simp: inviteTeamMember_def with_transaction_def andThen_app insert_member_def seated_def seats_def seat_def)
  next
    case False
    with t s show ?thesis by (auto simp: inviteTeamMember_def with_transaction_def andThen_app)
  qed
qed

lemma seated_profile: "list_all spares_business (up_rest dto) \<Longrightarrow> preserves seated (updateProfile i dto)"
  unfolding updateProfile_def by (intro preserve_intros seated_set_other) (simp add: profile_user_def)

lemma seated_delete_user: "preserves seated (deleteUser i)"
  by (auto simp: preserves_def deleteUser_def andThen_app seated_def seats_def dest!: subsetD [OF set_delete_one])

lemma seated_set_business: "preserves seated (set_business b dto)"
  unfolding set_business_def by (intro preserve_intros) (simp add: seated_def seats_def)

lemma seated_update: "preserves seated (updateMember i b r x)"
proof -
  have "seat ` set (update_one P f ms) = seat ` set ms" if "\<And>m. seat (f m) = seat m" for P f ms
    using arg_cong [OF map_update_one [of P seat f ms], of set] that by simp
  then show ?thesis
    unfolding updateMember_def find_member_def by (intro preserve_intros) (simp add: seated_def seats_def seat_def)
qed

text \<open>Leaving one business: everyone else sits already, and the leaver moves to a team they still sit in, or to none.\<close>

lemma seated_leave:
  assumes "distinct (map u_id (ac_users t))"
    "\<And>u c. u \<in> set (ac_users t) \<Longrightarrow> u_business u = Some c \<Longrightarrow> (c, u_id u) \<noteq> (b, j) \<Longrightarrow> (c, Some (u_id u)) \<in> seats t"
  shows "seated (snd (leave_business j b t))"
proof (cases "\<exists>u. find_user j t = Some u \<and> u_business u = Some b")
  case False
  have "(c, Some (u_id u)) \<in> seats t" if u: "u \<in> set (ac_users t)" "u_business u = Some c" for u c
  proof (rule assms(2) [OF u], rule notI)
    assume "(c, u_id u) = (b, j)"
    with u have "find_user j t = Some u" using find_one_key_eq [OF assms(1) u(1)] by (simp add: find_user_def)
    with False u(2) \<open>(c, u_id u) = (b, j)\<close> show False by blast
  qed
  then have "seated t" by (simp add: seated_def)
  with False show ?thesis by (auto simp: leave_business_def andThen_app split: option.splits)
next
  case True
  let ?move = "find_one (\<lambda>x. tm_user x = Some j \<and> tm_business x \<noteq> b) (ac_members t)"
  let ?t = "snd (set_user j (\<lambda>u. u\<lparr>u_business := map_option tm_business ?move\<rparr>) t)"
  have move: "(c, Some j) \<in> seats t" if "map_option tm_business ?move = Some c" for c
    using that by (auto dest!: find_one_SomeD intro: member_seat)
  have "(c, Some (u_id x)) \<in> seats t" if "x \<in> set (ac_users ?t)" "u_business x = Some c" for x c
  proof -
    from that(1) have "(x \<in> set (ac_users t) \<and> u_id x \<noteq> j) \<or> (u_id x = j \<and> u_business x = map_option tm_business ?move)"
      unfolding set_user_def by (auto simp: update_one_key_map [OF assms(1)])
    with that(2) assms(2) move show ?thesis by (metis prod.inject)
  qed
  then have "seated ?t" by (simp add: seated_def set_user_def seats_def)
  with True show ?thesis by (auto simp: leave_business_def andThen_app)
qed

lemma seated_remove:
  assumes "seated s" "accounts_ok s"
  shows "seated (snd (removeMember i b s))"
proof (cases "find_one (\<lambda>m. tm_id m = i \<and> (case b of None \<Rightarrow> True | Some b \<Rightarrow> tm_business m = b)) (ac_members s)")
  case None
  with assms(1) show ?thesis by (simp add: removeMember_def find_member_def andThen_app)
next
  case (Some m)
  then have m: "m \<in> set (ac_members s)" by (auto dest: find_one_SomeD)
  let ?t = "s\<lparr>ac_members := delete_one (\<lambda>x. tm_id x = tm_id m) (ac_members s),
          ac_businesses := update_one (\<lambda>b. vb_id b = tm_business m)
            (\<lambda>b. b\<lparr>vb_team_members := filter (\<lambda>x. x \<noteq> tm_id m) (vb_team_members b)\<rparr>) (ac_businesses s)\<rparr>"
  have d: "distinct (map tm_id (ac_members s))" "distinct (map u_id (ac_users s))"
    using assms(2) by (simp_all add: accounts_ok_def teams_ok_def users_ok_def)
  have kept: "k \<in> seats ?t" if k: "k \<in> seats s" "k \<noteq> seat m" for k
  proof -
    from k obtain x where x: "x \<in> set (ac_members s)" "seat x = k" by (auto simp: seats_def)
    with k(2) m d(1) have "tm_id x \<noteq> tm_id m" by (auto simp: distinct_map dest: inj_onD)
    then show ?thesis using x delete_one_other [OF x(1), of "\<lambda>x. tm_id x = tm_id m"] by (auto simp: seats_def)
  qed
  have others: "(c, Some (u_id u)) \<in> seats ?t" if "u \<in> set (ac_users ?t)" "u_business u = Some c" "(c, Some (u_id u)) \<noteq> seat m" for u c
    using kept assms(1) that by (auto simp: seated_def)
  have "seated (snd ((case tm_user m of None \<Rightarrow> ret () | Some i \<Rightarrow> leave_business i (tm_business m)) ?t))"
  proof (cases "tm_user m")
    case None
    with others show ?thesis by (auto simp: seated_def seat_def)
  next
    case (Some j)
    have "seated (snd (leave_business j (tm_business m) ?t))"
      by (rule seated_leave) (use others d(2) Some in \<open>simp_all add: seat_def\<close>)
    with Some show ?thesis by simp
  qed
  with Some assms(1) show ?thesis by (simp add: removeMember_def find_member_def andThen_app)
qed

section \<open>Sequences of requests\<close>

text \<open>The requests that write accounts, teams or businesses. A body may carry undeclared fields, but not the three that the code
  spreads into the links themselves: a user's \<open>business\<close>, a business's \<open>created_by\<close> and its \<open>team_members\<close>. In between,
  roles, permissions, wallets and tokens change in any way.\<close>

definition keeps_links :: "business_dto \<Rightarrow> bool" where
  "keeps_links dto \<longleftrightarrow> bp_created_by dto = None \<and> bp_team_members dto = None"

inductive account_step :: "crypto \<Rightarrow> accounts \<Rightarrow> accounts \<Rightarrow> bool" for cy where
  step_register_vendor: "vr_created_by v = None \<Longrightarrow> account_step cy s (snd (registerVendor cy now otp v s))"
| step_register_customer: "list_all spares_business (cu_rest c) \<Longrightarrow> account_step cy s (snd (registerCustomer cy now otp c s))"
| step_verify_email: "account_step cy s (snd (verifyEmail cy now code s))"
| step_resend: "account_step cy s (snd (resendVerificationEmail cy now otp email s))"
| step_login_customer: "account_step cy s (snd (loginCustomer cy email pw s))"
| step_login_vendor: "account_step cy s (snd (loginVendor cy email pw s))"
| step_login_platform: "account_step cy s (snd (loginPlatform cy email pw s))"
| step_switch: "account_step cy s (snd (switchBusiness cy i b s))"
| step_refresh: "account_step cy s (snd (refreshTokens cy i tok s))"
| step_change_password: "account_step cy s (snd (changePassword cy i pw pw' s))"
| step_request_reset: "account_step cy s (snd (requestPasswordReset cy now otp email s))"
| step_verify_reset: "account_step cy s (snd (verifyResetCode cy now email code s))"
| step_reset: "account_step cy s (snd (resetPassword cy now email code pw s))"
| step_invite: "account_step cy s (snd (inviteTeamMember_route cy pw h dto s))"
| step_update: "account_step cy s (snd (updateTeamMember_route cy h m r x s))"
| step_remove: "account_step cy s (snd (removeTeamMember_route cy h m s))"
| step_profile: "list_all spares_business (up_rest p) \<Longrightarrow> account_step cy s (snd (updateMyProfile cy h p s))"
| step_delete: "account_step cy s (snd (deleteUser_route cy h s))"
| step_business_profile: "keeps_links d \<Longrightarrow> account_step cy s (snd (updateBusinessProfile_route cy h d s))"
| step_business_address: "keeps_links d \<Longrightarrow> account_step cy s (snd (updateBusinessAddress_route cy courier h country d s))"
| step_elsewhere: "account_step cy s (s\<lparr>ac_roles := rs, ac_permissions := ps, ac_wallets := ws, ac_tokens := ks\<rparr>)"

definition consistent :: "accounts \<Rightarrow> bool" where
  "consistent s \<longleftrightarrow> accounts_ok s \<and> seated s"

lemma keeps_consistent: "preserves accounts_ok f \<Longrightarrow> preserves seated f \<Longrightarrow> consistent s \<Longrightarrow> consistent (snd (f s))"
  by (simp add: consistent_def preservesD)

lemma team_consistent:
  assumes "consistent s"
  shows "b \<in> vb_id ` set (ac_businesses s) \<Longrightarrow> consistent (snd (inviteTeamMember cy pw dto b s))"
    "consistent (snd (updateMember i b r x s))" "consistent (snd (removeMember i k s))"
proof -
  have s: "accounts_ok s" "seated s" using assms by (simp_all add: consistent_def)
  show "b \<in> vb_id ` set (ac_businesses s) \<Longrightarrow> consistent (snd (inviteTeamMember cy pw dto b s))"
    unfolding consistent_def by (simp only: inviteTeamMember_ok [OF s(1)] preservesD [OF seated_invite s(2)])
  show "consistent (snd (updateMember i b r x s))" by (rule keeps_consistent [OF updateMember_ok seated_update assms])
  show "consistent (snd (removeMember i k s))"
    unfolding consistent_def by (rule conjI [OF preservesD [OF removeMember_ok s(1)] seated_remove [OF s(2,1)]])
qed

lemma routes_consistent:
  assumes "consistent s"
  shows "consistent (snd (inviteTeamMember_route cy pw h dto s))" "consistent (snd (updateTeamMember_route cy h m r x s))"
    "consistent (snd (removeTeamMember_route cy h m s))"
  unfolding inviteTeamMember_route_def updateTeamMember_route_def removeTeamMember_route_def
  by (rule with_business_keeps [of consistent, OF assms]; rule team_consistent [OF assms]; assumption)+

lemma profile_consistent:
  assumes "consistent s"
  shows "list_all spares_business (up_rest p) \<Longrightarrow> consistent (snd (updateMyProfile cy h p s))"
    "consistent (snd (deleteUser_route cy h s))"
    "keeps_links d \<Longrightarrow> consistent (snd (updateBusinessProfile_route cy h d s))"
    "keeps_links d \<Longrightarrow> consistent (snd (updateBusinessAddress_route cy courier h country d s))"
proof -
  show "consistent (snd (updateMyProfile cy h p s))" if "list_all spares_business (up_rest p)"
    using keeps_consistent [OF updateProfile_ok seated_profile [OF that] assms] assms
    by (auto simp: updateMyProfile_def split: sum.splits option.splits)
  show "consistent (snd (deleteUser_route cy h s))"
    using keeps_consistent [OF deleteUser_ok seated_delete_user assms] assms
    by (auto simp: deleteUser_route_def andThen_app split: sum.splits option.splits)
  assume "keeps_links d"
  then have set: "consistent (snd (set_business b d s))" for b
    using keeps_consistent [OF set_business_ok seated_set_business assms] by (simp add: keeps_links_def)
  have "consistent (snd (updateBusinessProfile b d s))" for b
    using set [of b] by (auto simp: updateBusinessProfile_def andThen_app split: prod.splits sum.splits option.splits)
  then show "consistent (snd (updateBusinessProfile_route cy h d s))"
    unfolding updateBusinessProfile_route_def by (intro with_business_keeps [of consistent, OF assms])
  have "consistent (snd (updateBusinessAddress courier country b d s))" for b
    using set assms by (simp add: updateBusinessAddress_def Let_def split: sum.splits)
  then show "consistent (snd (updateBusinessAddress_route cy courier h country d s))"
    unfolding updateBusinessAddress_route_def by (intro with_business_keeps [of consistent, OF assms])
qed

lemma verifyResetCode_state: "snd (verifyResetCode cy now email code s) = snd (assertResetCode cy now email code s)"
  by (auto simp: verifyResetCode_def andThen_app split: prod.splits sum.splits)

lemma account_step_consistent: "account_step cy s t \<Longrightarrow> consistent s \<Longrightarrow> consistent t"
proof (induction rule: account_step.induct)
  case (step_verify_reset now email code s)
  then show ?case unfolding verifyResetCode_state by (rule keeps_consistent [OF reset_ok(1) seated_sign_in(8)])
next
  case (step_elsewhere s rs ps ws ks)
  then show ?case by (simp add: consistent_def accounts_ok_def seated_def seats_def)
qed (assumption | rule routes_consistent profile_consistent keeps_consistent registerVendor_ok seated_registerVendor registerCustomer_ok
      seated_registerCustomer sign_in_ok seated_sign_in seated_login seated_switch reset_ok seated_reset)+

text \<open>C8: Registrations, sign-ins, codes, invitations, changes and removals of members, profiles, addresses and deletions may
  arrive in any order and with any outcome: as long as no body carries one of the undeclared links \<open>business\<close>, \<open>created_by\<close> and
  \<open>team_members\<close>, the accounts stay consistent. Numbers and e-mail addresses are unique, no user has two seats in one team, every team's list
  names exactly its members, every business keeps the owner that registered it, and whoever has an active business sits in
  its team.\<close>

theorem accounts_stay_consistent:
  "(account_step cy)\<^sup>*\<^sup>* s t \<Longrightarrow> consistent s \<Longrightarrow> consistent t"
  by (induction rule: rtranclp_induct) (auto intro: account_step_consistent)

section \<open>Whom the guard admits\<close>

lemma team_of_ok:
  assumes "accounts_ok s" "find_vendor_business (Some b) s = Some x"
  shows "team_of (Some x) s = filter (\<lambda>m. tm_business m = b) (ac_members s)"
proof -
  have x: "x \<in> set (ac_businesses s)" "vb_id x = b" using assms(2) by (auto simp: find_vendor_business_def dest: find_one_SomeD)
  have d: "distinct (map tm_id (ac_members s))" using assms(1) by (simp add: accounts_ok_def teams_ok_def)
  have "List.map_filter (\<lambda>i. find_one (\<lambda>m. tm_id m = i) (ac_members s)) (map tm_id ms) = ms" if "set ms \<subseteq> set (ac_members s)" for ms
    using that by (induction ms) (auto simp: map_filter_simps find_one_key_eq [OF d])
  moreover have "vb_team_members x = map tm_id (filter (\<lambda>m. tm_business m = b) (ac_members s))"
    using assms(1) x by (auto simp: accounts_ok_def teams_ok_def team_ids_def)
  ultimately show ?thesis by (simp add: team_of_def)
qed

definition member_role :: "accounts \<Rightarrow> team_member \<Rightarrow> string" where
  "member_role s m = (case find_role (Some (tm_role m)) s of None \<Rightarrow> [] | Some r \<Rightarrow> lower (ro_name r))"

text \<open>The policy: a platform user needs an administrator's role or one the route names; a vendor needs a route for
  vendors and a seat in the active business, as an owner or in a role the route names; a customer needs a route
  for customers.\<close>

definition may_call :: "string list \<Rightarrow> string list \<Rightarrow> accounts \<Rightarrow> user \<Rightarrow> bool" where
  "may_call required vendorRoles s u \<longleftrightarrow> (case u_type u of
       PLATFORM \<Rightarrow> (case find_role (u_role u) s of None \<Rightarrow> False | Some r \<Rightarrow> lower (ro_name r) \<in> {''admin'', ''super_admin''} \<union> lower ` set required)
     | VENDOR \<Rightarrow> ''vendor'' \<in> lower ` set required \<and> (\<exists>m\<in>set (ac_members s). u_business u = Some (tm_business m) \<and> tm_user m = Some (u_id u) \<and>
         (vendorRoles = [] \<or> member_role s m \<in> {''owner''} \<union> lower ` set vendorRoles))
     | CUSTOMER \<Rightarrow> ''customer'' \<in> lower ` set required)"

lemma find_one_unique:
  assumes "m \<in> set ms" "P m" "\<And>x. x \<in> set ms \<Longrightarrow> P x \<Longrightarrow> x = m"
  shows "find_one P ms = Some m"
proof (cases "find_one P ms")
  case None
  with assms(1,2) show ?thesis by (simp add: find_one_None_iff)
next
  case (Some x)
  with assms(3) [of x] show ?thesis by (simp add: find_one_SomeD)
qed

lemma one_seat:
  assumes "consistent s" "x \<in> set (ac_members s)" "y \<in> set (ac_members s)" "seat x = seat y"
  shows "x = y"
proof -
  have "inj_on seat (set (ac_members s))" using assms(1) by (simp add: consistent_def accounts_ok_def teams_ok_def distinct_map)
  from inj_onD [OF this assms(4,2,3)] show ?thesis .
qed

lemma seated_team:
  assumes "consistent s" "u \<in> set (ac_users s)" "u_business u = Some b"
  shows "\<exists>m x. m \<in> set (ac_members s) \<and> seat m = (b, Some (u_id u)) \<and> find_vendor_business (Some b) s = Some x \<and>
    find_one (\<lambda>m. tm_user m = Some (u_id u)) (team_of (Some x) s) = Some m"
proof -
  have s: "accounts_ok s" "seated s" using assms(1) by (simp_all add: consistent_def)
  from s(2) assms(2,3) have "(b, Some (u_id u)) \<in> seats s" by (simp add: seated_def)
  then obtain m where m: "m \<in> set (ac_members s)" "seat m = (b, Some (u_id u))" by (auto simp: seats_def)
  from m s(1) have "b \<in> vb_id ` set (ac_businesses s)" by (force simp: accounts_ok_def teams_ok_def list_all_iff)
  then obtain x where x: "find_vendor_business (Some b) s = Some x"
    by (cases "find_vendor_business (Some b) s") (auto simp: find_vendor_business_def find_one_None_iff)
  have "find_one (\<lambda>m. tm_user m = Some (u_id u)) (team_of (Some x) s) = Some m"
    unfolding team_of_ok [OF s(1) x]
  proof (rule find_one_unique)
    show "m \<in> set (filter (\<lambda>m. tm_business m = b) (ac_members s))" "tm_user m = Some (u_id u)" using m by (simp_all add: seat_def)
  next
    fix y assume "y \<in> set (filter (\<lambda>m. tm_business m = b) (ac_members s))" "tm_user y = Some (u_id u)"
    then show "y = m" using one_seat [OF assms(1) _ m(1), of y] m(2) by (simp add: seat_def)
  qed
  with m x show ?thesis by blast
qed

lemma vendor_guard_policy:
  assumes "consistent s" "u \<in> set (ac_users s)" "u_type u = VENDOR"
  shows "(\<exists>p. vendor_guard (map lower required) vendorRoles u s = Inr p) \<longleftrightarrow> may_call required vendorRoles s u"
proof (cases "u_business u")
  case None
  then show ?thesis using assms(3) by (simp add: vendor_guard_def may_call_def find_vendor_business_def team_of_def)
next
  case (Some b)
  from seated_team [OF assms(1,2) Some] obtain m x where m: "m \<in> set (ac_members s)" "seat m = (b, Some (u_id u))"
    and x: "find_vendor_business (Some b) s = Some x" "find_one (\<lambda>m. tm_user m = Some (u_id u)) (team_of (Some x) s) = Some m" by blast
  have only: "y = m" if "y \<in> set (ac_members s)" "seat y = (b, Some (u_id u))" for y
    using one_seat [OF assms(1) that(1) m(1)] m(2) that(2) by simp
  have "may_call required vendorRoles s u \<longleftrightarrow> ''vendor'' \<in> lower ` set required \<and>
      (vendorRoles = [] \<or> member_role s m \<in> {''owner''} \<union> lower ` set vendorRoles)"
    (is "_ \<longleftrightarrow> ?allowed m")
  proof -
    have "u_business u = Some (tm_business y) \<and> tm_user y = Some (u_id u) \<longleftrightarrow> seat y = (b, Some (u_id u))" for y
      using Some by (auto simp: seat_def)
    then have "(\<exists>y\<in>set (ac_members s). u_business u = Some (tm_business y) \<and> tm_user y = Some (u_id u) \<and> Q y) \<longleftrightarrow> Q m" for Q
      using m only by metis
    then show ?thesis by (simp add: may_call_def assms(3))
  qed
  moreover have "team_of (Some x) s \<noteq> []" using x(2) by auto
  ultimately show ?thesis using Some x by (auto simp: vendor_guard_def Let_def member_role_def)
qed

text \<open>C9: On consistent accounts the guard of the roles lets a request through exactly when its bearer token is valid, names an
  existing user, and the policy allows that user on the route.\<close>

theorem roles_guard_is_policy:
  assumes "consistent s" "required \<noteq> []"
  shows "(\<exists>p. roles_guard cy required vendorRoles h s = Inr p) \<longleftrightarrow>
    (\<exists>t i u. Option.bind (hd_authorization h) bearer = Some t \<and> t \<noteq> [] \<and> cy_verify cy t = Some i \<and> find_user i s = Some u \<and>
       may_call required vendorRoles s u)"
proof (cases "\<exists>t i u. Option.bind (hd_authorization h) bearer = Some t \<and> t \<noteq> [] \<and> cy_verify cy t = Some i \<and> find_user i s = Some u")
  case False
  then have "\<not> (\<exists>p. roles_guard cy required vendorRoles h s = Inr p)"
    using assms(2) by (cases "Option.bind (hd_authorization h) bearer")
      (auto simp: roles_guard_def Let_def truthy_string_def split: option.splits)
  with False show ?thesis by blast
next
  case True
  then obtain t i u where u: "Option.bind (hd_authorization h) bearer = Some t" "t \<noteq> []" "cy_verify cy t = Some i" "find_user i s = Some u" by blast
  then have "u \<in> set (ac_users s)" by (auto simp: find_user_def dest: find_one_SomeD)
  note vendor = vendor_guard_policy [OF assms(1) this]
  have "(\<exists>p. roles_guard cy required vendorRoles h s = Inr p) \<longleftrightarrow> may_call required vendorRoles s u"
  proof (cases "u_type u")
    case PLATFORM
    then show ?thesis using u assms(2)
      by (auto simp: roles_guard_def platform_guard_def may_call_def Let_def truthy_string_def split: option.splits)
  next
    case VENDOR
    then show ?thesis using u assms(2) vendor by (simp add: roles_guard_def Let_def truthy_string_def)
  next
    case CUSTOMER
    then show ?thesis using u assms(2) by (simp add: roles_guard_def may_call_def Let_def truthy_string_def)
  qed
  with u show ?thesis by simp
qed

text \<open>The policy reads the type and the role from the account, and the account's own profile route writes them: any user becomes
  an administrator with one body, and passes every guard of the roles from then on.\<close>

theorem profile_body_makes_admin:
  assumes "Option.bind (hd_authorization h) bearer = Some t" "t \<noteq> []" "cy_verify cy t = Some i" "find_user i s = Some u"
    "find_role (Some r) s = Some ro" "lower (ro_name ro) = ''admin''" "required \<noteq> []"
    "updateMyProfile cy h \<lparr>up_phone_number = None, up_email = None, up_rest = [K_type PLATFORM, K_role (Some r)]\<rparr> s = (a, s')"
  shows "roles_guard cy required vr h s' = Inr (Pass_user i)"
proof -
  let ?f = "profile_user \<lparr>up_phone_number = None, up_email = None, up_rest = [K_type PLATFORM, K_role (Some r)]\<rparr>"
  have i: "u_id u = i" using assms(4) by (auto simp: find_user_def dest: find_one_SomeD)
  have "extractTokenFromHeader h = Some t" using assms(1) by (simp add: extractTokenFromHeader_def)
  then have s': "s' = snd (set_user i ?f s)"
    using assms(2-4,8) by (auto simp: updateMyProfile_def jwt_guard_def Let_def truthy_string_def updateProfile_def andThen_app exists_doc_iff set_user_def)
  have "find_user i s' = Some (?f u)"
    unfolding s' set_user_def find_user_def
    using assms(4) find_one_update_one_same [of "\<lambda>u. u_id u = i" "ac_users s" u ?f] i by (simp add: find_user_def profile_user_def)
  moreover have "find_role (Some r) s' = Some ro" using assms(5) by (simp add: s' set_user_def find_role_def)
  moreover have "u_type (?f u) = PLATFORM" "u_role (?f u) = Some r" "u_id (?f u) = i" using i by (simp_all add: profile_user_def)
  ultimately show ?thesis using assms(1-3,6,7)
    by (simp add: roles_guard_def platform_guard_def truthy_string_def)
qed

section \<open>Removed members\<close>

lemma guard_member:
  assumes "accounts_ok t" "required \<noteq> []" "roles_guard cy required vendorRoles h t = Inr (Pass_member j k r)"
  shows "\<exists>u x. find_user j t = Some u \<and> x \<in> set (ac_members t) \<and> tm_id x = k \<and> tm_user x = Some j \<and> u_business u = Some (tm_business x)"
proof -
  from assms(2,3) obtain i u where u: "find_user i t = Some u" "vendor_guard (map lower required) vendorRoles u t = Inr (Pass_member j k r)"
    by (cases "Option.bind (hd_authorization h) bearer")
      (auto simp: roles_guard_def platform_guard_def Let_def split: if_splits option.splits user_type.splits)
  then have i: "u_id u = i" by (auto simp: find_user_def dest: find_one_SomeD)
  from u(2) obtain x where x: "find_one (\<lambda>m. tm_user m = Some (u_id u)) (team_of (find_vendor_business (u_business u) t) t) = Some x" "tm_id x = k" "j = u_id u"
    by (auto simp: vendor_guard_def Let_def split: if_splits option.splits)
  then obtain b y where b: "u_business u = Some b" "find_vendor_business (Some b) t = Some y"
    by (cases "u_business u"; cases "find_vendor_business (u_business u) t") (auto simp: find_vendor_business_def team_of_def)
  with x(1) team_of_ok [OF assms(1) b(2)] have "x \<in> set (ac_members t) \<and> tm_business x = b \<and> tm_user x = Some (u_id u)"
    by (auto dest!: find_one_SomeD)
  with u(1) i x(2,3) b(1) show ?thesis by blast
qed

lemma with_business_ok: "with_business cy h f s = (Inr x, t) \<Longrightarrow> \<exists>b. f b s = (Inr x, t)"
  by (auto simp: with_business_def andThen_app split: sum.splits pass.splits option.splits)

lemma remove_members:
  assumes "accounts_ok s" "m \<in> set (ac_members s)" "removeMember (tm_id m) k s = (Inr (), t)"
  shows "set (ac_members t) = set (ac_members s) - {m}"
proof -
  have d: "distinct (map tm_id (ac_members s))" using assms(1) by (simp add: accounts_ok_def teams_ok_def)
  have leave: "leave_business i b z = (Inr (), t) \<Longrightarrow> ac_members t = ac_members z" for i b z
    by (auto simp: leave_business_def andThen_app set_user_def split: option.splits if_splits)
  obtain x where x: "find_one (\<lambda>x. tm_id x = tm_id m \<and> (case k of None \<Rightarrow> True | Some b \<Rightarrow> tm_business x = b)) (ac_members s) = Some x"
    using assms(3) by (auto simp: removeMember_def find_member_def andThen_app split: option.splits)
  then have "x \<in> set (ac_members s)" "tm_id x = tm_id m" by (auto dest!: find_one_SomeD)
  with d assms(2) have "x = m" by (auto simp: distinct_map dest: inj_onD)
  with x assms(3) have "ac_members t = delete_one (\<lambda>x. tm_id x = tm_id m) (ac_members s)"
    by (auto simp: removeMember_def find_member_def andThen_app split: if_splits option.splits dest!: leave)
  then show ?thesis using d assms(2) delete_one_key [OF d, of "tm_id m"] by (auto simp: distinct_map dest: inj_onD)
qed

lemma login_seat:
  "loginVendor cy email pw s = (Inr (u, b, tok), t) \<Longrightarrow> (b, Some (u_id u)) \<in> seats s"
  using active_business_seat [of u "member_businesses (u_id u) s" b "u_id u" s]
  by (auto simp: loginVendor_def load_user_def check_verified_def check_account_def andThen_app Let_def set_user_def
      split: option.splits if_splits)

lemma switch_seat: "switchBusiness cy i b s = (Inr tok, t) \<Longrightarrow> (b, Some i) \<in> seats s"
  by (auto simp: switchBusiness_def load_user_def andThen_app exists_doc_iff intro: member_seat split: option.splits if_splits)

text \<open>C15: Removing a member takes exactly that seat. From then on the removed user passes no guard as a member of that team,
  cannot make the business the active one, and a sign-in never ends up in it.\<close>

theorem removed_member_locked_out:
  assumes "consistent s" "m \<in> set (ac_members s)" "tm_user m = Some j"
    "removeTeamMember_route cy h (tm_id m) s = (Inr (), t)"
  shows "seats t = seats s - {(tm_business m, Some j)} \<and>
    (\<forall>required vr h' k r. required \<noteq> [] \<longrightarrow> roles_guard cy required vr h' t = Inr (Pass_member j k r) \<longrightarrow>
      k \<noteq> tm_id m \<and> (\<exists>u. find_user j t = Some u \<and> u_business u \<noteq> Some (tm_business m))) \<and>
    isl (fst (switchBusiness cy j (tm_business m) t)) \<and>
    (\<forall>email pw u b tok t'. loginVendor cy email pw t = (Inr (u, b, tok), t') \<longrightarrow> u_id u = j \<longrightarrow> b \<noteq> tm_business m)"
proof -
  have s: "accounts_ok s" using assms(1) by (simp add: consistent_def)
  from assms(4) obtain k where k: "removeMember (tm_id m) k s = (Inr (), t)"
    unfolding removeTeamMember_route_def by (auto dest!: with_business_ok)
  have t: "accounts_ok t" using preservesD [OF removeMember_ok s, of "tm_id m" k] k by simp
  have ms: "set (ac_members t) = set (ac_members s) - {m}" by (rule remove_members [OF s assms(2) k])
  have "seat x \<noteq> seat m" if "x \<in> set (ac_members s) - {m}" for x using one_seat [OF assms(1) _ assms(2), of x] that by auto
  then have seats: "seats t = seats s - {(tm_business m, Some j)}"
    using assms(2,3) unfolding seats_def ms by (auto simp: seat_def)
  then have gone: "(tm_business m, Some j) \<notin> seats t" by simp
  have ids: "x = m" if "x \<in> set (ac_members s)" "tm_id x = tm_id m" for x
    using s that assms(2) by (auto simp: accounts_ok_def teams_ok_def distinct_map dest: inj_onD)
  have guard: "k \<noteq> tm_id m \<and> (\<exists>u. find_user j t = Some u \<and> u_business u \<noteq> Some (tm_business m))"
    if "required \<noteq> []" "roles_guard cy required vr h' t = Inr (Pass_member j k r)" for required vr h' k r
  proof -
    from guard_member [OF t that] obtain u x where u: "find_user j t = Some u" "x \<in> set (ac_members t)" "tm_id x = k"
      "tm_user x = Some j" "u_business u = Some (tm_business x)" by blast
    moreover have "tm_business x \<noteq> tm_business m" using member_seat [OF u(4,2)] gone by auto
    ultimately show ?thesis using ids ms by auto
  qed
  have "isl (fst (switchBusiness cy j (tm_business m) t))"
    using gone switch_seat [of cy j "tm_business m" t] by (cases "switchBusiness cy j (tm_business m) t"; cases "fst (switchBusiness cy j (tm_business m) t)") auto
  moreover have "b \<noteq> tm_business m" if "loginVendor cy email pw t = (Inr (u, b, tok), t')" "u_id u = j" for email pw u b tok t'
    using login_seat [OF that(1)] that(2) gone by auto
  ultimately show ?thesis using seats guard by simp
qed

section \<open>Deactivated members\<close>

definition reactivated :: "team_member \<Rightarrow> team_member" where
  "reactivated m = m\<lparr>tm_is_active := True\<rparr>"

lemma reactivated_keeps [simp]: "tm_id (reactivated m) = tm_id m" "tm_business (reactivated m) = tm_business m"
  "tm_user (reactivated m) = tm_user m" "tm_role (reactivated m) = tm_role m"
  by (simp_all add: reactivated_def)

lemma find_one_map: "find_one P (map g ms) = map_option g (find_one (\<lambda>x. P (g x)) ms)"
  by (induction ms) auto

lemma guard_blind:
  "roles_guard cy required vr h (s\<lparr>ac_members := map reactivated (ac_members s)\<rparr>) = roles_guard cy required vr h s"
proof -
  have "List.map_filter (\<lambda>i. map_option reactivated (f i)) xs = map reactivated (List.map_filter f xs)" for f :: "oid \<Rightarrow> team_member option" and xs
    by (induction xs) (auto simp: map_filter_simps split: option.splits)
  then have team: "team_of b (s\<lparr>ac_members := map reactivated (ac_members s)\<rparr>) = map reactivated (team_of b s)" for b
    by (simp add: team_of_def find_one_map split: option.splits)
  have "vendor_guard req vr u (s\<lparr>ac_members := map reactivated (ac_members s)\<rparr>) = vendor_guard req vr u s" for req u
    by (simp add: vendor_guard_def find_vendor_business_def team [unfolded find_vendor_business_def] find_one_map find_role_def Let_def
        split: option.splits)
  moreover have "find_user i (s\<lparr>ac_members := map reactivated (ac_members s)\<rparr>) = find_user i s"
    "platform_guard req u (s\<lparr>ac_members := map reactivated (ac_members s)\<rparr>) = platform_guard req u s" for i req u
    by (simp_all add: find_user_def platform_guard_def find_role_def)
  ultimately show ?thesis by (simp only: roles_guard_def)
qed

lemma login_blind:
  "fst (loginVendor cy email pw (s\<lparr>ac_members := map reactivated (ac_members s)\<rparr>)) = fst (loginVendor cy email pw s)"
  by (simp add: loginVendor_def load_user_def check_verified_def check_account_def andThen_app Let_def set_user_def memberships_def
      member_businesses_def filter_map comp_def split: option.splits)

text \<open>Switching a member off has no effect on what the member may do: every guard answers as before, and so does the
  sign-in. Neither reads \<open>is_active\<close>.\<close>

theorem deactivated_member_still_enters:
  "roles_guard cy required vr h (snd (updateMember m b None (Some False) s)) = roles_guard cy required vr h s \<and>
   fst (loginVendor cy email pw (snd (updateMember m b None (Some False) s))) = fst (loginVendor cy email pw s)"
proof -
  let ?t = "snd (updateMember m b None (Some False) s)"
  have "map reactivated (update_one P (\<lambda>x. x\<lparr>tm_role := tm_role x, tm_is_active := False\<rparr>) ms) = map reactivated ms" for P ms
    by (rule map_update_one) (simp add: reactivated_def)
  then have "?t\<lparr>ac_members := map reactivated (ac_members ?t)\<rparr> = s\<lparr>ac_members := map reactivated (ac_members s)\<rparr>"
    by (simp add: updateMember_def find_member_def andThen_app split: option.splits)
  with guard_blind [of cy required vr h ?t] guard_blind [of cy required vr h s] login_blind [of cy email pw ?t] login_blind [of cy email pw s]
  show ?thesis by simp
qed

section \<open>A business and its team\<close>

definition plain_crypto :: crypto where
  "plain_crypto = \<lparr>cy_hash = (\<lambda>p. p @ ''#''), cy_compare = (\<lambda>p h. h = p @ ''#''), cy_sha256 = (\<lambda>x. x @ ''!''),
     cy_access = (\<lambda>i. replicate i CHR ''a''), cy_refresh = (\<lambda>i. replicate i CHR ''r''),
     cy_verify = (\<lambda>t. if list_all (\<lambda>c. c = CHR ''a'') t then Some (length t) else None)\<rparr>"

definition bearer_of :: "oid \<Rightarrow> headers" where
  "bearer_of i = \<lparr>hd_authorization = Some (''Bearer '' @ cy_access plain_crypto i), hd_alternatives = []\<rparr>"

definition founded :: accounts where
  "founded = \<lparr>ac_users = [], ac_roles = [\<lparr>ro_id = 1, ro_name = ''owner'', ro_permissions = []\<rparr>, \<lparr>ro_id = 2, ro_name = ''Tailor'', ro_permissions = []\<rparr>],
     ac_permissions = [], ac_members = [], ac_businesses = [], ac_wallets = [], ac_tokens = [], ac_next = 3\<rparr>"

definition shop_dto :: vendor_register_dto where
  "shop_dto = \<lparr>vr_business_email = Some ''shop@x'', vr_business_phone_number = None, vr_personal_phone_number = ''1'',
     vr_personal_email = ''a@x'', vr_password = ''pw'', vr_created_by = None\<rparr>"

definition shop :: accounts where
  "shop = snd (registerVendor plain_crypto 0 ''123456'' shop_dto founded)"

definition staffed :: accounts where
  "staffed = snd (inviteTeamMember_route plain_crypto ''temp'' (bearer_of 3) \<lparr>iv_role = 2, iv_email = ''b@x'', iv_phone_number = None\<rparr> shop)"

lemma founded_consistent: "consistent founded"
  by (simp add: founded_def consistent_def accounts_ok_def users_ok_def teams_ok_def seated_def)

lemma founding_steps: "account_step plain_crypto founded shop" "account_step plain_crypto shop staffed"
  unfolding staffed_def shop_def by (rule account_step.intros; simp add: shop_dto_def)+

lemma founding_run: "(account_step plain_crypto)\<^sup>*\<^sup>* founded staffed"
  by (rule rtranclp.rtrancl_into_rtrancl [OF r_into_rtranclp]) (rule founding_steps)+

lemma staffed_consistent: "consistent staffed"
  by (rule account_step_consistent [OF founding_steps(2) account_step_consistent [OF founding_steps(1) founded_consistent]])

theorem accounts_stay_consistent_witness: "consistent staffed \<and> length (ac_members staffed) = 2"
proof -
  have "length (ac_members staffed) = 2" by code_simp
  with accounts_stay_consistent [OF founding_run founded_consistent] show ?thesis by simp
qed

theorem roles_guard_is_policy_witness:
  "may_call [''vendor''] [''Tailor''] staffed (hd (tl (ac_users staffed))) \<and>
   (\<exists>p. roles_guard plain_crypto [''vendor''] [''Tailor''] (bearer_of 8) staffed = Inr p)"
proof -
  have u: "Option.bind (hd_authorization (bearer_of 8)) bearer = Some ''aaaaaaaa''" "cy_verify plain_crypto ''aaaaaaaa'' = Some 8"
    "find_user 8 staffed = Some (hd (tl (ac_users staffed)))" "may_call [''vendor''] [''Tailor''] staffed (hd (tl (ac_users staffed)))"
    by code_simp+
  then show ?thesis using roles_guard_is_policy [OF staffed_consistent, of "[''vendor'']" plain_crypto "[''Tailor'']" "bearer_of 8"] by auto
qed

theorem removed_member_locked_out_witness:
  "let m = hd (tl (ac_members staffed)); t = snd (removeTeamMember_route plain_crypto (bearer_of 3) (tm_id m) staffed)
   in tm_user m = Some 8 \<and> isl (fst (switchBusiness plain_crypto 8 (tm_business m) t)) \<and> seats t = {(4, Some 3)}"
proof -
  have m: "hd (tl (ac_members staffed)) \<in> set (ac_members staffed)" "tm_user (hd (tl (ac_members staffed))) = Some 8"
    "tm_business (hd (tl (ac_members staffed))) = 4" "seats staffed = {(4, Some 3), (4, Some 8)}"
    "fst (removeTeamMember_route plain_crypto (bearer_of 3) (tm_id (hd (tl (ac_members staffed)))) staffed) = Inr ()"
    by code_simp+
  let ?m = "hd (tl (ac_members staffed))"
  obtain t where t: "removeTeamMember_route plain_crypto (bearer_of 3) (tm_id ?m) staffed = (Inr (), t)"
    using m(5) by (cases "removeTeamMember_route plain_crypto (bearer_of 3) (tm_id ?m) staffed") simp
  note locked = removed_member_locked_out [OF staffed_consistent m(1,2) t]
  have "isl (fst (switchBusiness plain_crypto 8 (tm_business ?m) t))" using locked by simp
  moreover have "seats t = {(4, Some 3)}" unfolding conjunct1 [OF locked] m(3,4) by (simp add: insert_Diff_if)
  ultimately show ?thesis using m(2) t by (simp add: Let_def)
qed

end
