(* ===== verification/Signin.thy ===== *)
theory Signin
  imports Teams
begin

text \<open>
  Passwords and codes over many requests: how often a reset code can be guessed, what a reset leaves behind, how an
  account comes into use, and whose account a verification code opens.
\<close>

section \<open>One account among many\<close>

definition account_of :: "string \<Rightarrow> accounts \<Rightarrow> user option" where
  "account_of email s = find_one (\<lambda>u. u_email u = email) (ac_users s)"

lemma load_account: "load_user (\<lambda>u. u_email u = email) e s = (case account_of email s of None \<Rightarrow> (Inl e, s) | Some u \<Rightarrow> (Inr u, s))"
  by (simp add: load_user_def andThen_app account_of_def split: option.splits)

lemma find_after_update:
  assumes "users_ok n us" "u \<in> set us" "P (f u)" "\<And>x. x \<in> set us \<Longrightarrow> x \<noteq> u \<Longrightarrow> \<not> P x"
  shows "find_one P (update_one (\<lambda>x. u_id x = u_id u) f us) = Some (f u)"
proof -
  have d: "distinct (map u_id us)" using assms(1) by (simp add: users_ok_def)
  have only: "x = u" if "x \<in> set us" "u_id x = u_id u" for x
    using inj_onD [of u_id "set us" x u] d that assms(2) by (simp add: distinct_map)
  show ?thesis
    unfolding update_one_key_map [OF d]
  proof (rule find_one_unique)
    show "f u \<in> set (map (\<lambda>x. if u_id x = u_id u then f x else x) us)" using assms(2) by force
    show "P (f u)" by (rule assms(3))
    fix y assume "y \<in> set (map (\<lambda>x. if u_id x = u_id u then f x else x) us)" "P y"
    with only assms(4) show "y = f u" by (auto split: if_splits)
  qed
qed

lemma account_after:
  assumes "accounts_ok s" "account_of email s = Some u" "u_email (f u) = u_email u"
  shows "account_of email (snd (set_user (u_id u) f s)) = Some (f u)"
proof -
  have ok: "users_ok (ac_next s) (ac_users s)" using assms(1) by (simp add: accounts_ok_def)
  have u: "u \<in> set (ac_users s)" "u_email u = email" using assms(2) by (auto simp: account_of_def dest: find_one_SomeD)
  have "u_email x \<noteq> email" if "x \<in> set (ac_users s)" "x \<noteq> u" for x
    using inj_onD [of u_email "set (ac_users s)" x u] ok u that by (auto simp: users_ok_def distinct_map)
  with find_after_update [OF ok u(1), of "\<lambda>u. u_email u = email" f] u(2) assms(3)
  show ?thesis by (simp add: account_of_def set_user_def)
qed

lemma one_account: "accounts_ok s \<Longrightarrow> x \<in> set (ac_users s) \<Longrightarrow> y \<in> set (ac_users s) \<Longrightarrow> u_email x = u_email y \<Longrightarrow> x = y"
  using inj_onD [of u_email "set (ac_users s)" x y] by (simp add: accounts_ok_def users_ok_def distinct_map)

lemma account_ofI:
  assumes "accounts_ok s" "u \<in> set (ac_users s)" "P u" "\<And>x. P x \<Longrightarrow> u_email x = u_email u"
  shows "find_one P (ac_users s) = Some u"
  by (rule find_one_unique [of u]) (use assms one_account in blast)+

lemma account_ofD: "account_of email s = Some u \<Longrightarrow> u \<in> set (ac_users s) \<and> u_email u = email"
  by (auto simp: account_of_def dest: find_one_SomeD)

lemma customer_found:
  assumes "accounts_ok s" "account_of email s = Some u" "u_type u = CUSTOMER"
  shows "find_one (\<lambda>u. u_email u = email \<and> u_type u = CUSTOMER) (ac_users s) = Some u"
  by (rule account_ofI [OF assms(1)]) (use account_ofD [OF assms(2)] assms(3) in auto)

section \<open>Guessing a reset code\<close>

type_synonym guess = "instant \<times> string \<times> string"

fun guesses :: "crypto \<Rightarrow> string \<Rightarrow> guess list \<Rightarrow> accounts \<Rightarrow> accounts" where
  "guesses cy email [] s = s"
| "guesses cy email ((now, code, pw) # gs) s = guesses cy email gs (snd (resetPassword cy now email code pw s))"

text \<open>At least \<open>k\<close> wrong codes were tried against the code with this hash.\<close>

definition tried :: "nat \<Rightarrow> string \<Rightarrow> string \<Rightarrow> string \<Rightarrow> accounts \<Rightarrow> bool" where
  "tried k email pin pw s \<longleftrightarrow> accounts_ok s \<and> pin \<noteq> [] \<and> (\<exists>u. account_of email s = Some u \<and> u_hashed_password u = pw \<and>
     (case u_reset_code u of None \<Rightarrow> True | Some rc \<Rightarrow> rs_pin rc = pin \<and> k \<le> rs_attempts rc))"

lemma wrong_guess:
  assumes "tried k email pin pw s" "cy_sha256 cy code \<noteq> pin"
  shows "tried (Suc k) email pin pw (snd (resetPassword cy now email code new s))" "isl (fst (resetPassword cy now email code new s))"
proof -
  from assms(1) obtain u where s: "accounts_ok s" "pin \<noteq> []" and u: "account_of email s = Some u" "u_hashed_password u = pw"
    "case u_reset_code u of None \<Rightarrow> True | Some rc \<Rightarrow> rs_pin rc = pin \<and> k \<le> rs_attempts rc" by (auto simp: tried_def)
  have ok: "accounts_ok (snd (resetPassword cy now email code new s))" by (rule preservesD [OF reset_ok(2) s(1)])
  have stored: "\<exists>v. account_of email (snd (set_user (u_id u) (\<lambda>u. u\<lparr>u_reset_code := c\<rparr>) s)) = Some v \<and>
      u_hashed_password v = pw \<and> u_reset_code v = c" for c
    using account_after [OF s(1) u(1), of "\<lambda>u. u\<lparr>u_reset_code := c\<rparr>"] u(2) by simp
  have failed: "isl (fst (assertResetCode cy now email code s))"
    using u(1,3) assms(2) by (auto simp: assertResetCode_def andThen_app load_account set_user_def split: option.splits)
  then have same: "snd (resetPassword cy now email code new s) = snd (assertResetCode cy now email code s)"
    by (cases "assertResetCode cy now email code s") (auto simp: resetPassword_def andThen_app split: sum.splits)
  show "isl (fst (resetPassword cy now email code new s))"
    using failed by (cases "assertResetCode cy now email code s") (auto simp: resetPassword_def andThen_app split: sum.splits)
  have "\<exists>v. account_of email (snd (assertResetCode cy now email code s)) = Some v \<and> u_hashed_password v = pw \<and>
      (case u_reset_code v of None \<Rightarrow> True | Some rc \<Rightarrow> rs_pin rc = pin \<and> Suc k \<le> rs_attempts rc)"
  proof (cases "u_reset_code u")
    case None
    with u show ?thesis by (simp add: assertResetCode_def andThen_app load_account)
  next
    case (Some rc)
    with u s(2) assms(2) stored [of None] stored [of "Some (rc\<lparr>rs_attempts := Suc (rs_attempts rc)\<rparr>)"] show ?thesis
      by (auto simp: assertResetCode_def andThen_app load_account set_user_def)
  qed
  with ok s(2) show "tried (Suc k) email pin pw (snd (resetPassword cy now email code new s))" unfolding tried_def same by blast
qed

lemma wrong_guesses:
  "tried k email pin pw s \<Longrightarrow> list_all (\<lambda>(now, code, new). cy_sha256 cy code \<noteq> pin) gs \<Longrightarrow>
   tried (k + length gs) email pin pw (guesses cy email gs s)"
proof (induction gs arbitrary: k s)
  case (Cons g gs)
  obtain now code new where g: "g = (now, code, new)" by (cases g)
  with Cons.prems have "tried (Suc k) email pin pw (snd (resetPassword cy now email code new s))"
    by (intro wrong_guess) auto
  from Cons.IH [OF this] Cons.prems(2) show ?case by (simp add: g)
qed simp

lemma burned:
  assumes "tried k email pin pw s" "RESET_MAX_ATTEMPTS \<le> k"
  shows "isl (fst (resetPassword cy now email code new s))"
proof -
  from assms(1) obtain u where u: "account_of email s = Some u" "pin \<noteq> []"
    "case u_reset_code u of None \<Rightarrow> True | Some rc \<Rightarrow> rs_pin rc = pin \<and> k \<le> rs_attempts rc" by (auto simp: tried_def)
  show ?thesis
  proof (cases "u_reset_code u")
    case None
    with u show ?thesis by (simp add: resetPassword_def assertResetCode_def andThen_app load_account)
  next
    case (Some rc)
    then have "RESET_MAX_ATTEMPTS \<le> rs_attempts rc" using u(3) assms(2) by simp
    with u Some show ?thesis by (simp add: resetPassword_def assertResetCode_def andThen_app load_account set_user_def)
  qed
qed

text \<open>C14: A reset code can be guessed five times: while only wrong codes are sent, whatever the times and new passwords, the
  password stays what it was, and once there were five of them no code at all resets it any more, the right one
  included.\<close>

theorem reset_guesses_bounded:
  assumes "consistent s" "account_of email s = Some u" "u_reset_code u = Some rc" "rs_pin rc \<noteq> []"
    "list_all (\<lambda>(now, code, new). cy_sha256 cy code \<noteq> rs_pin rc) gs"
  shows "(\<exists>v. account_of email (guesses cy email gs s) = Some v \<and> u_hashed_password v = u_hashed_password u) \<and>
    (length gs \<ge> 5 \<longrightarrow> (\<forall>now code new. isl (fst (resetPassword cy now email code new (guesses cy email gs s)))))"
proof -
  have "tried 0 email (rs_pin rc) (u_hashed_password u) s" using assms by (simp add: tried_def consistent_def)
  from wrong_guesses [OF this assms(5)]
  have t: "tried (length gs) email (rs_pin rc) (u_hashed_password u) (guesses cy email gs s)" by simp
  then have "\<exists>v. account_of email (guesses cy email gs s) = Some v \<and> u_hashed_password v = u_hashed_password u"
    by (auto simp: tried_def)
  with burned [OF t] show ?thesis by (simp add: RESET_MAX_ATTEMPTS_def)
qed

section \<open>What a reset leaves behind\<close>

definition bcrypt_ok :: "crypto \<Rightarrow> bool" where
  "bcrypt_ok cy \<longleftrightarrow> (\<forall>p q. cy_compare cy p (cy_hash cy q) \<longleftrightarrow> p = q)"

text \<open>C35: A code that was asked for and comes back within a quarter of an hour sets the password: from then on exactly the new
  password signs the customer in, and the same code is refused.\<close>

theorem password_reset_roundtrip:
  assumes "consistent s" "account_of email s = Some u" "\<not> just_sent now u" "bcrypt_ok cy" "cy_sha256 cy otp \<noteq> []"
    "now \<le> t" "t < now + 15 * 60 * 1000" "u_type u = CUSTOMER" "u_email_verified u" "u_status u = U_active"
    "resetPassword cy t email otp new (snd (requestPasswordReset cy now otp email s)) = (r, s')"
  shows "r = Inr () \<and> (\<forall>pw. isl (fst (loginCustomer cy email pw s')) \<longleftrightarrow> pw \<noteq> new) \<and>
    (\<forall>t' pw. fst (resetPassword cy t' email otp pw s') = Inl invalid_code)"
proof -
  have s: "accounts_ok s" using assms(1) by (simp add: consistent_def)
  let ?rc = "\<lparr>rs_pin = cy_sha256 cy otp, rs_expire_at = now + RESET_CODE_TTL_MS, rs_attempts = 0, rs_last_sent_at = Some now\<rparr>"
  let ?s = "snd (requestPasswordReset cy now otp email s)"
  let ?v = "u\<lparr>u_reset_code := Some ?rc\<rparr>"
  let ?f = "\<lambda>u. u\<lparr>u_hashed_password := cy_hash cy new, u_reset_code := None\<rparr>"
  have "?s = snd (set_user (u_id u) (\<lambda>u. u\<lparr>u_reset_code := Some ?rc\<rparr>) s)"
    using assms(2,3) by (simp add: requestPasswordReset_def andThen_app account_of_def)
  then have v: "account_of email ?s = Some ?v" using account_after [OF s assms(2), of "\<lambda>u. u\<lparr>u_reset_code := Some ?rc\<rparr>"] by simp
  have s1: "accounts_ok ?s" by (rule preservesD [OF sign_in_ok(9) s])
  have "(r, s') = (Inr (), snd (set_user (u_id u) ?f ?s))"
    using assms(5,7,11) v by (simp add: resetPassword_def assertResetCode_def andThen_app load_account set_user_def RESET_CODE_TTL_MS_def
        RESET_MAX_ATTEMPTS_def)
  moreover from this have w: "account_of email s' = Some (?f ?v)" using account_after [OF s1 v, of ?f] by simp
  moreover have "accounts_ok s'" using preservesD [OF reset_ok(2) s1, of cy t email otp new] assms(11) by simp
  from customer_found [OF this w] assms(8)
  have "find_one (\<lambda>u. u_email u = email \<and> u_type u = CUSTOMER) (ac_users s') = Some (?f ?v)" by simp
  ultimately show ?thesis
    using assms(4,9,10) by (simp add: loginCustomer_def load_user_def check_verified_def check_account_def andThen_app bcrypt_ok_def
        resetPassword_def assertResetCode_def account_of_def)
qed

section \<open>Coming into use\<close>

definition pending :: "crypto \<Rightarrow> string \<Rightarrow> instant \<Rightarrow> user \<Rightarrow> bool" where
  "pending cy otp t u \<longleftrightarrow> u_verification_token u = Some (cy_sha256 cy otp) \<and> expires_after t (u_verification_expires u)"

lemma registerCustomer_result:
  assumes "registerCustomer cy now otp dto s = (Inr u, t)"
  shows "\<exists>r. u = assign_keys (cu_rest dto) (new_user cy now otp (cu_email dto) (cu_phone_number dto) (cu_password dto) CUSTOMER r (ac_next s)) \<and>
    ac_users t = ac_users s @ [u]"
proof -
  from assms have free: "find_one (taken_by (cu_email dto) (cu_phone_number dto)) (ac_users s) = None"
    by (cases "find_one (taken_by (cu_email dto) (cu_phone_number dto)) (ac_users s)") (auto simp: registerCustomer_def andThen_app)
  with assms obtain r where "find_one (\<lambda>r. ro_name r = ''customer'') (ac_roles s) = Some r"
    by (cases "find_one (\<lambda>r. ro_name r = ''customer'') (ac_roles s)") (auto simp: registerCustomer_def andThen_app)
  with assms free have "set_up_customer cy now otp dto (ro_id r) s = (Inr u, t)"
    by (simp add: registerCustomer_def andThen_app with_transaction_ok)
  then show ?thesis by (auto simp: set_up_customer_def insert_user_def open_purse_def andThen_app Let_def)
qed

lemma registered_plain:
  assumes "registerCustomer cy now otp dto s = (Inr u, t)" "cu_rest dto = []"
  shows "ac_users t = ac_users s @ [u] \<and> u_id u = ac_next s \<and> u_email u = cu_email dto \<and> u_type u = CUSTOMER \<and>
    u_hashed_password u = cy_hash cy (cu_password dto) \<and> \<not> u_email_verified u \<and>
    u_verification_token u = Some (cy_sha256 cy otp) \<and> u_verification_expires u = Some (now + 24 * 60 * 60 * 1000)"
  using registerCustomer_result [OF assms(1)] assms(2) by (auto simp: new_user_def)

lemma new_account:
  assumes "consistent s" "registerCustomer cy now otp dto s = (Inr u, s')"
  shows "accounts_ok s'" "account_of (cu_email dto) s' = Some u" "u \<in> set (ac_users s')"
proof -
  have r: "ac_users s' = ac_users s @ [u]" "u_email u = cu_email dto"
    using registerCustomer_result [OF assms(2)] by (auto simp: new_user_def)
  show s': "accounts_ok s'" using preservesD [OF registerCustomer_ok, of s cy now otp dto] assms by (simp add: consistent_def)
  from r show u: "u \<in> set (ac_users s')" by simp
  show "account_of (cu_email dto) s' = Some u"
    unfolding account_of_def by (rule account_ofI [OF s' u]) (use r in auto)
qed

lemma unverified_kept_out:
  assumes "accounts_ok s" "account_of email s = Some u" "u_type u = CUSTOMER" "\<not> u_email_verified u"
  shows "isl (fst (loginCustomer cy email pw s))"
  using customer_found [OF assms(1-3)] assms(4) by (simp add: loginCustomer_def load_user_def check_verified_def andThen_app)

lemma verify_first:
  assumes "find_one (pending cy otp t) (ac_users s) = Some u" "length otp = 6"
  shows "verifyEmail cy t otp s = (Inr (verified_user t u, generateToken cy (u_id u)), snd (set_user (u_id u) (verified_user t) s))"
  using assms by (simp add: verifyEmail_def load_user_def andThen_app Let_def set_user_def pending_def [abs_def])

lemma login_ok:
  assumes "accounts_ok s" "account_of email s = Some u" "u_type u = CUSTOMER" "u_email_verified u" "u_status u = U_active"
    "cy_compare cy pw (u_hashed_password u)"
  shows "fst (loginCustomer cy email pw s) = Inr (u, generateToken cy (u_id u))"
  using customer_found [OF assms(1-3)] assms(4-6)
  by (simp add: loginCustomer_def load_user_def check_verified_def check_account_def andThen_app)

text \<open>C34: A customer who registered with a body of the declared fields comes in: not before the e-mail address is verified, and
  with the code of the mail and the chosen password after it, as long as no one else waits on the same code.\<close>

theorem registered_customer_gets_in:
  assumes "consistent s" "registerCustomer cy now otp dto s = (Inr u, s1)" "\<forall>x\<in>set (ac_users s). \<not> pending cy otp t x"
    "length otp = 6" "t < now + 24 * 60 * 60 * 1000" "bcrypt_ok cy" "cu_rest dto = []"
  shows "isl (fst (loginCustomer cy (cu_email dto) (cu_password dto) s1)) \<and>
    (let (r, s2) = verifyEmail cy t otp s1
     in r = Inr (verified_user t u, generateToken cy (u_id u)) \<and>
        fst (loginCustomer cy (cu_email dto) (cu_password dto) s2) = Inr (verified_user t u, generateToken cy (u_id u)))"
proof -
  note r = registered_plain [OF assms(2,7)] and a = new_account [OF assms(1,2)]
  have "pending cy otp t u" using r assms(5) by (simp add: pending_def expires_after_def)
  with r assms(3) have "find_one (pending cy otp t) (ac_users s1) = Some u"
    by (simp add: find_one_append find_one_None_iff [THEN iffD2] split: option.splits)
  note v = verify_first [OF this assms(4)]
  let ?s2 = "snd (set_user (u_id u) (verified_user t) s1)"
  have "account_of (cu_email dto) ?s2 = Some (verified_user t u)" by (rule account_after [OF a(1,2)]) (simp add: verified_user_def)
  moreover have "accounts_ok ?s2" using preservesD [OF sign_in_ok(1) a(1), of cy t otp] v by simp
  ultimately have "fst (loginCustomer cy (cu_email dto) (cu_password dto) ?s2) = Inr (verified_user t u, generateToken cy (u_id u))"
    using login_ok [of ?s2 "cu_email dto" "verified_user t u" cy "cu_password dto"] r assms(6)
    by (simp add: verified_user_def bcrypt_ok_def)
  with v unverified_kept_out [OF a(1,2)] r show ?thesis by (simp add: Let_def)
qed

text \<open>The declared fields only: the body is spread over the account after \<open>email_verified: false\<close>, and a body that sets it signs in at once.\<close>

theorem unverified_body_signs_in:
  assumes "consistent s" "registerCustomer cy now otp dto s = (Inr u, s')" "cu_rest dto = [K_email_verified True]" "bcrypt_ok cy"
  shows "fst (loginCustomer cy (cu_email dto) (cu_password dto) s') = Inr (u, generateToken cy (u_id u))"
proof -
  from registerCustomer_result [OF assms(2)] assms(3)
  have "u_type u = CUSTOMER" "u_email_verified u" "u_status u = U_active" "u_hashed_password u = cy_hash cy (cu_password dto)"
    by (auto simp: new_user_def)
  with login_ok [OF new_account(1,2) [OF assms(1,2)]] assms(4) show ?thesis by (simp add: bcrypt_ok_def)
qed

text \<open>C36: A verification code belongs to nobody in particular: when two customers, registered with the declared fields, wait on the same six digits, the code sent to the
  second one signs its sender in to the account of the first, and the second account stays shut.\<close>

theorem shared_code_opens_other_account:
  assumes "consistent s" "\<forall>x\<in>set (ac_users s). \<not> pending cy otp t x"
    "registerCustomer cy now otp dto s = (Inr u, s1)" "registerCustomer cy now' otp dto' s1 = (Inr u', s2)"
    "length otp = 6" "t < now + 24 * 60 * 60 * 1000" "cu_rest dto = []" "cu_rest dto' = []"
  shows "\<exists>s3. verifyEmail cy t otp s2 = (Inr (verified_user t u, generateToken cy (u_id u)), s3) \<and> u_id u \<noteq> u_id u' \<and>
    isl (fst (loginCustomer cy (u_email u') (cu_password dto') s3))"
proof -
  have s1: "consistent s1" using keeps_consistent [OF registerCustomer_ok seated_registerCustomer assms(1), of dto cy now otp] assms(3,7) by simp
  note r = registered_plain [OF assms(3,7)] and r' = registered_plain [OF assms(4,8)] and a = new_account [OF s1 assms(4)]
  have "pending cy otp t u" using r assms(6) by (simp add: pending_def expires_after_def)
  with r r' assms(2) have "find_one (pending cy otp t) (ac_users s2) = Some u"
    by (simp add: find_one_append find_one_None_iff [THEN iffD2] split: option.splits)
  note v = verify_first [OF this assms(5)]
  have "u \<in> set (ac_users s1)" using r by simp
  then have ne: "u_id u \<noteq> u_id u'" using s1 r' by (auto simp: consistent_def accounts_ok_def users_ok_def list_all_iff)
  let ?s3 = "snd (set_user (u_id u) (verified_user t) s2)"
  have d: "distinct (map u_id (ac_users s2))" using a(1) by (simp add: accounts_ok_def users_ok_def)
  have "u' \<in> set (ac_users ?s3)" using ne a(3) by (force simp: set_user_def update_one_key_map [OF d])
  moreover have s3: "accounts_ok ?s3" using preservesD [OF sign_in_ok(1) a(1), of cy t otp] v by simp
  ultimately have "account_of (u_email u') ?s3 = Some u'"
    unfolding account_of_def by (intro account_ofI) auto
  with unverified_kept_out [OF s3] r' ne v show ?thesis by auto
qed

section \<open>Two customers\<close>

definition nobody :: accounts where
  "nobody = founded\<lparr>ac_roles := [\<lparr>ro_id = 1, ro_name = ''customer'', ro_permissions = []\<rparr>]\<rparr>"

definition ada_dto :: customer_register_dto where
  "ada_dto = \<lparr>cu_email = ''ada@x'', cu_phone_number = ''1'', cu_password = ''pw'', cu_rest = []\<rparr>"

definition ben_dto :: customer_register_dto where
  "ben_dto = \<lparr>cu_email = ''ben@x'', cu_phone_number = ''2'', cu_password = ''qw'', cu_rest = []\<rparr>"

definition ada :: user where
  "ada = new_user plain_crypto 0 ''123456'' ''ada@x'' ''1'' ''pw'' CUSTOMER 1 3"

definition ben :: user where
  "ben = new_user plain_crypto 9 ''123456'' ''ben@x'' ''2'' ''qw'' CUSTOMER 1 6"

definition ada_only :: accounts where
  "ada_only = snd (registerCustomer plain_crypto 0 ''123456'' ada_dto nobody)"

definition ada_in :: accounts where
  "ada_in = snd (requestPasswordReset plain_crypto 1000 ''654321'' ''ada@x'' (snd (verifyEmail plain_crypto 5 ''123456'' ada_only)))"

lemma nobody_consistent: "consistent nobody"
  by (simp add: nobody_def founded_def consistent_def accounts_ok_def users_ok_def teams_ok_def seated_def)

lemma ada_registered: "registerCustomer plain_crypto 0 ''123456'' ada_dto nobody = (Inr ada, ada_only)"
  by (rule prod_eqI) (code_simp, simp add: ada_only_def)

lemma plain_bcrypt: "bcrypt_ok plain_crypto"
  by (auto simp: bcrypt_ok_def plain_crypto_def)

lemma ada_in_consistent: "consistent (snd (verifyEmail plain_crypto 5 ''123456'' ada_only))" "consistent ada_in"
proof -
  have "consistent ada_only"
    unfolding ada_only_def by (rule keeps_consistent [OF registerCustomer_ok seated_registerCustomer nobody_consistent]) (simp add: ada_dto_def)
  then show 1: "consistent (snd (verifyEmail plain_crypto 5 ''123456'' ada_only))"
    by (rule keeps_consistent [OF sign_in_ok(1) seated_sign_in(1)])
  show "consistent ada_in" unfolding ada_in_def by (rule keeps_consistent [OF sign_in_ok(9) seated_sign_in(7) 1])
qed

theorem registered_customer_gets_in_witness:
  "fst (loginCustomer plain_crypto ''ada@x'' ''pw'' (snd (verifyEmail plain_crypto 5 ''123456'' ada_only))) =
     Inr (verified_user 5 ada, generateToken plain_crypto 3)"
proof -
  have "\<forall>x\<in>set (ac_users nobody). \<not> pending plain_crypto ''123456'' 5 x" by (simp add: nobody_def founded_def)
  moreover have "cu_email ada_dto = ''ada@x''" "cu_password ada_dto = ''pw''" "cu_rest ada_dto = []" "u_id ada = 3" by (simp_all add: ada_dto_def ada_def new_user_def)
  ultimately show ?thesis
    using registered_customer_gets_in [OF nobody_consistent ada_registered _ _ _ plain_bcrypt, of 5] by (auto simp: Let_def split: prod.splits)
qed

theorem shared_code_opens_other_account_witness:
  "fst (verifyEmail plain_crypto 20 ''123456'' (snd (registerCustomer plain_crypto 9 ''123456'' ben_dto ada_only))) =
     Inr (verified_user 20 ada, generateToken plain_crypto 3)"
proof -
  have "fst (registerCustomer plain_crypto 9 ''123456'' ben_dto ada_only) = Inr ben" by code_simp
  then have ben: "registerCustomer plain_crypto 9 ''123456'' ben_dto ada_only =
      (Inr ben, snd (registerCustomer plain_crypto 9 ''123456'' ben_dto ada_only))" by (metis prod.collapse)
  have "\<forall>x\<in>set (ac_users nobody). \<not> pending plain_crypto ''123456'' 20 x" "u_id ada = 3" "cu_rest ada_dto = []" "cu_rest ben_dto = []"
    by (simp_all add: nobody_def founded_def ada_def new_user_def ada_dto_def ben_dto_def)
  with shared_code_opens_other_account [OF nobody_consistent _ ada_registered ben, of 20] show ?thesis by auto
qed

theorem reset_guesses_bounded_witness:
  "isl (fst (resetPassword plain_crypto 7000 ''ada@x'' ''654321'' ''new'' (guesses plain_crypto ''ada@x''
     (replicate 5 (6000, ''000000'', ''bad'')) ada_in)))"
proof -
  have u: "account_of ''ada@x'' ada_in = Some (the (account_of ''ada@x'' ada_in))"
    "u_reset_code (the (account_of ''ada@x'' ada_in)) = Some \<lparr>rs_pin = ''654321!'', rs_expire_at = 901000, rs_attempts = 0, rs_last_sent_at = Some 1000\<rparr>"
    by code_simp+
  have "list_all (\<lambda>(now, code, new). cy_sha256 plain_crypto code \<noteq> ''654321!'') (replicate 5 (6000 :: int, ''000000'', ''bad''))" by code_simp
  then show ?thesis
    using reset_guesses_bounded [OF ada_in_consistent(2) u, of plain_crypto "replicate 5 (6000, ''000000'', ''bad'')"] by simp
qed

theorem password_reset_roundtrip_witness:
  "let s' = snd (resetPassword plain_crypto 8000 ''ada@x'' ''654321'' ''new'' ada_in)
   in isl (fst (loginCustomer plain_crypto ''ada@x'' ''pw'' s')) \<and> \<not> isl (fst (loginCustomer plain_crypto ''ada@x'' ''new'' s'))"
proof -
  let ?s = "snd (verifyEmail plain_crypto 5 ''123456'' ada_only)"
  have u: "account_of ''ada@x'' ?s = Some (verified_user 5 ada)" "\<not> just_sent 1000 (verified_user 5 ada)"
    "u_type (verified_user 5 ada) = CUSTOMER" "u_email_verified (verified_user 5 ada)" "u_status (verified_user 5 ada) = U_active"
    "cy_sha256 plain_crypto ''654321'' \<noteq> []"
    by code_simp+
  obtain r s' where r: "resetPassword plain_crypto 8000 ''ada@x'' ''654321'' ''new'' (snd (requestPasswordReset plain_crypto 1000 ''654321'' ''ada@x'' ?s)) = (r, s')"
    by fastforce
  from password_reset_roundtrip [OF ada_in_consistent(1) u(1,2) plain_bcrypt u(6) _ _ u(3-5) r] r
  show ?thesis by (simp add: Let_def ada_in_def)
qed

end
