(* ===== verification/Spec2Isabelle.thy ===== *)
theory Spec2Isabelle
  imports Prelude Documents Contracts Transactions Wallets Tokens Earnings Payouts Inventory Orders Reservations Pricing Checkout Placement Fulfilment Refunds Shipments
    Webhook Events AfterSales Resolutions Bespoke Quotes References Accounts Access Teams Signin
begin

text \<open>
  Verification library of the Qlozet backend, a NestJS marketplace for tailored clothing, fabrics and
  accessories over MongoDB. The paths below are under \<open>src/src/\<close>.

  \<^bold>\<open>The program.\<close> Customers register (\<open>modules/auth\<close>), configure products, and place orders
  (\<open>modules/orders\<close>) that are priced (\<open>orders.price-calculation.ts\<close>), validated (\<open>orders.validation.ts\<close>) and paid from a
  wallet (\<open>modules/wallets\<close>) or by card. A card payment, a top-up and a transfer come back as Paystack events, the
  movements of a parcel as Shipbubble events (\<open>modules/webhook\<close>). A paid order records the vendors' earnings
  (\<open>modules/business/business.service.ts\<close>) and takes the stock (\<open>modules/products\<close>); crons release the earnings into the
  vendors' balances (\<open>business-earning-cron.ts\<close>), from which they withdraw. Vendors confirm or reject their
  shipments, orders are cancelled, refunded, disputed (\<open>modules/disputes\<close>) and returned (\<open>modules/returns\<close>). Beside
  the shop there are fabric reservations for events (\<open>modules/fabric-reservation\<close>), bespoke designs with quotes
  (\<open>modules/bespoke\<close>) and tokens for the AI features. Guards (\<open>common/guards\<close>) admit requests by role and team
  (\<open>modules/ums\<close>). All of them share the ledger of transactions (\<open>modules/transactions\<close>).

  \<^bold>\<open>The shape of the model.\<close> A service method is an action: a function from the stored state to an exception or a
  value and the state it leaves. An exception keeps the writes before it, unless the code opens a database
  transaction. The state is the record \<open>db\<close> of the collections the money runs through; accounts and teams have
  the state \<open>accounts\<close>. A document is a record with the fields of its schema, a collection is the list of its documents
  in the order of their insertion. Amounts are exact rationals, times are integers in milliseconds,
  random bytes are \<open>8 word\<close>. The clock, random sources, bcrypt, SHA-256, JWT and the answers of Paystack and
  Shipbubble are parameters.

  \<^bold>\<open>The theories, and what their lemmas show.\<close>

  \<^item> \<open>Prelude\<close>: exceptions, actions, collection queries, JavaScript's rounding and truth values, and the collections
    \<open>preserve_intros\<close>, \<open>effect_simps\<close>, \<open>query_simps\<close> and \<open>js_simps\<close> the proofs draw on. \<open>Documents\<close>: the schemas.
  \<^item> \<open>Contracts\<close>: three interfaces as locales. \<open>counter_field\<close> (a number changed by increments of one document only),
    \<open>exclusive_claim\<close> (a conditional update that one of several competing requests wins) and \<open>guarded_balance\<close> (a
    balance that a debit cannot overdraw). Each is interpreted on the code's own operations: wallet and
    token balances in \<open>Wallets\<close> and \<open>Tokens\<close>, the claim of an order's earnings in \<open>Earnings\<close>.
  \<^item> \<open>Transactions\<close>, \<open>Wallets\<close>, \<open>Tokens\<close> (\<open>transactions.service.ts\<close>, \<open>wallets.service.ts\<close>, \<open>token.service.ts\<close>): entries and
    refunds, credit, debit and withdrawal with its compensation, purchase and spending. Balances and token wallets are
    never overdrawn, a withdrawal happens as a whole or not at all, partial refunds never exceed the charge.
  \<^item> \<open>Earnings\<close>, \<open>Payouts\<close>: recording of earnings, the release and auto-release crons, reversal. Commission, platform share
    and earnings split the price exactly; over any interleaving of overlapping cron runs (the step relation
    \<open>cron_step\<close>, whose runs work on the copies they read at their start) no earning is paid twice.
  \<^item> \<open>Inventory\<close>, \<open>Pricing\<close>, \<open>Orders\<close>, \<open>Reservations\<close>: stock of fabrics, sizes and accessories, prices and their breakdown,
    the schema's defaults for orders, reservations of fabric. The deduction of an order refines an abstract list of
    stock movements, restoring undoes deducting, reservations conserve yards (\<open>reservation_step\<close>: requests between the
    documents of one run of the cron).
  \<^item> \<open>Checkout\<close>, \<open>Placement\<close>: validation, placing and paying an order; sums add up, a wallet payment is all or nothing.
  \<^item> \<open>Fulfilment\<close>, \<open>Refunds\<close>, \<open>Shipments\<close>: confirmation, rejection, cancellation, late penalties. The locales \<open>order_view\<close>
    and \<open>refund_view\<close> state which fields of an order an operation leaves alone; every operation is shown
    once for any view, and the views needed are interpretations.
  \<^item> \<open>Webhook\<close>, \<open>Events\<close>: the handlers of outside events, retried and in any order.
  \<^item> \<open>AfterSales\<close>, \<open>Resolutions\<close>: disputes, the flags vendors raise on measurements, and returns. The steps of \<open>after_sales_step\<close>
    are the requests that write a dispute or a return, from \<open>disputes.service.ts\<close>, \<open>returns.service.ts\<close> and \<open>flagMeasurement\<close>
    of \<open>orders.service.ts\<close>.
  \<^item> \<open>Bespoke\<close>, \<open>Quotes\<close>: designs and quotes. The steps of \<open>bespoke_step\<close> are the requests of \<open>bespoke.service.ts\<close>, its
    expiry crons and the card payments that were finalised; a finalisation that fails half-way is not among them.
  \<^item> \<open>References\<close> (\<open>common/utils/generateString.ts\<close>, \<open>pagination.ts\<close>): the retry loop of the reference generator is a
    \<open>partial_function\<close>, since it ends only if the random source does not repeat; its termination is a theorem.
  \<^item> \<open>Accounts\<close>, \<open>Access\<close>, \<open>Teams\<close>, \<open>Signin\<close> (\<open>auth.service.ts\<close>, \<open>team.service.ts\<close>, the guards): registration,
    verification, sign-in, passwords, teams, profiles, and who is admitted. The steps of \<open>account_step\<close> are the requests that write
    users, members or businesses. The validation pipe keeps the fields a DTO does not declare, and registration and profiles
    spread the body into the document: the model carries those fields (\<open>user_key\<close>, \<open>business_dto\<close>). The accounts stay consistent as
    long as no body names \<open>business\<close>, \<open>created_by\<close> or \<open>team_members\<close>; what the other fields can do is shown by
    \<open>profile_body_makes_admin\<close> and \<open>unverified_body_signs_in\<close>. The guard of the roles equals a declarative policy, reset codes
    can be guessed five times.

  The theorems of kind error state what the code does where it does not do what it means to; each is a behaviour of
  the code as written, with a concrete instance.

  \<^bold>\<open>Bounds.\<close> No operation needs fuel: loops over documents are recursions over the list the code has read, and the only
  unbounded loop is the generator's. The five wrong codes, the five vendors per design, the tiers and terms are
  the constants of the code.

  \<^bold>\<open>Not modelled.\<close> Floating-point rounding and NaN (amounts are rationals); failures of the database itself; its unique
  indexes, except where a profile runs into one; requests that really run in parallel, beyond the claims and the cron copies named above; time zones.
  Mails, notifications, snapshots shown to clients, listings, dashboards and charts are output only. Assistant,
  recommendations, measurement and image generation call models outside the repository; carts, catalogue
  administration, size guides, tickets, messages and the waitlist store documents that the modelled parts do not read.
\<close>

end
